(* ===== verification/PyBase.thy ===== *)
theory PyBase
  imports Main "HOL-Library.AList"
begin

text \<open>
  Shared prelude: the parts of Python the gateway's code is written in.  Dictionaries are
  association lists in insertion order, exceptions are values of a sum type, strings are
  lists of code points below 256, and the string and integer operations of the standard
  library that the code calls are executable functions with the laws the components use.
\<close>

section \<open>Collections of facts shared by the components\<close>

named_theorems dict_simps \<open>rewrite rules for dictionaries\<close>
named_theorems exn_simps \<open>rewrite rules for results and error propagation\<close>

section \<open>Dictionaries\<close>

text \<open>
  A Python dict keeps its keys in insertion order: storing under a known key replaces the
  value in place, storing under a new key appends.  This is \<^const>\<open>AList.update\<close>.
\<close>

type_synonym ('k, 'v) dict = "('k \<times> 'v) list"

abbreviation dget :: "('k, 'v) dict \<Rightarrow> 'k \<Rightarrow> 'v option" where
  "dget d k \<equiv> map_of d k"

abbreviation dset :: "'k \<Rightarrow> 'v \<Rightarrow> ('k, 'v) dict \<Rightarrow> ('k, 'v) dict" where
  "dset k v d \<equiv> AList.update k v d"

abbreviation ddel :: "'k \<Rightarrow> ('k, 'v) dict \<Rightarrow> ('k, 'v) dict" where
  "ddel k d \<equiv> AList.delete k d"

definition dget_or :: "('k, 'v) dict \<Rightarrow> 'k \<Rightarrow> 'v \<Rightarrow> 'v" where
  "dget_or d k v = (case map_of d k of None \<Rightarrow> v | Some x \<Rightarrow> x)"

definition dhas :: "('k, 'v) dict \<Rightarrow> 'k \<Rightarrow> bool" where
  "dhas d k \<longleftrightarrow> k \<in> set (map fst d)"

definition dkeys :: "('k, 'v) dict \<Rightarrow> 'k list" where
  "dkeys d = map fst d"

fun dupdate :: "('k, 'v) dict \<Rightarrow> ('k, 'v) dict \<Rightarrow> ('k, 'v) dict" where
  "dupdate d [] = d"
| "dupdate d ((k, v) # es) = dupdate (AList.update k v d) es"

definition dict_ok :: "('k, 'v) dict \<Rightarrow> bool" where
  "dict_ok d \<longleftrightarrow> distinct (map fst d)"

lemma dget_dset [simp, dict_simps]: "map_of (AList.update k v d) = (map_of d)(k \<mapsto> v)"
  by (simp add: update_conv')

lemma dget_ddel [simp, dict_simps]: "map_of (AList.delete k d) = (map_of d)(k := None)"
  by (simp add: delete_conv')

lemma dset_same: "map_of d k = Some v \<Longrightarrow> AList.update k v d = d"
  by (induction d) auto

lemma dhas_iff [dict_simps]: "dhas d k \<longleftrightarrow> map_of d k \<noteq> None"
  by (auto simp: dhas_def map_of_eq_None_iff)

lemma dget_or_dset [simp, dict_simps]:
  "dget_or (AList.update k v d) k' x = (if k' = k then v else dget_or d k' x)"
  by (simp add: dget_or_def)

lemma dict_ok_Nil [simp]: "dict_ok []"
  by (simp add: dict_ok_def)

lemma dict_ok_dset [simp, intro]: "dict_ok d \<Longrightarrow> dict_ok (AList.update k v d)"
  by (simp add: dict_ok_def distinct_update)

lemma dict_ok_ddel [simp, intro]: "dict_ok d \<Longrightarrow> dict_ok (AList.delete k d)"
  by (simp add: dict_ok_def distinct_delete)

lemma dict_ok_dupdate [simp, intro]: "dict_ok d \<Longrightarrow> dict_ok (dupdate d es)"
  by (induction d es rule: dupdate.induct) auto

lemma dget_dupdate [dict_simps]:
  "dict_ok es \<Longrightarrow> map_of (dupdate d es) k = (case map_of es k of None \<Rightarrow> map_of d k | Some v \<Rightarrow> Some v)"
proof (induction d es rule: dupdate.induct)
  case (2 d k' v es)
  have "map_of es k' = None"
    using "2.prems" by (simp add: dict_ok_def map_of_eq_None_iff)
  with 2 show ?case
    by (auto simp: dict_ok_def split: option.splits)
qed simp

section \<open>Exceptions and results\<close>

text \<open>
  An exception carries what the code's handlers can observe of it: the status of an HTTP
  error, the errno of an OSError, the status of an API error.  Message texts are for the log
  and are left out.  An operation on a state returns the result and the state it leaves,
  on an exception too, since Python keeps the mutations made before a raise.
\<close>

datatype exn =
    HTTPError nat
  | ValueError
  | KeyError
  | TypeError
  | IndexError
  | AttributeError
  | RuntimeError
  | NotImplementedError
  | StopIteration
  | UnicodeError
  | TimeoutError
  | FileNotFoundError
  | ImportError
  | OSError nat
  | ApiException nat
  | SystemExit
  | OtherError

type_synonym 'a res = "exn + 'a"

definition rbind :: "'a res \<Rightarrow> ('a \<Rightarrow> 'b res) \<Rightarrow> 'b res" where
  "rbind r f = (case r of Inl e \<Rightarrow> Inl e | Inr a \<Rightarrow> f a)"

definition bindE :: "'a res \<times> 's \<Rightarrow> ('a \<Rightarrow> 's \<Rightarrow> 'b res \<times> 's) \<Rightarrow> 'b res \<times> 's" where
  "bindE p f = (case p of (Inl e, s) \<Rightarrow> (Inl e, s) | (Inr a, s) \<Rightarrow> f a s)"

lemma rbind_simps [simp, exn_simps]:
  "rbind (Inl e) f = Inl e" "rbind (Inr a) f = f a"
  by (simp_all add: rbind_def)

lemma bindE_simps [simp, exn_simps]:
  "bindE (Inl e, s) f = (Inl e, s)" "bindE (Inr a, s) f = f a s"
  by (simp_all add: bindE_def)

lemma rbind_Inr_iff [exn_simps]: "rbind r f = Inr b \<longleftrightarrow> (\<exists>a. r = Inr a \<and> f a = Inr b)"
  by (cases r) auto

lemma bindE_Inr_iff [exn_simps]:
  "bindE p f = (Inr b, t) \<longleftrightarrow> (\<exists>a s. p = (Inr a, s) \<and> f a s = (Inr b, t))"
  by (cases p; cases "fst p") auto

definition of_option :: "exn \<Rightarrow> 'a option \<Rightarrow> 'a res" where
  "of_option e x = (case x of None \<Rightarrow> Inl e | Some v \<Rightarrow> Inr v)"

lemma of_option_simps [simp, exn_simps]:
  "of_option e None = Inl e" "of_option e (Some v) = Inr v"
  by (simp_all add: of_option_def)

lemma of_option_Inr_iff [simp, exn_simps]: "of_option e x = Inr v \<longleftrightarrow> x = Some v"
  by (cases x) simp_all

text \<open>The \<open>errno\<close> of an address in use and of a missing permission.\<close>

definition EADDRINUSE :: nat where "EADDRINUSE = 98"
definition EACCES :: nat where "EACCES = 13"

section \<open>Strings\<close>

text \<open>
  A string is a list of code points below 256 (\<^typ>\<open>char\<close>); bytes objects use the same
  type.  \<open>lower\<close> maps the upper-case letters of that range, ASCII and Latin-1.
\<close>

definition code :: "char \<Rightarrow> nat" where
  "code c = of_char c"

definition lower_char :: "char \<Rightarrow> char" where
  "lower_char c =
     (let n = code c in
      if 65 \<le> n \<and> n \<le> 90 \<or> 192 \<le> n \<and> n \<le> 222 \<and> n \<noteq> 215 then char_of (n + 32) else c)"

definition lower :: "string \<Rightarrow> string" where
  "lower s = map lower_char s"

definition is_space :: "char \<Rightarrow> bool" where
  "is_space c =
     (let n = code c in 9 \<le> n \<and> n \<le> 13 \<or> 28 \<le> n \<and> n \<le> 32 \<or> n = 133 \<or> n = 160)"

definition lstrip :: "string \<Rightarrow> string" where
  "lstrip s = dropWhile is_space s"

definition rstrip :: "string \<Rightarrow> string" where
  "rstrip s = rev (dropWhile is_space (rev s))"

definition strip :: "string \<Rightarrow> string" where
  "strip s = rstrip (lstrip s)"

definition startswith :: "string \<Rightarrow> string \<Rightarrow> bool" where
  "startswith s p \<longleftrightarrow> take (length p) s = p"

definition endswith :: "string \<Rightarrow> string \<Rightarrow> bool" where
  "endswith s p \<longleftrightarrow> length p \<le> length s \<and> drop (length s - length p) s = p"

text \<open>\<open>sub in s\<close>, the substring test.\<close>

fun contains :: "string \<Rightarrow> string \<Rightarrow> bool" where
  "contains sub [] \<longleftrightarrow> sub = []"
| "contains sub (c # cs) \<longleftrightarrow> startswith (c # cs) sub \<or> contains sub cs"

text \<open>\<open>s.split(sep)\<close> for a non-empty separator: leftmost, non-overlapping.\<close>

function split_acc :: "string \<Rightarrow> string \<Rightarrow> string \<Rightarrow> string list" where
  "split_acc sep acc [] = [rev acc]"
| "split_acc sep acc (c # cs) =
     (if startswith (c # cs) sep
      then rev acc # split_acc sep [] (drop (length sep - 1) cs)
      else split_acc sep (c # acc) cs)"
  by pat_completeness auto
termination
  by (relation "measure (\<lambda>(sep, acc, s). length s)") auto

definition split_on :: "string \<Rightarrow> string \<Rightarrow> string list" where
  "split_on sep s = split_acc sep [] s"

fun join :: "string \<Rightarrow> string list \<Rightarrow> string" where
  "join sep [] = []"
| "join sep [x] = x"
| "join sep (x # y # ys) = x @ sep @ join sep (y # ys)"

definition replace :: "string \<Rightarrow> string \<Rightarrow> string \<Rightarrow> string" where
  "replace old new s = join new (split_on old s)"

text \<open>\<open>a or b\<close> on optional strings, of which the empty one is false.\<close>

definition or_arg :: "string option \<Rightarrow> string option \<Rightarrow> string option" where
  "or_arg a b = (case a of Some s \<Rightarrow> if s \<noteq> [] then a else b | None \<Rightarrow> b)"

text \<open>\<open>os.path.join(d, f)\<close> for a file name that does not start with a slash.\<close>

definition path_join :: "string \<Rightarrow> string \<Rightarrow> string" where
  "path_join d f = (if d = [] \<or> endswith d ''/'' then d @ f else d @ ''/'' @ f)"

text \<open>\<open>os.path.basename(f)\<close>\<close>

definition basename :: "string \<Rightarrow> string" where
  "basename f = rev (takeWhile (\<lambda>c. c \<noteq> CHR ''/'') (rev f))"

text \<open>\<open>int(s)\<close> on a string: surrounding white space, a sign, and digits with single underscores.\<close>

definition is_digit :: "char \<Rightarrow> bool" where
  "is_digit c \<longleftrightarrow> 48 \<le> code c \<and> code c \<le> 57"

fun py_digits :: "bool \<Rightarrow> int \<Rightarrow> string \<Rightarrow> int option" where
  "py_digits seen acc [] = (if seen then Some acc else None)"
| "py_digits seen acc (c # cs) =
     (if is_digit c then py_digits True (10 * acc + int (code c - 48)) cs
      else if c = CHR ''_'' \<and> seen then py_digits False acc cs
      else None)"

definition py_int :: "string \<Rightarrow> int option" where
  "py_int s =
     (case strip s of
        [] \<Rightarrow> None
      | c # cs \<Rightarrow>
          (if c = CHR ''-'' then map_option uminus (py_digits False 0 cs)
           else if c = CHR ''+'' then py_digits False 0 cs
           else py_digits False 0 (c # cs)))"

text \<open>\<open>str(n)\<close> on an integer.\<close>

definition digit_char :: "nat \<Rightarrow> char" where
  "digit_char d = char_of (48 + d)"

fun nat_str :: "nat \<Rightarrow> string" where
  "nat_str n = (if n < 10 then [digit_char n] else nat_str (n div 10) @ [digit_char (n mod 10)])"

definition int_str :: "int \<Rightarrow> string" where
  "int_str i = (if i < 0 then CHR ''-'' # nat_str (nat (- i)) else nat_str (nat i))"

declare nat_str.simps [simp del]


lemma code_char_of [simp]: "n < 256 \<Longrightarrow> code (char_of n) = n"
  by (simp add: code_def)

lemma code_less [simp]: "code c < 256"
  by (simp add: code_def)

lemma char_of_code [simp]: "char_of (code c) = c"
  by (simp add: code_def)

lemma code_inject [simp]: "code c = code d \<longleftrightarrow> c = d"
  by (metis char_of_code)

lemma startswith_iff: "startswith s p \<longleftrightarrow> (\<exists>t. s = p @ t)"
  unfolding startswith_def by (metis append_eq_conv_conj append_take_drop_id)

lemma startswith_append [simp]: "startswith (p @ t) p"
  by (simp add: startswith_def)

lemma startswith_Cons [simp]: "startswith (c # s) (d # p) \<longleftrightarrow> c = d \<and> startswith s p"
  by (simp add: startswith_def)

lemma startswith_Nil [simp]: "startswith s []" "startswith [] (c # p) \<longleftrightarrow> False"
  by (simp_all add: startswith_def)

lemma contains_iff: "contains sub s \<longleftrightarrow> (\<exists>a b. s = a @ sub @ b)"
proof (induction s)
  case (Cons c cs)
  show ?case
  proof
    assume "contains sub (c # cs)"
    then consider "startswith (c # cs) sub" | "contains sub cs" by auto
    then show "\<exists>a b. c # cs = a @ sub @ b"
    proof cases
      case 1
      then show ?thesis by (metis append_Nil startswith_iff)
    next
      case 2
      then show ?thesis using Cons.IH by (metis append_Cons)
    qed
  next
    assume "\<exists>a b. c # cs = a @ sub @ b"
    then obtain a b where ab: "c # cs = a @ sub @ b" by blast
    show "contains sub (c # cs)"
    proof (cases a)
      case Nil
      with ab have "startswith (c # cs) sub" by (simp add: startswith_iff)
      then show ?thesis by simp
    next
      case (Cons d ds)
      with ab have "cs = ds @ sub @ b" by simp
      with Cons.IH show ?thesis by auto
    qed
  qed
qed auto

subsection \<open>Splitting and joining\<close>

lemma join_Cons: "xs \<noteq> [] \<Longrightarrow> join sep (x # xs) = x @ sep @ join sep xs"
  by (cases xs) auto

lemma split_acc_nonempty [simp]: "split_acc sep acc s \<noteq> []"
  by (induction sep acc s rule: split_acc.induct) auto

lemma split_on_nonempty [simp]: "split_on sep s \<noteq> []"
  by (simp add: split_on_def)

lemma startswith_split:
  assumes "sep \<noteq> []" "startswith (c # cs) sep"
  shows "c # cs = sep @ drop (length sep - 1) cs"
proof -
  from assms(2) obtain t where t: "c # cs = sep @ t" by (auto simp: startswith_iff)
  obtain d ds where sep: "sep = d # ds" using assms(1) by (cases sep) auto
  with t show ?thesis by simp
qed

lemma join_split_acc: "sep \<noteq> [] \<Longrightarrow> join sep (split_acc sep acc s) = rev acc @ s"
proof (induction sep acc s rule: split_acc.induct)
  case (2 sep acc c cs)
  then show ?case
    using startswith_split [of sep c cs] by (auto simp: join_Cons)
qed simp

lemma join_split_on: "sep \<noteq> [] \<Longrightarrow> join sep (split_on sep s) = s"
  by (simp add: split_on_def join_split_acc)

lemma split_acc_char_no_sep:
  "c \<notin> set s \<Longrightarrow> split_acc [c] acc s = [rev acc @ s]"
  by (induction s arbitrary: acc) (auto simp: startswith_def)

lemma split_acc_char_append:
  "c \<notin> set x \<Longrightarrow> split_acc [c] acc (x @ c # s) = (rev acc @ x) # split_acc [c] [] s"
  by (induction x arbitrary: acc) auto

lemma split_join_char:
  "xs \<noteq> [] \<Longrightarrow> \<forall>x\<in>set xs. c \<notin> set x \<Longrightarrow> split_on [c] (join [c] xs) = xs"
proof (induction xs)
  case (Cons x xs)
  then show ?case
    by (cases xs) (auto simp: split_on_def split_acc_char_no_sep split_acc_char_append)
qed simp

lemma split_acc_char_elems: "x \<in> set (split_acc [c] acc s) \<Longrightarrow> c \<notin> set acc \<Longrightarrow> c \<notin> set x"
  by (induction "[c]" acc s rule: split_acc.induct) (auto split: if_splits)

lemma split_on_char_elems: "x \<in> set (split_on [c] s) \<Longrightarrow> c \<notin> set x"
  unfolding split_on_def by (erule split_acc_char_elems) simp

subsection \<open>Lower case and white space\<close>

lemma lower_char_idem [simp]: "lower_char (lower_char c) = lower_char c"
proof -
  have "code c < 256" by simp
  then show ?thesis by (auto simp: lower_char_def Let_def)
qed

lemma lower_idem [simp]: "lower (lower s) = lower s"
  by (simp add: lower_def)

lemma length_lower [simp]: "length (lower s) = length s"
  by (simp add: lower_def)

lemma strip_no_space:
  assumes "\<forall>c\<in>set s. \<not> is_space c"
  shows "strip s = s"
proof -
  have *: "dropWhile is_space t = t" if "\<forall>c\<in>set t. \<not> is_space c" for t
    using that by (cases t) auto
  show ?thesis
    using assms by (simp add: strip_def lstrip_def rstrip_def *)
qed

subsection \<open>Reading back a printed integer\<close>

lemma digit_char_props [simp]:
  assumes "d < 10"
  shows "is_digit (digit_char d)" "code (digit_char d) = 48 + d" "\<not> is_space (digit_char d)"
    "digit_char d \<noteq> CHR ''-''" "digit_char d \<noteq> CHR ''+''"
proof -
  show c: "code (digit_char d) = 48 + d"
    using assms by (simp add: digit_char_def)
  then show "is_digit (digit_char d)" "\<not> is_space (digit_char d)"
    using assms by (simp_all add: is_digit_def is_space_def Let_def)
  have "code (CHR ''-'') = 45" "code (CHR ''+'') = 43"
    by (simp_all add: code_def)
  with c show "digit_char d \<noteq> CHR ''-''" "digit_char d \<noteq> CHR ''+''"
    by auto
qed

lemma py_digits_append:
  "xs \<noteq> [] \<Longrightarrow> \<forall>c\<in>set xs. is_digit c \<Longrightarrow>
   py_digits b acc (xs @ ys) = py_digits True (foldl (\<lambda>a c. 10 * a + int (code c - 48)) acc xs) ys"
proof (induction xs arbitrary: b acc)
  case (Cons c cs)
  show ?case
  proof (cases "cs = []")
    case True
    with Cons.prems show ?thesis by simp
  next
    case False
    with Cons.prems Cons.IH [of True "10 * acc + int (code c - 48)"] show ?thesis by simp
  qed
qed simp

lemma nat_str_nonempty [simp]: "nat_str n \<noteq> []"
  by (simp add: nat_str.simps [of n])

lemma nat_str_digits: "c \<in> set (nat_str n) \<Longrightarrow> is_digit c"
proof (induction n rule: nat_str.induct)
  case (1 n)
  then show ?case by (cases "n < 10") (auto simp: nat_str.simps [of n])
qed

lemma digit_not_space: "is_digit c \<Longrightarrow> \<not> is_space c"
  by (auto simp: is_digit_def is_space_def Let_def)

lemma nat_str_value:
  "foldl (\<lambda>a c. 10 * a + int (code c - 48)) 0 (nat_str n) = int n"
proof (induction n rule: nat_str.induct)
  case (1 n)
  show ?case
  proof (cases "n < 10")
    case True
    then show ?thesis by (simp add: nat_str.simps [of n])
  next
    case False
    with 1 have "foldl (\<lambda>a c. 10 * a + int (code c - 48)) 0 (nat_str (n div 10)) = int (n div 10)"
      by simp
    moreover have "10 * int (n div 10) + int (n mod 10) = int n" by presburger
    ultimately show ?thesis using False by (simp add: nat_str.simps [of n])
  qed
qed

lemma py_digits_nat_str: "py_digits False 0 (nat_str n) = Some (int n)"
  using py_digits_append [of "nat_str n" False 0 "[]"] by (simp add: nat_str_digits nat_str_value)

lemma py_int_nat_str: "py_int (nat_str n) = Some (int n)"
proof -
  have s: "strip (nat_str n) = nat_str n"
    by (intro strip_no_space) (auto dest: nat_str_digits digit_not_space)
  obtain c cs where c: "nat_str n = c # cs" by (cases "nat_str n") auto
  then have "is_digit c" using nat_str_digits [of c n] by simp
  then have "c \<noteq> CHR ''-''" "c \<noteq> CHR ''+''" by (auto simp: is_digit_def code_def)
  with c show ?thesis
    using py_digits_nat_str [of n] by (simp add: py_int_def s [unfolded c] del: py_digits.simps)
qed

lemma py_int_int_str [simp]: "py_int (int_str i) = Some i"
proof (cases "i < 0")
  case True
  have "strip (CHR ''-'' # nat_str (nat (- i))) = CHR ''-'' # nat_str (nat (- i))"
    by (intro strip_no_space)
      (auto dest!: nat_str_digits digit_not_space simp: is_space_def code_def)
  with True show ?thesis by (simp add: py_int_def int_str_def py_digits_nat_str)
next
  case False
  then show ?thesis by (simp add: int_str_def py_int_nat_str)
qed

lemma int_str_inject [simp]: "int_str i = int_str j \<longleftrightarrow> i = j"
  by (metis option.inject py_int_int_str)

section \<open>Python values\<close>

text \<open>
  Data whose shape the code checks at run time (JSON bodies, kernelspec stanzas, connection
  information) are values of one type; reading a value as something it is not raises.
\<close>

datatype pyval =
    PNone
  | PBool bool
  | PInt int
  | PStr string
  | PBytes string
  | PList "pyval list"
  | PDict "(string \<times> pyval) list"

fun truthy :: "pyval \<Rightarrow> bool" where
  "truthy PNone = False"
| "truthy (PBool b) = b"
| "truthy (PInt i) = (i \<noteq> 0)"
| "truthy (PStr s) = (s \<noteq> [])"
| "truthy (PBytes s) = (s \<noteq> [])"
| "truthy (PList xs) = (xs \<noteq> [])"
| "truthy (PDict d) = (d \<noteq> [])"

text \<open>\<open>v.get(k)\<close>: only a dict has the method; a missing key gives \<open>None\<close>.\<close>

fun py_get :: "pyval \<Rightarrow> string \<Rightarrow> pyval res" where
  "py_get (PDict d) k = Inr (case map_of d k of None \<Rightarrow> PNone | Some v \<Rightarrow> v)"
| "py_get _ k = Inl AttributeError"

text \<open>\<open>v.get(k, x)\<close>\<close>

definition py_get_or :: "pyval \<Rightarrow> string \<Rightarrow> pyval \<Rightarrow> pyval res" where
  "py_get_or v k x = (case v of PDict d \<Rightarrow> Inr (dget_or d k x) | _ \<Rightarrow> Inl AttributeError)"

text \<open>\<open>v[k]\<close> with a string key: a dict raises \<open>KeyError\<close>, everything else \<open>TypeError\<close>.\<close>

fun py_item :: "pyval \<Rightarrow> string \<Rightarrow> pyval res" where
  "py_item (PDict d) k = of_option KeyError (map_of d k)"
| "py_item _ k = Inl TypeError"

text \<open>\<open>int(v)\<close>: numbers, booleans and numeric strings.\<close>

fun py_int_of :: "pyval \<Rightarrow> int res" where
  "py_int_of (PInt i) = Inr i"
| "py_int_of (PBool b) = Inr (if b then 1 else 0)"
| "py_int_of (PStr s) = of_option ValueError (py_int s)"
| "py_int_of (PBytes s) = of_option ValueError (py_int s)"
| "py_int_of _ = Inl TypeError"


text \<open>What \<open>for x in v\<close> runs over.\<close>

fun py_iter :: "pyval \<Rightarrow> pyval list res" where
  "py_iter (PList xs) = Inr xs"
| "py_iter (PDict d) = Inr (map (PStr \<circ> fst) d)"
| "py_iter (PStr s) = Inr (map (\<lambda>c. PStr [c]) s)"
| "py_iter (PBytes s) = Inr (map (\<lambda>c. PInt (int (code c))) s)"
| "py_iter _ = Inl TypeError"

text \<open>\<open>len(v)\<close>\<close>

fun py_len :: "pyval \<Rightarrow> nat res" where
  "py_len (PStr s) = Inr (length s)"
| "py_len (PBytes s) = Inr (length s)"
| "py_len (PList xs) = Inr (length xs)"
| "py_len (PDict d) = Inr (length d)"
| "py_len _ = Inl TypeError"

text \<open>Values \<open>json.dumps\<close> accepts: everything but bytes.\<close>

fun json_ok :: "pyval \<Rightarrow> bool" where
  "json_ok (PBytes s) = False"
| "json_ok (PList xs) = list_all json_ok xs"
| "json_ok (PDict d) = list_all (\<lambda>p. json_ok (snd p)) d"
| "json_ok _ = True"

subsection \<open>UTF-8 on the modelled code points\<close>

fun utf8_encode :: "string \<Rightarrow> string" where
  "utf8_encode [] = []"
| "utf8_encode (c # cs) =
     (if code c < 128 then c # utf8_encode cs
      else char_of (192 + code c div 64) # char_of (128 + code c mod 64) # utf8_encode cs)"

fun utf8_decode :: "string \<Rightarrow> string option" where
  "utf8_decode [] = Some []"
| "utf8_decode [c] = (if code c < 128 then Some [c] else None)"
| "utf8_decode (c # d # cs) =
     (if code c < 128 then map_option ((#) c) (utf8_decode (d # cs))
      else if (code c = 194 \<or> code c = 195) \<and> 128 \<le> code d \<and> code d < 192
      then map_option ((#) (char_of ((code c - 192) * 64 + (code d - 128)))) (utf8_decode cs)
      else None)"

lemma utf8_decode_ascii: "code c < 128 \<Longrightarrow> utf8_decode (c # cs) = map_option ((#) c) (utf8_decode cs)"
  by (cases cs) auto

lemma utf8_two_bytes:
  assumes "128 \<le> n" "n < 256"
  shows "n div 64 = 2 \<or> n div 64 = 3" "64 * (n div 64) + n mod 64 = n" "n mod 64 < (64::nat)"
proof -
  have "2 * 64 div 64 \<le> n div 64" using assms by (intro div_le_mono) simp
  moreover have "n div 64 < 4" using assms by (intro less_mult_imp_div_less) simp
  ultimately show "n div 64 = 2 \<or> n div 64 = 3" by simp linarith
qed simp_all

lemma utf8_decode_encode [simp]: "utf8_decode (utf8_encode s) = Some s"
proof (induction s)
  case (Cons c cs)
  show ?case
  proof (cases "code c < 128")
    case True
    with Cons show ?thesis by (simp add: utf8_decode_ascii)
  next
    case False
    define q r where "q = code c div 64" and "r = code c mod 64"
    have qr: "q = 2 \<or> q = 3" "64 * q + r = code c" "r < 64"
      unfolding q_def r_def using False utf8_two_bytes [of "code c"] by (simp_all add: not_less)
    have e: "utf8_encode (c # cs) = char_of (192 + q) # char_of (128 + r) # utf8_encode cs"
      using False by (simp add: q_def r_def)
    have b: "code (char_of (192 + q)) = 192 + q" "code (char_of (128 + r)) = 128 + r"
      using qr by (auto intro!: code_char_of)
    have "q * 64 + r = code c" using qr by simp
    then have bk: "char_of ((192 + q - 192) * 64 + (128 + r - 128)) = c" by simp
    have "192 + q = 194 \<or> 192 + q = 195" "\<not> 192 + q < 128" "128 \<le> 128 + r" "128 + r < 192"
      using qr by auto
    then show ?thesis
      unfolding e utf8_decode.simps b bk Cons by (simp only: if_True if_False simp_thms option.map)
  qed
qed simp

lemma utf8_encode_decode: "utf8_decode s = Some t \<Longrightarrow> utf8_encode t = s"
proof (induction s arbitrary: t rule: utf8_decode.induct)
  case (3 c d cs)
  show ?case
  proof (cases "code c < 128")
    case True
    with 3 show ?thesis by auto
  next
    case False
    with "3.prems" obtain u where cd: "(code c = 194 \<or> code c = 195) \<and> 128 \<le> code d \<and> code d < 192"
      and u: "utf8_decode cs = Some u" and t: "t = char_of ((code c - 192) * 64 + (code d - 128)) # u"
      by (auto split: if_splits)
    have IH: "utf8_encode u = cs" using "3.IH"(2) [OF False cd u] .
    obtain j k where k: "code d = 128 + k" "k < 64" "code c = 192 + j" "j = 2 \<or> j = 3"
      using cd by (intro that [of "code d - 128" "code c - 192"]) auto
    define n where "n = (code c - 192) * 64 + (code d - 128)"
    have nk: "n = j * 64 + k" using k by (simp add: n_def)
    then have "n div 64 = j" "n mod 64 = k" using k(2) by simp_all
    then have n: "n < 256" "\<not> n < 128" "192 + n div 64 = code c" "128 + n mod 64 = code d"
      using k nk by auto
    show ?thesis
      unfolding t n_def [symmetric] utf8_encode.simps code_char_of [OF n(1)] n(3,4) IH
      using n(2) by simp
  qed
qed (auto split: if_splits)

end
