(* ===== verification/KernelSessions.thy ===== *)
theory KernelSessions
  imports PyBase
begin

text \<open>
  The kernel session manager (services/sessions/kernelsessionmanager.py): the table of the
  running kernels' sessions with its index by user, its operations, and the two managers
  that persist it, one file per kernel or a webhook service.  A persistence manager extends
  the record of the base class; the abstract methods it overrides are arguments of the base
  class operations.  \<open>kernels_lock\<close> makes \<open>_save_session\<close> and \<open>_delete_sessions\<close> atomic,
  which is why each is one step here.  Files that cannot be opened are not modelled.
\<close>

section \<open>Data\<close>

type_synonym env = "(string, string) dict"

record launch_args =
  la_env :: "env option"
  la_rest :: "(string, pyval) dict"

record session =
  ses_kernel_id :: string
  ses_username :: string
  ses_kernel_name :: string
  ses_connection_info :: "(string, pyval) dict"
  ses_launch_args :: launch_args
  ses_process_info :: "(string, pyval) dict"

record ksm =
  enable_persistence :: bool
  sessions :: "(string, session) dict"
  sessions_by_user :: "(string, string list) dict"

text \<open>What the session manager reads of a kernel manager; \<open>kv_process_info\<close> is \<open>None\<close> without
  a process proxy.\<close>

record kernel_view =
  kv_kernel_name :: string
  kv_connection_info :: "(string, pyval) dict"
  kv_process_info :: "(string, pyval) dict option"

definition session_persistence_default :: "string option \<Rightarrow> bool" where
  "session_persistence_default v = (lower (case v of None \<Rightarrow> ''False'' | Some s \<Rightarrow> s) = ''true'')"

definition persistence_root_default :: "string option \<Rightarrow> string" where
  "persistence_root_default v = (case v of None \<Rightarrow> ''/'' | Some s \<Rightarrow> s)"

definition ksm_init :: "bool \<Rightarrow> ksm" where
  "ksm_init p = \<lparr>enable_persistence = p, sessions = [], sessions_by_user = []\<rparr>"

section \<open>Operations of the base class\<close>

text \<open>
  \<open>get_kernel_username\<close> stores the login name into the env dict it was given; without an
  \<open>env\<close> argument that dict is a fresh one and the write is lost.
\<close>

definition get_kernel_username :: "string \<Rightarrow> launch_args \<Rightarrow> string \<times> launch_args" where
  "get_kernel_username getuser kw =
     (let env = (case la_env kw of None \<Rightarrow> [] | Some e \<Rightarrow> e) in
      case dget env ''KERNEL_USERNAME'' of
        Some u \<Rightarrow> (u, kw)
      | None \<Rightarrow>
          (getuser,
           case la_env kw of
             None \<Rightarrow> kw
           | Some e \<Rightarrow> kw\<lparr>la_env := Some (dset ''KERNEL_USERNAME'' getuser e)\<rparr>))"

definition index_session :: "string \<Rightarrow> string \<Rightarrow> (string, string list) dict \<Rightarrow> (string, string list) dict" where
  "index_session username kernel_id by_user =
     (case dget by_user username of
        None \<Rightarrow> dset username [kernel_id] by_user
      | Some ks \<Rightarrow> if kernel_id \<in> set ks then by_user else dset username (ks @ [kernel_id]) by_user)"

definition ksm_save_session ::
  "(string \<Rightarrow> 'a ksm_scheme \<Rightarrow> unit res \<times> 'a ksm_scheme) \<Rightarrow> string \<Rightarrow> session \<Rightarrow>
   'a ksm_scheme \<Rightarrow> unit res \<times> 'a ksm_scheme" where
  "ksm_save_session save kernel_id kernel_session m =
     save kernel_id
       (m\<lparr>sessions := dset kernel_id kernel_session (sessions m),
          sessions_by_user :=
            index_session (ses_username kernel_session) kernel_id (sessions_by_user m)\<rparr>)"

definition ksm_create_session ::
  "(string \<Rightarrow> 'a ksm_scheme \<Rightarrow> unit res \<times> 'a ksm_scheme) \<Rightarrow> (string \<Rightarrow> kernel_view option) \<Rightarrow>
   string \<Rightarrow> string \<Rightarrow> launch_args \<Rightarrow> 'a ksm_scheme \<Rightarrow> unit res \<times> 'a ksm_scheme" where
  "ksm_create_session save get_kernel getuser kernel_id kw m =
     (case get_kernel kernel_id of
        None \<Rightarrow> (Inl KeyError, m)
      | Some km \<Rightarrow>
          let (username, kw') = get_kernel_username getuser kw in
          ksm_save_session save kernel_id
            \<lparr>ses_kernel_id = kernel_id, ses_username = username,
             ses_kernel_name = kv_kernel_name km,
             ses_connection_info = kv_connection_info km, ses_launch_args = kw',
             ses_process_info = (case kv_process_info km of None \<Rightarrow> [] | Some i \<Rightarrow> i)\<rparr> m)"

definition ksm_refresh_session ::
  "(string \<Rightarrow> 'a ksm_scheme \<Rightarrow> unit res \<times> 'a ksm_scheme) \<Rightarrow> (string \<Rightarrow> kernel_view option) \<Rightarrow>
   string \<Rightarrow> 'a ksm_scheme \<Rightarrow> unit res \<times> 'a ksm_scheme" where
  "ksm_refresh_session save get_kernel kernel_id m =
     (case get_kernel kernel_id of
        None \<Rightarrow> (Inl KeyError, m)
      | Some km \<Rightarrow>
          (case dget (sessions m) kernel_id of
             None \<Rightarrow> (Inl KeyError, m)
           | Some s \<Rightarrow>
               ksm_save_session save kernel_id
                 (s\<lparr>ses_connection_info := kv_connection_info km,
                    ses_process_info := (case kv_process_info km of None \<Rightarrow> [] | Some i \<Rightarrow> i)\<rparr>) m))"

text \<open>\<open>start_kernel_from_session\<close> is the kernel manager's; its state is \<open>'k\<close>.\<close>

definition ksm_start_session ::
  "(session \<Rightarrow> 'k \<Rightarrow> bool res \<times> 'k) \<Rightarrow> string \<Rightarrow> 'a ksm_scheme \<Rightarrow> 'k \<Rightarrow> bool option res \<times> 'k" where
  "ksm_start_session start kernel_id m k =
     (case dget (sessions m) kernel_id of
        None \<Rightarrow> (Inr None, k)
      | Some s \<Rightarrow> bindE (start s k) (\<lambda>b k'. (Inr (Some b), k')))"

fun start_each ::
  "(session \<Rightarrow> 'k \<Rightarrow> bool res \<times> 'k) \<Rightarrow> (string, session) dict \<Rightarrow> 'k \<Rightarrow> string list res \<times> 'k" where
  "start_each start [] k = (Inr [], k)"
| "start_each start ((kernel_id, s) # rest) k =
     bindE (start s k) (\<lambda>started k'.
       bindE (start_each start rest k') (\<lambda>removals k''.
         (Inr (if started then removals else kernel_id # removals), k'')))"

fun drop_sessions :: "string list \<Rightarrow> 'a ksm_scheme \<Rightarrow> 'a ksm_scheme" where
  "drop_sessions [] m = m"
| "drop_sessions (kernel_id # ks) m =
     (case dget (sessions m) kernel_id of
        None \<Rightarrow> drop_sessions ks m
      | Some s \<Rightarrow>
          drop_sessions ks
            (m\<lparr>sessions := ddel kernel_id (sessions m),
               sessions_by_user :=
                 (case dget (sessions_by_user m) (ses_username s) of
                    None \<Rightarrow> sessions_by_user m
                  | Some us \<Rightarrow>
                      if kernel_id \<in> set us
                      then dset (ses_username s) (remove1 kernel_id us) (sessions_by_user m)
                      else sessions_by_user m)\<rparr>))"

definition ksm_delete_sessions ::
  "(string list \<Rightarrow> 'a ksm_scheme \<Rightarrow> unit res \<times> 'a ksm_scheme) \<Rightarrow> string list \<Rightarrow>
   'a ksm_scheme \<Rightarrow> unit res \<times> 'a ksm_scheme" where
  "ksm_delete_sessions del kernel_ids m = del kernel_ids (drop_sessions kernel_ids m)"

definition ksm_delete_session ::
  "(string list \<Rightarrow> 'a ksm_scheme \<Rightarrow> unit res \<times> 'a ksm_scheme) \<Rightarrow> string \<Rightarrow>
   'a ksm_scheme \<Rightarrow> unit res \<times> 'a ksm_scheme" where
  "ksm_delete_session del kernel_id m = ksm_delete_sessions del [kernel_id] m"

definition ksm_start_sessions ::
  "('a ksm_scheme \<Rightarrow> unit res \<times> 'a ksm_scheme) \<Rightarrow>
   (string list \<Rightarrow> 'a ksm_scheme \<Rightarrow> unit res \<times> 'a ksm_scheme) \<Rightarrow>
   (session \<Rightarrow> 'k \<Rightarrow> bool res \<times> 'k) \<Rightarrow> 'a ksm_scheme \<Rightarrow> 'k \<Rightarrow> unit res \<times> 'a ksm_scheme \<times> 'k" where
  "ksm_start_sessions load_all del start m k =
     (if enable_persistence m
      then (case load_all m of
              (Inl e, m') \<Rightarrow> (Inl e, m', k)
            | (Inr _, m') \<Rightarrow>
                (case start_each start (sessions m') k of
                   (Inl e, k') \<Rightarrow> (Inl e, m', k')
                 | (Inr removals, k') \<Rightarrow>
                     (case ksm_delete_sessions del removals m' of (r, m'') \<Rightarrow> (r, m'', k'))))
      else (Inr (), m, k))"

definition active_sessions :: "'a ksm_scheme \<Rightarrow> string \<Rightarrow> nat" where
  "active_sessions m username =
     (case dget (sessions_by_user m) username of None \<Rightarrow> 0 | Some ks \<Rightarrow> length ks)"

section \<open>The transformation between memory and store\<close>

text \<open>The HMAC key of the connection information is bytes in memory and text in the store.\<close>

definition map_key :: "(pyval \<Rightarrow> pyval res) \<Rightarrow> session \<Rightarrow> session res" where
  "map_key f s =
     (case dget (ses_connection_info s) ''key'' of
        None \<Rightarrow> Inr s
      | Some key \<Rightarrow>
          if truthy key
          then rbind (f key) (\<lambda>key'.
                 Inr (s\<lparr>ses_connection_info := dset ''key'' key' (ses_connection_info s)\<rparr>))
          else Inr s)"

fun decode_utf8 :: "pyval \<Rightarrow> pyval res" where
  "decode_utf8 (PBytes b) = rbind (of_option UnicodeError (utf8_decode b)) (\<lambda>t. Inr (PStr t))"
| "decode_utf8 _ = Inl AttributeError"

fun encode_utf8 :: "pyval \<Rightarrow> pyval res" where
  "encode_utf8 (PStr t) = Inr (PBytes (utf8_encode t))"
| "encode_utf8 _ = Inl AttributeError"

fun pre_save_transformation :: "(string, session) dict \<Rightarrow> (string, session) dict res" where
  "pre_save_transformation [] = Inl StopIteration"
| "pre_save_transformation ((kernel_id, s) # rest) =
     rbind (map_key decode_utf8 s) (\<lambda>s'. Inr ((kernel_id, s') # rest))"

fun post_load_transformation :: "(string, session) dict \<Rightarrow> (string, session) dict res" where
  "post_load_transformation [] = Inl StopIteration"
| "post_load_transformation ((kernel_id, s) # rest) =
     rbind (map_key encode_utf8 s) (\<lambda>s'. Inr ((kernel_id, s') # rest))"

definition session_json_ok :: "session \<Rightarrow> bool" where
  "session_json_ok s \<longleftrightarrow>
     json_ok (PDict (ses_connection_info s)) \<and> json_ok (PDict (la_rest (ses_launch_args s))) \<and>
     json_ok (PDict (ses_process_info s))"

section \<open>The index by user\<close>

definition user_kernels :: "(string, string list) dict \<Rightarrow> string \<Rightarrow> string list" where
  "user_kernels by_user u = (case dget by_user u of None \<Rightarrow> [] | Some ks \<Rightarrow> ks)"

text \<open>
  \<open>user_index_sound\<close>: whatever is listed under a user is a live session of that user.
  \<open>user_index_ok\<close> adds that nothing is missing from the index.
\<close>

definition user_index_sound :: "'a ksm_scheme \<Rightarrow> bool" where
  "user_index_sound m \<longleftrightarrow>
     dict_ok (sessions m) \<and> (\<forall>u. distinct (user_kernels (sessions_by_user m) u)) \<and>
     (\<forall>u kid. kid \<in> set (user_kernels (sessions_by_user m) u) \<longrightarrow>
        (\<exists>s. dget (sessions m) kid = Some s \<and> ses_username s = u))"

definition user_index_ok :: "'a ksm_scheme \<Rightarrow> bool" where
  "user_index_ok m \<longleftrightarrow>
     user_index_sound m \<and>
     (\<forall>kid s. dget (sessions m) kid = Some s \<longrightarrow>
        kid \<in> set (user_kernels (sessions_by_user m) (ses_username s)))"

text \<open>
  The steps that change a manager's table, whatever the outcome of persisting it.  A session is
  created for an id that is not in the table (the kernel map refuses to start a kernel under an
  id it already has), or again for the same user.
\<close>

inductive ksm_reach ::
  "(string \<Rightarrow> 'a ksm_scheme \<Rightarrow> unit res \<times> 'a ksm_scheme) \<Rightarrow>
   (string list \<Rightarrow> 'a ksm_scheme \<Rightarrow> unit res \<times> 'a ksm_scheme) \<Rightarrow>
   'a ksm_scheme \<Rightarrow> 'a ksm_scheme \<Rightarrow> bool"
  for save :: "string \<Rightarrow> 'a ksm_scheme \<Rightarrow> unit res \<times> 'a ksm_scheme"
  and del :: "string list \<Rightarrow> 'a ksm_scheme \<Rightarrow> unit res \<times> 'a ksm_scheme"
  and m0 :: "'a ksm_scheme" where
  reach_start: "ksm_reach save del m0 m0"
| reach_create: "ksm_reach save del m0 m \<Longrightarrow>
    dget (sessions m) kid = None \<or>
      map_option ses_username (dget (sessions m) kid) = Some (fst (get_kernel_username gu kw)) \<Longrightarrow>
    ksm_create_session save gk gu kid kw m = (r, m') \<Longrightarrow> ksm_reach save del m0 m'"
| reach_refresh: "ksm_reach save del m0 m \<Longrightarrow>
    ksm_refresh_session save gk kid m = (r, m') \<Longrightarrow> ksm_reach save del m0 m'"
| reach_delete: "ksm_reach save del m0 m \<Longrightarrow>
    ksm_delete_sessions del kids m = (r, m') \<Longrightarrow> ksm_reach save del m0 m'"

lemma user_kernels_index [simp]:
  "user_kernels (index_session u k bu) v =
     (if v = u then (if k \<in> set (user_kernels bu u) then user_kernels bu u else user_kernels bu u @ [k])
      else user_kernels bu v)"
  by (auto simp: user_kernels_def index_session_def split: option.splits)

lemma active_sessions_alt: "active_sessions m u = length (user_kernels (sessions_by_user m) u)"
  by (simp add: active_sessions_def user_kernels_def split: option.splits)

lemma user_index_ok_iff:
  "user_index_ok m \<longleftrightarrow>
     dict_ok (sessions m) \<and> (\<forall>u. distinct (user_kernels (sessions_by_user m) u)) \<and>
     (\<forall>u kid. kid \<in> set (user_kernels (sessions_by_user m) u) \<longleftrightarrow>
        map_option ses_username (dget (sessions m) kid) = Some u)"
  unfolding user_index_ok_def user_index_sound_def by (auto; blast)

lemma active_sessions_card:
  assumes "user_index_ok m"
  shows "active_sessions m u = card {kid. \<exists>s. dget (sessions m) kid = Some s \<and> ses_username s = u}"
proof -
  have "{kid. \<exists>s. dget (sessions m) kid = Some s \<and> ses_username s = u} =
      set (user_kernels (sessions_by_user m) u)"
    using assms by (auto simp: user_index_ok_def user_index_sound_def)
  moreover have "distinct (user_kernels (sessions_by_user m) u)"
    using assms by (simp add: user_index_ok_def user_index_sound_def)
  ultimately show ?thesis
    by (simp add: active_sessions_alt distinct_card)
qed

lemma user_index_ok_empty: "sessions m = [] \<Longrightarrow> sessions_by_user m = [] \<Longrightarrow> user_index_ok m"
  by (simp add: user_index_ok_def user_index_sound_def user_kernels_def)

lemma user_index_put:
  assumes "user_index_ok m"
    and "\<And>t. dget (sessions m) kid = Some t \<Longrightarrow> ses_username t = ses_username s"
  shows "user_index_ok (m\<lparr>sessions := dset kid s (sessions m),
     sessions_by_user := index_session (ses_username s) kid (sessions_by_user m)\<rparr>)"
  using assms unfolding user_index_ok_iff by (auto split: if_splits)

lemma user_index_drop_one:
  assumes "user_index_ok m" "dget (sessions m) kid = Some s"
  shows "user_index_ok (m\<lparr>sessions := ddel kid (sessions m),
     sessions_by_user :=
       (case dget (sessions_by_user m) (ses_username s) of
          None \<Rightarrow> sessions_by_user m
        | Some us \<Rightarrow> if kid \<in> set us then dset (ses_username s) (remove1 kid us) (sessions_by_user m)
                    else sessions_by_user m)\<rparr>)" (is "user_index_ok ?m'")
proof -
  have uk: "user_kernels (sessions_by_user ?m') v =
      (if v = ses_username s then remove1 kid (user_kernels (sessions_by_user m) v)
       else user_kernels (sessions_by_user m) v)" for v
    by (auto simp: user_kernels_def remove1_idem split: option.splits)
  show ?thesis
    using assms unfolding user_index_ok_iff uk by (auto simp: distinct_remove1)
qed

lemma user_index_drop: "user_index_ok m \<Longrightarrow> user_index_ok (drop_sessions kids m)"
proof (induction kids m rule: drop_sessions.induct)
  case (2 kid ks m)
  show ?case
  proof (cases "dget (sessions m) kid")
    case (Some s)
    then show ?thesis
      using "2.IH"(2) [OF Some user_index_drop_one [OF "2.prems" Some]] by simp
  qed (use 2 in simp)
qed simp

lemma drop_sessions_dget [simp]:
  "dget (sessions (drop_sessions kids m)) k = (if k \<in> set kids then None else dget (sessions m) k)"
  by (induction kids m rule: drop_sessions.induct) (auto split: option.splits)

lemma drop_sessions_enabled [simp]: "enable_persistence (drop_sessions kids m) = enable_persistence m"
  by (induction kids m rule: drop_sessions.induct) (auto split: option.splits)

section \<open>What a persistence manager owes the base class\<close>

text \<open>
  The contract of the two abstract methods: saving changes nothing of a session but its
  connection information, deleting does not touch the memory, neither touches the index.
\<close>

locale session_store =
  fixes save :: "string \<Rightarrow> 'a ksm_scheme \<Rightarrow> unit res \<times> 'a ksm_scheme"
    and del :: "string list \<Rightarrow> 'a ksm_scheme \<Rightarrow> unit res \<times> 'a ksm_scheme"
  assumes save_index: "sessions_by_user (snd (save kid m)) = sessions_by_user m"
    and save_keys: "map fst (sessions (snd (save kid m))) = map fst (sessions m)"
    and save_users: "map_option ses_username (dget (sessions (snd (save kid m))) k) =
      map_option ses_username (dget (sessions m) k)"
    and save_enabled: "enable_persistence (snd (save kid m)) = enable_persistence m"
    and del_sessions: "sessions (snd (del kids m)) = sessions m"
    and del_index: "sessions_by_user (snd (del kids m)) = sessions_by_user m"
    and del_enabled: "enable_persistence (snd (del kids m)) = enable_persistence m"
begin

lemma save_index_ok:
  assumes "user_index_ok m"
  shows "user_index_ok (snd (save kid m))"
proof -
  have "dict_ok (sessions (snd (save kid m))) = dict_ok (sessions m)"
    by (simp add: dict_ok_def save_keys)
  with assms show ?thesis
    unfolding user_index_ok_iff save_index save_users by simp
qed

lemma save_session_index_ok:
  assumes "user_index_ok m"
    and "\<And>t. dget (sessions m) kid = Some t \<Longrightarrow> ses_username t = ses_username s"
  shows "user_index_ok (snd (ksm_save_session save kid s m))"
  unfolding ksm_save_session_def by (intro save_index_ok user_index_put assms)

lemma create_index_ok:
  "user_index_ok m \<Longrightarrow>
   dget (sessions m) kid = None \<or>
     map_option ses_username (dget (sessions m) kid) = Some (fst (get_kernel_username gu kw)) \<Longrightarrow>
   user_index_ok (snd (ksm_create_session save gk gu kid kw m))"
  by (auto simp: ksm_create_session_def intro!: save_session_index_ok split: option.splits prod.splits)

lemma refresh_index_ok:
  "user_index_ok m \<Longrightarrow> user_index_ok (snd (ksm_refresh_session save gk kid m))"
  by (auto simp: ksm_refresh_session_def intro!: save_session_index_ok split: option.splits)

lemma delete_index_ok:
  "user_index_ok m \<Longrightarrow> user_index_ok (snd (ksm_delete_sessions del kids m))"
  using user_index_drop [of m kids]
  by (simp add: ksm_delete_sessions_def user_index_ok_iff del_sessions del_index)

lemma reach_index_ok: "ksm_reach save del m0 m \<Longrightarrow> user_index_ok m0 \<Longrightarrow> user_index_ok m"
  by (induction rule: ksm_reach.induct)
    (metis create_index_ok refresh_index_ok delete_index_ok snd_conv)+

lemma reach_active_sessions:
  "ksm_reach save del m0 m \<Longrightarrow> user_index_ok m0 \<Longrightarrow>
   active_sessions m u = card {kid. \<exists>s. dget (sessions m) kid = Some s \<and> ses_username s = u}"
  by (rule active_sessions_card) (rule reach_index_ok)

end

section \<open>Keys survive the store\<close>

text \<open>A session whose key, if it has one, is the UTF-8 text in bytes the launcher gave it.\<close>

definition key_is_bytes :: "session \<Rightarrow> bool" where
  "key_is_bytes s \<longleftrightarrow>
     (case dget (ses_connection_info s) ''key'' of
        Some (PBytes b) \<Rightarrow> utf8_decode b \<noteq> None
      | Some key \<Rightarrow> \<not> truthy key
      | None \<Rightarrow> True)"

lemma utf8_decode_Nil_iff: "utf8_decode b = Some [] \<longleftrightarrow> b = []"
  by (metis utf8_encode.simps(1) utf8_encode_decode utf8_decode.simps(1))

lemma map_key_roundtrip:
  assumes "key_is_bytes s"
  obtains s' where "map_key decode_utf8 s = Inr s'" "map_key encode_utf8 s' = Inr s"
proof (cases "dget (ses_connection_info s) ''key''")
  case None
  then show ?thesis using that by (simp add: map_key_def)
next
  case (Some key)
  show ?thesis
  proof (cases "truthy key")
    case False
    then show ?thesis using that Some by (simp add: map_key_def)
  next
    case True
    with assms Some obtain b t where key: "key = PBytes b" and t: "utf8_decode b = Some t"
      by (cases key) (auto simp: key_is_bytes_def)
    with True have "t \<noteq> []" using utf8_decode_Nil_iff by auto
    then show ?thesis
      using that Some True key t
      by (simp add: map_key_def utf8_encode_decode [OF t] dset_same)
  qed
qed

lemma decoded_key_is_bytes:
  assumes "map_key decode_utf8 s = Inr s'"
  shows "key_is_bytes s"
proof (rule ccontr)
  assume "\<not> key_is_bytes s"
  then obtain key where "dget (ses_connection_info s) ''key'' = Some key" "truthy key" "\<nexists>t. decode_utf8 key = Inr t"
    by (auto simp: key_is_bytes_def of_option_def split: option.splits pyval.splits)
      (metis option.distinct(1) utf8_decode.simps(1))
  then show False using assms by (auto simp: map_key_def rbind_Inr_iff)
qed

text \<open>What the store holds of a session that could be saved gives the session back.\<close>

lemma decoded_key_reloads:
  assumes "map_key decode_utf8 s = Inr s'"
  shows "map_key encode_utf8 s' = Inr s"
  using map_key_roundtrip [OF decoded_key_is_bytes [OF assms]] assms by auto

lemma map_key_frame:
  "map_key f s = Inr s' \<Longrightarrow>
   ses_username s' = ses_username s \<and> ses_kernel_id s' = ses_kernel_id s \<and>
   ses_kernel_name s' = ses_kernel_name s \<and> ses_launch_args s' = ses_launch_args s \<and>
   ses_process_info s' = ses_process_info s"
  by (auto simp: map_key_def rbind_Inr_iff split: option.splits if_splits)

end
