(* ===== verification/SessionStores.thy ===== *)
theory SessionStores
  imports KernelSessions
begin

text \<open>
  The two persistence managers of services/sessions/kernelsessionmanager.py: one JSON file
  per kernel (\<open>FileKernelSessionManager\<close>) and a webhook service
  (\<open>WebhookKernelSessionManager\<close>), the contract they share, and what a restart of the
  gateway reads back.
\<close>

section \<open>The file manager\<close>

text \<open>
  A file of the sessions directory holds a JSON object of sessions or something the loader
  cannot use: \<open>open(.., 'w')\<close> truncates the file before anything is written to it.
\<close>

datatype stored = Stored "(string, session) dict" | Unreadable

record file_ksm = ksm +
  ksm_files :: "(string, stored) dict"

definition json_name :: "string \<Rightarrow> string" where
  "json_name kernel_id = kernel_id @ ''.json''"

definition file_save_session :: "string \<Rightarrow> file_ksm \<Rightarrow> unit res \<times> file_ksm" where
  "file_save_session kernel_id m =
     (if enable_persistence m
      then (case dget (sessions m) kernel_id of
              None \<Rightarrow> (Inl KeyError, m)
            | Some s \<Rightarrow>
                let m1 = m\<lparr>ksm_files := dset (json_name kernel_id) Unreadable (ksm_files m)\<rparr> in
                (case pre_save_transformation [(kernel_id, s)] of
                   Inl e \<Rightarrow> (Inl e, m1)
                 | Inr temp \<Rightarrow>
                     let s' = (case temp of [] \<Rightarrow> s | p # _ \<Rightarrow> snd p);
                         m2 = m1\<lparr>sessions := dset kernel_id s' (sessions m)\<rparr> in
                     if session_json_ok s'
                     then (Inr (), m2\<lparr>ksm_files := dset (json_name kernel_id) (Stored temp) (ksm_files m)\<rparr>)
                     else (Inl TypeError, m2)))
      else (Inr (), m))"

fun remove_files :: "string list \<Rightarrow> (string, stored) dict \<Rightarrow> (string, stored) dict" where
  "remove_files [] fs = fs"
| "remove_files (kernel_id # ks) fs =
     remove_files ks (if dhas fs (json_name kernel_id) then ddel (json_name kernel_id) fs else fs)"

definition file_delete_sessions :: "string list \<Rightarrow> file_ksm \<Rightarrow> unit res \<times> file_ksm" where
  "file_delete_sessions kernel_ids m =
     (if enable_persistence m then (Inr (), m\<lparr>ksm_files := remove_files kernel_ids (ksm_files m)\<rparr>)
      else (Inr (), m))"

text \<open>Every exception of the loader is caught and logged, so an unusable file is skipped.\<close>

definition load_session_from_file :: "string \<Rightarrow> file_ksm \<Rightarrow> file_ksm" where
  "load_session_from_file file_name m =
     (case dget (ksm_files m) file_name of
        Some (Stored d) \<Rightarrow>
          (case post_load_transformation d of
             Inl _ \<Rightarrow> m
           | Inr d' \<Rightarrow> m\<lparr>sessions := dupdate (sessions m) d'\<rparr>)
      | _ \<Rightarrow> m)"

definition file_load_sessions :: "file_ksm \<Rightarrow> unit res \<times> file_ksm" where
  "file_load_sessions m =
     (if enable_persistence m
      then (Inr (), foldl (\<lambda>m f. load_session_from_file f m) m
              [f \<leftarrow> dkeys (ksm_files m). endswith f ''.json''])
      else (Inr (), m))"

definition file_load_session :: "string \<Rightarrow> file_ksm \<Rightarrow> unit res \<times> file_ksm" where
  "file_load_session kernel_id m =
     (if enable_persistence m then (Inr (), load_session_from_file (json_name kernel_id) m)
      else (Inr (), m))"

section \<open>The webhook manager\<close>

text \<open>
  The service behind the webhook URL is not part of the repository: its four endpoints are a
  record of functions on its state \<open>'w\<close>.  A \<open>GET\<close> answers a status and, unless the body is
  not JSON, the sessions; an entry without a \<open>kernel_session\<close> member is \<open>None\<close>.
\<close>

record 'w webhook =
  wh_post :: "string \<Rightarrow> (string, session) dict \<Rightarrow> 'w \<Rightarrow> nat \<times> 'w"
  wh_delete :: "string list \<Rightarrow> 'w \<Rightarrow> nat \<times> 'w"
  wh_get_all :: "'w \<Rightarrow> nat \<times> (string, session) dict option list option"
  wh_get :: "string \<Rightarrow> 'w \<Rightarrow> nat \<times> (string, session) dict option option"

datatype wh_auth = NoAuth | BasicAuth string string | DigestAuth string string

text \<open>
  \<open>self.auth\<close> is an attribute the constructor sets only when persistence is enabled by then;
  every request reads it first.
\<close>

record 'w wh_ksm = ksm +
  wh_auth_attr :: "wh_auth option"
  wh_world :: 'w

definition wh_auth_of :: "string option \<Rightarrow> string option \<Rightarrow> string option \<Rightarrow> wh_auth" where
  "wh_auth_of auth_type username password =
     (case auth_type of
        None \<Rightarrow> NoAuth
      | Some t \<Rightarrow>
          (case (username, password) of
             (Some u, Some p) \<Rightarrow>
               if t \<noteq> [] \<and> u \<noteq> [] \<and> p \<noteq> []
               then if t = ''basic'' then BasicAuth u p
                    else if t = ''digest'' then DigestAuth u p else NoAuth
               else NoAuth
           | _ \<Rightarrow> NoAuth))"

definition wh_init ::
  "bool \<Rightarrow> string option \<Rightarrow> string option \<Rightarrow> string option \<Rightarrow> 'w \<Rightarrow> 'w wh_ksm" where
  "wh_init persistence auth_type username password w =
     ksm.extend (ksm_init persistence)
       \<lparr>wh_auth_attr = (if persistence then Some (wh_auth_of auth_type username password) else None),
        wh_world = w\<rparr>"

text \<open>\<open>raise_for_status\<close> raises for client and server errors only.\<close>

definition raise_for_status :: "nat \<Rightarrow> unit res" where
  "raise_for_status st = (if 400 \<le> st \<and> st < 600 then Inl OtherError else Inr ())"

definition check_no_content :: "nat \<Rightarrow> unit res" where
  "check_no_content st = (if st \<noteq> 204 then raise_for_status st else Inr ())"

definition wh_save_session :: "'w webhook \<Rightarrow> string \<Rightarrow> 'w wh_ksm \<Rightarrow> unit res \<times> 'w wh_ksm" where
  "wh_save_session h kernel_id m =
     (if enable_persistence m
      then (case dget (sessions m) kernel_id of
              None \<Rightarrow> (Inl KeyError, m)
            | Some s \<Rightarrow>
                (case pre_save_transformation [(kernel_id, s)] of
                   Inl e \<Rightarrow> (Inl e, m)
                 | Inr body \<Rightarrow>
                     let s' = (case body of [] \<Rightarrow> s | p # _ \<Rightarrow> snd p);
                         m1 = m\<lparr>sessions := dset kernel_id s' (sessions m)\<rparr> in
                     if wh_auth_attr m = None then (Inl AttributeError, m1)
                     else if session_json_ok s'
                     then (case wh_post h kernel_id body (wh_world m) of
                             (st, w') \<Rightarrow> (check_no_content st, m1\<lparr>wh_world := w'\<rparr>))
                     else (Inl OtherError, m1)))
      else (Inr (), m))"

definition wh_delete_sessions :: "'w webhook \<Rightarrow> string list \<Rightarrow> 'w wh_ksm \<Rightarrow> unit res \<times> 'w wh_ksm" where
  "wh_delete_sessions h kernel_ids m =
     (if enable_persistence m \<and> wh_auth_attr m = None then (Inl AttributeError, m)
      else if enable_persistence m
      then (case wh_delete h kernel_ids (wh_world m) of
              (st, w') \<Rightarrow> (check_no_content st, m\<lparr>wh_world := w'\<rparr>))
      else (Inr (), m))"

definition load_session_from_response ::
  "(string, session) dict option \<Rightarrow> 'w wh_ksm \<Rightarrow> unit res \<times> 'w wh_ksm" where
  "load_session_from_response entry m =
     (case entry of
        None \<Rightarrow> (Inl KeyError, m)
      | Some d \<Rightarrow>
          (case post_load_transformation d of
             Inl e \<Rightarrow> (Inl e, m)
           | Inr d' \<Rightarrow> (Inr (), m\<lparr>sessions := dupdate (sessions m) d'\<rparr>)))"

fun load_responses ::
  "(string, session) dict option list \<Rightarrow> 'w wh_ksm \<Rightarrow> unit res \<times> 'w wh_ksm" where
  "load_responses [] m = (Inr (), m)"
| "load_responses (e # es) m =
     bindE (load_session_from_response e m) (\<lambda>_ m'. load_responses es m')"

definition wh_load_sessions :: "'w webhook \<Rightarrow> 'w wh_ksm \<Rightarrow> unit res \<times> 'w wh_ksm" where
  "wh_load_sessions h m =
     (if enable_persistence m \<and> wh_auth_attr m = None then (Inl AttributeError, m)
      else if enable_persistence m
      then (case wh_get_all h (wh_world m) of
              (st, body) \<Rightarrow>
                if st = 200
                then (case body of None \<Rightarrow> (Inl ValueError, m) | Some es \<Rightarrow> load_responses es m)
                else (raise_for_status st, m))
      else (Inr (), m))"

definition wh_load_session :: "'w webhook \<Rightarrow> string \<Rightarrow> 'w wh_ksm \<Rightarrow> unit res \<times> 'w wh_ksm" where
  "wh_load_session h kernel_id m =
     (if enable_persistence m \<and> wh_auth_attr m = None then (Inl AttributeError, m)
      else if enable_persistence m
      then (case wh_get h kernel_id (wh_world m) of
              (st, body) \<Rightarrow>
                if st = 200
                then (case body of None \<Rightarrow> (Inl ValueError, m)
                      | Some e \<Rightarrow> load_session_from_response e m)
                else (raise_for_status st, m))
      else (Inr (), m))"

section \<open>Both managers keep the base class's contract\<close>

lemma map_fst_dset_present: "dget d k = Some v \<Longrightarrow> map fst (dset k w d) = map fst d"
  by (induction d) auto

lemma pre_save_singleton:
  "pre_save_transformation [(kid, s)] = Inr temp \<Longrightarrow>
   \<exists>s'. temp = [(kid, s')] \<and> map_key decode_utf8 s = Inr s' \<and> ses_username s' = ses_username s"
  by (auto simp: rbind_Inr_iff dest: map_key_frame)

lemma file_save_simps:
  "sessions_by_user (snd (file_save_session kid m)) = sessions_by_user m"
  "enable_persistence (snd (file_save_session kid m)) = enable_persistence m"
  "map fst (sessions (snd (file_save_session kid m))) = map fst (sessions m)"
  "map_option ses_username (dget (sessions (snd (file_save_session kid m))) k) =
   map_option ses_username (dget (sessions m) k)"
  by (auto simp: file_save_session_def Let_def map_fst_dset_present
      dest!: pre_save_singleton split: option.splits sum.splits simp del: pre_save_transformation.simps)

lemma wh_save_simps:
  "sessions_by_user (snd (wh_save_session h kid m)) = sessions_by_user m"
  "enable_persistence (snd (wh_save_session h kid m)) = enable_persistence m"
  "map fst (sessions (snd (wh_save_session h kid m))) = map fst (sessions m)"
  "map_option ses_username (dget (sessions (snd (wh_save_session h kid m))) k) =
   map_option ses_username (dget (sessions m) k)"
  by (auto simp: wh_save_session_def Let_def map_fst_dset_present
      dest!: pre_save_singleton split: option.splits sum.splits prod.splits
      simp del: pre_save_transformation.simps)

interpretation file_store: session_store file_save_session file_delete_sessions
  by unfold_locales (simp_all add: file_save_simps file_delete_sessions_def)

interpretation webhook_store: session_store "wh_save_session h" "wh_delete_sessions h" for h
  by unfold_locales (simp_all add: wh_save_simps wh_delete_sessions_def split: prod.splits)

section \<open>A store that mirrors the memory\<close>

text \<open>
  The extended contract: what a reader of the store finds under a kernel id after a
  successful save or delete.
\<close>

definition store_mirrors :: "('a ksm_scheme \<Rightarrow> string \<Rightarrow> session option) \<Rightarrow> 'a ksm_scheme \<Rightarrow> bool" where
  "store_mirrors persisted m \<longleftrightarrow>
     enable_persistence m \<and> (\<forall>kid. persisted m kid = dget (sessions m) kid)"

locale session_mirror = session_store save del
  for save :: "string \<Rightarrow> 'a ksm_scheme \<Rightarrow> unit res \<times> 'a ksm_scheme"
  and del :: "string list \<Rightarrow> 'a ksm_scheme \<Rightarrow> unit res \<times> 'a ksm_scheme" +
  fixes persisted :: "'a ksm_scheme \<Rightarrow> string \<Rightarrow> session option"
  assumes save_persists: "enable_persistence m \<Longrightarrow> save kid m = (Inr (), m') \<Longrightarrow>
      persisted m' k = (if k = kid then dget (sessions m') kid else persisted m k)"
    and save_other: "k \<noteq> kid \<Longrightarrow> dget (sessions (snd (save kid m))) k = dget (sessions m) k"
    and del_persists: "enable_persistence m \<Longrightarrow> del kids m = (Inr (), m') \<Longrightarrow>
      persisted m' k = (if k \<in> set kids then None else persisted m k)"
    and persisted_sessions: "persisted (m\<lparr>sessions := x\<rparr>) = persisted m"
    and persisted_index: "persisted (m\<lparr>sessions_by_user := y\<rparr>) = persisted m"
begin

lemma save_session_mirrors:
  assumes "store_mirrors persisted m" "ksm_save_session save kid s m = (Inr (), m')"
  shows "store_mirrors persisted m'"
proof -
  let ?m = "m\<lparr>sessions := dset kid s (sessions m),
    sessions_by_user := index_session (ses_username s) kid (sessions_by_user m)\<rparr>"
  have sv: "save kid ?m = (Inr (), m')" using assms(2) by (simp add: ksm_save_session_def)
  have en: "enable_persistence ?m" using assms(1) by (simp add: store_mirrors_def)
  have "persisted ?m = persisted m" by (simp add: persisted_sessions persisted_index)
  then show ?thesis
    using assms(1) save_persists [OF en sv] save_other [of _ kid ?m] save_enabled [of kid ?m] sv
    by (auto simp: store_mirrors_def)
qed

lemma create_mirrors:
  "store_mirrors persisted m \<Longrightarrow> ksm_create_session save gk gu kid kw m = (Inr (), m') \<Longrightarrow> store_mirrors persisted m'"
  by (auto simp: ksm_create_session_def intro: save_session_mirrors split: option.splits prod.splits)

lemma refresh_mirrors:
  "store_mirrors persisted m \<Longrightarrow> ksm_refresh_session save gk kid m = (Inr (), m') \<Longrightarrow> store_mirrors persisted m'"
  by (auto simp: ksm_refresh_session_def intro: save_session_mirrors split: option.splits)

lemma persisted_drop: "persisted (drop_sessions kids m) = persisted m"
  by (induction kids m rule: drop_sessions.induct)
    (auto simp: persisted_sessions persisted_index split: option.splits)

lemma delete_mirrors:
  "store_mirrors persisted m \<Longrightarrow> ksm_delete_sessions del kids m = (Inr (), m') \<Longrightarrow> store_mirrors persisted m'"
  using del_persists [of "drop_sessions kids m" kids m'] del_sessions [of kids "drop_sessions kids m"]
    del_enabled [of kids "drop_sessions kids m"]
  by (simp add: ksm_delete_sessions_def store_mirrors_def persisted_drop)

end

text \<open>The histories in which every operation returned.\<close>

inductive ksm_commits ::
  "(string \<Rightarrow> 'a ksm_scheme \<Rightarrow> unit res \<times> 'a ksm_scheme) \<Rightarrow>
   (string list \<Rightarrow> 'a ksm_scheme \<Rightarrow> unit res \<times> 'a ksm_scheme) \<Rightarrow>
   'a ksm_scheme \<Rightarrow> 'a ksm_scheme \<Rightarrow> bool"
  for save :: "string \<Rightarrow> 'a ksm_scheme \<Rightarrow> unit res \<times> 'a ksm_scheme"
  and del :: "string list \<Rightarrow> 'a ksm_scheme \<Rightarrow> unit res \<times> 'a ksm_scheme"
  and m0 :: "'a ksm_scheme" where
  commits_start: "ksm_commits save del m0 m0"
| commits_create: "ksm_commits save del m0 m \<Longrightarrow>
    ksm_create_session save gk gu kid kw m = (Inr (), m') \<Longrightarrow> ksm_commits save del m0 m'"
| commits_refresh: "ksm_commits save del m0 m \<Longrightarrow>
    ksm_refresh_session save gk kid m = (Inr (), m') \<Longrightarrow> ksm_commits save del m0 m'"
| commits_delete: "ksm_commits save del m0 m \<Longrightarrow>
    ksm_delete_sessions del kids m = (Inr (), m') \<Longrightarrow> ksm_commits save del m0 m'"

context session_mirror
begin

lemma commits_mirror: "ksm_commits save del m0 m \<Longrightarrow> store_mirrors persisted m0 \<Longrightarrow> store_mirrors persisted m"
  by (induction rule: ksm_commits.induct)
    (blast intro: create_mirrors refresh_mirrors delete_mirrors)+

end

section \<open>What a restarted file manager reads back\<close>

definition file_persisted :: "file_ksm \<Rightarrow> string \<Rightarrow> session option" where
  "file_persisted m kernel_id =
     (case dget (ksm_files m) (json_name kernel_id) of
        Some (Stored [(k, s)]) \<Rightarrow> if k = kernel_id then Some s else None
      | _ \<Rightarrow> None)"

text \<open>Every \<open>.json\<close> file of the directory holds the session its name announces.\<close>

definition file_store_clean :: "file_ksm \<Rightarrow> bool" where
  "file_store_clean m \<longleftrightarrow> dict_ok (ksm_files m) \<and>
     (\<forall>kid f. dget (ksm_files m) (json_name kid) = Some f \<longrightarrow> (\<exists>s. f = Stored [(kid, s)]))"

definition restarted :: "file_ksm \<Rightarrow> file_ksm" where
  "restarted m = m\<lparr>sessions := [], sessions_by_user := []\<rparr>"

definition reload_key :: "session \<Rightarrow> session option" where
  "reload_key s = (case map_key encode_utf8 s of Inl _ \<Rightarrow> None | Inr s' \<Rightarrow> Some s')"

lemma json_name_inject [simp]: "json_name k = json_name k' \<longleftrightarrow> k = k'"
  by (simp add: json_name_def)

lemma endswith_json: "endswith f ''.json'' \<longleftrightarrow> (\<exists>kid. f = json_name kid)"
proof
  assume "endswith f ''.json''"
  then have "drop (length f - length ''.json'') f = ''.json''"
    unfolding endswith_def by (rule conjunct2)
  then have "f = take (length f - length ''.json'') f @ ''.json''"
    by (metis append_take_drop_id)
  then show "\<exists>kid. f = json_name kid" unfolding json_name_def by blast
qed (auto simp: endswith_def json_name_def)

lemma dget_remove_files:
  "dget (remove_files kids fs) f = (if f \<in> json_name ` set kids then None else dget fs f)"
  by (induction kids fs rule: remove_files.induct) (auto simp: dhas_iff)

lemma dict_ok_remove_files [simp]: "dict_ok fs \<Longrightarrow> dict_ok (remove_files kids fs)"
  by (induction kids fs rule: remove_files.induct) auto

lemma file_save_ok:
  assumes "enable_persistence m" "file_save_session kid m = (Inr (), m')"
  obtains s s' where "dget (sessions m) kid = Some s" "map_key decode_utf8 s = Inr s'"
    "session_json_ok s'"
    "m' = m\<lparr>sessions := dset kid s' (sessions m),
            ksm_files := dset (json_name kid) (Stored [(kid, s')]) (ksm_files m)\<rparr>"
  using assms
  by (auto simp: file_save_session_def Let_def dest!: pre_save_singleton
      split: option.splits sum.splits if_splits simp del: pre_save_transformation.simps)

lemma file_save_other:
  "k \<noteq> kid \<Longrightarrow> dget (sessions (snd (file_save_session kid m))) k = dget (sessions m) k"
  by (auto simp: file_save_session_def Let_def split: option.splits sum.splits)

interpretation file_mirror: session_mirror file_save_session file_delete_sessions file_persisted
proof unfold_locales
  show "file_persisted m' k = (if k = kid then dget (sessions m') kid else file_persisted m k)"
    if "enable_persistence m" "file_save_session kid m = (Inr (), m')" for m kid m' k
    using that by (auto elim!: file_save_ok simp: file_persisted_def)
  show "file_persisted m' k = (if k \<in> set kids then None else file_persisted m k)"
    if "enable_persistence m" "file_delete_sessions kids m = (Inr (), m')" for m kids m' k
    using that by (auto simp: file_delete_sessions_def file_persisted_def dget_remove_files)
qed (simp_all add: file_save_other file_persisted_def fun_eq_iff)

lemma save_session_file_clean:
  "enable_persistence m \<Longrightarrow> file_store_clean m \<Longrightarrow>
   ksm_save_session file_save_session kid s m = (Inr (), m') \<Longrightarrow>
   file_store_clean m' \<and> enable_persistence m'"
  unfolding ksm_save_session_def
  by (erule file_save_ok [rotated]) (auto simp: file_store_clean_def)

lemma commits_file_clean:
  "ksm_commits file_save_session file_delete_sessions m0 m \<Longrightarrow> enable_persistence m0 \<Longrightarrow>
   file_store_clean m0 \<Longrightarrow> file_store_clean m \<and> enable_persistence m"
proof (induction rule: ksm_commits.induct)
  case (commits_delete m kids m')
  moreover have "ksm_files (drop_sessions kids m) = ksm_files m"
    by (induction kids m rule: drop_sessions.induct) (auto split: option.splits)
  ultimately show ?case
    by (auto simp: ksm_delete_sessions_def file_delete_sessions_def file_store_clean_def
        dget_remove_files split: if_splits)
qed (auto simp: ksm_create_session_def ksm_refresh_session_def dest: save_session_file_clean
    split: option.splits prod.splits)

lemma load_from_file_frame [simp]:
  "ksm_files (load_session_from_file f m) = ksm_files m"
  "sessions_by_user (load_session_from_file f m) = sessions_by_user m"
  by (simp_all add: load_session_from_file_def split: option.splits stored.splits sum.splits)

lemma load_from_file_dget:
  assumes "file_store_clean m"
  shows "dget (sessions (load_session_from_file (json_name k) m)) kid =
    (if kid = k then (case Option.bind (file_persisted m k) reload_key of
                        None \<Rightarrow> dget (sessions m) kid | Some s \<Rightarrow> Some s)
     else dget (sessions m) kid)"
proof (cases "dget (ksm_files m) (json_name k)")
  case None
  then show ?thesis by (simp add: load_session_from_file_def file_persisted_def)
next
  case (Some f)
  with assms obtain s where "f = Stored [(k, s)]" by (auto simp: file_store_clean_def)
  with Some show ?thesis
    by (auto simp: load_session_from_file_def file_persisted_def reload_key_def split: sum.splits)
qed

lemma load_files_dget:
  assumes "file_store_clean m"
  shows "dget (sessions (foldl (\<lambda>m f. load_session_from_file f m) m (map json_name ks))) kid =
      (if kid \<in> set ks then (case Option.bind (file_persisted m kid) reload_key of
                              None \<Rightarrow> dget (sessions m) kid | Some s \<Rightarrow> Some s)
       else dget (sessions m) kid) \<and>
    ksm_files (foldl (\<lambda>m f. load_session_from_file f m) m (map json_name ks)) = ksm_files m \<and>
    sessions_by_user (foldl (\<lambda>m f. load_session_from_file f m) m (map json_name ks)) =
      sessions_by_user m"
proof (induction ks rule: rev_induct)
  case (snoc k ks)
  let ?m = "foldl (\<lambda>m f. load_session_from_file f m) m (map json_name ks)"
  have clean: "file_store_clean ?m" using assms snoc by (simp add: file_store_clean_def)
  have "file_persisted ?m = file_persisted m" using snoc by (simp add: fun_eq_iff file_persisted_def)
  then show ?case
    using snoc load_from_file_dget [OF clean, of k kid] by (auto split: option.splits)
qed simp

lemma json_files_names: "\<exists>ks. [f \<leftarrow> fs. endswith f ''.json''] = map json_name ks"
proof (induction fs)
  case (Cons f fs)
  then obtain ks where ks: "[f \<leftarrow> fs. endswith f ''.json''] = map json_name ks" by blast
  show ?case
  proof (cases "endswith f ''.json''")
    case True
    then obtain kid where "f = json_name kid" by (auto simp: endswith_json)
    with True ks show ?thesis by (auto intro: exI [of _ "kid # ks"])
  qed (use ks in auto)
qed simp

lemma file_load_dget:
  assumes "enable_persistence m" "file_store_clean m" "file_load_sessions m = (Inr (), m')"
  shows "dget (sessions m') kid =
      (case Option.bind (file_persisted m kid) reload_key of
         None \<Rightarrow> dget (sessions m) kid | Some s \<Rightarrow> Some s)"
    and "ksm_files m' = ksm_files m" "sessions_by_user m' = sessions_by_user m"
proof -
  obtain ks where ks: "[f \<leftarrow> dkeys (ksm_files m). endswith f ''.json''] = map json_name ks"
    using json_files_names by blast
  have m': "m' = foldl (\<lambda>m f. load_session_from_file f m) m (map json_name ks)"
    using assms by (simp add: file_load_sessions_def ks)
  have "kid \<in> set ks \<longleftrightarrow> json_name kid \<in> set (map json_name ks)"
    by auto
  also have "\<dots> \<longleftrightarrow> dget (ksm_files m) (json_name kid) \<noteq> None"
    unfolding ks [symmetric] by (auto simp: dkeys_def endswith_json map_of_eq_None_iff)
  finally have "kid \<notin> set ks \<Longrightarrow> file_persisted m kid = None"
    by (simp add: file_persisted_def)
  then show "dget (sessions m') kid = (case Option.bind (file_persisted m kid) reload_key of
         None \<Rightarrow> dget (sessions m) kid | Some s \<Rightarrow> Some s)"
    and "ksm_files m' = ksm_files m" "sessions_by_user m' = sessions_by_user m"
    using load_files_dget [OF assms(2), of ks kid] unfolding m' by auto
qed

lemma start_each_removals:
  "start_each (\<lambda>s k. (Inr (alive s), upd s k)) d k = (Inr [p \<leftarrow> map fst d. \<exists>s. (p, s) \<in> set d \<and> \<not> alive s], k')
   \<or> \<not> dict_ok d" if "k' = foldl (\<lambda>k p. upd (snd p) k) k d"
  using that
proof (induction d arbitrary: k)
  case (Cons p d)
  obtain kid s where p: "p = (kid, s)" by (cases p)
  show ?case
  proof (cases "dict_ok (p # d)")
    case True
    then have nd: "dict_ok d" "kid \<notin> fst ` set d" by (auto simp: dict_ok_def p)
    then have "[q \<leftarrow> map fst d. \<exists>t. (q, t) \<in> set (p # d) \<and> \<not> alive t] =
        [q \<leftarrow> map fst d. \<exists>t. (q, t) \<in> set d \<and> \<not> alive t]"
      unfolding p by (intro filter_cong) auto
    moreover have "(\<exists>t. (kid, t) \<in> set (p # d) \<and> \<not> alive t) \<longleftrightarrow> \<not> alive s"
      using nd(2) by (force simp: p)
    ultimately show ?thesis
      using Cons nd(1) by (simp add: p)
  qed simp
qed simp

section \<open>Properties\<close>

definition file_ksm_init :: "(string, stored) dict \<Rightarrow> file_ksm" where
  "file_ksm_init fs =
     \<lparr>enable_persistence = True, sessions = [], sessions_by_user = [], ksm_files = fs\<rparr>"

lemma init_mirrors: "store_mirrors file_persisted (file_ksm_init [])"
  by (simp add: store_mirrors_def file_ksm_init_def file_persisted_def)

lemma init_clean: "file_store_clean (file_ksm_init [])"
  by (simp add: file_store_clean_def file_ksm_init_def)

text \<open>
  C12: With either of the two persistence managers, enabled or not, over any history that starts
  with an empty table and creates, refreshes and deletes sessions, whatever the outcome of the
  writes to disk or of the calls of the webhook service, the number of active sessions the limit
  check reads for a user is the number of sessions of that user in the table.  A session is
  created for an id that is not in the table, or again for the same user; loading sessions at
  startup is not part of such a history (loaded sessions are not counted).
\<close>

theorem active_sessions_counts:
  assumes "sessions m0 = []" "sessions_by_user m0 = []"
    and "ksm_reach file_save_session file_delete_sessions m0 m"
    and "sessions n0 = []" "sessions_by_user n0 = []"
    and "ksm_reach (wh_save_session h) (wh_delete_sessions h) n0 n"
  shows "active_sessions m u = card {kid. \<exists>s. dget (sessions m) kid = Some s \<and> ses_username s = u}
    \<and> active_sessions n u = card {kid. \<exists>s. dget (sessions n) kid = Some s \<and> ses_username s = u}"
  using file_store.reach_active_sessions [OF assms(3) user_index_ok_empty [OF assms(1,2)]]
    webhook_store.reach_active_sessions [OF assms(6) user_index_ok_empty [OF assms(4,5)]] by blast

text \<open>
  Creating a session for the id of another user's session replaces the session but leaves the id
  under the first user as well.
\<close>

lemma replaced_session_counts_twice:
  assumes "user_index_ok m" "dget (sessions m) kid = Some t" "gk kid = Some v"
    and "get_kernel_username gu kw = (u, kw')" "ses_username t \<noteq> u"
    and "ksm_create_session file_save_session gk gu kid kw m = (r, m')"
  shows "kid \<in> set (user_kernels (sessions_by_user m') (ses_username t))
    \<and> kid \<in> set (user_kernels (sessions_by_user m') u)"
proof -
  have "kid \<in> set (user_kernels (sessions_by_user m) (ses_username t))"
    using assms(1,2) by (simp add: user_index_ok_def)
  moreover have "sessions_by_user m' = index_session u kid (sessions_by_user m)"
    using assms(3,4) arg_cong [OF assms(6), of snd]
    by (auto simp: ksm_create_session_def ksm_save_session_def file_save_simps(1))
  ultimately show ?thesis using assms(5) by simp
qed

definition demo_view :: "string \<Rightarrow> kernel_view option" where
  "demo_view kid = Some \<lparr>kv_kernel_name = ''python3'',
     kv_connection_info = [(''key'', PBytes ''abc''), (''shell_port'', PInt 5000)],
     kv_process_info = Some [(''pid'', PInt 7)]\<rparr>"

definition demo_created :: file_ksm where
  "demo_created = snd (ksm_create_session file_save_session demo_view ''root'' ''k1''
     \<lparr>la_env = Some [(''KERNEL_USERNAME'', ''alice'')], la_rest = []\<rparr> (file_ksm_init []))"

lemmas demo_defs = demo_created_def demo_view_def ksm_create_session_def get_kernel_username_def
  ksm_save_session_def index_session_def file_save_session_def file_ksm_init_def map_key_def
  session_json_ok_def json_name_def of_option_def code_def Let_def

lemma demo_created_ok:
  "ksm_create_session file_save_session demo_view ''root'' ''k1''
     \<lparr>la_env = Some [(''KERNEL_USERNAME'', ''alice'')], la_rest = []\<rparr> (file_ksm_init []) =
   (Inr (), demo_created)"
  by (simp add: demo_defs)

definition demo_hook :: "string list webhook" where
  "demo_hook =
     \<lparr>wh_post = \<lambda>k d w. (204, k # w), wh_delete = \<lambda>ks w. (204, [k \<leftarrow> w. k \<notin> set ks]),
      wh_get_all = \<lambda>w. (503, None), wh_get = \<lambda>k w. (503, None)\<rparr>"

definition demo_hooked :: "string list wh_ksm" where
  "demo_hooked = snd (ksm_create_session (wh_save_session demo_hook) demo_view ''root'' ''k1''
     \<lparr>la_env = Some [(''KERNEL_USERNAME'', ''alice'')], la_rest = []\<rparr> (wh_init True None None None []))"

lemma active_sessions_counts_witness:
  "active_sessions demo_created ''alice'' = 1 \<and> active_sessions demo_hooked ''alice'' = 1"
proof -
  have f: "ksm_reach file_save_session file_delete_sessions (file_ksm_init []) demo_created"
    by (rule reach_create [OF reach_start _ demo_created_ok]) (simp add: file_ksm_init_def)
  obtain r where "ksm_create_session (wh_save_session demo_hook) demo_view ''root'' ''k1''
     \<lparr>la_env = Some [(''KERNEL_USERNAME'', ''alice'')], la_rest = []\<rparr> (wh_init True None None None []) = (r, demo_hooked)"
    by (metis demo_hooked_def prod.collapse)
  then have h: "ksm_reach (wh_save_session demo_hook) (wh_delete_sessions demo_hook) (wh_init True None None None []) demo_hooked"
    by (rule reach_create [OF reach_start, rotated]) (simp add: wh_init_def ksm_init_def ksm.defs)
  have "sessions (file_ksm_init []) = []" "sessions_by_user (file_ksm_init []) = []"
    "sessions (wh_init True None None None ([] :: string list)) = []"
    "sessions_by_user (wh_init True None None None ([] :: string list)) = []"
    by (simp_all add: file_ksm_init_def wh_init_def ksm_init_def ksm.defs)
  note c = active_sessions_counts [OF this(1,2) f this(3,4) h, of "''alice''"]
  have "{kid. \<exists>s. dget (sessions demo_created) kid = Some s \<and> ses_username s = ''alice''} = {''k1''}"
    "{kid. \<exists>s. dget (sessions demo_hooked) kid = Some s \<and> ses_username s = ''alice''} = {''k1''}"
    by (auto simp: demo_defs demo_hooked_def demo_hook_def wh_save_session_def wh_init_def wh_auth_of_def ksm_init_def ksm.defs split: if_splits)
  with c show ?thesis by simp
qed

text \<open>
  C13: While every operation returns, the directory is an exact copy of the table: reading
  the file of a kernel gives the session in memory, and kernels without a session have no
  usable file.
\<close>

theorem file_store_is_mirror:
  assumes "ksm_commits file_save_session file_delete_sessions (file_ksm_init []) m"
  shows "file_persisted m kid = dget (sessions m) kid"
  using file_mirror.commits_mirror [OF assms init_mirrors] by (simp add: store_mirrors_def)

lemma demo_commits: "ksm_commits file_save_session file_delete_sessions (file_ksm_init []) demo_created"
  by (rule commits_create [OF commits_start demo_created_ok])

lemma file_store_is_mirror_witness: "file_persisted demo_created ''k1'' = dget (sessions demo_created) ''k1''"
  by (rule file_store_is_mirror [OF demo_commits])

text \<open>Every session in the table of a committed history is one whose key was decoded when it was saved.\<close>

definition keys_decoded :: "file_ksm \<Rightarrow> bool" where
  "keys_decoded m \<longleftrightarrow> (\<forall>kid s. dget (sessions m) kid = Some s \<longrightarrow> (\<exists>t. map_key decode_utf8 t = Inr s))"

lemma save_session_keys_decoded:
  "enable_persistence m \<Longrightarrow> keys_decoded m \<Longrightarrow> ksm_save_session file_save_session kid s m = (Inr (), m') \<Longrightarrow>
   keys_decoded m'"
  unfolding ksm_save_session_def
  by (erule file_save_ok [rotated]) (auto simp: keys_decoded_def split: if_splits)

lemma commits_keys_decoded:
  "ksm_commits file_save_session file_delete_sessions m0 m \<Longrightarrow> enable_persistence m0 \<Longrightarrow> keys_decoded m0 \<Longrightarrow>
   file_store_clean m0 \<Longrightarrow> keys_decoded m"
proof (induction rule: ksm_commits.induct)
  case (commits_create m gk gu kid kw m')
  then have "enable_persistence m" by (blast dest: commits_file_clean)
  with commits_create show ?case
    by (auto simp: ksm_create_session_def intro: save_session_keys_decoded split: option.splits prod.splits)
next
  case (commits_refresh m gk kid m')
  then have "enable_persistence m" by (blast dest: commits_file_clean)
  with commits_refresh show ?case
    by (auto simp: ksm_refresh_session_def intro: save_session_keys_decoded split: option.splits)
next
  case (commits_delete m kids m')
  then have "keys_decoded (drop_sessions kids m)" by (simp add: keys_decoded_def)
  then show ?case using commits_delete(2) by (auto simp: ksm_delete_sessions_def file_delete_sessions_def keys_decoded_def split: if_splits)
qed simp

text \<open>
  C23: A gateway restarted on the directory of such a history loads a session for exactly the
  kernels the previous one had one for: the one session that saving turns into what the previous
  table held, which is that session with its key in bytes again and everything else the same.
  The index by user stays empty, so the loaded sessions do not count towards any user's limit.
\<close>

theorem restart_reads_back:
  assumes "ksm_commits file_save_session file_delete_sessions (file_ksm_init []) m"
    and "file_load_sessions (restarted m) = (Inr (), m')"
  shows "(case dget (sessions m) kid of
       None \<Rightarrow> dget (sessions m') kid = None
     | Some s \<Rightarrow> \<exists>t. dget (sessions m') kid = Some t \<and> map_key decode_utf8 t = Inr s
         \<and> key_is_bytes t \<and> ses_kernel_id t = ses_kernel_id s \<and> ses_username t = ses_username s
         \<and> ses_kernel_name t = ses_kernel_name s \<and> ses_launch_args t = ses_launch_args s
         \<and> ses_process_info t = ses_process_info s)
    \<and> active_sessions m' u = 0"
proof -
  have m: "store_mirrors file_persisted m" by (rule file_mirror.commits_mirror [OF assms(1) init_mirrors])
  have "file_store_clean m" "enable_persistence m"
    using commits_file_clean [OF assms(1) _ init_clean] by (simp_all add: file_ksm_init_def)
  then have r: "enable_persistence (restarted m)" "file_store_clean (restarted m)"
    by (simp_all add: restarted_def file_store_clean_def)
  have "file_persisted (restarted m) kid = dget (sessions m) kid"
    using m by (simp add: store_mirrors_def file_persisted_def restarted_def)
  then have loaded: "dget (sessions m') kid = Option.bind (dget (sessions m) kid) reload_key" "active_sessions m' u = 0"
    using file_load_dget [OF r assms(2)]
    by (simp_all add: restarted_def active_sessions_def split: option.splits)
  have decoded: "keys_decoded m"
    using commits_keys_decoded [OF assms(1) _ _ init_clean] by (simp add: file_ksm_init_def keys_decoded_def)
  show ?thesis
  proof (cases "dget (sessions m) kid")
    case (Some s)
    then obtain t where t: "map_key decode_utf8 t = Inr s" using decoded by (auto simp: keys_decoded_def)
    then have "reload_key s = Some t" by (simp add: reload_key_def decoded_key_reloads)
    with Some loaded t map_key_frame [OF t] decoded_key_is_bytes [OF t] show ?thesis by simp
  qed (use loaded in simp)
qed

lemma restart_reads_back_witness:
  "\<exists>t. dget (sessions (snd (file_load_sessions (restarted demo_created)))) ''k1'' = Some t \<and> ses_username t = ''alice''"
proof -
  have "file_load_sessions (restarted demo_created) =
      (Inr (), snd (file_load_sessions (restarted demo_created)))"
    by (simp add: file_load_sessions_def)
  from restart_reads_back [OF demo_commits this, of "''k1''" "[]"] show ?thesis
    by (auto simp: demo_defs)
qed

text \<open>
  Saving a session whose key is text in bytes and loading it in another gateway gives
  the session back as it was before the save, key included.
\<close>

lemma save_load_roundtrip:
  assumes "enable_persistence m" "key_is_bytes s"
    and "ksm_save_session file_save_session kid s m = (Inr (), m')"
  shows "dget (sessions (snd (file_load_session kid (restarted m')))) kid = Some s"
proof -
  obtain s' where s': "map_key decode_utf8 s = Inr s'" "map_key encode_utf8 s' = Inr s"
    using map_key_roundtrip [OF assms(2)] by blast
  from assms(3) s'(1) have "dget (ksm_files m') (json_name kid) = Some (Stored [(kid, s')])"
    "enable_persistence m'"
    using assms(1) by (auto simp: ksm_save_session_def elim!: file_save_ok [rotated])
  with s'(2) show ?thesis
    by (simp add: file_load_session_def restarted_def load_session_from_file_def)
qed

definition demo_session :: session where
  "demo_session = \<lparr>ses_kernel_id = ''k2'', ses_username = ''bob'', ses_kernel_name = ''r'',
     ses_connection_info = [(''key'', PBytes ''k'')], ses_launch_args = \<lparr>la_env = None, la_rest = []\<rparr>,
     ses_process_info = []\<rparr>"

lemma save_load_roundtrip_witness:
  "dget (sessions (snd (file_load_session ''k2'' (restarted
     (snd (ksm_save_session file_save_session ''k2'' demo_session (file_ksm_init []))))))) ''k2''
   = Some demo_session"
  by (rule save_load_roundtrip [of "file_ksm_init []"])
    (simp_all add: demo_defs demo_session_def key_is_bytes_def)

lemma load_files_dict_ok:
  "dict_ok (sessions m) \<Longrightarrow> dict_ok (sessions (foldl (\<lambda>m f. load_session_from_file f m) m fs))"
proof (induction fs arbitrary: m)
  case (Cons f fs)
  have "dict_ok (sessions (load_session_from_file f m))"
    using Cons.prems by (auto simp: load_session_from_file_def split: option.splits stored.splits sum.splits)
  then show ?case using Cons.IH by simp
qed simp

lemma start_each_removed:
  assumes "dict_ok d" "start_each (\<lambda>s k. (Inr (alive s), upd s k)) d k = (r, k')"
  obtains rs where "r = Inr rs" "\<And>kid. kid \<in> set rs \<longleftrightarrow> (\<exists>s. dget d kid = Some s \<and> \<not> alive s)"
proof -
  let ?rs = "[p \<leftarrow> map fst d. \<exists>s. (p, s) \<in> set d \<and> \<not> alive s]"
  have "start_each (\<lambda>s k. (Inr (alive s), upd s k)) d k = (Inr ?rs, foldl (\<lambda>k p. upd (snd p) k) k d)"
    using start_each_removals [OF refl, of alive upd d k] assms(1) by blast
  then have "r = Inr ?rs" using assms(2) by simp
  moreover have "kid \<in> set ?rs \<longleftrightarrow> (\<exists>s. dget d kid = Some s \<and> \<not> alive s)" for kid
    using assms(1) by (force simp: dict_ok_def)
  ultimately show ?thesis using that by blast
qed

text \<open>
  After the startup pass of a manager whose directory is clean, the table holds exactly
  the stored sessions whose kernels could be revived, and the files of the others are gone.
\<close>

lemma start_sessions_keeps_revived:
  assumes "enable_persistence m" "file_store_clean m" "sessions m = []"
    and "ksm_start_sessions file_load_sessions file_delete_sessions
      (\<lambda>s k. (Inr (alive s), upd s k)) m k = (r, m', k')"
  shows "r = Inr () \<and>
    (case Option.bind (file_persisted m kid) reload_key of
       None \<Rightarrow> dget (sessions m') kid = None \<and> file_persisted m' kid = file_persisted m kid
     | Some s \<Rightarrow>
         dget (sessions m') kid = (if alive s then Some s else None) \<and>
         file_persisted m' kid = (if alive s then file_persisted m kid else None))"
proof -
  obtain m1 where ld: "file_load_sessions m = (Inr (), m1)"
    using assms(1) by (simp add: file_load_sessions_def)
  note l = file_load_dget [OF assms(1,2) ld]
  have d1: "dict_ok (sessions m1)" and en: "enable_persistence m1"
  proof -
    show "dict_ok (sessions m1)"
      using load_files_dict_ok [of m] ld assms(1,3) by (auto simp: file_load_sessions_def)
    have "enable_persistence (foldl (\<lambda>m f. load_session_from_file f m) m fs) = enable_persistence m" for fs m
      by (induction fs arbitrary: m) (auto simp: load_session_from_file_def
          split: option.splits stored.splits sum.splits)
    then show "enable_persistence m1"
      using ld assms(1) by (auto simp: file_load_sessions_def)
  qed
  obtain r1 k1 where se: "start_each (\<lambda>s k. (Inr (alive s), upd s k)) (sessions m1) k = (r1, k1)"
    by fastforce
  obtain rs where rs: "r1 = Inr rs" "\<And>kid. kid \<in> set rs \<longleftrightarrow> (\<exists>s. dget (sessions m1) kid = Some s \<and> \<not> alive s)"
    by (rule start_each_removed [OF d1 se]) blast
  have out: "ksm_delete_sessions file_delete_sessions rs m1 = (r, m')"
    using assms(1,4) ld se rs(1) by (auto simp: ksm_start_sessions_def split: prod.splits)
  then have r: "r = Inr ()" and sm: "dget (sessions m') kid = (if kid \<in> set rs then None else dget (sessions m1) kid)"
    using en by (auto simp: ksm_delete_sessions_def file_delete_sessions_def)
  have fp: "file_persisted m' kid = (if kid \<in> set rs then None else file_persisted m1 kid)"
    using file_mirror.del_persists [of "drop_sessions rs m1" rs m' kid] out en r
    by (simp add: ksm_delete_sessions_def file_mirror.persisted_drop)
  have "file_persisted m1 kid = file_persisted m kid" using l(2) by (simp add: file_persisted_def)
  then show ?thesis
    using r sm fp rs(2) [of kid] l(1) [of kid] assms(3) by (auto split: option.splits)
qed

lemma start_sessions_keeps_revived_witness:
  "fst (ksm_start_sessions file_load_sessions file_delete_sessions
     (\<lambda>s k. (Inr (ses_username s = ''bob''), k)) (restarted demo_created) ()) = Inr ()"
proof -
  obtain r m' k' where "ksm_start_sessions file_load_sessions file_delete_sessions
     (\<lambda>s k. (Inr (ses_username s = ''bob''), k)) (restarted demo_created) () = (r, m', k')"
    by (metis prod_cases3)
  moreover from this have "r = Inr ()"
    using start_sessions_keeps_revived [of "restarted demo_created" "\<lambda>s. ses_username s = ''bob''"
        "\<lambda>s k. k" "()" r m' k'] commits_file_clean [OF demo_commits _ init_clean]
    by (simp add: restarted_def file_store_clean_def file_ksm_init_def)
  ultimately show ?thesis by simp
qed

end
