(* ===== verification/KernelLimits.thy ===== *)
theory KernelLimits
  imports SessionStores
begin

text \<open>
  Admission control of \<open>RemoteMappingKernelManager.start_kernel\<close> (services/kernels/
  remotemanager.py): the count of pending requests, the two limits, and the interleaving of
  start requests.  A request runs undisturbed up to its first suspension (the limits are
  checked and the request is counted), the base class registers the kernel while the
  request is suspended, and the rest of the coroutine runs undisturbed again.
\<close>

section \<open>Pending requests\<close>

record pending =
  pending_requests_all :: int
  pending_requests_user :: "(string, int) dict"

definition increment :: "string \<Rightarrow> pending \<Rightarrow> pending" where
  "increment username p =
     p\<lparr>pending_requests_all := pending_requests_all p + 1,
       pending_requests_user :=
         dset username (dget_or (pending_requests_user p) username 0 + 1) (pending_requests_user p)\<rparr>"

text \<open>The total goes down before the per-user value is looked up, so it does on the error path.\<close>

definition decrement :: "string \<Rightarrow> pending \<Rightarrow> unit res \<times> pending" where
  "decrement username p =
     (let p1 = p\<lparr>pending_requests_all := pending_requests_all p - 1\<rparr> in
      case dget (pending_requests_user p1) username of
        None \<Rightarrow> (Inl TypeError, p1)
      | Some n \<Rightarrow>
          (Inr (), p1\<lparr>pending_requests_user := dset username (n - 1) (pending_requests_user p1)\<rparr>))"

definition get_counts :: "string \<Rightarrow> pending \<Rightarrow> int \<times> int" where
  "get_counts username p = (pending_requests_all p, dget_or (pending_requests_user p) username 0)"

section \<open>The limits\<close>

record limits =
  max_kernels :: "int option"
  max_kernels_per_user :: int

text \<open>A start request between its admission and its end; \<open>rq_kernel\<close> is the id of the kernel
  once the base class has registered it.\<close>

record request =
  rq_user :: string
  rq_kwargs :: launch_args
  rq_kernel :: "string option"

record gateway =
  gw_kernels :: "string list"
  gw_pending :: pending
  gw_sessions :: file_ksm
  gw_inflight :: "request list"

definition enforce_kernel_limits :: "limits \<Rightarrow> string \<Rightarrow> gateway \<Rightarrow> unit res" where
  "enforce_kernel_limits cfg username g =
     (if max_kernels cfg \<noteq> None \<or> max_kernels_per_user cfg \<ge> 0
      then let (pending_all, pending_user) = get_counts username (gw_pending g) in
        if (case max_kernels cfg of
              None \<Rightarrow> False
            | Some mk \<Rightarrow> int (length (gw_kernels g)) + pending_all \<ge> mk)
        then Inl (HTTPError 403)
        else if max_kernels_per_user cfg \<ge> 0 \<and>
          int (active_sessions (gw_sessions g) username) + pending_user \<ge> max_kernels_per_user cfg
        then Inl (HTTPError 403)
        else Inr ()
      else Inr ())"

definition start_kernel_begin :: "limits \<Rightarrow> string \<Rightarrow> launch_args \<Rightarrow> gateway \<Rightarrow> unit res \<times> gateway" where
  "start_kernel_begin cfg getuser kw g =
     (let (username, kw') = get_kernel_username getuser kw in
      case enforce_kernel_limits cfg username g of
        Inl e \<Rightarrow> (Inl e, g)
      | Inr _ \<Rightarrow>
          (Inr (), g\<lparr>gw_pending := increment username (gw_pending g),
                     gw_inflight := gw_inflight g @
                       [\<lparr>rq_user = username, rq_kwargs = kw', rq_kernel = None\<rparr>]\<rparr>))"

definition register_kernel :: "nat \<Rightarrow> string \<Rightarrow> gateway \<Rightarrow> gateway" where
  "register_kernel i kernel_id g =
     g\<lparr>gw_kernels := gw_kernels g @ [kernel_id],
       gw_inflight := (gw_inflight g)[i := (gw_inflight g ! i)\<lparr>rq_kernel := Some kernel_id\<rparr>]\<rparr>"

definition drop_nth :: "nat \<Rightarrow> 'a list \<Rightarrow> 'a list" where
  "drop_nth i xs = take i xs @ drop (Suc i) xs"

text \<open>The \<open>finally\<close> clause runs on success and on failure; the session is only created on success.\<close>

definition start_kernel_end ::
  "(string \<Rightarrow> kernel_view option) \<Rightarrow> string \<Rightarrow> nat \<Rightarrow> string \<Rightarrow> gateway \<Rightarrow> string res \<times> gateway" where
  "start_kernel_end get_kernel getuser i kernel_id g =
     (let r = gw_inflight g ! i;
          (d, p) = decrement (rq_user r) (gw_pending g);
          g1 = g\<lparr>gw_pending := p, gw_inflight := drop_nth i (gw_inflight g)\<rparr> in
      case d of
        Inl e \<Rightarrow> (Inl e, g1)
      | Inr _ \<Rightarrow>
          (case ksm_create_session file_save_session get_kernel getuser kernel_id (rq_kwargs r)
                  (gw_sessions g1) of
             (Inl e, m) \<Rightarrow> (Inl e, g1\<lparr>gw_sessions := m\<rparr>)
           | (Inr _, m) \<Rightarrow> (Inr kernel_id, g1\<lparr>gw_sessions := m\<rparr>)))"

definition start_kernel_fail :: "exn \<Rightarrow> nat \<Rightarrow> gateway \<Rightarrow> string res \<times> gateway" where
  "start_kernel_fail e i g =
     (let (d, p) = decrement (rq_user (gw_inflight g ! i)) (gw_pending g) in
      (case d of Inl e' \<Rightarrow> Inl e' | Inr _ \<Rightarrow> Inl e,
       g\<lparr>gw_pending := p, gw_inflight := drop_nth i (gw_inflight g)\<rparr>))"

text \<open>The base class raises \<open>KeyError\<close> for a kernel it does not have, which is swallowed.\<close>

definition remove_kernel :: "string \<Rightarrow> gateway \<Rightarrow> unit res \<times> gateway" where
  "remove_kernel kernel_id g =
     (case ksm_delete_session file_delete_sessions kernel_id (gw_sessions g) of
        (r, m) \<Rightarrow> (r, g\<lparr>gw_kernels := remove1 kernel_id (gw_kernels g), gw_sessions := m\<rparr>))"

section \<open>Interleavings\<close>

inductive gw_step :: "limits \<Rightarrow> string \<Rightarrow> gateway \<Rightarrow> gateway \<Rightarrow> bool"
  for cfg :: limits and getuser :: string where
  gw_request: "start_kernel_begin cfg getuser kw g = (r, g') \<Longrightarrow> gw_step cfg getuser g g'"
| gw_register: "i < length (gw_inflight g) \<Longrightarrow> rq_kernel (gw_inflight g ! i) = None \<Longrightarrow>
    kid \<notin> set (gw_kernels g) \<Longrightarrow> dget (sessions (gw_sessions g)) kid = None \<Longrightarrow>
    (\<forall>r\<in>set (gw_inflight g). rq_kernel r \<noteq> Some kid) \<Longrightarrow>
    gw_step cfg getuser g (register_kernel i kid g)"
| gw_end: "i < length (gw_inflight g) \<Longrightarrow> rq_kernel (gw_inflight g ! i) = Some kid \<Longrightarrow>
    start_kernel_end get_kernel getuser i kid g = (r, g') \<Longrightarrow> gw_step cfg getuser g g'"
| gw_fail: "i < length (gw_inflight g) \<Longrightarrow>
    start_kernel_fail e i g = (r, g') \<Longrightarrow> gw_step cfg getuser g g'"
| gw_remove: "remove_kernel kid g = (r, g') \<Longrightarrow> gw_step cfg getuser g g'"

definition gw_init :: "file_ksm \<Rightarrow> gateway" where
  "gw_init m = \<lparr>gw_kernels = [],
     gw_pending = \<lparr>pending_requests_all = 0, pending_requests_user = []\<rparr>,
     gw_sessions = m, gw_inflight = []\<rparr>"

inductive gw_reach :: "limits \<Rightarrow> string \<Rightarrow> gateway \<Rightarrow> gateway \<Rightarrow> bool"
  for cfg :: limits and getuser :: string and g0 :: gateway where
  gw_reach_init: "gw_reach cfg getuser g0 g0"
| gw_reach_step: "gw_reach cfg getuser g0 g \<Longrightarrow> gw_step cfg getuser g g' \<Longrightarrow> gw_reach cfg getuser g0 g'"

inductive_cases gw_stepE: "gw_step cfg getuser g g'"

section \<open>The invariant\<close>

definition in_flight :: "gateway \<Rightarrow> string \<Rightarrow> nat" where
  "in_flight g u = length [r \<leftarrow> gw_inflight g. rq_user r = u]"

definition unregistered :: "gateway \<Rightarrow> nat" where
  "unregistered g = length [r \<leftarrow> gw_inflight g. rq_kernel r = None]"

definition counts_ok :: "string \<Rightarrow> gateway \<Rightarrow> bool" where
  "counts_ok getuser g \<longleftrightarrow>
     pending_requests_all (gw_pending g) = int (length (gw_inflight g)) \<and>
     (\<forall>u. dget_or (pending_requests_user (gw_pending g)) u 0 = int (in_flight g u)) \<and>
     (\<forall>r\<in>set (gw_inflight g). dget (pending_requests_user (gw_pending g)) (rq_user r) \<noteq> None \<and>
        fst (get_kernel_username getuser (rq_kwargs r)) = rq_user r)"

definition within_limits :: "limits \<Rightarrow> gateway \<Rightarrow> bool" where
  "within_limits cfg g \<longleftrightarrow>
     (\<forall>mk. max_kernels cfg = Some mk \<longrightarrow> int (length (gw_kernels g)) + int (unregistered g) \<le> mk) \<and>
     (0 \<le> max_kernels_per_user cfg \<longrightarrow>
        (\<forall>u. int (active_sessions (gw_sessions g) u) + int (in_flight g u) \<le> max_kernels_per_user cfg))"

lemma filter_drop_nth:
  assumes "i < length xs"
  shows "length (filter P xs) = length (filter P (drop_nth i xs)) + (if P (xs ! i) then 1 else 0)"
proof -
  have "length (filter P xs) = length (filter P (take i xs @ xs ! i # drop (Suc i) xs))"
    using id_take_nth_drop [OF assms] by simp
  then show ?thesis by (simp add: drop_nth_def)
qed

lemma length_drop_nth: "i < length xs \<Longrightarrow> length xs = Suc (length (drop_nth i xs))"
  by (simp add: drop_nth_def)

lemma set_drop_nth: "set (drop_nth i xs) \<subseteq> set xs"
  by (auto simp: drop_nth_def dest: in_set_takeD in_set_dropD)

lemma username_stable [simp]:
  "fst (get_kernel_username gu (snd (get_kernel_username gu kw))) = fst (get_kernel_username gu kw)"
  by (auto simp: get_kernel_username_def Let_def split: option.splits)

context session_store
begin

lemma create_active_le:
  "active_sessions (snd (ksm_create_session save gk gu kid kw m)) v \<le>
   active_sessions m v + (if v = fst (get_kernel_username gu kw) then 1 else 0)"
  by (auto simp: ksm_create_session_def ksm_save_session_def active_sessions_alt save_index
      split: option.splits prod.splits)

lemma drop_active_le: "active_sessions (drop_sessions kids m) v \<le> active_sessions m v"
proof (induction kids m rule: drop_sessions.induct)
  case (2 kid ks m)
  show ?case
  proof (cases "dget (sessions m) kid")
    case (Some s)
    show ?thesis
      unfolding drop_sessions.simps Some option.case
      by (rule le_trans [OF "2.IH"(2) [OF Some]])
        (auto simp: active_sessions_def length_remove1 split: option.splits)
  qed (use 2 in simp)
qed simp

lemma delete_active_le: "active_sessions (snd (ksm_delete_sessions del kids m)) v \<le> active_sessions m v"
  using drop_active_le [of kids m v]
  by (simp add: ksm_delete_sessions_def active_sessions_alt del_index)

end

lemma in_flight_drop:
  "i < length (gw_inflight g) \<Longrightarrow>
   int (length [r \<leftarrow> drop_nth i (gw_inflight g). rq_user r = u]) =
   int (in_flight g u) - (if u = rq_user (gw_inflight g ! i) then 1 else 0)"
  using filter_drop_nth [of i "gw_inflight g" "\<lambda>r. rq_user r = u"] by (auto simp: in_flight_def)

lemma unregistered_drop:
  "i < length (gw_inflight g) \<Longrightarrow>
   length [r \<leftarrow> drop_nth i (gw_inflight g). rq_kernel r = None] \<le> unregistered g"
  using filter_drop_nth [of i "gw_inflight g" "\<lambda>r. rq_kernel r = None"] by (simp add: unregistered_def)

text \<open>Leaving the coroutine, by return or by exception, takes exactly this request out of the counts.\<close>

lemma decrement_counts:
  assumes "counts_ok gu g" "i < length (gw_inflight g)"
  obtains p where "decrement (rq_user (gw_inflight g ! i)) (gw_pending g) = (Inr (), p)"
    "\<And>m. counts_ok gu (g\<lparr>gw_pending := p, gw_inflight := drop_nth i (gw_inflight g), gw_sessions := m\<rparr>)"
    "counts_ok gu (g\<lparr>gw_pending := p, gw_inflight := drop_nth i (gw_inflight g)\<rparr>)"
proof -
  let ?u = "rq_user (gw_inflight g ! i)"
  have mem: "gw_inflight g ! i \<in> set (gw_inflight g)" using assms(2) by simp
  then obtain n where n: "dget (pending_requests_user (gw_pending g)) ?u = Some n"
    using assms(1) by (auto simp: counts_ok_def)
  define p where "p = (gw_pending g)\<lparr>pending_requests_all := pending_requests_all (gw_pending g) - 1,
    pending_requests_user := dset ?u (n - 1) (pending_requests_user (gw_pending g))\<rparr>"
  have nv: "n = int (in_flight g ?u)"
    using assms(1) n by (simp add: counts_ok_def dget_or_def) (metis option.simps(5))
  have "decrement ?u (gw_pending g) = (Inr (), p)"
    by (simp add: decrement_def p_def n)
  moreover have "counts_ok gu (g\<lparr>gw_pending := p, gw_inflight := drop_nth i (gw_inflight g)\<rparr>)"
    using assms(1) nv length_drop_nth [OF assms(2)] set_drop_nth [of i "gw_inflight g"]
    by (auto simp: counts_ok_def p_def in_flight_def in_flight_drop [OF assms(2), unfolded in_flight_def]
        subset_iff)
  ultimately show ?thesis using that by (auto simp: counts_ok_def in_flight_def)
qed

definition gw_inv :: "limits \<Rightarrow> string \<Rightarrow> gateway \<Rightarrow> bool" where
  "gw_inv cfg gu g \<longleftrightarrow> counts_ok gu g \<and> within_limits cfg g"

lemma within_limits_mono:
  assumes "within_limits cfg g" "length (gw_kernels g') \<le> length (gw_kernels g)"
    and "unregistered g' \<le> unregistered g"
    and "\<And>u. int (active_sessions (gw_sessions g') u) + int (in_flight g' u) \<le>
      int (active_sessions (gw_sessions g) u) + int (in_flight g u)"
  shows "within_limits cfg g'"
  using assms(1-3) assms(4) unfolding within_limits_def by (meson add_mono of_nat_mono order_trans)

lemma begin_inv:
  assumes "gw_inv cfg gu g" "start_kernel_begin cfg gu kw g = (r, g')"
  shows "gw_inv cfg gu g'"
proof -
  obtain u kw' where ukw: "get_kernel_username gu kw = (u, kw')" by fastforce
  have st: "fst (get_kernel_username gu kw') = u"
    using username_stable [of gu kw] by (simp add: ukw)
  show ?thesis
  proof (cases "enforce_kernel_limits cfg u g")
    case (Inl e)
    with assms ukw show ?thesis by (simp add: start_kernel_begin_def)
  next
    case (Inr x)
    let ?r = "\<lparr>rq_user = u, rq_kwargs = kw', rq_kernel = None\<rparr>"
    have g': "g' = g\<lparr>gw_pending := increment u (gw_pending g), gw_inflight := gw_inflight g @ [?r]\<rparr>"
      using assms(2) ukw Inr by (simp add: start_kernel_begin_def)
    have c: "counts_ok gu g" using assms(1) by (simp add: gw_inv_def)
    have cnt: "in_flight g' v = in_flight g v + (if v = u then 1 else 0)" for v
      by (simp add: g' in_flight_def)
    have "counts_ok gu g'"
      using c st unfolding counts_ok_def cnt by (auto simp: g' increment_def)
    moreover have "unregistered g' = unregistered g + 1" by (simp add: g' unregistered_def)
    moreover have "unregistered g \<le> length (gw_inflight g)" by (simp add: unregistered_def)
    moreover have "gw_kernels g' = gw_kernels g" "gw_sessions g' = gw_sessions g" by (simp_all add: g')
    moreover have "pending_requests_all (gw_pending g) = int (length (gw_inflight g))"
      "dget_or (pending_requests_user (gw_pending g)) u 0 = int (in_flight g u)"
      using c by (simp_all add: counts_ok_def)
    ultimately show ?thesis
      using assms(1) Inr unfolding gw_inv_def within_limits_def cnt
      by (auto simp: enforce_kernel_limits_def get_counts_def split: if_splits)
  qed
qed

lemma register_inv:
  assumes "gw_inv cfg gu g" "i < length (gw_inflight g)" "rq_kernel (gw_inflight g ! i) = None"
  shows "gw_inv cfg gu (register_kernel i kid g)"
proof -
  let ?g = "register_kernel i kid g" and ?r = "gw_inflight g ! i"
  let ?r' = "?r\<lparr>rq_kernel := Some kid\<rparr>"
  have xs: "gw_inflight g = take i (gw_inflight g) @ ?r # drop (Suc i) (gw_inflight g)"
    using id_take_nth_drop [OF assms(2)] .
  have ys: "gw_inflight ?g = take i (gw_inflight g) @ ?r' # drop (Suc i) (gw_inflight g)"
    using assms(2) by (simp add: register_kernel_def upd_conv_take_nth_drop)
  have cnt: "in_flight ?g u = in_flight g u" for u
    unfolding in_flight_def ys by (subst (2) xs) simp
  have un: "unregistered g = Suc (unregistered ?g)"
    unfolding unregistered_def ys by (subst xs) (simp add: assms(3))
  have mem: "?r \<in> set (gw_inflight g)" using assms(2) by simp
  have sub: "set (gw_inflight ?g) \<subseteq> insert ?r' (set (gw_inflight g))"
    unfolding ys by (auto dest: in_set_takeD in_set_dropD)
  have "counts_ok gu ?g"
    unfolding counts_ok_def cnt
  proof (intro conjI allI ballI)
    fix r assume "r \<in> set (gw_inflight ?g)"
    then have "r = ?r' \<or> r \<in> set (gw_inflight g)" using sub by auto
    then obtain r0 where "r0 \<in> set (gw_inflight g)" "rq_user r = rq_user r0" "rq_kwargs r = rq_kwargs r0"
      using mem by auto
    then show "dget (pending_requests_user (gw_pending ?g)) (rq_user r) \<noteq> None"
      "fst (get_kernel_username gu (rq_kwargs r)) = rq_user r"
      using assms(1) by (auto simp: gw_inv_def counts_ok_def register_kernel_def)
  qed (use assms(1) in \<open>auto simp: gw_inv_def counts_ok_def register_kernel_def\<close>)
  moreover have "length (gw_kernels ?g) = Suc (length (gw_kernels g))" "gw_sessions ?g = gw_sessions g"
    by (simp_all add: register_kernel_def)
  then have "within_limits cfg ?g"
    using assms(1) unfolding gw_inv_def within_limits_def cnt un by (auto simp: algebra_simps)
  ultimately show ?thesis by (simp add: gw_inv_def)
qed

lemma fail_inv:
  assumes "gw_inv cfg gu g" "i < length (gw_inflight g)" "start_kernel_fail e i g = (r, g')"
  shows "gw_inv cfg gu g'"
proof -
  have c: "counts_ok gu g" using assms(1) by (simp add: gw_inv_def)
  obtain p where p: "decrement (rq_user (gw_inflight g ! i)) (gw_pending g) = (Inr (), p)"
    "counts_ok gu (g\<lparr>gw_pending := p, gw_inflight := drop_nth i (gw_inflight g)\<rparr>)"
    using decrement_counts [OF c assms(2)] by metis
  then have g': "g' = g\<lparr>gw_pending := p, gw_inflight := drop_nth i (gw_inflight g)\<rparr>"
    using assms(3) by (simp add: start_kernel_fail_def)
  have fl: "in_flight g' u \<le> in_flight g u" for u
    using in_flight_drop [OF assms(2), of u] by (auto simp: g' in_flight_def split: if_splits)
  have un: "unregistered g' \<le> unregistered g"
    using unregistered_drop [OF assms(2)] by (simp add: g' unregistered_def)
  have "int (active_sessions (gw_sessions g') u) + int (in_flight g' u) \<le>
      int (active_sessions (gw_sessions g) u) + int (in_flight g u)" for u
    using fl [of u] by (simp add: g')
  then have "within_limits cfg g'"
    using un assms(1) by - (rule within_limits_mono [of cfg g], auto simp: gw_inv_def g')
  then show ?thesis
    using p(2) by (simp add: gw_inv_def g')
qed

lemma end_inv:
  assumes "gw_inv cfg gu g" "i < length (gw_inflight g)" "start_kernel_end gk gu i kid g = (r, g')"
  shows "gw_inv cfg gu g'"
proof -
  let ?r = "gw_inflight g ! i"
  have c: "counts_ok gu g" using assms(1) by (simp add: gw_inv_def)
  obtain p where p: "decrement (rq_user ?r) (gw_pending g) = (Inr (), p)"
    "\<And>m. counts_ok gu (g\<lparr>gw_pending := p, gw_inflight := drop_nth i (gw_inflight g), gw_sessions := m\<rparr>)"
    using decrement_counts [OF c assms(2)] by metis
  define m where "m = snd (ksm_create_session file_save_session gk gu kid (rq_kwargs ?r) (gw_sessions g))"
  have g': "g' = g\<lparr>gw_pending := p, gw_inflight := drop_nth i (gw_inflight g), gw_sessions := m\<rparr>"
    using assms(3) p(1) by (auto simp: start_kernel_end_def m_def Let_def split: prod.splits sum.splits)
  have usr: "fst (get_kernel_username gu (rq_kwargs ?r)) = rq_user ?r"
    using c assms(2) by (simp add: counts_ok_def)
  have act: "active_sessions m u \<le> active_sessions (gw_sessions g) u + (if u = rq_user ?r then 1 else 0)" for u
    unfolding m_def using file_store.create_active_le usr by metis
  have fl: "int (in_flight g' u) = int (in_flight g u) - (if u = rq_user ?r then 1 else 0)" for u
    using in_flight_drop [OF assms(2), of u] by (simp add: g' in_flight_def)
  have un: "unregistered g' \<le> unregistered g"
    using unregistered_drop [OF assms(2)] by (simp add: g' unregistered_def)
  have "int (active_sessions (gw_sessions g') u) + int (in_flight g' u) \<le>
      int (active_sessions (gw_sessions g) u) + int (in_flight g u)" for u
    using fl [of u] act [of u] by (simp add: g' split: if_splits)
  then have "within_limits cfg g'"
    using un assms(1) by - (rule within_limits_mono [of cfg g], auto simp: gw_inv_def g')
  then show ?thesis
    using p(2) [of m] by (simp add: gw_inv_def g')
qed

lemma remove_inv:
  assumes "gw_inv cfg gu g" "remove_kernel kid g = (r, g')"
  shows "gw_inv cfg gu g'"
proof -
  define m where "m = snd (ksm_delete_session file_delete_sessions kid (gw_sessions g))"
  have g': "g' = g\<lparr>gw_kernels := remove1 kid (gw_kernels g), gw_sessions := m\<rparr>"
    using assms(2) by (auto simp: remove_kernel_def m_def split: prod.splits)
  have "active_sessions m u \<le> active_sessions (gw_sessions g) u" for u
    unfolding m_def ksm_delete_session_def by (rule file_store.delete_active_le)
  then have "int (active_sessions (gw_sessions g') u) + int (in_flight g' u) \<le>
      int (active_sessions (gw_sessions g) u) + int (in_flight g u)" for u
    by (simp add: g' in_flight_def)
  moreover have "length (gw_kernels g') \<le> length (gw_kernels g)"
    by (simp add: g' length_remove1)
  moreover have "unregistered g' = unregistered g" by (simp add: g' unregistered_def)
  ultimately have "within_limits cfg g'"
    using assms(1) by - (rule within_limits_mono [of cfg g], auto simp: gw_inv_def)
  then show ?thesis
    using assms(1) by (simp add: gw_inv_def counts_ok_def g' in_flight_def)
qed

lemma gw_step_inv: "gw_step cfg gu g g' \<Longrightarrow> gw_inv cfg gu g \<Longrightarrow> gw_inv cfg gu g'"
  by (elim gw_stepE) (auto intro: begin_inv register_inv end_inv fail_inv remove_inv)

lemma gw_reach_inv: "gw_reach cfg gu g0 g \<Longrightarrow> gw_inv cfg gu g0 \<Longrightarrow> gw_inv cfg gu g"
  by (induction rule: gw_reach.induct) (auto intro: gw_step_inv)

section \<open>Properties\<close>

definition limits_sane :: "limits \<Rightarrow> bool" where
  "limits_sane cfg \<longleftrightarrow> (case max_kernels cfg of None \<Rightarrow> True | Some mk \<Rightarrow> 0 \<le> mk)"

lemma init_inv: "limits_sane cfg \<Longrightarrow> gw_inv cfg gu (gw_init (file_ksm_init fs))"
  by (simp add: limits_sane_def gw_inv_def counts_ok_def within_limits_def gw_init_def
      in_flight_def unregistered_def dget_or_def file_ksm_init_def active_sessions_def
      split: option.splits)

text \<open>
  C1: However start requests, kernel registrations, completions, failures and removals
  interleave, the number of registered kernels stays within \<open>max_kernels\<close> and the number of
  sessions of each user within \<open>max_kernels_per_user\<close>.
\<close>

theorem kernel_limits_hold:
  assumes "limits_sane cfg" "gw_reach cfg gu (gw_init (file_ksm_init fs)) g"
  shows "(case max_kernels cfg of None \<Rightarrow> True | Some mk \<Rightarrow> int (length (gw_kernels g)) \<le> mk) \<and>
    (max_kernels_per_user cfg < 0 \<or>
     int (active_sessions (gw_sessions g) u) \<le> max_kernels_per_user cfg)"
proof -
  have w: "within_limits cfg g"
    using gw_reach_inv [OF assms(2) init_inv [OF assms(1)]] by (simp add: gw_inv_def)
  have "int (length (gw_kernels g)) \<le> mk" if "max_kernels cfg = Some mk" for mk
    using w that unfolding within_limits_def by force
  moreover have "int (active_sessions (gw_sessions g) u) \<le> max_kernels_per_user cfg"
    if "0 \<le> max_kernels_per_user cfg"
    using w that unfolding within_limits_def by (metis add_increasing2 le_add_same_cancel1 of_nat_0_le_iff order_trans)
  ultimately show ?thesis by (auto simp: not_less [symmetric] split: option.splits)
qed

definition demo_cfg :: limits where
  "demo_cfg = \<lparr>max_kernels = Some 1, max_kernels_per_user = 1\<rparr>"

definition demo_kwargs :: launch_args where
  "demo_kwargs = \<lparr>la_env = Some [(''KERNEL_USERNAME'', ''alice'')], la_rest = []\<rparr>"

definition demo_g1 :: gateway where
  "demo_g1 = snd (start_kernel_begin demo_cfg ''root'' demo_kwargs (gw_init (file_ksm_init [])))"

definition demo_g2 :: gateway where
  "demo_g2 = register_kernel 0 ''k1'' demo_g1"

definition demo_g3 :: gateway where
  "demo_g3 = snd (start_kernel_end demo_view ''root'' 0 ''k1'' demo_g2)"

lemmas demo_gw_defs = demo_g1_def demo_g2_def demo_g3_def demo_cfg_def demo_kwargs_def
  start_kernel_begin_def enforce_kernel_limits_def get_counts_def increment_def gw_init_def
  register_kernel_def start_kernel_end_def decrement_def drop_nth_def active_sessions_def
  dget_or_def get_kernel_username_def file_ksm_init_def

lemma demo_gw_reach:
  "gw_reach demo_cfg ''root'' (gw_init (file_ksm_init [])) demo_g1"
  "gw_reach demo_cfg ''root'' (gw_init (file_ksm_init [])) demo_g3"
proof -
  have "start_kernel_begin demo_cfg ''root'' demo_kwargs (gw_init (file_ksm_init [])) =
      (fst (start_kernel_begin demo_cfg ''root'' demo_kwargs (gw_init (file_ksm_init []))), demo_g1)"
    by (simp add: demo_g1_def)
  from gw_request [OF this]
  show r1: "gw_reach demo_cfg ''root'' (gw_init (file_ksm_init [])) demo_g1"
    using gw_reach_init gw_reach_step by blast
  have "gw_step demo_cfg ''root'' demo_g1 demo_g2"
    unfolding demo_g2_def by (rule gw_register) (simp_all add: demo_gw_defs)
  with r1 have r2: "gw_reach demo_cfg ''root'' (gw_init (file_ksm_init [])) demo_g2"
    by (rule gw_reach_step)
  have "gw_step demo_cfg ''root'' demo_g2 demo_g3"
    by (rule gw_end [of 0 _ "''k1''" demo_view _ "fst (start_kernel_end demo_view ''root'' 0 ''k1'' demo_g2)"])
      (simp_all add: demo_g3_def, simp_all add: demo_gw_defs)
  with r2 show "gw_reach demo_cfg ''root'' (gw_init (file_ksm_init [])) demo_g3"
    by (rule gw_reach_step)
qed

lemma kernel_limits_hold_witness:
  "int (length (gw_kernels demo_g3)) \<le> 1 \<and> active_sessions (gw_sessions demo_g3) ''alice'' = 1"
proof -
  have "int (length (gw_kernels demo_g3)) \<le> 1"
    using kernel_limits_hold [OF _ demo_gw_reach(2), of "''alice''"]
    by (simp add: demo_cfg_def limits_sane_def)
  moreover have "active_sessions (gw_sessions demo_g3) ''alice'' = 1"
    by (simp add: demo_gw_defs demo_defs)
  ultimately show ?thesis by simp
qed

text \<open>
  The pending counters count the requests in flight, in all and per user, so the
  \<open>finally\<close> clause of a request always finds its user and cannot raise.
\<close>

lemma pending_requests_exact:
  assumes "limits_sane cfg" "gw_reach cfg gu (gw_init (file_ksm_init fs)) g"
  shows "get_counts u (gw_pending g) =
      (int (length (gw_inflight g)), int (length [r \<leftarrow> gw_inflight g. rq_user r = u])) \<and>
    (\<forall>r\<in>set (gw_inflight g). fst (decrement (rq_user r) (gw_pending g)) = Inr ())"
  using gw_reach_inv [OF assms(2) init_inv [OF assms(1)]]
  by (auto simp: gw_inv_def counts_ok_def get_counts_def in_flight_def decrement_def Let_def
      split: option.splits)

lemma pending_requests_exact_witness:
  "get_counts ''alice'' (gw_pending demo_g1) = (1, 1)"
  using pending_requests_exact [OF _ demo_gw_reach(1), of "''alice''"]
  by (simp add: demo_cfg_def limits_sane_def) (simp add: demo_gw_defs)

end
