(* ===== verification/KernelRequest.thy ===== *)
theory KernelRequest
  imports KernelSessions
begin

text \<open>
  From the request to the environment of the launched kernel: the kernels handler
  (services/kernels/handlers.py), the user overrides, the launch environment and the command
  template of \<open>RemoteKernelManager\<close> (services/kernels/remotemanager.py), and the part every
  process proxy adds (\<open>BaseProcessProxyABC.launch_process\<close>).
\<close>

section \<open>Building the environment of a request\<close>

definition MAX_ENV_VALUE_LENGTH :: nat where
  "MAX_ENV_VALUE_LENGTH = 4096"

definition PROHIBITED_ENV_VALUE_CHARS :: string where
  "PROHIBITED_ENV_VALUE_CHARS = [CHR ''$'', CHR 0x60, CHR 0x0A, CHR 0x0D, CHR 0x00]"

definition client_env_allowed :: "string list \<Rightarrow> string list \<Rightarrow> string \<Rightarrow> bool" where
  "client_env_allowed client_envs model_keys key \<longleftrightarrow>
     (let allowed_envs = (if client_envs = [''*''] then model_keys else client_envs) in
      startswith key ''KERNEL_'' \<or> key \<in> set allowed_envs)"

definition check_env_value :: "pyval \<Rightarrow> string res" where
  "check_env_value v =
     (case v of
        PStr s \<Rightarrow>
          if length s > MAX_ENV_VALUE_LENGTH then Inl (HTTPError 400)
          else if list_ex (\<lambda>c. c \<in> set PROHIBITED_ENV_VALUE_CHARS) s then Inl (HTTPError 400)
          else Inr s
      | _ \<Rightarrow> Inl (HTTPError 400))"

fun collect_env :: "(string \<Rightarrow> bool) \<Rightarrow> (string, pyval) dict \<Rightarrow> env \<Rightarrow> env res" where
  "collect_env allowed [] env = Inr env"
| "collect_env allowed ((key, value) # items) env =
     (if allowed key
      then rbind (check_env_value value) (\<lambda>s. collect_env allowed items (dset key s env))
      else collect_env allowed items env)"

definition build_kernel_env ::
  "env \<Rightarrow> string list \<Rightarrow> string list \<Rightarrow> (string, pyval) dict \<Rightarrow> env res" where
  "build_kernel_env os_environ inherited_envs client_envs model_env =
     collect_env (client_env_allowed client_envs (dkeys model_env)) model_env
       [(k, v) \<leftarrow> os_environ. k \<in> set inherited_envs]"

text \<open>The headers of the request are looked up by the web server's function.\<close>

fun build_kernel_headers :: "(string \<Rightarrow> string option) \<Rightarrow> string list \<Rightarrow> (string, string) dict" where
  "build_kernel_headers header [] = []"
| "build_kernel_headers header (name # names) =
     (let rest = build_kernel_headers header names in
      if name \<noteq> []
      then (case header name of
              Some v \<Rightarrow> if v \<noteq> [] then (name, v) # ddel name rest else rest
            | None \<Rightarrow> rest)
      else rest)"

section \<open>The kernels handler\<close>

text \<open>
  \<open>post\<close> refuses over the limit, reads the body, and either leaves \<open>start_kernel\<close> alone
  (\<open>None\<close>) or binds the environment and the headers of this request to it.
\<close>

type_synonym bound_kwargs = "env \<times> (string, string) dict"

definition main_kernel_post ::
  "int option \<Rightarrow> nat \<Rightarrow> env \<Rightarrow> string list \<Rightarrow> string list \<Rightarrow> (string \<Rightarrow> string option) \<Rightarrow>
   string list \<Rightarrow> (string, pyval) dict option \<Rightarrow> bound_kwargs option res" where
  "main_kernel_post max_kernels listed os_environ inherited_envs client_envs header names model =
     (if (case max_kernels of None \<Rightarrow> False | Some mk \<Rightarrow> int listed \<ge> mk) then Inl (HTTPError 403)
      else (case model of
              None \<Rightarrow> Inr None
            | Some m \<Rightarrow>
                (case dget m ''env'' of
                   None \<Rightarrow> Inr None
                 | Some (PDict e) \<Rightarrow>
                     rbind (build_kernel_env os_environ inherited_envs client_envs e)
                       (\<lambda>env. Inr (Some (env, build_kernel_headers header names)))
                 | Some _ \<Rightarrow> Inl (HTTPError 400))))"

definition main_kernel_get :: "bool \<Rightarrow> 'a \<Rightarrow> 'a res" where
  "main_kernel_get list_kernels models = (if \<not> list_kernels then Inl (HTTPError 403) else Inr models)"

text \<open>
  The handler passes its bindings by replacing the manager's \<open>start_kernel\<close> for the time of
  the base class's \<open>post\<close>, a coroutine that suspends.  A state holds what is bound to
  \<open>start_kernel\<close> now and, per open request, what it will put back.
\<close>

record start_patch =
  sp_current :: "bound_kwargs option"
  sp_saved :: "(nat \<times> bound_kwargs option) list"

datatype post_event = Enter nat bound_kwargs | Leave nat

definition post_enter :: "nat \<Rightarrow> bound_kwargs \<Rightarrow> start_patch \<Rightarrow> start_patch" where
  "post_enter i b p = p\<lparr>sp_current := Some b, sp_saved := dset i (sp_current p) (sp_saved p)\<rparr>"

definition post_leave :: "nat \<Rightarrow> start_patch \<Rightarrow> start_patch" where
  "post_leave i p =
     (case dget (sp_saved p) i of
        None \<Rightarrow> p
      | Some orig \<Rightarrow> p\<lparr>sp_current := orig, sp_saved := ddel i (sp_saved p)\<rparr>)"

fun post_run :: "post_event list \<Rightarrow> start_patch \<Rightarrow> start_patch" where
  "post_run [] p = p"
| "post_run (Enter i b # es) p = post_run es (post_enter i b p)"
| "post_run (Leave i # es) p = post_run es (post_leave i p)"

text \<open>Histories in which a request that starts inside another one also ends inside it.\<close>

inductive well_nested :: "post_event list \<Rightarrow> bool" where
  nested_none: "well_nested []"
| nested_one: "well_nested xs \<Longrightarrow> well_nested ys \<Longrightarrow> (\<forall>b. Enter i b \<notin> set xs) \<Longrightarrow>
    well_nested (Enter i b # xs @ Leave i # ys)"

section \<open>User overrides and the launch environment\<close>

definition env_list :: "launch_args \<Rightarrow> env" where
  "env_list kw = (case la_env kw of None \<Rightarrow> [] | Some e \<Rightarrow> e)"

definition capture_user_overrides ::
  "string list \<Rightarrow> string list \<Rightarrow> env \<Rightarrow> (string, string) dict \<Rightarrow> (string, string) dict" where
  "capture_user_overrides inherited_envs client_envs env overrides =
     dupdate overrides [(k, v) \<leftarrow> env. startswith k ''KERNEL_'' \<or> k \<in> set inherited_envs \<or> k \<in> set client_envs]"

text \<open>\<open>float(s)\<close> is the caller's reading function; a missing value takes the default.\<close>

definition launch_timeout :: "(string \<Rightarrow> 'f option) \<Rightarrow> 'f \<Rightarrow> env \<Rightarrow> 'f res" where
  "launch_timeout float dflt env =
     (case dget env ''KERNEL_LAUNCH_TIMEOUT'' of
        None \<Rightarrow> Inr dflt
      | Some s \<Rightarrow> of_option ValueError (float s))"

definition launch_env :: "(string, string) dict \<Rightarrow> env \<Rightarrow> env" where
  "launch_env overrides env =
     ddel ''KG_AUTH_TOKEN'' (ddel ''EG_AUTH_TOKEN''
       (dset ''KERNEL_GATEWAY'' ''1'' (dupdate env overrides)))"

section \<open>What every process proxy adds\<close>

definition env_pop_list :: "string list" where
  "env_pop_list = [''EG_REMOTE_PWD'', ''LS_COLORS'']"

fun pop_all :: "string list \<Rightarrow> env \<Rightarrow> env" where
  "pop_all [] env = env"
| "pop_all (k # ks) env = pop_all ks (ddel k env)"

definition base_launch_env :: "string \<Rightarrow> string \<Rightarrow> env \<Rightarrow> env" where
  "base_launch_env kernel_id language env =
     (let kernel_language = (if language \<noteq> [] then lower language else ''unknown-kernel-language'');
          e1 = dset ''KERNEL_ID'' kernel_id env;
          e2 = dset ''KERNEL_LANGUAGE'' (dget_or e1 ''KERNEL_LANGUAGE'' kernel_language) e1 in
      pop_all env_pop_list e2)"

text \<open>The copy of the environment that is logged.\<close>

definition sensitive_keys :: "string \<Rightarrow> string list" where
  "sensitive_keys setting = split_on '','' (lower setting)"

definition redact :: "string list \<Rightarrow> string \<Rightarrow> env \<Rightarrow> env" where
  "redact sensitive redaction env =
     (if sensitive \<noteq> []
      then map (\<lambda>(k, v). if list_ex (\<lambda>phrase. contains phrase (lower k)) sensitive then (k, redaction) else (k, v)) env
      else env)"

section \<open>The command template\<close>

definition is_name_char :: "char \<Rightarrow> bool" where
  "is_name_char c \<longleftrightarrow>
     (let n = code c in 65 \<le> n \<and> n \<le> 90 \<or> 97 \<le> n \<and> n \<le> 122 \<or> 48 \<le> n \<and> n \<le> 57 \<or> n = 95)"

text \<open>
  The substitution of \<open>{name}\<close> by its value: at an opening brace the longest run of name
  characters has to be non-empty and followed by a closing brace, otherwise the brace
  stands for itself.  The callback has to return a string; \<open>None\<close> counts as the empty one.
\<close>

function pat_sub :: "(string, pyval) dict \<Rightarrow> string \<Rightarrow> string res" where
  "pat_sub ns [] = Inr []"
| "pat_sub ns (c # cs) =
     (let name = takeWhile is_name_char cs; rest = dropWhile is_name_char cs in
      if c = CHR ''{'' \<and> name \<noteq> [] \<and> rest \<noteq> [] \<and> hd rest = CHR ''}''
      then (case dget ns name of
              None \<Rightarrow> rbind (pat_sub ns (tl rest)) (\<lambda>t. Inr (CHR ''{'' # name @ CHR ''}'' # t))
            | Some (PStr v) \<Rightarrow> rbind (pat_sub ns (tl rest)) (\<lambda>t. Inr (v @ t))
            | Some PNone \<Rightarrow> pat_sub ns (tl rest)
            | Some _ \<Rightarrow> Inl TypeError)
      else rbind (pat_sub ns cs) (\<lambda>t. Inr (c # t)))"
  by pat_completeness auto
termination
proof (relation "measure (\<lambda>(ns, s). length s)", goal_cases)
  have le: "length (tl (dropWhile is_name_char cs)) \<le> length cs" for cs
    using length_dropWhile_le [of is_name_char cs] by simp
  {
    case (2 ns c cs)
    with le [of cs] show ?case by (simp add: le_imp_less_Suc)
  next
    case (3 ns c cs)
    with le [of cs] show ?case by (simp add: le_imp_less_Suc)
  next
    case (4 ns c cs)
    with le [of cs] show ?case by (simp add: le_imp_less_Suc)
  }
qed auto

definition template_ns ::
  "pyval \<Rightarrow> pyval \<Rightarrow> pyval \<Rightarrow> pyval \<Rightarrow> (string, pyval) dict \<Rightarrow> (string, pyval) dict" where
  "template_ns response_address public_key port_range kernel_id launch_args =
     (let put = (\<lambda>k v d. if truthy v then dset k v d else d) in
      put ''kernel_id'' kernel_id (put ''port_range'' port_range
        (put ''public_key'' public_key (put ''response_address'' response_address launch_args))))"

fun sub_each :: "(string, pyval) dict \<Rightarrow> string list \<Rightarrow> string list res" where
  "sub_each ns [] = Inr []"
| "sub_each ns (a # as) = rbind (pat_sub ns a) (\<lambda>b. rbind (sub_each ns as) (\<lambda>bs. Inr (b # bs)))"

definition format_kernel_cmd ::
  "pyval \<Rightarrow> pyval \<Rightarrow> pyval \<Rightarrow> pyval \<Rightarrow> (string, pyval) dict \<Rightarrow> string list \<Rightarrow> string list res" where
  "format_kernel_cmd response_address public_key port_range kernel_id launch_args cmd =
     (if truthy response_address \<or> truthy port_range \<or> truthy kernel_id \<or> truthy public_key
      then sub_each (template_ns response_address public_key port_range kernel_id launch_args) cmd
      else Inr cmd)"

section \<open>The environment of a request\<close>

definition clean_value :: "string \<Rightarrow> bool" where
  "clean_value s \<longleftrightarrow>
     length s \<le> MAX_ENV_VALUE_LENGTH \<and> set s \<inter> set PROHIBITED_ENV_VALUE_CHARS = {}"

lemma check_env_value_cases:
  "check_env_value v = Inr s \<longleftrightarrow> v = PStr s \<and> clean_value s"
  "check_env_value v = Inl e \<Longrightarrow> e = HTTPError 400"
  by (cases v; auto simp: check_env_value_def clean_value_def list_ex_iff split: if_splits)+

lemma collect_env_ok:
  "collect_env allowed items env = Inr env' \<Longrightarrow> dict_ok items \<Longrightarrow>
   dget env' key =
     (if allowed key
      then (case dget items key of
              None \<Rightarrow> dget env key
            | Some v \<Rightarrow> (case check_env_value v of Inl e \<Rightarrow> None | Inr s \<Rightarrow> Some s))
      else dget env key) \<and>
   (\<forall>k v. (k, v) \<in> set items \<and> allowed k \<longrightarrow> (\<exists>s. check_env_value v = Inr s))"
proof (induction allowed items env rule: collect_env.induct)
  case (2 allowed k v items env)
  have no: "dget items k = None" "dict_ok items"
    using "2.prems"(2) by (auto simp: dict_ok_def map_of_eq_None_iff)
  show ?case
  proof (cases "allowed k")
    case True
    with "2.prems"(1) obtain s where s: "check_env_value v = Inr s"
      and c: "collect_env allowed items (dset k s env) = Inr env'"
      by (auto simp: rbind_Inr_iff)
    show ?thesis using "2.IH"(1) [OF True c no(2)] True s no by (auto split: option.splits)
  next
    case False
    then show ?thesis using 2 no by auto
  qed
qed simp

lemma collect_env_error:
  "collect_env allowed items env = Inl e \<Longrightarrow>
   e = HTTPError 400 \<and> (\<exists>k v. (k, v) \<in> set items \<and> allowed k \<and> check_env_value v = Inl e)"
proof (induction allowed items env rule: collect_env.induct)
  case (2 allowed k v items env)
  show ?case
  proof (cases "allowed k")
    case al: True
    show ?thesis
    proof (cases "check_env_value v")
      case (Inl e')
      then show ?thesis using "2.prems" al by (auto dest: check_env_value_cases(2))
    next
      case (Inr s)
      then have "collect_env allowed items (dset k s env) = Inl e" using "2.prems" al by simp
      from "2.IH"(1) [OF al this] show ?thesis by auto
    qed
  next
    case False
    then have "collect_env allowed items env = Inl e" using "2.prems" by simp
    from "2.IH"(2) [OF False this] show ?thesis by auto
  qed
qed simp

lemma dget_filter_keys: "dget [(k, v) \<leftarrow> d. P k] key = (if P key then dget d key else None)"
  by (induction d) auto

text \<open>
  C6: The environment built from a request holds the server's inherited variables and, over
  them, exactly the client's variables that are \<open>KERNEL_\<close> or allowed, each a string of at
  most 4096 characters with no character that a shell expands; a request with any other
  value for such a variable is refused with status 400.
\<close>

theorem build_kernel_env_spec:
  assumes "dict_ok model_env" "allowed = client_env_allowed client_envs (dkeys model_env)"
  shows "case build_kernel_env os_environ inherited_envs client_envs model_env of
      Inl e \<Rightarrow> e = HTTPError 400 \<and>
        (\<exists>k v. dget model_env k = Some v \<and> allowed k \<and> (\<nexists>s. v = PStr s \<and> clean_value s))
    | Inr env \<Rightarrow>
        (\<forall>key. case (if allowed key then dget model_env key else None) of
           Some v \<Rightarrow> (\<exists>s. v = PStr s \<and> clean_value s \<and> dget env key = Some s)
         | None \<Rightarrow> dget env key = (if key \<in> set inherited_envs then dget os_environ key else None))"
proof (cases "build_kernel_env os_environ inherited_envs client_envs model_env")
  case (Inl e)
  then obtain k v where kv: "e = HTTPError 400" "(k, v) \<in> set model_env" "allowed k" "check_env_value v = Inl e"
    unfolding build_kernel_env_def assms(2) by (blast dest: collect_env_error)
  then have "dget model_env k = Some v" "\<nexists>s. v = PStr s \<and> clean_value s"
    using assms(1) check_env_value_cases(1) [of v] by (auto simp: dict_ok_def)
  with Inl kv show ?thesis by auto
next
  case (Inr env)
  have c: "dget env key = (if allowed key
      then (case dget model_env key of
              None \<Rightarrow> dget [(k, v) \<leftarrow> os_environ. k \<in> set inherited_envs] key
            | Some v \<Rightarrow> (case check_env_value v of Inl e \<Rightarrow> None | Inr s \<Rightarrow> Some s))
      else dget [(k, v) \<leftarrow> os_environ. k \<in> set inherited_envs] key)"
    and all: "(k, v) \<in> set model_env \<Longrightarrow> allowed k \<Longrightarrow> \<exists>s. check_env_value v = Inr s" for key k v
    using collect_env_ok [OF Inr [unfolded build_kernel_env_def] assms(1)]
    unfolding assms(2) by blast+
  show ?thesis
    using c all by (fastforce simp: Inr dget_filter_keys check_env_value_cases(1)
        dest: map_of_SomeD split: option.splits sum.splits)
qed

lemma build_kernel_env_spec_witness:
  "\<exists>env. build_kernel_env [(''PATH'', ''/bin''), (''HOME'', ''/'')] [''PATH''] []
      [(''KERNEL_USERNAME'', PStr ''alice''), (''OTHER'', PInt 1)] = Inr env \<and>
    dget env ''KERNEL_USERNAME'' = Some ''alice'' \<and> dget env ''OTHER'' = None"
  using build_kernel_env_spec [OF _ refl,
      where model_env = "[(''KERNEL_USERNAME'', PStr ''alice''), (''OTHER'', PInt 1)]"
      and client_envs = "[]" and os_environ = "[(''PATH'', ''/bin''), (''HOME'', ''/'')]"
      and inherited_envs = "[''PATH'']"]
  by (simp add: dict_ok_def build_kernel_env_def client_env_allowed_def check_env_value_def
      MAX_ENV_VALUE_LENGTH_def PROHIBITED_ENV_VALUE_CHARS_def)

section \<open>Replacing \<open>start_kernel\<close> while requests overlap\<close>

lemma post_run_append [simp]: "post_run (xs @ ys) p = post_run ys (post_run xs p)"
  by (induction xs p rule: post_run.induct) auto

lemma ddel_dset_fresh: "dget d k = None \<Longrightarrow> ddel k (dset k v d) = d"
  by (induction d) (auto split: if_splits)

text \<open>
  Requests that are properly nested leave the manager's \<open>start_kernel\<close> as they found it.
\<close>

lemma nested_posts_restore:
  assumes "well_nested es" "\<forall>i b. Enter i b \<in> set es \<longrightarrow> dget (sp_saved p) i = None"
  shows "post_run es p = p"
  using assms
proof (induction arbitrary: p rule: well_nested.induct)
  case (nested_one xs ys i b)
  have "Enter i b \<in> set (Enter i b # xs @ Leave i # ys)" by simp
  then have i: "dget (sp_saved p) i = None" using nested_one.prems by blast
  have "\<forall>j c. Enter j c \<in> set xs \<longrightarrow> dget (sp_saved (post_enter i b p)) j = None"
    using nested_one.prems nested_one.hyps(3) by (auto simp: post_enter_def)
  then have "post_run xs (post_enter i b p) = post_enter i b p" by (rule nested_one.IH(1))
  moreover have "post_leave i (post_enter i b p) = p"
    using i by (simp add: post_leave_def post_enter_def ddel_dset_fresh)
  moreover have "post_run ys p = p"
    by (rule nested_one.IH(2)) (use nested_one.prems in force)
  ultimately show ?case by simp
qed simp

lemma nested_posts_restore_witness:
  "post_run [Enter 1 ([], []), Enter 2 ([(''A'', ''b'')], []), Leave 2, Leave 1]
     \<lparr>sp_current = None, sp_saved = []\<rparr> = \<lparr>sp_current = None, sp_saved = []\<rparr>"
proof -
  have "well_nested (Enter 2 ([(''A'', ''b'')], []) # [] @ Leave 2 # [])"
    by (rule nested_one) (auto intro: nested_none)
  then have "well_nested (Enter 1 ([], []) # [Enter 2 ([(''A'', ''b'')], []), Leave 2] @ Leave 1 # [])"
    by (intro nested_one) (auto intro: nested_none)
  from nested_posts_restore [OF this, of "\<lparr>sp_current = None, sp_saved = []\<rparr>"] show ?thesis by simp
qed

text \<open>
  Two requests that overlap without being nested leave the first one's environment
  bound to the manager's \<open>start_kernel\<close> although no request is open any more: a later
  request without an environment of its own starts its kernel with it.
\<close>

lemma overlapping_posts_leak_env:
  "post_run [Enter 1 b1, Enter 2 b2, Leave 1, Leave 2] \<lparr>sp_current = None, sp_saved = []\<rparr> =
   \<lparr>sp_current = Some b1, sp_saved = []\<rparr>"
  by (simp add: post_enter_def post_leave_def)

section \<open>The environment of the kernel\<close>

lemma dget_pop_all: "dget (pop_all ks env) k = (if k \<in> set ks then None else dget env k)"
  by (induction ks env rule: pop_all.induct) auto

text \<open>
  In the environment a kernel is launched with, \<open>KERNEL_ID\<close> and \<open>KERNEL_GATEWAY\<close> are the
  gateway's whatever the client sent, the gateway's tokens and remote password are absent,
  and otherwise a value the user gave wins over the kernelspec's.
\<close>

lemma launched_env_spec:
  assumes "dict_ok overrides"
  shows "dget (base_launch_env kernel_id language (launch_env overrides env)) k =
    (if k \<in> {''EG_AUTH_TOKEN'', ''KG_AUTH_TOKEN'', ''EG_REMOTE_PWD'', ''LS_COLORS''} then None
     else if k = ''KERNEL_ID'' then Some kernel_id
     else if k = ''KERNEL_GATEWAY'' then Some ''1''
     else case dget overrides k of
       Some v \<Rightarrow> Some v
     | None \<Rightarrow>
         (case dget env k of
            Some v \<Rightarrow> Some v
          | None \<Rightarrow>
              if k = ''KERNEL_LANGUAGE''
              then Some (if language \<noteq> [] then lower language else ''unknown-kernel-language'')
              else None))"
  using assms
  by (auto simp: base_launch_env_def launch_env_def env_pop_list_def dget_pop_all Let_def
      dget_or_def dget_dupdate split: option.splits)

lemma launched_env_spec_witness:
  "dget (base_launch_env ''id'' ''R'' (launch_env [(''KERNEL_ID'', ''x'')] [(''EG_AUTH_TOKEN'', ''t'')])) ''KERNEL_ID''
   = Some ''id''"
  using launched_env_spec [of "[(''KERNEL_ID'', ''x'')]" "''id''" "''R''" "[(''EG_AUTH_TOKEN'', ''t'')]"
      "''KERNEL_ID''"]
  by (simp add: dict_ok_def)

text \<open>With no sensitive keys configured the list holds one empty phrase, which every name contains.\<close>

lemma default_redacts_everything:
  "redact (sensitive_keys '''') m env = map (\<lambda>(k, v). (k, m)) env"
proof -
  have "contains [] s" for s by (cases s) simp_all
  moreover have "sensitive_keys '''' = ['''']"
    by (simp add: sensitive_keys_def split_on_def lower_def)
  ultimately show ?thesis by (auto simp: redact_def)
qed

section \<open>The command template\<close>

lemma takeWhile_dropWhile_name:
  "\<forall>c\<in>set name. is_name_char c \<Longrightarrow> \<not> is_name_char d \<Longrightarrow>
   takeWhile is_name_char (name @ d # post) = name \<and> dropWhile is_name_char (name @ d # post) = d # post"
  by (induction name) auto

lemma pat_sub_plain: "CHR ''{'' \<notin> set pre \<Longrightarrow>
    pat_sub ns (pre @ s) = rbind (pat_sub ns s) (\<lambda>t. Inr (pre @ t))"
proof (induction pre)
  case Nil
  show ?case by (cases "pat_sub ns s") auto
next
  case (Cons c pre)
  then have "c \<noteq> CHR ''{''" by auto
  then have "pat_sub ns (c # pre @ s) = rbind (pat_sub ns (pre @ s)) (\<lambda>t. Inr (c # t))"
    by (simp add: Let_def)
  with Cons show ?case by (cases "pat_sub ns s") auto
qed

text \<open>
  A template is filled in from left to right: text before the first brace is kept, a
  name in braces becomes its value if the namespace has it and stays as it is otherwise,
  and values are not scanned again.
\<close>

lemma pat_sub_template:
  assumes "CHR ''{'' \<notin> set pre" "name \<noteq> []" "list_all is_name_char name"
    and "dget ns name = map_option PStr val"
  shows "pat_sub ns (pre @ ''{'' @ name @ ''}'' @ post) =
    rbind (pat_sub ns post) (\<lambda>t.
      Inr (pre @ (case val of Some v \<Rightarrow> v | None \<Rightarrow> ''{'' @ name @ ''}'') @ t))"
proof -
  have nc: "\<not> is_name_char (CHR ''}'')" by (simp add: is_name_char_def code_def)
  have name: "\<forall>c\<in>set name. is_name_char c" using assms(3) by (simp add: list_all_iff)
  note tw = takeWhile_dropWhile_name [OF name nc, of post]
  have "pat_sub ns (''{'' @ name @ ''}'' @ post) =
      rbind (pat_sub ns post) (\<lambda>t. Inr ((case val of Some v \<Rightarrow> v | None \<Rightarrow> ''{'' @ name @ ''}'') @ t))"
    using assms(2,4) tw by (cases val) (simp_all add: Let_def)
  then show ?thesis
    using pat_sub_plain [OF assms(1), of ns "''{'' @ name @ ''}'' @ post"]
    by (cases "pat_sub ns post") simp_all
qed

lemma pat_sub_template_witness:
  "pat_sub [(''kernel_id'', PStr ''k1'')] ''--id {kernel_id}.'' = Inr ''--id k1.''"
proof -
  have "pat_sub [(''kernel_id'', PStr ''k1'')] (''--id '' @ ''{'' @ ''kernel_id'' @ ''}'' @ ''.'') =
      rbind (pat_sub [(''kernel_id'', PStr ''k1'')] ''.'') (\<lambda>t.
        Inr (''--id '' @ (case Some ''k1'' of Some v \<Rightarrow> v | None \<Rightarrow> ''{'' @ ''kernel_id'' @ ''}'') @ t))"
    by (rule pat_sub_template) (simp_all add: is_name_char_def code_def)
  then show ?thesis by simp
qed

end
