(* ===== verification/PortRange.thy ===== *)
theory PortRange
  imports PyBase
begin

text \<open>
  The configured port range and the selection of free ports within it: the process proxies'
  version (services/processproxies/processproxy.py) and the one the Python launcher runs next
  to the kernel (etc/kernel-launchers/python/scripts/launch_ipykernel.py).  Binding a socket
  and drawing a number are operations of the system, on its state \<open>'w\<close>.
\<close>

section \<open>Validation\<close>

definition parse_range :: "string \<Rightarrow> (int \<times> int) res" where
  "parse_range port_range =
     (let port_ranges = split_on ''..'' port_range in
      rbind (of_option ValueError (py_int (port_ranges ! 0))) (\<lambda>lower_port.
        if length port_ranges < 2 then Inl IndexError
        else rbind (of_option ValueError (py_int (port_ranges ! 1))) (\<lambda>upper_port.
          Inr (lower_port, upper_port))))"

definition valid_port :: "int \<Rightarrow> bool" where
  "valid_port p \<longleftrightarrow> \<not> (p < 1024 \<or> p > 65535)"

text \<open>The kernelspec's range overrides the global one; the range in use is returned with its bounds.\<close>

definition validate_port_range ::
  "int \<Rightarrow> string \<Rightarrow> string option \<Rightarrow> (int \<times> int \<times> string) res" where
  "validate_port_range min_port_range_size global_range config_range =
     (let port_range =
        (case config_range of Some r \<Rightarrow> if r \<noteq> [] then r else global_range | None \<Rightarrow> global_range) in
      case parse_range port_range of
        Inl e \<Rightarrow> Inl (HTTPError 500)
      | Inr (lower_port, upper_port) \<Rightarrow>
          let port_range_size = upper_port - lower_port in
          if port_range_size \<noteq> 0
          then (if port_range_size < min_port_range_size then Inl (HTTPError 500)
                else if \<not> valid_port lower_port then Inl (HTTPError 500)
                else if \<not> valid_port upper_port then Inl (HTTPError 500)
                else Inr (lower_port, upper_port, port_range))
          else Inr (lower_port, upper_port, port_range))"

definition launcher_validate_port_range :: "int \<Rightarrow> string option \<Rightarrow> (int \<times> int) res" where
  "launcher_validate_port_range min_port_range_size port_range =
     (case port_range of
        None \<Rightarrow> Inr (0, 0)
      | Some r \<Rightarrow>
          if r = [] then Inr (0, 0)
          else (case parse_range r of
                  Inl e \<Rightarrow> Inl RuntimeError
                | Inr (lower_port, upper_port) \<Rightarrow>
                    if upper_port - lower_port \<noteq> 0 \<and> upper_port - lower_port < min_port_range_size
                    then Inl RuntimeError else Inr (lower_port, upper_port)))"

section \<open>Selection\<close>

text \<open>\<open>os_bind ip p w\<close> answers the port the socket is bound to, or \<open>None\<close> when \<open>bind\<close> raises.\<close>

record 'w os =
  os_random :: "'w \<Rightarrow> nat \<times> 'w"
  os_bind :: "string \<Rightarrow> int \<Rightarrow> 'w \<Rightarrow> int option \<times> 'w"
  os_close :: "int \<Rightarrow> 'w \<Rightarrow> 'w"

text \<open>\<open>random.randint(a, b)\<close> from a drawn number; an empty range raises.\<close>

definition randint :: "'w os \<Rightarrow> int \<Rightarrow> int \<Rightarrow> 'w \<Rightarrow> int res \<times> 'w" where
  "randint os a b w =
     (if b < a then (Inl ValueError, w)
      else (case os_random os w of (r, w') \<Rightarrow> (Inr (a + int r mod (b - a + 1)), w')))"

definition get_candidate_port :: "'w os \<Rightarrow> int \<Rightarrow> int \<Rightarrow> 'w \<Rightarrow> int res \<times> 'w" where
  "get_candidate_port os lower_port upper_port w =
     (let range_size = upper_port - lower_port in
      if range_size = 0 then (Inr 0, w) else randint os lower_port upper_port w)"

definition try_bind :: "'w os \<Rightarrow> string \<Rightarrow> int \<Rightarrow> int \<Rightarrow> 'w \<Rightarrow> int option \<times> 'w" where
  "try_bind os ip lower_port upper_port w =
     (case get_candidate_port os lower_port upper_port w of
        (Inl _, w') \<Rightarrow> (None, w')
      | (Inr p, w') \<Rightarrow> os_bind os ip p w')"

text \<open>The loop of \<open>select_socket\<close>: \<open>err\<close> is raised when the retries are used up.\<close>

function select_loop ::
  "exn \<Rightarrow> int \<Rightarrow> 'w os \<Rightarrow> string \<Rightarrow> int \<Rightarrow> int \<Rightarrow> int \<Rightarrow> 'w \<Rightarrow> int res \<times> 'w" where
  "select_loop err max_retries os ip lower_port upper_port retries w =
     (case try_bind os ip lower_port upper_port w of
        (Some p, w') \<Rightarrow> (Inr p, w')
      | (None, w') \<Rightarrow>
          if retries + 1 > max_retries then (Inl err, w')
          else select_loop err max_retries os ip lower_port upper_port (retries + 1) w')"
  by pat_completeness auto
termination
  by (relation "measure (\<lambda>(err, max_retries, os, ip, lo, hi, retries, w). nat (max_retries - retries))") auto

declare select_loop.simps [simp del]

definition select_socket ::
  "int \<Rightarrow> 'w os \<Rightarrow> string \<Rightarrow> int \<Rightarrow> int \<Rightarrow> 'w \<Rightarrow> int res \<times> 'w" where
  "select_socket max_port_range_retries os ip lower_port upper_port w =
     select_loop (HTTPError 500) max_port_range_retries os ip lower_port upper_port 0 w"

definition launcher_select_socket ::
  "int \<Rightarrow> 'w os \<Rightarrow> int \<Rightarrow> int \<Rightarrow> 'w \<Rightarrow> int res \<times> 'w" where
  "launcher_select_socket max_port_range_retries os lower_port upper_port w =
     select_loop RuntimeError max_port_range_retries os ''0.0.0.0'' lower_port upper_port 0 w"

fun open_sockets :: "nat \<Rightarrow> ('w \<Rightarrow> int res \<times> 'w) \<Rightarrow> 'w \<Rightarrow> int list res \<times> 'w" where
  "open_sockets 0 select w = (Inr [], w)"
| "open_sockets (Suc n) select w =
     bindE (select w) (\<lambda>p w'. bindE (open_sockets n select w') (\<lambda>ps w''. (Inr (p # ps), w'')))"

fun close_all :: "'w os \<Rightarrow> int list \<Rightarrow> 'w \<Rightarrow> 'w" where
  "close_all os [] w = w"
| "close_all os (p # ps) w = close_all os ps (os_close os p w)"

definition select_ports ::
  "int \<Rightarrow> 'w os \<Rightarrow> int \<Rightarrow> int \<Rightarrow> nat \<Rightarrow> 'w \<Rightarrow> int list res \<times> 'w" where
  "select_ports max_port_range_retries os lower_port upper_port count w =
     bindE (open_sockets count (select_socket max_port_range_retries os [] lower_port upper_port) w)
       (\<lambda>ports w'. (Inr ports, close_all os ports w'))"

definition launcher_select_ports ::
  "int \<Rightarrow> 'w os \<Rightarrow> nat \<Rightarrow> int \<Rightarrow> int \<Rightarrow> 'w \<Rightarrow> int list res \<times> 'w" where
  "launcher_select_ports max_port_range_retries os count lower_port upper_port w =
     bindE (open_sockets count (launcher_select_socket max_port_range_retries os lower_port upper_port) w)
       (\<lambda>ports w'. (Inr ports, close_all os ports w'))"

section \<open>Properties\<close>

lemma split2_none: "c \<notin> set s \<Longrightarrow> split_acc [c, c] acc s = [rev acc @ s]"
  by (induction s arbitrary: acc) (auto simp: startswith_def)

lemma split2_one:
  "c \<notin> set a \<Longrightarrow> split_acc [c, c] acc (a @ c # c # s) = (rev acc @ a) # split_acc [c, c] [] s"
  by (induction a arbitrary: acc) auto

lemma int_str_no_dot: "CHR ''.'' \<notin> set (int_str i)"
  using nat_str_digits [of "CHR ''.''"] by (auto simp: int_str_def is_digit_def code_def)

lemma parse_printed_range: "parse_range (int_str lo @ ''..'' @ int_str hi) = Inr (lo, hi)"
proof -
  have "split_on ''..'' (int_str lo @ ''..'' @ int_str hi) = [int_str lo, int_str hi]"
    using split2_one [OF int_str_no_dot [of lo], of "[]" "int_str hi"]
      split2_none [OF int_str_no_dot [of hi], of "[]"]
    by (simp add: split_on_def)
  then show ?thesis by (simp add: parse_range_def)
qed

text \<open>
  A range \<open>lo..hi\<close> passes validation exactly when its size is zero or at least the
  configured minimum with both ends between 1024 and 65535, and every other one is refused
  with status 500; a string that is not a range is refused as well.
\<close>

lemma validate_port_range_spec:
  "validate_port_range m g (Some (int_str lo @ ''..'' @ int_str hi)) =
     (if lo = hi \<or> m \<le> hi - lo \<and> {lo, hi} \<subseteq> {1024..65535}
      then Inr (lo, hi, int_str lo @ ''..'' @ int_str hi) else Inl (HTTPError 500)) \<and>
   (case validate_port_range m g c of
      Inl e \<Rightarrow> e = HTTPError 500
    | Inr (lo', hi', r) \<Rightarrow> parse_range r = Inr (lo', hi') \<and>
        (lo' = hi' \<or> m \<le> hi' - lo' \<and> {lo', hi'} \<subseteq> {1024..65535}))"
proof (rule conjI, goal_cases)
  case 1
  show ?case
    using parse_printed_range [of lo hi] by (auto simp: validate_port_range_def valid_port_def Let_def)
next
  case 2
  show ?case
    by (auto simp: validate_port_range_def valid_port_def Let_def split: sum.splits prod.splits)
qed

text \<open>
  The documented behaviour of the system the selection relies on: a socket bound to a
  non-zero port has that port, and no port is bound twice while it is open.
\<close>

definition os_ok :: "'w os \<Rightarrow> ('w \<Rightarrow> int set) \<Rightarrow> bool" where
  "os_ok os opened \<longleftrightarrow>
     (\<forall>w. opened (snd (os_random os w)) = opened w) \<and>
     (\<forall>ip p w. case os_bind os ip p w of
        (None, w') \<Rightarrow> opened w' = opened w
      | (Some q, w') \<Rightarrow> (p \<noteq> 0 \<longrightarrow> q = p) \<and> q \<notin> opened w \<and> opened w' = insert q (opened w))"

lemma try_bind_ok:
  assumes "os_ok os opened" "try_bind os ip lo hi w = (r, w')"
  shows "case r of
      None \<Rightarrow> opened w' = opened w
    | Some q \<Rightarrow> (lo = hi \<or> 0 < lo \<longrightarrow> lo = hi \<or> q \<in> {lo..hi}) \<and> q \<notin> opened w \<and> opened w' = insert q (opened w)"
proof (cases "lo = hi")
  case True
  with assms show ?thesis
    by (force simp: try_bind_def get_candidate_port_def os_ok_def split: option.splits prod.splits)
next
  case False
  show ?thesis
  proof (cases "hi < lo")
    case True
    with assms False show ?thesis
      by (auto simp: try_bind_def get_candidate_port_def randint_def)
  next
    case le: False
    obtain n w1 where n: "os_random os w = (n, w1)" by fastforce
    define p where "p = lo + int n mod (hi - lo + 1)"
    have p: "p \<in> {lo..hi}"
      using pos_mod_bound [of "hi - lo + 1" "int n"] pos_mod_sign [of "hi - lo + 1" "int n"] le
      by (auto simp: p_def)
    have b: "os_bind os ip p w1 = (r, w')"
      using assms(2) False le n by (simp add: try_bind_def get_candidate_port_def randint_def p_def)
    have "opened w1 = opened w" using assms(1) n by (metis os_ok_def snd_conv)
    moreover have "case os_bind os ip p w1 of
        (None, w') \<Rightarrow> opened w' = opened w1
      | (Some q, w') \<Rightarrow> (p \<noteq> 0 \<longrightarrow> q = p) \<and> q \<notin> opened w1 \<and> opened w' = insert q (opened w1)"
      by (rule assms(1) [unfolded os_ok_def, THEN conjunct2, rule_format])
    ultimately show ?thesis
      using b p False by (auto split: option.splits)
  qed
qed

lemma select_loop_ok:
  assumes "os_ok os opened" "select_loop err mr os ip lo hi retries w = (Inr q, w')"
  shows "(lo = hi \<or> 0 < lo \<longrightarrow> lo = hi \<or> q \<in> {lo..hi}) \<and> q \<notin> opened w \<and> opened w' = insert q (opened w)"
  using assms
proof (induction err mr os ip lo hi retries w rule: select_loop.induct)
  case (1 err mr os ip lo hi retries w)
  obtain r w1 where r: "try_bind os ip lo hi w = (r, w1)" by fastforce
  note t = try_bind_ok [OF "1.prems"(1) r]
  show ?case
  proof (cases r)
    case (Some p)
    with "1.prems"(2) r t show ?thesis by (simp add: select_loop.simps [of err mr os ip lo hi retries])
  next
    case None
    with "1.prems"(2) r have "\<not> retries + 1 > mr"
      "select_loop err mr os ip lo hi (retries + 1) w1 = (Inr q, w')"
      by (simp_all add: select_loop.simps [of err mr os ip lo hi retries] split: if_splits)
    with "1.IH" [OF r [symmetric]] None "1.prems"(1) t show ?thesis by simp
  qed
qed

lemma open_sockets_ok:
  assumes "os_ok os opened" "open_sockets n (select_loop err mr os ip lo hi 0) w = (Inr ps, w')"
  shows "length ps = n \<and> distinct ps \<and> set ps \<inter> opened w = {} \<and> opened w' = set ps \<union> opened w \<and>
    (lo = hi \<or> 0 < lo \<longrightarrow> lo = hi \<or> set ps \<subseteq> {lo..hi})"
  using assms(2)
proof (induction n arbitrary: w ps)
  case (Suc n)
  then obtain p w1 ps' where p: "select_loop err mr os ip lo hi 0 w = (Inr p, w1)"
    and ps': "open_sockets n (select_loop err mr os ip lo hi 0) w1 = (Inr ps', w')" "ps = p # ps'"
    by (auto simp: bindE_Inr_iff)
  from select_loop_ok [OF assms(1) p] Suc.IH [OF ps'(1)] show ?case
    by (auto simp: ps'(2))
qed simp

text \<open>
  C34: The ports handed to a kernel are as many as asked for, pairwise distinct, and within
  the configured range, on every system whose \<open>bind\<close> honours the port it is asked for and
  refuses one that is open.
\<close>

theorem select_ports_in_range:
  assumes "os_ok os opened" "0 < lo" "lo < hi"
    and "select_ports mr os lo hi n w = (Inr ps, w')"
  shows "length ps = n \<and> distinct ps \<and> set ps \<subseteq> {lo..hi}"
proof -
  obtain w1 where "open_sockets n (select_loop (HTTPError 500) mr os [] lo hi 0) w = (Inr ps, w1)"
    using assms(4) by (auto simp: select_ports_def bindE_Inr_iff select_socket_def [abs_def])
  from open_sockets_ok [OF assms(1) this] show ?thesis using assms(2,3) by auto
qed

text \<open>A system with a seed and a list of open ports; port 0 stands for the first free one above 40000.\<close>

definition demo_os :: "(nat \<times> int list) os" where
  "demo_os =
     \<lparr>os_random = (\<lambda>(seed, ports). (seed, (seed + 7, ports))),
      os_bind = (\<lambda>ip p (seed, ports).
        let q = (if p = 0 then 40001 + (\<Sum>x\<leftarrow>ports. \<bar>x\<bar>) else p) in
        if q \<in> set ports then (None, (seed, ports)) else (Some q, (seed, q # ports))),
      os_close = (\<lambda>p (seed, ports). (seed, remove1 p ports))\<rparr>"

lemma demo_os_ok: "os_ok demo_os (\<lambda>w. set (snd w))"
  by (auto simp: os_ok_def demo_os_def Let_def split: prod.splits if_splits)

lemma demo_select:
  "select_ports 5 demo_os 2000 4000 3 (0, []) = (Inr [2000, 2007, 2014], (21, []))"
  by (simp add: select_ports_def select_socket_def [abs_def] select_loop.simps try_bind_def
      get_candidate_port_def randint_def demo_os_def numeral_3_eq_3)

lemma select_ports_in_range_witness: "set [2000, 2007, 2014] \<subseteq> {2000..4000::int}"
  using select_ports_in_range [OF demo_os_ok _ _ demo_select] by simp

end
