(* ===== verification/ProcessProxy.thy ===== *)
theory ProcessProxy
  imports PyBase
begin

text \<open>
  The lifecycle operations of a process proxy (services/processproxies/processproxy.py,
  classes \<open>BaseProcessProxyABC\<close> and \<open>LocalProcessProxy\<close>): polling, waiting, signals and the
  escalation from SIGTERM to SIGKILL.  The operating system, ssh and the clock are a record
  of operations on a state \<open>'w\<close>; the methods a subclass overrides are arguments.
\<close>

section \<open>The system a proxy acts on\<close>

text \<open>
  \<open>po_poll\<close> to \<open>po_terminate\<close> are the methods of the local \<open>Popen\<close> object, \<open>po_killpg\<close>
  answers whether \<open>os.killpg\<close> returned without an \<open>OSError\<close>, \<open>po_call_kill\<close> the exit code of
  the \<open>kill\<close> command and \<open>po_rsh\<close> the lines a remote command prints.
\<close>

record 'w proc_ops =
  po_poll :: "'w \<Rightarrow> int option \<times> 'w"
  po_wait :: "'w \<Rightarrow> int \<times> 'w"
  po_send_signal :: "int \<Rightarrow> 'w \<Rightarrow> 'w"
  po_kill :: "'w \<Rightarrow> 'w"
  po_terminate :: "'w \<Rightarrow> 'w"
  po_killpg :: "int \<Rightarrow> int \<Rightarrow> 'w \<Rightarrow> bool \<times> 'w"
  po_call_kill :: "string list \<Rightarrow> 'w \<Rightarrow> int \<times> 'w"
  po_rsh :: "string \<Rightarrow> string \<Rightarrow> 'w \<Rightarrow> string list res \<times> 'w"
  po_ip_is_local :: "string \<Rightarrow> bool"
  po_sleep :: "'w \<Rightarrow> 'w"

record base_proxy =
  local_proc :: bool
  proxy_ip :: "string option"
  proxy_pid :: int
  proxy_pgid :: int

text \<open>\<open>if self.ip and self.pid > 0\<close>\<close>

definition addressable :: "'a base_proxy_scheme \<Rightarrow> bool" where
  "addressable p \<longleftrightarrow> (case proxy_ip p of None \<Rightarrow> False | Some ip \<Rightarrow> ip \<noteq> []) \<and> proxy_pid p > 0"

definition the_ip :: "'a base_proxy_scheme \<Rightarrow> string" where
  "the_ip p = (case proxy_ip p of None \<Rightarrow> [] | Some ip \<Rightarrow> ip)"

definition SIGINT :: int where "SIGINT = 2"
definition SIGKILL :: int where "SIGKILL = 9"
definition SIGTERM :: int where "SIGTERM = 15"

section \<open>Signals\<close>

definition signal_target :: "'a base_proxy_scheme \<Rightarrow> int \<Rightarrow> string" where
  "signal_target p signum =
     (if proxy_pgid p > 0 \<and> signum > 0 then CHR ''-'' # int_str (proxy_pgid p) else int_str (proxy_pid p))"

text \<open>Both answer \<open>None\<close> for a signal that was delivered and \<open>False\<close> otherwise.\<close>

definition remote_signal :: "'w proc_ops \<Rightarrow> 'a base_proxy_scheme \<Rightarrow> int \<Rightarrow> 'w \<Rightarrow> pyval \<times> 'w" where
  "remote_signal ops p signum w =
     (let cmd = ''kill -'' @ int_str signum @ '' '' @ signal_target p signum @ ''; echo $?'' in
      case po_rsh ops (the_ip p) cmd w of
        (Inl _, w') \<Rightarrow> (PBool False, w')
      | (Inr lines, w') \<Rightarrow>
          (if lines \<noteq> [] \<and> strip (last lines) = ''0'' then PNone else PBool False, w'))"

definition local_signal :: "'w proc_ops \<Rightarrow> 'a base_proxy_scheme \<Rightarrow> int \<Rightarrow> 'w \<Rightarrow> pyval \<times> 'w" where
  "local_signal ops p signum w =
     (case po_call_kill ops [''kill'', CHR ''-'' # int_str signum, signal_target p signum] w of
        (result, w') \<Rightarrow> (if result = 0 then PNone else PBool False, w'))"

definition signal_by_ip :: "'w proc_ops \<Rightarrow> 'a base_proxy_scheme \<Rightarrow> int \<Rightarrow> 'w \<Rightarrow> pyval \<times> 'w" where
  "signal_by_ip ops p signum w =
     (if addressable p
      then (if po_ip_is_local ops (the_ip p) then local_signal ops p signum w
            else remote_signal ops p signum w)
      else (PNone, w))"

definition base_send_signal :: "'w proc_ops \<Rightarrow> 'a base_proxy_scheme \<Rightarrow> int \<Rightarrow> 'w \<Rightarrow> pyval \<times> 'w" where
  "base_send_signal ops p signum w =
     (if local_proc p
      then (if proxy_pgid p > 0
            then (case po_killpg ops (proxy_pgid p) signum w of
                    (True, w') \<Rightarrow> (PNone, w')
                  | (False, w') \<Rightarrow> (PNone, po_send_signal ops signum w'))
            else (PNone, po_send_signal ops signum w))
      else signal_by_ip ops p signum w)"

definition base_poll ::
  "'w proc_ops \<Rightarrow> (int \<Rightarrow> 'w \<Rightarrow> pyval \<times> 'w) \<Rightarrow> 'a base_proxy_scheme \<Rightarrow> 'w \<Rightarrow> pyval \<times> 'w" where
  "base_poll ops send_signal p w =
     (if local_proc p
      then (case po_poll ops w of (r, w') \<Rightarrow> (case r of None \<Rightarrow> PNone | Some c \<Rightarrow> PInt c, w'))
      else send_signal 0 w)"

section \<open>Waiting and killing\<close>

text \<open>The \<open>for\<close> loop of \<open>wait\<close>: \<open>n\<close> attempts are left.  The flag tells that all were used.\<close>

fun wait_loop :: "('w \<Rightarrow> pyval \<times> 'w) \<Rightarrow> ('w \<Rightarrow> 'w) \<Rightarrow> nat \<Rightarrow> 'w \<Rightarrow> bool \<times> 'w" where
  "wait_loop poll sleep 0 w = (True, w)"
| "wait_loop poll sleep (Suc n) w =
     (case poll w of (r, w') \<Rightarrow> if truthy r then wait_loop poll sleep n (sleep w') else (False, w'))"

definition base_wait ::
  "nat \<Rightarrow> 'w proc_ops \<Rightarrow> ('w \<Rightarrow> pyval \<times> 'w) \<Rightarrow> 'a base_proxy_scheme \<Rightarrow> 'w \<Rightarrow> int option \<times> 'w" where
  "base_wait max_poll_attempts ops poll p w =
     (if local_proc p then (case po_wait ops w of (c, w') \<Rightarrow> (Some c, w'))
      else (None, snd (wait_loop poll (po_sleep ops) max_poll_attempts w)))"

definition base_terminate :: "'w proc_ops \<Rightarrow> 'a base_proxy_scheme \<Rightarrow> 'w \<Rightarrow> pyval \<times> 'w" where
  "base_terminate ops p w =
     (if local_proc p then (PNone, po_terminate ops w) else signal_by_ip ops p SIGTERM w)"

text \<open>The \<open>while\<close> loop of \<open>kill\<close>: \<open>n\<close> is \<open>max_poll_attempts - i + 1\<close>.\<close>

fun kill_loop :: "('w \<Rightarrow> pyval \<times> 'w) \<Rightarrow> ('w \<Rightarrow> 'w) \<Rightarrow> nat \<Rightarrow> 'w \<Rightarrow> bool \<times> 'w" where
  "kill_loop poll sleep 0 w = (True, snd (poll w))"
| "kill_loop poll sleep (Suc n) w =
     (case poll w of (r, w') \<Rightarrow> if r = PNone then kill_loop poll sleep n (sleep w') else (False, w'))"

definition base_kill ::
  "nat \<Rightarrow> 'w proc_ops \<Rightarrow> ('w \<Rightarrow> pyval \<times> 'w) \<Rightarrow> ('w \<Rightarrow> pyval \<times> 'w) \<Rightarrow> 'a base_proxy_scheme \<Rightarrow>
   'w \<Rightarrow> pyval \<times> 'w" where
  "base_kill max_poll_attempts ops terminate poll p w =
     (case terminate w of
        (result, w1) \<Rightarrow>
          (case kill_loop poll (po_sleep ops) max_poll_attempts w1 of
             (exhausted, w2) \<Rightarrow>
               if exhausted
               then (if local_proc p then (PNone, po_kill ops w2)
                     else if addressable p then signal_by_ip ops p SIGKILL w2 else (result, w2))
               else (result, w2)))"

text \<open>
  The same \<open>kill\<close> as the proxies of the cluster managers inherit it: with the proxy's own
  \<open>poll\<close>, which changes the proxy and may raise.
\<close>

fun kill_loop_own ::
  "('p \<Rightarrow> 'w \<Rightarrow> pyval res \<times> 'p \<times> 'w) \<Rightarrow> ('w \<Rightarrow> 'w) \<Rightarrow> nat \<Rightarrow> 'p \<Rightarrow> 'w \<Rightarrow> bool res \<times> 'p \<times> 'w" where
  "kill_loop_own poll sleep 0 p w = bindE (poll p w) (\<lambda>_ pw. (Inr True, pw))"
| "kill_loop_own poll sleep (Suc n) p w =
     bindE (poll p w) (\<lambda>r (p1, w1).
       if r = PNone then kill_loop_own poll sleep n p1 (sleep w1) else (Inr False, p1, w1))"

definition inherited_kill ::
  "nat \<Rightarrow> 'w proc_ops \<Rightarrow> ('a base_proxy_scheme \<Rightarrow> 'w \<Rightarrow> pyval res \<times> 'a base_proxy_scheme \<times> 'w) \<Rightarrow>
   'a base_proxy_scheme \<Rightarrow> 'w \<Rightarrow> pyval res \<times> 'a base_proxy_scheme \<times> 'w" where
  "inherited_kill max_poll_attempts ops poll p w =
     (case base_terminate ops p w of
        (result, w1) \<Rightarrow>
          bindE (kill_loop_own poll (po_sleep ops) max_poll_attempts p w1) (\<lambda>exhausted (p2, w2).
            if exhausted
            then (if local_proc p2 then (Inr PNone, p2, po_kill ops w2)
                  else if addressable p2
                  then (case signal_by_ip ops p2 SIGKILL w2 of (r, w3) \<Rightarrow> (Inr r, p2, w3))
                  else (Inr result, p2, w2))
            else (Inr result, p2, w2)))"

text \<open>
  Their \<open>cleanup\<close> first clears a local launcher: \<open>poll\<close> and \<open>wait\<close> are the base class's, called
  while there is a local process.
\<close>

definition clear_defunct ::
  "nat \<Rightarrow> 'w proc_ops \<Rightarrow> ('a base_proxy_scheme \<Rightarrow> 'w \<Rightarrow> pyval res \<times> 'a base_proxy_scheme \<times> 'w) \<Rightarrow>
   'a base_proxy_scheme \<Rightarrow> 'w \<Rightarrow> unit res \<times> 'a base_proxy_scheme \<times> 'w" where
  "clear_defunct max_poll_attempts ops poll p w =
     (if local_proc p
      then (case po_poll ops w of
              (ret, w1) \<Rightarrow>
                bindE (if (case ret of None \<Rightarrow> False | Some c \<Rightarrow> c \<noteq> 0)
                       then inherited_kill max_poll_attempts ops poll p w1
                       else (Inr PNone, p, w1))
                  (\<lambda>_ (p1, w2). (Inr (), p1\<lparr>local_proc := False\<rparr>, snd (po_wait ops w2))))
      else (Inr (), p, w))"

text \<open>\<open>v in states\<close> for a set of strings; a list or a dict cannot be hashed.\<close>

definition in_states :: "string list \<Rightarrow> pyval \<Rightarrow> bool res" where
  "in_states states v =
     (case v of PStr s \<Rightarrow> Inr (s \<in> set states) | PList _ \<Rightarrow> Inl TypeError | PDict _ \<Rightarrow> Inl TypeError
      | _ \<Rightarrow> Inr False)"

section \<open>Process information\<close>

definition opt_str :: "string option \<Rightarrow> pyval" where
  "opt_str x = (case x of None \<Rightarrow> PNone | Some s \<Rightarrow> PStr s)"

definition base_get_process_info :: "'a base_proxy_scheme \<Rightarrow> (string, pyval) dict" where
  "base_get_process_info p =
     [(''pid'', PInt (proxy_pid p)), (''pgid'', PInt (proxy_pgid p)), (''ip'', opt_str (proxy_ip p))]"

text \<open>The loader stores whatever it reads; the model reads it as the type of the member.\<close>

definition as_int :: "pyval \<Rightarrow> int res" where
  "as_int v = (case v of PInt i \<Rightarrow> Inr i | _ \<Rightarrow> Inl TypeError)"

definition as_opt_str :: "pyval \<Rightarrow> string option res" where
  "as_opt_str v = (case v of PNone \<Rightarrow> Inr None | PStr s \<Rightarrow> Inr (Some s) | _ \<Rightarrow> Inl TypeError)"

definition base_load_process_info ::
  "(string, pyval) dict \<Rightarrow> 'a base_proxy_scheme \<Rightarrow> 'a base_proxy_scheme res" where
  "base_load_process_info info p =
     rbind (of_option KeyError (dget info ''pid'')) (\<lambda>v. rbind (as_int v) (\<lambda>pid.
     rbind (of_option KeyError (dget info ''pgid'')) (\<lambda>v. rbind (as_int v) (\<lambda>pgid.
     rbind (of_option KeyError (dget info ''ip'')) (\<lambda>v. rbind (as_opt_str v) (\<lambda>ip.
     Inr (p\<lparr>proxy_pid := pid, proxy_pgid := pgid, proxy_ip := ip\<rparr>)))))))"

section \<open>The local proxy\<close>

text \<open>\<open>popen\<close> starts the process and answers its pid, \<open>getpgid\<close> is \<open>None\<close> on an \<open>OSError\<close>.\<close>

definition local_launch ::
  "('w \<Rightarrow> int res \<times> 'w) \<Rightarrow> (int \<Rightarrow> 'w \<Rightarrow> int option) \<Rightarrow> string \<Rightarrow> 'a base_proxy_scheme \<Rightarrow>
   'w \<Rightarrow> ('a base_proxy_scheme) res \<times> 'w" where
  "local_launch popen getpgid local_ip p w =
     bindE (popen w) (\<lambda>pid w'.
       (Inr (p\<lparr>local_proc := True, proxy_pid := pid,
               proxy_pgid := (case getpgid pid w' of None \<Rightarrow> proxy_pgid p | Some g \<Rightarrow> g),
               proxy_ip := Some local_ip\<rparr>), w'))"

section \<open>Properties\<close>

lemma signal_by_ip_answers: "fst (signal_by_ip ops p signum w) \<in> {PNone, PBool False}"
  by (auto simp: signal_by_ip_def local_signal_def remote_signal_def Let_def split: prod.splits sum.splits)

lemma base_send_signal_answers: "fst (base_send_signal ops p signum w) \<in> {PNone, PBool False}"
  using signal_by_ip_answers [of ops p signum w]
  by (auto simp: base_send_signal_def split: prod.splits bool.splits)

text \<open>
  For a process that is not a local child, polling answers \<open>None\<close> or \<open>False\<close>, both of
  which are false, so \<open>wait\<close> returns after one poll and never sleeps, whether or not the
  process is still alive.
\<close>

lemma wait_polls_once:
  assumes "\<not> local_proc p" "0 < max_poll_attempts"
  shows "base_wait max_poll_attempts ops (base_poll ops (base_send_signal ops p) p) p w =
    (None, snd (base_send_signal ops p 0 w))"
proof -
  obtain n where n: "max_poll_attempts = Suc n" using assms(2) by (cases max_poll_attempts) auto
  have "\<not> truthy (fst (base_send_signal ops p 0 w))"
    using base_send_signal_answers [of ops p 0 w] by auto
  then show ?thesis
    using assms(1) by (cases "base_send_signal ops p 0 w") (simp add: base_wait_def base_poll_def n)
qed

text \<open>A system with one process, which ends after a number of signals, and a count of sleeps.\<close>

record demo_sys =
  ds_alive :: nat
  ds_log :: "int list"
  ds_slept :: nat

definition demo_signal :: "int \<Rightarrow> demo_sys \<Rightarrow> demo_sys" where
  "demo_signal signum s =
     s\<lparr>ds_log := ds_log s @ [signum],
       ds_alive := (if signum = 9 then 0 else if signum = 0 then ds_alive s else ds_alive s - 1)\<rparr>"

definition demo_ops :: "demo_sys proc_ops" where
  "demo_ops =
     \<lparr>po_poll = (\<lambda>s. (if ds_alive s > 0 then None else Some 0, s)),
      po_wait = (\<lambda>s. (0, s\<lparr>ds_alive := 0\<rparr>)),
      po_send_signal = demo_signal,
      po_kill = demo_signal 9,
      po_terminate = demo_signal 15,
      po_killpg = (\<lambda>g n s. (False, s)),
      po_call_kill = (\<lambda>args s. (if ds_alive s > 0 then 0 else 1,
        demo_signal (if args ! 1 = ''-9'' then 9 else if args ! 1 = ''-15'' then 15 else 0) s)),
      po_rsh = (\<lambda>h c s. (Inr [''0''], s)),
      po_ip_is_local = (\<lambda>ip. True),
      po_sleep = (\<lambda>s. s\<lparr>ds_slept := ds_slept s + 1\<rparr>)\<rparr>"

definition demo_proxy :: base_proxy where
  "demo_proxy = \<lparr>local_proc = False, proxy_ip = Some ''10.0.0.1'', proxy_pid = 77, proxy_pgid = 0\<rparr>"

lemma int_str_small: "int_str 0 = ''0''" "int_str 9 = ''9''" "int_str 15 = ''15''"
  by code_simp+

lemma wait_polls_once_witness:
  "fst (base_wait 10 demo_ops (base_poll demo_ops (base_send_signal demo_ops demo_proxy) demo_proxy)
     demo_proxy \<lparr>ds_alive = 3, ds_log = [], ds_slept = 0\<rparr>) = None"
  using wait_polls_once [of demo_proxy 10 demo_ops "\<lparr>ds_alive = 3, ds_log = [], ds_slept = 0\<rparr>"]
  by (simp add: demo_proxy_def)

text \<open>The state before the \<open>i\<close>-th poll of \<open>kill\<close>.\<close>

fun polled :: "('w \<Rightarrow> pyval \<times> 'w) \<Rightarrow> ('w \<Rightarrow> 'w) \<Rightarrow> nat \<Rightarrow> 'w \<Rightarrow> 'w" where
  "polled poll sleep 0 w = w"
| "polled poll sleep (Suc i) w = polled poll sleep i (sleep (snd (poll w)))"

lemma kill_loop_exhausted:
  "fst (kill_loop poll sleep n w) \<longleftrightarrow> (\<forall>i<n. fst (poll (polled poll sleep i w)) = PNone)"
proof (induction n arbitrary: w)
  case (Suc n)
  have "(\<forall>i<Suc n. fst (poll (polled poll sleep i w)) = PNone) \<longleftrightarrow>
      fst (poll w) = PNone \<and> (\<forall>i<n. fst (poll (polled poll sleep i (sleep (snd (poll w))))) = PNone)"
    by (simp add: All_less_Suc2)
  then show ?case using Suc by (simp split: prod.splits)
qed simp

text \<open>
  \<open>kill\<close> always sends SIGTERM first, and goes on to SIGKILL exactly when each of the
  \<open>max_poll_attempts\<close> polls that follow finds the process alive.
\<close>

lemma kill_escalates:
  fixes p :: "'a base_proxy_scheme"
  assumes "\<not> local_proc p" "addressable p" "poll = base_poll ops (base_send_signal ops p) p"
    and "w1 = snd (signal_by_ip ops p SIGTERM w)"
  shows "base_kill m ops (base_terminate ops p) poll p w =
    (if \<forall>i<m. fst (poll (polled poll (po_sleep ops) i w1)) = PNone
     then signal_by_ip ops p SIGKILL (snd (kill_loop poll (po_sleep ops) m w1))
     else (fst (signal_by_ip ops p SIGTERM w), snd (kill_loop poll (po_sleep ops) m w1)))"
  using assms(1,2) kill_loop_exhausted [of poll "po_sleep ops" m w1]
  by (auto simp: base_kill_def base_terminate_def assms(4) split: prod.splits)

lemma kill_escalates_witness:
  "snd (base_kill 2 demo_ops (base_terminate demo_ops demo_proxy)
      (base_poll demo_ops (base_send_signal demo_ops demo_proxy) demo_proxy) demo_proxy
      \<lparr>ds_alive = 3, ds_log = [], ds_slept = 0\<rparr>) =
   \<lparr>ds_alive = 0, ds_log = [15, 0, 0, 0, 9], ds_slept = 2\<rparr>"
proof -
  have e: "\<not> local_proc demo_proxy" "addressable demo_proxy"
    by (simp_all add: demo_proxy_def addressable_def)
  show ?thesis
    unfolding kill_escalates [OF e refl refl]
    by (simp add: demo_ops_def demo_proxy_def base_poll_def base_send_signal_def signal_by_ip_def
        addressable_def the_ip_def local_signal_def signal_target_def demo_signal_def SIGTERM_def SIGKILL_def
        int_str_small numeral_2_eq_2 All_less_Suc2)
qed

text \<open>
  The process information saved with a session restores the process id, group and
  address of the proxy it was taken from.
\<close>

lemma process_info_roundtrip:
  "base_load_process_info (base_get_process_info p) q =
   Inr (q\<lparr>proxy_pid := proxy_pid p, proxy_pgid := proxy_pgid p, proxy_ip := proxy_ip p\<rparr>)"
  by (simp add: base_load_process_info_def base_get_process_info_def as_int_def as_opt_str_def opt_str_def
      split: option.splits)

end
