(* ===== verification/RemoteProxy.thy ===== *)
theory RemoteProxy
  imports ProcessProxy Complex_Main
begin

text \<open>
  \<open>RemoteProcessProxy\<close> (services/processproxies/processproxy.py): the connection information
  a launcher sends back, tunnelling, signals over the launcher's communication port, the
  launch timeout and the information persisted for a remote kernel.  It extends the base
  proxy and the operations of the system it acts on.
\<close>

section \<open>State and system\<close>

datatype kernel_channel = SHELL | IOPUB | STDIN | HEARTBEAT | CONTROL | COMMUNICATION

fun channel_name :: "kernel_channel \<Rightarrow> string" where
  "channel_name SHELL = ''SHELL''"
| "channel_name IOPUB = ''IOPUB''"
| "channel_name STDIN = ''STDIN''"
| "channel_name HEARTBEAT = ''HB''"
| "channel_name CONTROL = ''CONTROL''"
| "channel_name COMMUNICATION = ''EG_COMM''"

text \<open>Kernel manager members the proxy sets: the five ports and the loaded connection info.\<close>

record remote_proxy = base_proxy +
  assigned_ip :: "string option"
  assigned_host :: string
  comm_ip :: "string option"
  comm_port :: int
  tunneled_connect_info :: "(string, pyval) dict option"
  tunnel_processes :: "(string, nat) dict"
  km_connection :: "(string, pyval) dict option"
  connection_file_written :: bool

text \<open>
  Beyond the base class: free local ports, the check for password-less ssh, spawning and
  ending a tunnel process, and sending a request to the launcher's listener (\<open>connect\<close>,
  \<open>send\<close> and, on request, \<open>shutdown\<close>, whose own failure is ignored).
\<close>

record 'w remote_ops = "'w proc_ops" +
  ro_select_ports :: "nat \<Rightarrow> 'w \<Rightarrow> int list res \<times> 'w"
  ro_passwordless :: "string \<Rightarrow> 'w \<Rightarrow> bool \<times> 'w"
  ro_spawn :: "string \<Rightarrow> 'w \<Rightarrow> nat res \<times> 'w"
  ro_end_tunnel :: "nat \<Rightarrow> 'w \<Rightarrow> 'w"
  ro_send :: "string option \<Rightarrow> int \<Rightarrow> (string, pyval) dict \<Rightarrow> bool \<Rightarrow> 'w \<Rightarrow> unit res \<times> 'w"

definition ECONNREFUSED :: nat where "ECONNREFUSED = 111"

section \<open>Process ids from the launcher\<close>

definition pop_id ::
  "string \<Rightarrow> (string, pyval) dict \<Rightarrow> (int option \<times> (string, pyval) dict) res" where
  "pop_id key info =
     (case dget info key of
        None \<Rightarrow> Inr (None, info)
      | Some v \<Rightarrow>
          if truthy v
          then (case py_int_of v of
                  Inr i \<Rightarrow> Inr (Some i, ddel key info)
                | Inl ValueError \<Rightarrow> Inr (None, ddel key info)
                | Inl e \<Rightarrow> Inl e)
          else Inr (None, ddel key info))"

definition extract_pid_info ::
  "(string \<Rightarrow> bool) \<Rightarrow> (string, pyval) dict \<Rightarrow> 'a remote_proxy_scheme \<Rightarrow>
   (string, pyval) dict res \<times> 'a remote_proxy_scheme" where
  "extract_pid_info ip_is_local info p =
     (case pop_id ''pid'' info of
        Inl e \<Rightarrow> (Inl e, p)
      | Inr (pid, info1) \<Rightarrow>
          let p1 = (case pid of None \<Rightarrow> p | Some i \<Rightarrow> p\<lparr>proxy_pid := i\<rparr>) in
          (case pop_id ''pgid'' info1 of
             Inl e \<Rightarrow> (Inl e, p1)
           | Inr (pgid, info2) \<Rightarrow>
               let p2 = (case pgid of None \<Rightarrow> p1 | Some i \<Rightarrow> p1\<lparr>proxy_pgid := i\<rparr>) in
               (Inr info2,
                if pid \<noteq> None \<or> pgid \<noteq> None
                then p2\<lparr>proxy_ip := assigned_ip p2,
                        local_proc := (local_proc p2 \<and>
                          ip_is_local (case assigned_ip p2 of None \<Rightarrow> [] | Some ip \<Rightarrow> ip))\<rparr>
                else p2)))"

text \<open>The five ports are reset before the new information is loaded; \<open>None\<close> stands for reset ports.\<close>

definition update_connection ::
  "(string \<Rightarrow> bool) \<Rightarrow> (string, pyval) dict \<Rightarrow> 'a remote_proxy_scheme \<Rightarrow>
   unit res \<times> 'a remote_proxy_scheme" where
  "update_connection ip_is_local connect_info p =
     (let p0 = p\<lparr>km_connection := None\<rparr> in
      if connect_info \<noteq> []
      then bindE (extract_pid_info ip_is_local connect_info p0) (\<lambda>info p1.
             (Inr (), p1\<lparr>km_connection := Some info, connection_file_written := True\<rparr>))
      else (Inl (HTTPError 500), p0))"

section \<open>Tunnels\<close>

definition max_keep_alive_interval :: int where
  "max_keep_alive_interval = 100 * 365 * 24 * 60 * 60"

definition keep_alive_interval :: "int \<Rightarrow> kernel_channel \<Rightarrow> int" where
  "keep_alive_interval cull_idle_timeout kc =
     (if kc = COMMUNICATION \<or> kc = CONTROL \<or> cull_idle_timeout \<le> 0 \<or>
         cull_idle_timeout > max_keep_alive_interval
      then max_keep_alive_interval else cull_idle_timeout + 60)"

text \<open>The command line of a tunnel; the remote port is formatted as a number.\<close>

definition ssh_tunnel_cmd ::
  "int \<Rightarrow> int \<Rightarrow> kernel_channel \<Rightarrow> int \<Rightarrow> pyval \<Rightarrow> string \<Rightarrow> string \<Rightarrow> string res" where
  "ssh_tunnel_cmd ssh_port cull kc local_port remote_port remote_ip server =
     rbind (as_int remote_port) (\<lambda>rp.
       Inr (''ssh -p '' @ int_str ssh_port @ '' -o ServerAliveInterval='' @
            int_str (keep_alive_interval cull kc) @ '' -S none -L 127.0.0.1:'' @
            int_str local_port @ '':'' @ remote_ip @ '':'' @ int_str rp @ '' '' @ server))"

definition create_ssh_tunnel ::
  "'w remote_ops \<Rightarrow> int \<Rightarrow> int \<Rightarrow> kernel_channel \<Rightarrow> int \<Rightarrow> pyval \<Rightarrow> string \<Rightarrow> string \<Rightarrow>
   'a remote_proxy_scheme \<Rightarrow> 'w \<Rightarrow> unit res \<times> 'a remote_proxy_scheme \<times> 'w" where
  "create_ssh_tunnel ops ssh_port cull kc local_port remote_port remote_ip server p w =
     (case ssh_tunnel_cmd ssh_port cull kc local_port remote_port remote_ip server of
        Inl _ \<Rightarrow> (Inl (HTTPError 500), p, w)
      | Inr cmd \<Rightarrow>
          (case ro_spawn ops cmd w of
             (Inl _, w') \<Rightarrow> (Inl (HTTPError 500), p, w')
           | (Inr h, w') \<Rightarrow>
               (Inr (), p\<lparr>tunnel_processes := dset (channel_name kc) h (tunnel_processes p)\<rparr>, w')))"

fun create_tunnels ::
  "'w remote_ops \<Rightarrow> int \<Rightarrow> int \<Rightarrow> string \<Rightarrow> string \<Rightarrow> (int \<times> pyval \<times> kernel_channel) list \<Rightarrow>
   'a remote_proxy_scheme \<Rightarrow> 'w \<Rightarrow> unit res \<times> 'a remote_proxy_scheme \<times> 'w" where
  "create_tunnels ops ssh_port cull remote_ip server [] p w = (Inr (), p, w)"
| "create_tunnels ops ssh_port cull remote_ip server ((lp, rp, kc) # rest) p w =
     bindE (create_ssh_tunnel ops ssh_port cull kc lp rp remote_ip server p w)
       (\<lambda>_ (p', w'). create_tunnels ops ssh_port cull remote_ip server rest p' w')"

definition kernel_ports :: "(string, pyval) dict \<Rightarrow> pyval list res" where
  "kernel_ports cf =
     rbind (of_option KeyError (dget cf ''shell_port'')) (\<lambda>a.
     rbind (of_option KeyError (dget cf ''iopub_port'')) (\<lambda>b.
     rbind (of_option KeyError (dget cf ''stdin_port'')) (\<lambda>c.
     rbind (of_option KeyError (dget cf ''hb_port'')) (\<lambda>d.
     rbind (of_option KeyError (dget cf ''control_port'')) (\<lambda>e. Inr [a, b, c, d, e])))))"

definition tunnel_to_kernel ::
  "'w remote_ops \<Rightarrow> int \<Rightarrow> int \<Rightarrow> (string, pyval) dict \<Rightarrow> string \<Rightarrow>
   'a remote_proxy_scheme \<Rightarrow> 'w \<Rightarrow> int list res \<times> 'a remote_proxy_scheme \<times> 'w" where
  "tunnel_to_kernel ops ssh_port cull cf server p w =
     (case ro_select_ports ops 5 w of
        (Inl e, w1) \<Rightarrow> (Inl e, p, w1)
      | (Inr lports, w1) \<Rightarrow>
          (case rbind (kernel_ports cf) (\<lambda>rports.
                  rbind (of_option KeyError (dget cf ''ip'')) (\<lambda>v.
                  rbind (as_opt_str v) (\<lambda>ip. Inr (rports, ip)))) of
             Inl e \<Rightarrow> (Inl e, p, w1)
           | Inr (rports, ip) \<Rightarrow>
               (case ro_passwordless ops (server @ '':'' @ int_str ssh_port) w1 of
                  (False, w2) \<Rightarrow> (Inl (HTTPError 403), p, w2)
                | (True, w2) \<Rightarrow>
                    bindE (create_tunnels ops ssh_port cull (case ip of None \<Rightarrow> ''None'' | Some i \<Rightarrow> i) server
                             (zip lports (zip rports [SHELL, IOPUB, STDIN, HEARTBEAT, CONTROL])) p w2)
                      (\<lambda>_ pw. (Inr lports, pw)))))"

definition tunnel_to_port ::
  "'w remote_ops \<Rightarrow> int \<Rightarrow> int \<Rightarrow> kernel_channel \<Rightarrow> string \<Rightarrow> int \<Rightarrow> string \<Rightarrow>
   'a remote_proxy_scheme \<Rightarrow> 'w \<Rightarrow> int res \<times> 'a remote_proxy_scheme \<times> 'w" where
  "tunnel_to_port ops ssh_port cull kc remote_ip remote_port server p w =
     (case ro_select_ports ops 1 w of
        (Inl e, w1) \<Rightarrow> (Inl e, p, w1)
      | (Inr [], w1) \<Rightarrow> (Inl IndexError, p, w1)
      | (Inr (lp # _), w1) \<Rightarrow>
          bindE (create_ssh_tunnel ops ssh_port cull kc lp (PInt remote_port) remote_ip server p w1)
            (\<lambda>_ pw. (Inr lp, pw)))"

section \<open>Connection information\<close>

definition local_ports_info :: "int list \<Rightarrow> (string, pyval) dict \<Rightarrow> (string, pyval) dict" where
  "local_ports_info ports info =
     dset ''control_port'' (PInt (ports ! 4)) (dset ''hb_port'' (PInt (ports ! 3))
       (dset ''stdin_port'' (PInt (ports ! 2)) (dset ''iopub_port'' (PInt (ports ! 1))
         (dset ''shell_port'' (PInt (ports ! 0)) (dset ''ip'' (PStr ''127.0.0.1'') info)))))"

definition setup_connection_info ::
  "bool \<Rightarrow> 'w remote_ops \<Rightarrow> int \<Rightarrow> int \<Rightarrow> (string, pyval) dict \<Rightarrow> 'a remote_proxy_scheme \<Rightarrow> 'w \<Rightarrow>
   unit res \<times> 'a remote_proxy_scheme \<times> 'w" where
  "setup_connection_info tunneling_enabled ops ssh_port cull connect_info p w =
     (let info = dset ''ip'' (opt_str (assigned_ip p)) connect_info;
          server = (case assigned_ip p of None \<Rightarrow> ''None'' | Some i \<Rightarrow> i);
          finish = (\<lambda>info p w.
            case update_connection (po_ip_is_local ops) info p of (r, p') \<Rightarrow> (r, p', w)) in
      if tunneling_enabled
      then bindE (tunnel_to_kernel ops ssh_port cull info server (p\<lparr>tunneled_connect_info := Some info\<rparr>) w)
             (\<lambda>ports (p1, w1).
               let info1 = local_ports_info ports info in
               case dget info1 ''comm_port'' of
                 None \<Rightarrow> finish info1 p1 w1
               | Some v \<Rightarrow>
                   let p2 = p1\<lparr>comm_ip := Some ''127.0.0.1''\<rparr> in
                   (case py_int_of v of
                      Inl e \<Rightarrow> (Inl e, p2, w1)
                    | Inr tunneled_comm_port \<Rightarrow>
                        bindE (tunnel_to_port ops ssh_port cull COMMUNICATION server tunneled_comm_port server p2 w1)
                          (\<lambda>lp (p3, w2). finish (dset ''comm_port'' (PInt lp) info1) (p3\<lparr>comm_port := lp\<rparr>) w2)))
      else (case dget info ''comm_port'' of
              None \<Rightarrow> finish info p w
            | Some v \<Rightarrow>
                let p2 = p\<lparr>comm_ip := assigned_ip p\<rparr> in
                (case py_int_of v of
                   Inl e \<Rightarrow> (Inl e, p2, w)
                 | Inr port \<Rightarrow> finish info (p2\<lparr>comm_port := port\<rparr>) w)))"

section \<open>Signals and shutdown over the communication port\<close>

definition send_listener_request ::
  "'w remote_ops \<Rightarrow> (string, pyval) dict \<Rightarrow> bool \<Rightarrow> 'a remote_proxy_scheme \<Rightarrow> 'w \<Rightarrow> unit res \<times> 'w" where
  "send_listener_request ops request shutdown_socket p w =
     (if comm_port p > 0 then ro_send ops (comm_ip p) (comm_port p) request shutdown_socket w
      else (Inr (), w))"

text \<open>A refused connection means there is no process; any other failure falls back to the base class.\<close>

definition remote_send_signal ::
  "'w remote_ops \<Rightarrow> 'a remote_proxy_scheme \<Rightarrow> int \<Rightarrow> 'w \<Rightarrow> pyval \<times> 'w" where
  "remote_send_signal ops p signum w =
     (if comm_port p > 0
      then (case send_listener_request ops [(''signum'', PInt signum)] False p w of
              (Inr _, w') \<Rightarrow> (PNone, w')
            | (Inl e, w') \<Rightarrow>
                if e = OSError ECONNREFUSED then (PBool False, w')
                else base_send_signal (proc_ops.truncate ops) p signum w')
      else base_send_signal (proc_ops.truncate ops) p signum w)"

definition shutdown_listener ::
  "'w remote_ops \<Rightarrow> 'a remote_proxy_scheme \<Rightarrow> 'w \<Rightarrow> 'a remote_proxy_scheme \<times> 'w" where
  "shutdown_listener ops p w =
     (if comm_port p > 0
      then (let w1 = snd (send_listener_request ops [(''shutdown'', PInt 1)] True p w) in
            case dget (tunnel_processes p) (channel_name COMMUNICATION) of
              None \<Rightarrow> (p, w1)
            | Some h \<Rightarrow>
                (p\<lparr>tunnel_processes := ddel (channel_name COMMUNICATION) (tunnel_processes p)\<rparr>,
                 ro_end_tunnel ops h w1))
      else (p, w))"

fun end_tunnels :: "'w remote_ops \<Rightarrow> (string, nat) dict \<Rightarrow> 'w \<Rightarrow> 'w" where
  "end_tunnels ops [] w = w"
| "end_tunnels ops ((kc, h) # rest) w = end_tunnels ops rest (ro_end_tunnel ops h w)"

definition remote_cleanup ::
  "'w remote_ops \<Rightarrow> 'a remote_proxy_scheme \<Rightarrow> 'w \<Rightarrow> 'a remote_proxy_scheme \<times> 'w" where
  "remote_cleanup ops p w =
     (p\<lparr>assigned_ip := None, tunnel_processes := []\<rparr>, end_tunnels ops (tunnel_processes p) w)"

section \<open>Waiting for the launcher\<close>

text \<open>A local launcher that has already failed is reported at once.\<close>

definition detect_launch_failure ::
  "'w remote_ops \<Rightarrow> 'a remote_proxy_scheme \<Rightarrow> 'w \<Rightarrow> unit res \<times> 'a remote_proxy_scheme \<times> 'w" where
  "detect_launch_failure ops p w =
     (if local_proc p
      then (case po_poll ops w of
              (r, w1) \<Rightarrow>
                (case r of
                   None \<Rightarrow> (Inr (), p, w1)
                 | Some c \<Rightarrow>
                     if c > 0
                     then (Inl (HTTPError 500), p\<lparr>local_proc := False\<rparr>, snd (po_wait ops w1))
                     else (Inr (), p, w1)))
      else (Inr (), p, w))"

text \<open>\<open>get_connection_info\<close> is the response manager's; its timeout means: try again.\<close>

definition receive_connection_info ::
  "('w \<Rightarrow> (string, pyval) dict res \<times> 'w) \<Rightarrow>
   ((string, pyval) dict \<Rightarrow> 'a remote_proxy_scheme \<Rightarrow> 'w \<Rightarrow> unit res \<times> 'a remote_proxy_scheme \<times> 'w) \<Rightarrow>
   ('a remote_proxy_scheme \<Rightarrow> 'w \<Rightarrow> 'a remote_proxy_scheme \<times> 'w) \<Rightarrow>
   'a remote_proxy_scheme \<Rightarrow> 'w \<Rightarrow> bool res \<times> 'a remote_proxy_scheme \<times> 'w" where
  "receive_connection_info get_connection_info setup kill p w =
     (case (case get_connection_info w of
              (Inl e, w1) \<Rightarrow> (Inl e, p, w1)
            | (Inr info, w1) \<Rightarrow> setup info p w1) of
        (Inr _, p', w') \<Rightarrow> (Inr True, p', w')
      | (Inl e, p', w') \<Rightarrow>
          if e = TimeoutError then (Inr False, p', w')
          else (Inl (HTTPError 500), kill p' w'))"

text \<open>
  The difference of two times in milliseconds, printed as seconds, a dot and the
  milliseconds without leading zeros, and read back as a decimal number.
\<close>

definition get_time_diff :: "int \<Rightarrow> int \<Rightarrow> rat" where
  "get_time_diff time1 time2 =
     (let diff = \<bar>time2 - time1\<bar>; ms = nat (diff mod 1000) in
      of_int (diff div 1000) + of_nat ms / 10 ^ length (nat_str ms))"

definition handle_timeout ::
  "rat \<Rightarrow> int \<Rightarrow> ('w \<Rightarrow> int \<times> 'w) \<Rightarrow>
   ('a remote_proxy_scheme \<Rightarrow> 'w \<Rightarrow> 'a remote_proxy_scheme \<times> 'w) \<Rightarrow>
   'a remote_proxy_scheme \<Rightarrow> 'w \<Rightarrow> unit res \<times> 'a remote_proxy_scheme \<times> 'w" where
  "handle_timeout kernel_launch_timeout start_time sleep_and_clock kill p w =
     (case sleep_and_clock w of
        (now, w1) \<Rightarrow>
          if get_time_diff start_time now > kernel_launch_timeout
          then (Inl (HTTPError 500), kill p w1) else (Inr (), p, w1))"

text \<open>
  The loop of every \<open>confirm_remote_startup\<close>: check the timeout, then whether the kernel is
  ready (\<open>step\<close>, which differs between the proxies).  \<open>None\<close>: the fuel did not suffice.
\<close>

fun confirm_loop ::
  "('p \<Rightarrow> 'w \<Rightarrow> unit res \<times> 'p \<times> 'w) \<Rightarrow> ('p \<Rightarrow> 'w \<Rightarrow> bool res \<times> 'p \<times> 'w) \<Rightarrow> nat \<Rightarrow> 'p \<Rightarrow> 'w \<Rightarrow>
   (unit res \<times> 'p \<times> 'w) option" where
  "confirm_loop timeout step 0 p w = None"
| "confirm_loop timeout step (Suc n) p w =
     (case timeout p w of
        (Inl e, pw) \<Rightarrow> Some (Inl e, pw)
      | (Inr _, p1, w1) \<Rightarrow>
          (case step p1 w1 of
             (Inl e, pw) \<Rightarrow> Some (Inl e, pw)
           | (Inr ready, p2, w2) \<Rightarrow>
               if ready then Some (Inr (), p2, w2) else confirm_loop timeout step n p2 w2))"

section \<open>Process information\<close>

definition remote_get_process_info :: "'a remote_proxy_scheme \<Rightarrow> (string, pyval) dict" where
  "remote_get_process_info p =
     dupdate (base_get_process_info p)
       [(''assigned_ip'', opt_str (assigned_ip p)), (''assigned_host'', PStr (assigned_host p)),
        (''comm_ip'', opt_str (comm_ip p)), (''comm_port'', PInt (comm_port p)),
        (''tunneled_connect_info'',
          (case tunneled_connect_info p of None \<Rightarrow> PNone | Some d \<Rightarrow> PDict d))]"

definition as_str :: "pyval \<Rightarrow> string res" where
  "as_str v = (case v of PStr s \<Rightarrow> Inr s | _ \<Rightarrow> Inl TypeError)"

definition load_remote_fields ::
  "(string, pyval) dict \<Rightarrow> 'a remote_proxy_scheme \<Rightarrow> 'a remote_proxy_scheme res" where
  "load_remote_fields info p =
     rbind (of_option KeyError (dget info ''assigned_ip'')) (\<lambda>v. rbind (as_opt_str v) (\<lambda>aip.
     rbind (of_option KeyError (dget info ''assigned_host'')) (\<lambda>v. rbind (as_str v) (\<lambda>host.
     rbind (of_option KeyError (dget info ''comm_ip'')) (\<lambda>v. rbind (as_opt_str v) (\<lambda>cip.
     rbind (of_option KeyError (dget info ''comm_port'')) (\<lambda>v. rbind (as_int v) (\<lambda>cport.
     Inr (p\<lparr>assigned_ip := aip, assigned_host := host, comm_ip := cip, comm_port := cport\<rparr>)))))))))"

definition remote_load_process_info ::
  "((string, pyval) dict \<Rightarrow> 'a remote_proxy_scheme \<Rightarrow> 'w \<Rightarrow> unit res \<times> 'a remote_proxy_scheme \<times> 'w) \<Rightarrow>
   (string, pyval) dict \<Rightarrow> 'a remote_proxy_scheme \<Rightarrow> 'w \<Rightarrow> unit res \<times> 'a remote_proxy_scheme \<times> 'w" where
  "remote_load_process_info setup info p w =
     (case rbind (base_load_process_info info p) (load_remote_fields info) of
        Inl e \<Rightarrow> (Inl e, p, w)
      | Inr p1 \<Rightarrow>
          (case dget info ''tunneled_connect_info'' of
             Some (PDict d) \<Rightarrow> setup d p1 w
           | Some PNone \<Rightarrow> (Inr (), p1, w)
           | None \<Rightarrow> (Inr (), p1, w)
           | Some _ \<Rightarrow> (Inl TypeError, p1, w)))"

section \<open>Properties\<close>

text \<open>
  The process information of a remote kernel restores, in another gateway, the ids,
  addresses and communication port of its proxy; when the connection was tunnelled the
  tunnels are set up again from the remote ports recorded before the first ones were opened.
\<close>

lemma remote_process_info_roundtrip:
  "remote_load_process_info setup (remote_get_process_info p) q w =
   (let q' = q\<lparr>proxy_pid := proxy_pid p, proxy_pgid := proxy_pgid p, proxy_ip := proxy_ip p,
               assigned_ip := assigned_ip p, assigned_host := assigned_host p,
               comm_ip := comm_ip p, comm_port := comm_port p\<rparr> in
    case tunneled_connect_info p of None \<Rightarrow> (Inr (), q', w) | Some d \<Rightarrow> setup d q' w)"
  by (simp add: remote_load_process_info_def remote_get_process_info_def base_get_process_info_def
      base_load_process_info_def load_remote_fields_def as_int_def as_opt_str_def as_str_def opt_str_def
      split: option.splits)

text \<open>
  Without tunnelling the kernel is contacted at the address assigned by the proxy, with
  everything the launcher sent except its process ids, which become the proxy's; the
  launcher's communication port is recorded when it sent one.
\<close>

lemma setup_connection_direct:
  assumes "dict_ok info" "dget info ''pid'' = Some (PInt pid)" "dget info ''pgid'' = Some (PInt pgid)"
    and "pid \<noteq> 0" "pgid \<noteq> 0" "dget info ''comm_port'' = map_option PInt cp"
    and "setup_connection_info False ops sp cull info p w = (r, p', w')"
  shows "r = Inr () \<and> w' = w \<and> proxy_pid p' = pid \<and> proxy_pgid p' = pgid \<and>
    proxy_ip p' = assigned_ip p \<and> comm_port p' = (case cp of None \<Rightarrow> comm_port p | Some c \<Rightarrow> c) \<and>
    (\<exists>km. km_connection p' = Some km \<and>
      (\<forall>k. dget km k = (if k = ''ip'' then Some (opt_str (assigned_ip p))
                        else if k \<in> {''pid'', ''pgid''} then None else dget info k)))"
proof -
  have ne: "dset k v d \<noteq> []" for k :: string and v and d :: "(string, pyval) dict"
    by (cases d) auto
  show ?thesis
    using assms ne
    by (cases cp) (auto simp: setup_connection_info_def update_connection_def extract_pid_info_def
        pop_id_def Let_def split: if_splits)
qed

definition demo_info :: "(string, pyval) dict" where
  "demo_info = [(''shell_port'', PInt 40001), (''pid'', PInt 12), (''pgid'', PInt 11), (''comm_port'', PInt 40002)]"

definition demo_remote :: remote_proxy where
  "demo_remote = \<lparr>local_proc = True, proxy_ip = None, proxy_pid = 5, proxy_pgid = 0,
     assigned_ip = Some ''10.1.1.1'', assigned_host = ''node1'', comm_ip = None, comm_port = 0,
     tunneled_connect_info = None, tunnel_processes = [], km_connection = None,
     connection_file_written = False\<rparr>"

definition demo_remote_ops :: "demo_sys remote_ops" where
  "demo_remote_ops = proc_ops.extend demo_ops
     \<lparr>ro_select_ports = (\<lambda>n s. (Inr (replicate n 5000), s)), ro_passwordless = (\<lambda>h s. (True, s)),
      ro_spawn = (\<lambda>c s. (Inr 1, s)), ro_end_tunnel = (\<lambda>h s. s),
      ro_send = (\<lambda>ip port req sh s. (Inr (), s))\<rparr>"

lemma setup_connection_direct_witness:
  "comm_port (fst (snd (setup_connection_info False demo_remote_ops 22 0 demo_info demo_remote
     \<lparr>ds_alive = 1, ds_log = [], ds_slept = 0\<rparr>))) = 40002"
proof -
  obtain r p' w' where s: "setup_connection_info False demo_remote_ops 22 0 demo_info demo_remote
     \<lparr>ds_alive = 1, ds_log = [], ds_slept = 0\<rparr> = (r, p', w')"
    by (metis prod_cases3)
  show ?thesis
    using setup_connection_direct [OF _ _ _ _ _ _ s, of 12 11 "Some 40002"] s
    by (simp add: demo_info_def dict_ok_def)
qed

lemma time_diff_whole_seconds: "get_time_diff (1000 * a) (1000 * b) = of_int \<bar>b - a\<bar>"
proof -
  have "\<bar>1000 * b - 1000 * a\<bar> = 1000 * \<bar>b - a\<bar>"
    by (cases "a \<le> b") (simp_all add: abs_if)
  then show ?thesis by (simp add: get_time_diff_def)
qed

text \<open>Leading zeros of the milliseconds are lost: 5.030 seconds are taken for 5.3.\<close>

lemma time_diff_drops_zeros: "get_time_diff 0 5030 = 53 / 10"
proof -
  have "nat_str 30 = ''30''" by code_simp
  then show ?thesis by (simp add: get_time_diff_def Let_def power2_eq_square)
qed

text \<open>
  A loop whose passes make a measure smaller ends; when every pass goes well it ends ready,
  in a state the invariant allows.
\<close>

lemma confirm_loop_ends:
  assumes "\<And>p w p1 w1 p2 w2. I p w \<Longrightarrow> timeout p w = (Inr (), p1, w1) \<Longrightarrow>
      step p1 w1 = (Inr False, p2, w2) \<Longrightarrow> I p2 w2 \<and> m p2 w2 < (m p w :: nat)"
  shows "I p w \<Longrightarrow> m p w < n \<Longrightarrow> confirm_loop timeout step n p w \<noteq> None"
proof (induction n arbitrary: p w)
  case (Suc n)
  obtain r p1 w1 where t: "timeout p w = (r, p1, w1)" by (metis prod_cases3)
  obtain r2 p2 w2 where s: "step p1 w1 = (r2, p2, w2)" by (metis prod_cases3)
  have "confirm_loop timeout step n p2 w2 \<noteq> None" if "r = Inr ()" "r2 = Inr False"
    using assms [OF Suc.prems(1), of p1 w1 p2 w2] t s that Suc by auto
  with t s show ?case by (cases r; cases r2) auto
qed simp

lemma confirm_loop_ready:
  assumes "\<And>p w. I p w \<Longrightarrow> \<exists>p1 w1 b p2 w2. timeout p w = (Inr (), p1, w1) \<and> step p1 w1 = (Inr b, p2, w2) \<and>
      (if b then Q p2 w2 else I p2 w2 \<and> m p2 w2 < (m p w :: nat))"
  shows "I p w \<Longrightarrow> m p w < n \<Longrightarrow> \<exists>p' w'. confirm_loop timeout step n p w = Some (Inr (), p', w') \<and> Q p' w'"
proof (induction n arbitrary: p w)
  case (Suc n)
  obtain p1 w1 b p2 w2 where t: "timeout p w = (Inr (), p1, w1)" "step p1 w1 = (Inr b, p2, w2)"
    "if b then Q p2 w2 else I p2 w2 \<and> m p2 w2 < m p w"
    using assms [OF Suc.prems(1)] by blast
  show ?case
  proof (cases b)
    case False
    with t Suc show ?thesis by auto
  qed (use t in simp)
qed simp

lemma time_diff_seconds:
  assumes "a \<le> b"
  shows "get_time_diff (1000 * (a div 1000)) (1000 * (b div 1000)) = of_int (b div 1000 - a div 1000)"
proof -
  have "a div 1000 \<le> b div 1000" using assms by (rule zdiv_mono1) simp
  then show ?thesis by (simp add: time_diff_whole_seconds)
qed

text \<open>A clock reading from which on any wait of \<open>timeout\<close> seconds that started at \<open>a\<close> is over.\<close>

lemma deadline_exists:
  "\<exists>lim. \<forall>b\<ge>lim. a \<le> b \<and> timeout < get_time_diff (1000 * (a div 1000)) (1000 * (b div 1000))"
proof -
  obtain d :: int where d: "timeout < of_int d" using ex_less_of_int by blast
  have "timeout < get_time_diff (1000 * (a div 1000)) (1000 * (b div 1000))"
    if b: "1000 * (a div 1000 + max d 0) + 1000 \<le> b" "a \<le> b" for b
  proof -
    have "(1000 * (a div 1000 + max d 0) + 1000) div 1000 \<le> b div 1000"
      using b(1) by (rule zdiv_mono1) simp
    moreover have "(1000 * (a div 1000 + max d 0) + 1000) div 1000 = a div 1000 + max d 0 + 1" by simp
    ultimately have "d \<le> b div 1000 - a div 1000" by linarith
    then have "(of_int d :: rat) \<le> of_int (b div 1000 - a div 1000)" by (simp only: of_int_le_iff)
    with d show ?thesis by (simp only: time_diff_seconds [OF b(2)])
  qed
  moreover have "a \<le> b" if "1000 * (a div 1000 + max d 0) + 1000 \<le> b" for b
  proof -
    have "a < 1000 * (a div 1000) + 1000" by presburger
    with that show ?thesis by (simp add: max_def split: if_splits)
  qed
  ultimately show ?thesis by blast
qed

text \<open>
  C32: Waiting for a kernel ends: with a clock that advances by at least a millisecond per
  pass and is read in whole seconds, as \<open>get_current_time\<close> does, the startup loop of every
  proxy either gets ready or raises, after a number of passes that its start determines.
\<close>

theorem startup_wait_terminates:
  fixes rclock :: "'w \<Rightarrow> int"
  assumes "timeout = handle_timeout kernel_launch_timeout (1000 * (rclock w div 1000)) sleep_and_clock kill"
    and "\<And>w now w'. sleep_and_clock w = (now, w') \<Longrightarrow>
      now = 1000 * (rclock w' div 1000) \<and> rclock w + 1 \<le> rclock w'"
    and "\<And>p w r p' w'. step p w = (r, p', w') \<Longrightarrow> rclock w \<le> rclock w'"
  shows "\<exists>N. \<forall>n\<ge>N. confirm_loop timeout step n p w \<noteq> None"
proof -
  obtain lim where lim: "\<And>b. lim \<le> b \<Longrightarrow>
      kernel_launch_timeout < get_time_diff (1000 * (rclock w div 1000)) (1000 * (b div 1000))"
    using deadline_exists by blast
  have pass: "nat (lim - rclock v2) < nat (lim - rclock v)"
    if t: "timeout p v = (Inr (), p1, v1)" and s: "step p1 v1 = (Inr False, p2, v2)" for p v p1 v1 p2 v2
  proof -
    from t have c: "sleep_and_clock v = (fst (sleep_and_clock v), v1)"
      and ok: "get_time_diff (1000 * (rclock w div 1000)) (fst (sleep_and_clock v)) \<le> kernel_launch_timeout"
      by (auto simp: assms(1) handle_timeout_def split: prod.splits if_splits)
    note clock = assms(2) [OF c]
    have "rclock v1 < lim" using ok lim [of "rclock v1"] clock by (fastforce simp: not_le [symmetric])
    with clock assms(3) [OF s] show ?thesis by linarith
  qed
  show ?thesis
    using confirm_loop_ends [of "\<lambda>p w. True" timeout step "\<lambda>p v. nat (lim - rclock v)" p w] pass
    by (intro exI [of _ "Suc (nat (lim - rclock w))"]) auto
qed

lemma startup_wait_terminates_witness:
  "\<exists>N. \<forall>n\<ge>N. confirm_loop
     (handle_timeout 30 (1000 * ((0::int) div 1000)) (\<lambda>c. (1000 * ((c + 500) div 1000), c + 500)) (\<lambda>p c. (p, c)))
     (\<lambda>p c. (Inr False, p, c)) n demo_remote 0 \<noteq> None"
  using startup_wait_terminates [where rclock = "\<lambda>c. c" and w = "0::int" and p = demo_remote
      and step = "\<lambda>p c. (Inr False, p, c)" and kernel_launch_timeout = 30 and kill = "\<lambda>p c. (p, c)"
      and sleep_and_clock = "\<lambda>c. (1000 * ((c + 500) div 1000), c + 500)", OF refl]
  by simp

lemma keep_alive_exceeds_culling:
  "0 < cull \<Longrightarrow> cull \<le> max_keep_alive_interval - 60 \<Longrightarrow> cull < keep_alive_interval cull kc"
  by (simp add: keep_alive_interval_def)

end
