(* ===== verification/Distributed.thy ===== *)
theory Distributed
  imports RemoteProxy KernelSessions
begin

text \<open>
  \<open>DistributedProcessProxy\<close> (services/processproxies/distributed.py): the choice of a host,
  by round robin or by the number of kernels tracked per host, and the command line that
  starts a kernel over ssh.  The shell is modelled as far as it reads words: \<open>sh_scan\<close>
  accepts only text it takes literally.
\<close>

section \<open>Kernels per host\<close>

record host_tracker =
  host_kernels :: "(string, int) dict"
  kernel_host_mapping :: "(string, string) dict"

definition host_increment :: "string \<Rightarrow> host_tracker \<Rightarrow> host_tracker" where
  "host_increment host t =
     t\<lparr>host_kernels := dset host (dget_or (host_kernels t) host 0 + 1) (host_kernels t)\<rparr>"

definition host_decrement :: "string \<Rightarrow> host_tracker \<Rightarrow> host_tracker" where
  "host_decrement host t =
     t\<lparr>host_kernels := dset host (dget_or (host_kernels t) host 0 - 1) (host_kernels t)\<rparr>"

definition add_kernel_id :: "string \<Rightarrow> string \<Rightarrow> host_tracker \<Rightarrow> host_tracker" where
  "add_kernel_id host kernel_id t =
     host_increment host (t\<lparr>kernel_host_mapping := dset kernel_id host (kernel_host_mapping t)\<rparr>)"

definition delete_kernel_id :: "string \<Rightarrow> host_tracker \<Rightarrow> host_tracker" where
  "delete_kernel_id kernel_id t =
     (case dget (kernel_host_mapping t) kernel_id of
        None \<Rightarrow> t
      | Some host \<Rightarrow>
          if host \<noteq> []
          then (host_decrement host t)\<lparr>kernel_host_mapping := ddel kernel_id (kernel_host_mapping t)\<rparr>
          else t)"

text \<open>The first key with the least value, as \<open>min\<close> over a dict gives it.\<close>

fun min_host :: "(string, int) dict \<Rightarrow> string res" where
  "min_host [] = Inl ValueError"
| "min_host [(h, n)] = Inr h"
| "min_host ((h, n) # (h', n') # rest) = (if n \<le> n' then min_host ((h, n) # rest) else min_host ((h', n') # rest))"

definition min_or_remote_host :: "string option \<Rightarrow> host_tracker \<Rightarrow> string res" where
  "min_or_remote_host remote_host t =
     (case remote_host of
        Some h \<Rightarrow> if h \<noteq> [] then Inr h else min_host (host_kernels t)
      | None \<Rightarrow> min_host (host_kernels t))"

definition init_host_kernels :: "string list \<Rightarrow> host_tracker \<Rightarrow> host_tracker" where
  "init_host_kernels hosts t =
     (if length (host_kernels t) = 0
      then t\<lparr>host_kernels := dupdate (host_kernels t) (map (\<lambda>h. (h, 0)) hosts)\<rparr> else t)"

section \<open>Choosing a host\<close>

text \<open>The class members shared by all proxies.\<close>

record dist_class =
  host_index :: nat
  kernel_on_host :: host_tracker

record dist_config =
  least_connection :: bool
  hosts :: "string list"

definition dist_init ::
  "string \<Rightarrow> string option \<Rightarrow> string list \<Rightarrow> dist_class \<Rightarrow> dist_config \<times> dist_class" where
  "dist_init algorithm config_hosts remote_hosts d =
     (let cfg = \<lparr>least_connection = (algorithm = ''least-connection''),
                 hosts = (case config_hosts of
                    Some s \<Rightarrow> if s \<noteq> [] then split_on '','' s else remote_hosts
                  | None \<Rightarrow> remote_hosts)\<rparr> in
      (cfg, if least_connection cfg
            then d\<lparr>kernel_on_host := init_host_kernels (hosts cfg) (kernel_on_host d)\<rparr> else d))"

text \<open>An empty list of hosts makes the remainder raise \<open>ZeroDivisionError\<close>.\<close>

definition determine_next_host ::
  "dist_config \<Rightarrow> string \<Rightarrow> env \<Rightarrow> dist_class \<Rightarrow> string res \<times> dist_class" where
  "determine_next_host cfg kernel_id env d =
     (let remote_host = dget env ''KERNEL_REMOTE_HOST'' in
      if least_connection cfg
      then (case min_or_remote_host remote_host (kernel_on_host d) of
              Inl e \<Rightarrow> (Inl e, d)
            | Inr h \<Rightarrow> (Inr h, d\<lparr>kernel_on_host := add_kernel_id h kernel_id (kernel_on_host d)\<rparr>))
      else (case (case remote_host of
                    Some h \<Rightarrow> if h \<noteq> [] then Inr h
                      else if hosts cfg = [] then Inl OtherError
                      else Inr (hosts cfg ! (host_index d mod length (hosts cfg)))
                  | None \<Rightarrow> if hosts cfg = [] then Inl OtherError
                      else Inr (hosts cfg ! (host_index d mod length (hosts cfg)))) of
              Inl e \<Rightarrow> (Inl e, d)
            | Inr h \<Rightarrow> (Inr h, d\<lparr>host_index := host_index d + 1\<rparr>)))"

definition unregister_assigned_host :: "dist_config \<Rightarrow> string \<Rightarrow> dist_class \<Rightarrow> dist_class" where
  "unregister_assigned_host cfg kernel_id d =
     (if least_connection cfg
      then d\<lparr>kernel_on_host := delete_kernel_id kernel_id (kernel_on_host d)\<rparr> else d)"

section \<open>The command line\<close>

definition sh_safe :: "char \<Rightarrow> bool" where
  "sh_safe c \<longleftrightarrow>
     (let n = code c in 65 \<le> n \<and> n \<le> 90 \<or> 97 \<le> n \<and> n \<le> 122 \<or> 48 \<le> n \<and> n \<le> 57) \<or>
     c \<in> set ''_@%+=:,./-''"

definition SQ :: char where "SQ = CHR 0x27"
definition DQ :: char where "DQ = CHR 0x22"

text \<open>\<open>shlex.quote\<close>\<close>

definition shlex_quote :: "string \<Rightarrow> string" where
  "shlex_quote s =
     (if s = [] then [SQ, SQ]
      else if list_all sh_safe s then s
      else SQ # concat (map (\<lambda>c. if c = SQ then [SQ, DQ, SQ, DQ, SQ] else [c]) s) @ [SQ])"

definition kernel_log_path :: "string \<Rightarrow> env \<Rightarrow> string" where
  "kernel_log_path kernel_log_dir env =
     path_join kernel_log_dir (''kernel-'' @ dget_or env ''KERNEL_ID'' ''None'' @ ''.log'')"

definition export_cmd :: "string \<times> string \<Rightarrow> string" where
  "export_cmd kv = ''export '' @ shlex_quote (fst kv) @ ''='' @ shlex_quote (snd kv) @ '';''"

definition startup_cmd :: "env \<Rightarrow> env \<Rightarrow> string list \<Rightarrow> string \<Rightarrow> string" where
  "startup_cmd env spec_env argv kernel_log =
     concat (map export_cmd env) @ concat (map export_cmd spec_env) @ ''nohup'' @
     concat (map (\<lambda>a. CHR '' '' # shlex_quote a) argv) @
     '' >> '' @ kernel_log @ '' 2>&1 & echo $!''"

text \<open>On a local address the argument list is used as it is.\<close>

definition build_startup_command ::
  "bool \<Rightarrow> string \<Rightarrow> env \<Rightarrow> env \<Rightarrow> string list \<Rightarrow> string list + string" where
  "build_startup_command is_local kernel_log_dir env spec_env argv =
     (if is_local then Inl argv
      else Inr (startup_cmd env spec_env argv (kernel_log_path kernel_log_dir env)))"

text \<open>The last line the remote shell prints is the pid; no output leaves a string that is none.\<close>

definition result_pid :: "string list \<Rightarrow> string" where
  "result_pid lines = (if lines = [] then ''bad_pid'' else strip (last lines))"

definition dist_launch_remote ::
  "'w remote_ops \<Rightarrow> (string list \<Rightarrow> string \<Rightarrow> 'w \<Rightarrow> int res \<times> 'w) \<Rightarrow> string \<Rightarrow> env \<Rightarrow> env \<Rightarrow> string list \<Rightarrow>
   'a remote_proxy_scheme \<Rightarrow> 'w \<Rightarrow> string res \<times> 'a remote_proxy_scheme \<times> 'w" where
  "dist_launch_remote ops popen kernel_log_dir env spec_env argv p w =
     (case build_startup_command (po_ip_is_local ops (the_ip p)) kernel_log_dir env spec_env argv of
        Inl cmd \<Rightarrow>
          (case popen cmd (kernel_log_path kernel_log_dir env) w of
             (Inl e, w') \<Rightarrow> (Inl e, p, w')
           | (Inr pid, w') \<Rightarrow> (Inr (int_str pid), p\<lparr>local_proc := True\<rparr>, w'))
      | Inr cmd \<Rightarrow>
          (case po_rsh ops (the_ip p) cmd w of
             (Inl e, w') \<Rightarrow> (Inl e, p, w')
           | (Inr lines, w') \<Rightarrow> (Inr (result_pid lines), p, w')))"

definition dist_launch ::
  "'w remote_ops \<Rightarrow> (string list \<Rightarrow> string \<Rightarrow> 'w \<Rightarrow> int res \<times> 'w) \<Rightarrow> (string \<Rightarrow> string res) \<Rightarrow>
   dist_config \<Rightarrow> string \<Rightarrow> string \<Rightarrow> env \<Rightarrow> env \<Rightarrow> string list \<Rightarrow>
   'a remote_proxy_scheme \<Rightarrow> dist_class \<Rightarrow> 'w \<Rightarrow>
   unit res \<times> 'a remote_proxy_scheme \<times> dist_class \<times> 'w" where
  "dist_launch ops popen gethostbyname cfg kernel_log_dir kernel_id env spec_env argv p d w =
     (case determine_next_host cfg kernel_id env d of
        (Inl e, d1) \<Rightarrow> (Inl e, p, d1, w)
      | (Inr host, d1) \<Rightarrow>
          let p1 = p\<lparr>assigned_host := host\<rparr> in
          (case gethostbyname host of
             Inl e \<Rightarrow> (Inl e, p1, d1, w)
           | Inr ip \<Rightarrow>
               let p2 = p1\<lparr>proxy_ip := Some ip, assigned_ip := Some ip\<rparr> in
               (case dist_launch_remote ops popen kernel_log_dir env spec_env argv p2 w of
                  (Inl _, p3, w') \<Rightarrow> (Inl (HTTPError 500), p3, d1, w')
                | (Inr s, p3, w') \<Rightarrow>
                    (case py_int s of
                       None \<Rightarrow> (Inl (HTTPError 500), p3, d1, w')
                     | Some pid \<Rightarrow> (Inr (), p3\<lparr>proxy_pid := pid\<rparr>, d1, w')))))"

text \<open>
  The override of \<open>handle_timeout\<close> waits, compares and kills as the superclass's; \<open>host\<close> and
  \<open>kernel_log\<close> only go into the message.
\<close>

definition dist_handle_timeout ::
  "('w \<Rightarrow> 'w) \<Rightarrow> ('w \<Rightarrow> int) \<Rightarrow> rat \<Rightarrow> int \<Rightarrow>
   ('a remote_proxy_scheme \<Rightarrow> 'w \<Rightarrow> 'a remote_proxy_scheme \<times> 'w) \<Rightarrow>
   'a remote_proxy_scheme \<Rightarrow> 'w \<Rightarrow> unit res \<times> 'a remote_proxy_scheme \<times> 'w" where
  "dist_handle_timeout sleep current_time kernel_launch_timeout start_time kill p w =
     (let w1 = sleep w; time_interval = get_time_diff start_time (current_time w1) in
      if time_interval > kernel_launch_timeout
      then (let (p2, w2) = kill p w1 in (Inl (HTTPError 500), p2, w2))
      else (Inr (), p, w1))"

lemma dist_timeout_is_remote_timeout:
  "dist_handle_timeout sleep current_time =
     (\<lambda>t s. handle_timeout t s (\<lambda>w. (current_time (sleep w), sleep w)))"
  by (intro ext) (simp add: dist_handle_timeout_def handle_timeout_def Let_def split: prod.splits)

definition dist_shutdown_listener ::
  "'w remote_ops \<Rightarrow> 'a remote_proxy_scheme \<Rightarrow> 'w \<Rightarrow> 'a remote_proxy_scheme \<times> 'w" where
  "dist_shutdown_listener ops p w = shutdown_listener ops p (snd (remote_send_signal ops p SIGTERM w))"

definition dist_cleanup ::
  "'w remote_ops \<Rightarrow> dist_config \<Rightarrow> string \<Rightarrow> 'a remote_proxy_scheme \<Rightarrow> dist_class \<Rightarrow> 'w \<Rightarrow>
   'a remote_proxy_scheme \<times> dist_class \<times> 'w" where
  "dist_cleanup ops cfg kernel_id p d w =
     (case dist_shutdown_listener ops p w of
        (p1, w1) \<Rightarrow>
          (case remote_cleanup ops p1 w1 of
             (p2, w2) \<Rightarrow> (p2, unregister_assigned_host cfg kernel_id d, w2)))"

section \<open>How a shell reads a word\<close>

datatype sh_mode = Plain | Single | Double

text \<open>
  The text of the word that starts here and what is left behind it.  Outside quotes only
  characters that are never special are part of a word; inside double quotes the characters
  that keep a meaning are not read.
\<close>

fun sh_scan :: "sh_mode \<Rightarrow> string \<Rightarrow> (string \<times> string) option" where
  "sh_scan Plain [] = Some ([], [])"
| "sh_scan Single [] = None"
| "sh_scan Double [] = None"
| "sh_scan Plain (c # cs) =
     (if c = SQ then sh_scan Single cs
      else if c = DQ then sh_scan Double cs
      else if sh_safe c then map_option (\<lambda>(w, r). (c # w, r)) (sh_scan Plain cs)
      else Some ([], c # cs))"
| "sh_scan Single (c # cs) =
     (if c = SQ then sh_scan Plain cs else map_option (\<lambda>(w, r). (c # w, r)) (sh_scan Single cs))"
| "sh_scan Double (c # cs) =
     (if c = DQ then sh_scan Plain cs
      else if c \<in> {CHR ''$'', CHR 0x60, CHR 0x5C} then None
      else map_option (\<lambda>(w, r). (c # w, r)) (sh_scan Double cs))"

abbreviation prepend :: "string \<Rightarrow> (string \<times> string) option \<Rightarrow> (string \<times> string) option" where
  "prepend s \<equiv> map_option (\<lambda>(w, r). (s @ w, r))"

lemma prepend_Cons: "map_option (\<lambda>(w, r). (c # w, r)) (prepend s x) = prepend (c # s) x"
  by (cases x) auto

lemma sh_safe_not_quote: "sh_safe c \<Longrightarrow> c \<noteq> SQ \<and> c \<noteq> DQ"
  by (auto simp: sh_safe_def SQ_def DQ_def code_def Let_def)

lemma quotes_distinct: "SQ \<noteq> DQ" "SQ \<notin> {CHR ''$'', CHR 0x60, CHR 0x5C}"
  by (simp_all add: SQ_def DQ_def)

lemma scan_safe: "list_all sh_safe s \<Longrightarrow> sh_scan Plain (s @ rest) = prepend s (sh_scan Plain rest)"
proof (induction s)
  case Nil
  show ?case by (cases "sh_scan Plain rest") auto
next
  case (Cons c s)
  then show ?case using sh_safe_not_quote [of c] by (simp add: prepend_Cons)
qed

lemma scan_single:
  "sh_scan Single (concat (map (\<lambda>c. if c = SQ then [SQ, DQ, SQ, DQ, SQ] else [c]) s) @ SQ # rest) =
   prepend s (sh_scan Plain rest)"
proof (induction s)
  case Nil
  show ?case by (cases "sh_scan Plain rest") auto
next
  case (Cons c s)
  then show ?case using quotes_distinct by (cases "sh_scan Plain rest") auto
qed

text \<open>A quoted string is read back as the string, whatever it contains.\<close>

lemma scan_quote: "sh_scan Plain (shlex_quote s @ rest) = prepend s (sh_scan Plain rest)"
  using scan_safe [of s rest] scan_single [of s rest]
  by (cases "sh_scan Plain rest") (auto simp: shlex_quote_def)

lemma scan_stop: "\<not> sh_safe c \<Longrightarrow> c \<noteq> SQ \<Longrightarrow> c \<noteq> DQ \<Longrightarrow> sh_scan Plain (c # cs) = Some ([], c # cs)"
  by simp

lemma sh_stops [simp]:
  "\<not> sh_safe (CHR '';'')" "\<not> sh_safe (CHR '' '')" "CHR '';'' \<noteq> SQ" "CHR '';'' \<noteq> DQ"
  "CHR '' '' \<noteq> SQ" "CHR '' '' \<noteq> DQ" "sh_safe (CHR ''='')" "CHR ''='' \<noteq> SQ" "CHR ''='' \<noteq> DQ"
  by (simp_all add: sh_safe_def SQ_def DQ_def code_def Let_def)

lemma sh_scan_length: "sh_scan m s = Some (w, r) \<Longrightarrow> length r \<le> length s"
  by (induction m s arbitrary: w r rule: sh_scan.induct) (fastforce split: if_splits)+

text \<open>Reading the leading \<open>export\<close> commands, and the arguments of a command.\<close>

function read_exports :: "string \<Rightarrow> string list \<times> string" where
  "read_exports s =
     (if startswith s ''export ''
      then (case sh_scan Plain (drop 7 s) of
              Some (w, c # r) \<Rightarrow>
                if c = CHR '';'' then (case read_exports r of (ws, r') \<Rightarrow> (w # ws, r')) else ([], s)
            | _ \<Rightarrow> ([], s))
      else ([], s))"
  by pat_completeness auto
termination
  by (relation "measure length") (auto dest!: sh_scan_length)

function read_args :: "string \<Rightarrow> string list \<times> string" where
  "read_args s =
     (case s of
        c # t \<Rightarrow>
          if c = CHR '' '' \<and> \<not> startswith t ''>>''
          then (case sh_scan Plain t of
                  Some (w, r) \<Rightarrow> (case read_args r of (ws, r') \<Rightarrow> (w # ws, r'))
                | None \<Rightarrow> ([], s))
          else ([], s)
      | [] \<Rightarrow> ([], s))"
  by pat_completeness auto
termination
  by (relation "measure length") (auto dest!: sh_scan_length)

declare read_exports.simps [simp del] read_args.simps [simp del]

definition assignment :: "string \<times> string \<Rightarrow> string" where
  "assignment kv = fst kv @ ''='' @ snd kv"

lemma read_export_cmd: "read_exports (export_cmd kv @ s) =
    (assignment kv # fst (read_exports s), snd (read_exports s))"
proof -
  have e: "export_cmd kv @ s = ''export '' @ shlex_quote (fst kv) @ ''='' @ shlex_quote (snd kv) @ CHR '';'' # s"
    by (simp add: export_cmd_def)
  have sc: "sh_scan Plain (shlex_quote (fst kv) @ ''='' @ shlex_quote (snd kv) @ CHR '';'' # s) =
      Some (assignment kv, CHR '';'' # s)"
    by (simp add: scan_quote assignment_def)
  have "startswith (export_cmd kv @ s) ''export ''" unfolding e by (rule startswith_append)
  moreover have "drop 7 (export_cmd kv @ s) = shlex_quote (fst kv) @ ''='' @ shlex_quote (snd kv) @ CHR '';'' # s"
    unfolding e by simp
  ultimately show ?thesis
    by (simp add: read_exports.simps [of "export_cmd kv @ s"] sc [simplified] split: prod.splits)
qed

lemma read_export_cmds: "read_exports (concat (map export_cmd kvs) @ s) =
    (map assignment kvs @ fst (read_exports s), snd (read_exports s))"
  by (induction kvs) (simp_all add: read_export_cmd)

lemma quote_first: "\<not> startswith (shlex_quote a @ CHR '' '' # s) ''>>''"
proof -
  have gt: "\<not> sh_safe (CHR ''>'')" "SQ \<noteq> CHR ''>''"
    by (simp_all add: sh_safe_def SQ_def code_def Let_def)
  show ?thesis
  proof (cases "a \<noteq> [] \<and> list_all sh_safe a")
    case True
    then show ?thesis using gt by (cases a) (auto simp: shlex_quote_def)
  next
    case False
    then show ?thesis using gt by (auto simp: shlex_quote_def)
  qed
qed

lemma read_args_cmd: "read_args (concat (map (\<lambda>a. CHR '' '' # shlex_quote a) argv) @ '' >> '' @ s) =
    (argv, '' >> '' @ s)"
proof (induction argv)
  case Nil
  show ?case by (simp add: read_args.simps)
next
  case (Cons a argv)
  define t where "t = concat (map (\<lambda>a. CHR '' '' # shlex_quote a) argv) @ '' >> '' @ s"
  obtain u where u: "t = CHR '' '' # u" by (cases argv) (simp_all add: t_def)
  have "sh_scan Plain (shlex_quote a @ t) = Some (a, t)"
    by (simp add: scan_quote u)
  moreover have "\<not> startswith (shlex_quote a @ t) ''>>''" unfolding u by (rule quote_first)
  moreover have "concat (map (\<lambda>a. CHR '' '' # shlex_quote a) (a # argv)) @ '' >> '' @ s =
      CHR '' '' # shlex_quote a @ t" by (simp add: t_def)
  ultimately show ?case
    using Cons by (simp add: read_args.simps [of "CHR '' '' # shlex_quote a @ t"] flip: t_def)
qed

section \<open>Properties\<close>

text \<open>
  C2: The command sent to a remote host cannot be broken out of: a shell reads from it one
  \<open>export\<close> of exactly each variable, the kernelspec's after the request's, then \<open>nohup\<close> with
  exactly the arguments of the kernel, then the redirection, whatever the names, values
  and arguments contain.
\<close>

theorem startup_command_is_faithful:
  assumes "build_startup_command False kernel_log_dir env spec_env argv = Inr cmd"
  shows "\<exists>rest. read_exports cmd = (map assignment (env @ spec_env), ''nohup'' @ rest) \<and>
    read_args rest = (argv, '' >> '' @ kernel_log_path kernel_log_dir env @ '' 2>&1 & echo $!'')"
proof -
  define rest where "rest = concat (map (\<lambda>a. CHR '' '' # shlex_quote a) argv) @ '' >> '' @
    kernel_log_path kernel_log_dir env @ '' 2>&1 & echo $!''"
  have cmd: "cmd = concat (map export_cmd (env @ spec_env)) @ ''nohup'' @ rest"
    using assms by (simp add: build_startup_command_def startup_cmd_def rest_def)
  have "\<not> startswith (''nohup'' @ rest) ''export ''" by simp
  then have "read_exports (''nohup'' @ rest) = ([], ''nohup'' @ rest)"
    using read_exports.simps [of "''nohup'' @ rest"] by (simp only: if_False)
  then have "read_exports cmd = (map assignment (env @ spec_env), ''nohup'' @ rest)"
    unfolding cmd using read_export_cmds [of "env @ spec_env" "''nohup'' @ rest"]
    by (simp only: fst_conv snd_conv append_Nil2)
  moreover have "read_args rest = (argv, '' >> '' @ kernel_log_path kernel_log_dir env @ '' 2>&1 & echo $!'')"
    unfolding rest_def by (rule read_args_cmd)
  ultimately show ?thesis by blast
qed

lemma startup_command_is_faithful_witness:
  "\<exists>rest. read_exports (startup_cmd [(''A'', ''x; rm -rf /'')] [] [''python'', ''$HOME'']
      (kernel_log_path ''/tmp'' [(''A'', ''x; rm -rf /'')])) = ([''A=x; rm -rf /''], ''nohup'' @ rest)"
  using startup_command_is_faithful [of "''/tmp''" "[(''A'', ''x; rm -rf /'')]" "[]" "[''python'', ''$HOME'']"]
  by (auto simp: build_startup_command_def assignment_def)

text \<open>Launches and ends of kernels under the least-connection policy.\<close>

inductive track_reach :: "dist_config \<Rightarrow> dist_class \<Rightarrow> bool" for cfg :: dist_config where
  track_init: "track_reach cfg \<lparr>host_index = 0, kernel_on_host =
      init_host_kernels (hosts cfg) \<lparr>host_kernels = [], kernel_host_mapping = []\<rparr>\<rparr>"
| track_launch: "track_reach cfg d \<Longrightarrow>
    dget (kernel_host_mapping (kernel_on_host d)) kid = None \<Longrightarrow>
    determine_next_host cfg kid env d = (r, d') \<Longrightarrow> track_reach cfg d'"
| track_end: "track_reach cfg d \<Longrightarrow> track_reach cfg (unregister_assigned_host cfg kid d)"

definition kernels_on :: "host_tracker \<Rightarrow> string \<Rightarrow> string set" where
  "kernels_on t h = {kid. dget (kernel_host_mapping t) kid = Some h}"

definition tracker_ok :: "host_tracker \<Rightarrow> bool" where
  "tracker_ok t \<longleftrightarrow>
     (\<forall>h. dget_or (host_kernels t) h 0 = int (card (kernels_on t h))) \<and>
     (\<forall>h n. dget (host_kernels t) h = Some n \<longrightarrow> h \<noteq> []) \<and>
     (\<forall>kid h. dget (kernel_host_mapping t) kid = Some h \<longrightarrow> h \<noteq> [])"

lemma finite_kernels_on: "finite (kernels_on t h)"
  unfolding kernels_on_def
  by (rule finite_subset [OF _ finite_dom_map_of [of "kernel_host_mapping t"]]) (auto simp: dom_def)

lemma add_tracker_ok:
  assumes "tracker_ok t" "dget (kernel_host_mapping t) kid = None" "host \<noteq> []"
  shows "tracker_ok (add_kernel_id host kid t)"
proof -
  have k: "kernels_on (add_kernel_id host kid t) h =
      (if h = host then insert kid (kernels_on t h) else kernels_on t h)" for h
    using assms(2) by (auto simp: kernels_on_def add_kernel_id_def host_increment_def)
  have "kid \<notin> kernels_on t host" using assms(2) by (simp add: kernels_on_def)
  then show ?thesis
    using assms finite_kernels_on unfolding tracker_ok_def k
    by (auto simp: add_kernel_id_def host_increment_def)
qed

lemma delete_tracker_ok:
  assumes "tracker_ok t"
  shows "tracker_ok (delete_kernel_id kid t)"
proof (cases "dget (kernel_host_mapping t) kid")
  case None
  then show ?thesis using assms by (simp add: delete_kernel_id_def)
next
  case (Some host)
  then have ne: "host \<noteq> []" using assms by (auto simp: tracker_ok_def)
  let ?t = "delete_kernel_id kid t"
  have k: "kernels_on ?t h = (if h = host then kernels_on t h - {kid} else kernels_on t h)" for h
    using Some ne by (auto simp: kernels_on_def delete_kernel_id_def host_decrement_def)
  have mem: "kid \<in> kernels_on t host" using Some by (simp add: kernels_on_def)
  then have "card (kernels_on t host) > 0" using finite_kernels_on card_gt_0_iff by blast
  then have "int (card (kernels_on t host - {kid})) = int (card (kernels_on t host)) - 1"
    using mem finite_kernels_on by (simp add: of_nat_diff)
  then show ?thesis
    using assms Some ne unfolding tracker_ok_def k
    by (auto simp: delete_kernel_id_def host_decrement_def split: if_splits)
qed

lemma min_host_least:
  "min_host d = Inr h \<Longrightarrow> \<exists>n. (h, n) \<in> set d \<and> (\<forall>(h', n')\<in>set d. n \<le> n')"
proof (induction d rule: min_host.induct)
  case (3 h1 n1 h2 n2 rest)
  show ?case
  proof (cases "n1 \<le> n2")
    case True
    with 3 obtain n where "(h, n) \<in> set ((h1, n1) # rest)" "\<forall>(h', n')\<in>set ((h1, n1) # rest). n \<le> n'"
      by auto
    with True show ?thesis by (intro exI [of _ n]) auto
  next
    case False
    with 3 obtain n where "(h, n) \<in> set ((h2, n2) # rest)" "\<forall>(h', n')\<in>set ((h2, n2) # rest). n \<le> n'"
      by auto
    with False show ?thesis by (intro exI [of _ n]) auto
  qed
qed auto

lemma dict_ok_host_kernels:
  "dict_ok (host_kernels t) \<Longrightarrow> dict_ok (host_kernels (add_kernel_id h k t))"
  "dict_ok (host_kernels t) \<Longrightarrow> dict_ok (host_kernels (delete_kernel_id k t))"
  by (auto simp: add_kernel_id_def host_increment_def delete_kernel_id_def host_decrement_def
      split: option.splits)

lemma dupdate_zero: "dget (dupdate d (map (\<lambda>h. (h, 0)) hs)) k = (if k \<in> set hs then Some 0 else dget d k)"
  by (induction hs arbitrary: d) auto

lemma track_reach_ok:
  assumes "track_reach cfg d" "least_connection cfg" "[] \<notin> set (hosts cfg)"
  shows "tracker_ok (kernel_on_host d) \<and> dict_ok (host_kernels (kernel_on_host d))"
  using assms
proof (induction rule: track_reach.induct)
  case track_init
  then show ?case
    by (auto simp: tracker_ok_def init_host_kernels_def dupdate_zero kernels_on_def dget_or_def)
next
  case (track_launch d kid env r d')
  show ?case
  proof (cases "min_or_remote_host (dget env ''KERNEL_REMOTE_HOST'') (kernel_on_host d)")
    case (Inl e)
    with track_launch show ?thesis by (simp add: determine_next_host_def)
  next
    case (Inr h)
    have "h \<noteq> []"
    proof
      assume "h = []"
      with Inr have "min_host (host_kernels (kernel_on_host d)) = Inr []"
        by (auto simp: min_or_remote_host_def split: option.splits if_splits)
      then obtain n where "([], n) \<in> set (host_kernels (kernel_on_host d))" using min_host_least by blast
      then have "dget (host_kernels (kernel_on_host d)) [] = Some n"
        using track_launch by (simp add: dict_ok_def)
      then show False using track_launch unfolding tracker_ok_def by blast
    qed
    then show ?thesis
      using track_launch Inr add_tracker_ok dict_ok_host_kernels by (auto simp: determine_next_host_def)
  qed
next
  case (track_end d kid)
  then show ?case
    using delete_tracker_ok dict_ok_host_kernels by (simp add: unregister_assigned_host_def)
qed

text \<open>
  Under the least-connection policy the count kept for a host is the number of kernels
  tracked on it, over any history of launches and ends, and a launch without a host of its
  own goes to a host that has the fewest.
\<close>

lemma least_connection_balances:
  assumes "track_reach cfg d" "least_connection cfg" "[] \<notin> set (hosts cfg)"
    and "dget env ''KERNEL_REMOTE_HOST'' = None" "determine_next_host cfg kid env d = (Inr h, d')"
  shows "(\<forall>h'. dget_or (host_kernels (kernel_on_host d)) h' 0 = int (card (kernels_on (kernel_on_host d) h'))) \<and>
    dhas (host_kernels (kernel_on_host d)) h \<and>
    (\<forall>h'. dhas (host_kernels (kernel_on_host d)) h' \<longrightarrow>
       card (kernels_on (kernel_on_host d) h) \<le> card (kernels_on (kernel_on_host d) h'))"
proof -
  let ?t = "kernel_on_host d"
  have ok: "tracker_ok ?t" "dict_ok (host_kernels ?t)" using track_reach_ok [OF assms(1-3)] by auto
  then have cnt: "dget_or (host_kernels ?t) h' 0 = int (card (kernels_on ?t h'))" for h'
    by (simp add: tracker_ok_def)
  have "min_host (host_kernels ?t) = Inr h"
    using assms by (auto simp: determine_next_host_def min_or_remote_host_def split: sum.splits)
  then obtain n where n: "(h, n) \<in> set (host_kernels ?t)" "\<forall>(h', n')\<in>set (host_kernels ?t). n \<le> n'"
    using min_host_least by blast
  have dn: "dget (host_kernels ?t) h = Some n" using n(1) ok(2) by (simp add: dict_ok_def)
  then have "int (card (kernels_on ?t h)) = n" using cnt [of h] by (simp add: dget_or_def)
  moreover have "n \<le> int (card (kernels_on ?t h'))" if "dhas (host_kernels ?t) h'" for h'
  proof -
    obtain n' where n': "dget (host_kernels ?t) h' = Some n'" using \<open>dhas (host_kernels ?t) h'\<close> by (auto simp: dhas_iff)
    then show ?thesis using n(2) cnt [of h'] by (auto dest!: map_of_SomeD simp: dget_or_def)
  qed
  ultimately show ?thesis using cnt dn by (force simp: dhas_iff)
qed

definition demo_dist :: dist_config where
  "demo_dist = \<lparr>least_connection = True, hosts = [''a'', ''b'']\<rparr>"

definition demo_dist_class :: dist_class where
  "demo_dist_class = \<lparr>host_index = 0, kernel_on_host =
     init_host_kernels (hosts demo_dist) \<lparr>host_kernels = [], kernel_host_mapping = []\<rparr>\<rparr>"

lemmas demo_dist_defs = demo_dist_def demo_dist_class_def init_host_kernels_def determine_next_host_def
  min_or_remote_host_def add_kernel_id_def host_increment_def dget_or_def

lemma least_connection_balances_witness:
  "fst (determine_next_host demo_dist ''k2'' [] (snd (determine_next_host demo_dist ''k1'' [] demo_dist_class)))
     = Inr ''b'' \<and>
   card (kernels_on (kernel_on_host (snd (determine_next_host demo_dist ''k1'' [] demo_dist_class))) ''b'') \<le>
   card (kernels_on (kernel_on_host (snd (determine_next_host demo_dist ''k1'' [] demo_dist_class))) ''a'')"
proof -
  define d where "d = snd (determine_next_host demo_dist ''k1'' [] demo_dist_class)"
  have "track_reach demo_dist demo_dist_class" unfolding demo_dist_class_def by (rule track_init)
  then have r: "track_reach demo_dist d"
    by (rule track_launch [of _ _ "''k1''" "[]" "fst (determine_next_host demo_dist ''k1'' [] demo_dist_class)"])
      (simp_all add: d_def, simp add: demo_dist_class_def init_host_kernels_def)
  have n: "determine_next_host demo_dist ''k2'' [] d =
      (Inr ''b'', snd (determine_next_host demo_dist ''k2'' [] d))"
    by (simp add: d_def demo_dist_defs)
  have h: "dhas (host_kernels (kernel_on_host d)) ''a''"
    by (simp add: d_def demo_dist_defs dhas_iff)
  have l: "least_connection demo_dist" "[] \<notin> set (hosts demo_dist)" by (simp_all add: demo_dist_def)
  show ?thesis
    using least_connection_balances [OF r l _ n] h arg_cong [OF n, of fst] by (simp flip: d_def)
qed

text \<open>A host a client named stays in the pool after its kernel is gone, and is then the least loaded.\<close>

lemma client_host_joins_pool:
  "fst (determine_next_host demo_dist ''k4'' []
     (unregister_assigned_host demo_dist ''k3''
       (snd (determine_next_host demo_dist ''k3'' [(''KERNEL_REMOTE_HOST'', ''client-host'')]
         (snd (determine_next_host demo_dist ''k2'' []
           (snd (determine_next_host demo_dist ''k1'' [] demo_dist_class)))))))) = Inr ''client-host''"
  by (simp add: demo_dist_defs unregister_assigned_host_def delete_kernel_id_def host_decrement_def)

end
