(* ===== verification/Codecs.thy ===== *)
theory Codecs
  imports PyBase
begin

text \<open>
  The text encodings of Python's standard library that the kernel launchers and the gateway
  exchange data in: JSON (\<open>json.dumps\<close> with its default arguments, \<open>json.loads\<close>) and
  Base64 (\<open>base64.b64encode\<close>, the lenient \<open>base64.b64decode\<close>).  JSON numbers with a fraction
  or an exponent and escapes above code point 255 are outside the modelled values.
\<close>

section \<open>Printing JSON\<close>

definition hex_char :: "nat \<Rightarrow> char" where
  "hex_char n = (if n < 10 then char_of (48 + n) else char_of (87 + n))"

definition json_escape :: "char \<Rightarrow> string" where
  "json_escape c =
     (if c = CHR 0x22 then [CHR 0x5C, CHR 0x22]
      else if c = CHR 0x5C then [CHR 0x5C, CHR 0x5C]
      else if c = CHR 0x0A then [CHR 0x5C, CHR ''n'']
      else if c = CHR 0x0D then [CHR 0x5C, CHR ''r'']
      else if c = CHR 0x09 then [CHR 0x5C, CHR ''t'']
      else if c = CHR 0x08 then [CHR 0x5C, CHR ''b'']
      else if c = CHR 0x0C then [CHR 0x5C, CHR ''f'']
      else if code c < 32 \<or> 126 < code c
      then [CHR 0x5C, CHR ''u'', CHR ''0'', CHR ''0'', hex_char (code c div 16), hex_char (code c mod 16)]
      else [c])"

definition json_string :: "string \<Rightarrow> string" where
  "json_string s = CHR 0x22 # concat (map json_escape s) @ [CHR 0x22]"

fun json_dumps :: "pyval \<Rightarrow> string" where
  "json_dumps PNone = ''null''"
| "json_dumps (PBool b) = (if b then ''true'' else ''false'')"
| "json_dumps (PInt i) = int_str i"
| "json_dumps (PStr s) = json_string s"
| "json_dumps (PBytes s) = []"
| "json_dumps (PList xs) = CHR ''['' # join '', '' (map json_dumps xs) @ '']''"
| "json_dumps (PDict d) =
     CHR ''{'' # join '', '' (map (\<lambda>p. json_string (fst p) @ '': '' @ json_dumps (snd p)) d) @ ''}''"

definition dumps :: "pyval \<Rightarrow> string res" where
  "dumps v = (if json_ok v then Inr (json_dumps v) else Inl TypeError)"

section \<open>Reading JSON\<close>

definition json_space :: "char \<Rightarrow> bool" where
  "json_space c \<longleftrightarrow> c = CHR '' '' \<or> c = CHR 0x09 \<or> c = CHR 0x0A \<or> c = CHR 0x0D"

definition skip_ws :: "string \<Rightarrow> string" where
  "skip_ws s = dropWhile json_space s"

definition hex_value :: "char \<Rightarrow> nat option" where
  "hex_value c =
     (let n = code c in
      if 48 \<le> n \<and> n \<le> 57 then Some (n - 48)
      else if 97 \<le> n \<and> n \<le> 102 then Some (n - 87)
      else if 65 \<le> n \<and> n \<le> 70 then Some (n - 55) else None)"

fun hex_string :: "nat \<Rightarrow> string \<Rightarrow> nat option" where
  "hex_string acc [] = Some acc"
| "hex_string acc (c # cs) = (case hex_value c of None \<Rightarrow> None | Some d \<Rightarrow> hex_string (16 * acc + d) cs)"

definition simple_escape :: "char \<Rightarrow> char option" where
  "simple_escape c =
     (if c \<in> {CHR 0x22, CHR 0x5C, CHR ''/''} then Some c
      else if c = CHR ''b'' then Some (CHR 0x08)
      else if c = CHR ''f'' then Some (CHR 0x0C)
      else if c = CHR ''n'' then Some (CHR 0x0A)
      else if c = CHR ''r'' then Some (CHR 0x0D)
      else if c = CHR ''t'' then Some (CHR 0x09) else None)"

definition cons_res :: "'a \<Rightarrow> ('a list \<times> 'b) option \<Rightarrow> ('a list \<times> 'b) option" where
  "cons_res x r = map_option (\<lambda>(xs, s). (x # xs, s)) r"

text \<open>The characters up to the closing quote; control characters have to be escaped.\<close>

function parse_chars :: "string \<Rightarrow> (string \<times> string) option" where
  "parse_chars [] = None"
| "parse_chars (c # cs) =
     (if c = CHR 0x22 then Some ([], cs)
      else if c = CHR 0x5C then
        (case cs of
           [] \<Rightarrow> None
         | e # r \<Rightarrow>
             if e = CHR ''u'' then
               (case hex_string 0 (take 4 r) of
                  Some n \<Rightarrow> if length r \<ge> 4 \<and> n < 256 then cons_res (char_of n) (parse_chars (drop 4 r)) else None
                | None \<Rightarrow> None)
             else (case simple_escape e of Some d \<Rightarrow> cons_res d (parse_chars r) | None \<Rightarrow> None))
      else if code c < 32 then None
      else cons_res c (parse_chars cs))"
  by pat_completeness auto
termination
  by (relation "measure length") auto

definition parse_nat :: "string \<Rightarrow> (nat \<times> string) option" where
  "parse_nat s =
     (let ds = takeWhile is_digit s; r = dropWhile is_digit s in
      if ds = [] then None
      else if hd ds = CHR ''0'' then Some (0, tl s)
      else Some (foldl (\<lambda>a c. 10 * a + (code c - 48)) 0 ds, r))"

text \<open>A fraction or an exponent makes the number a float, which is outside the modelled values.\<close>

definition parse_number :: "string \<Rightarrow> (pyval \<times> string) option" where
  "parse_number s =
     (case (case s of c # cs \<Rightarrow> if c = CHR ''-'' then map_option (\<lambda>(n, r). (- int n, r)) (parse_nat cs)
                                else map_option (\<lambda>(n, r). (int n, r)) (parse_nat s)
            | [] \<Rightarrow> None) of
        None \<Rightarrow> None
      | Some (i, r) \<Rightarrow>
          if r \<noteq> [] \<and> hd r \<in> {CHR ''.'', CHR ''e'', CHR ''E''} then None else Some (PInt i, r))"

text \<open>
  One unit of fuel per nested call; every call reads at least one character of its own, so
  the length of the text is enough (\<open>json_loads\<close>).
\<close>

fun parse_value :: "nat \<Rightarrow> string \<Rightarrow> (pyval \<times> string) option"
and parse_elems :: "nat \<Rightarrow> string \<Rightarrow> (pyval list \<times> string) option"
and parse_members :: "nat \<Rightarrow> string \<Rightarrow> ((string \<times> pyval) list \<times> string) option" where
  "parse_value 0 s = None"
| "parse_value (Suc n) s =
     (case skip_ws s of
        [] \<Rightarrow> None
      | c # cs \<Rightarrow>
          if c = CHR 0x22 then map_option (\<lambda>(t, r). (PStr t, r)) (parse_chars cs)
          else if c = CHR ''['' then
            (if skip_ws cs \<noteq> [] \<and> hd (skip_ws cs) = CHR '']'' then Some (PList [], tl (skip_ws cs))
             else map_option (\<lambda>(vs, r). (PList vs, r)) (parse_elems n cs))
          else if c = CHR ''{'' then
            (if skip_ws cs \<noteq> [] \<and> hd (skip_ws cs) = CHR ''}'' then Some (PDict [], tl (skip_ws cs))
             else map_option (\<lambda>(d, r). (PDict (dupdate [] d), r)) (parse_members n cs))
          else if startswith (c # cs) ''null'' then Some (PNone, drop 3 cs)
          else if startswith (c # cs) ''true'' then Some (PBool True, drop 3 cs)
          else if startswith (c # cs) ''false'' then Some (PBool False, drop 4 cs)
          else parse_number (c # cs))"
| "parse_elems 0 s = None"
| "parse_elems (Suc n) s =
     (case parse_value n s of
        None \<Rightarrow> None
      | Some (v, r) \<Rightarrow>
          (case skip_ws r of
             [] \<Rightarrow> None
           | c # r' \<Rightarrow>
               if c = CHR '','' then cons_res v (parse_elems n r')
               else if c = CHR '']'' then Some ([v], r') else None))"
| "parse_members 0 s = None"
| "parse_members (Suc n) s =
     (case skip_ws s of
        [] \<Rightarrow> None
      | q # r \<Rightarrow>
          if q \<noteq> CHR 0x22 then None
          else (case parse_chars r of
            None \<Rightarrow> None
          | Some (k, r1) \<Rightarrow>
              (case skip_ws r1 of
                 [] \<Rightarrow> None
               | c # r2 \<Rightarrow>
                   if c \<noteq> CHR '':'' then None
                   else (case parse_value n r2 of
                     None \<Rightarrow> None
                   | Some (v, r3) \<Rightarrow>
                       (case skip_ws r3 of
                          [] \<Rightarrow> None
                        | d # r4 \<Rightarrow>
                            if d = CHR '','' then cons_res (k, v) (parse_members n r4)
                            else if d = CHR ''}'' then Some ([(k, v)], r4) else None)))))"

definition json_loads :: "string \<Rightarrow> pyval res" where
  "json_loads s =
     (case parse_value (length s) s of
        Some (v, r) \<Rightarrow> if skip_ws r = [] then Inr v else Inl ValueError
      | None \<Rightarrow> Inl ValueError)"

section \<open>Base64\<close>

definition b64_char :: "nat \<Rightarrow> char" where
  "b64_char n =
     (if n < 26 then char_of (65 + n) else if n < 52 then char_of (71 + n)
      else if n < 62 then char_of (n - 4) else if n = 62 then CHR ''+'' else CHR ''/'')"

definition b64_value :: "char \<Rightarrow> nat option" where
  "b64_value c =
     (let n = code c in
      if 65 \<le> n \<and> n \<le> 90 then Some (n - 65)
      else if 97 \<le> n \<and> n \<le> 122 then Some (n - 71)
      else if 48 \<le> n \<and> n \<le> 57 then Some (n + 4)
      else if c = CHR ''+'' then Some 62 else if c = CHR ''/'' then Some 63 else None)"

fun b64encode :: "string \<Rightarrow> string" where
  "b64encode [] = []"
| "b64encode [a] = [b64_char (code a div 4), b64_char (code a mod 4 * 16), CHR ''='', CHR ''='']"
| "b64encode [a, b] =
     [b64_char (code a div 4), b64_char (code a mod 4 * 16 + code b div 16),
      b64_char (code b mod 16 * 4), CHR ''='']"
| "b64encode (a # b # c # cs) =
     b64_char (code a div 4) # b64_char (code a mod 4 * 16 + code b div 16) #
     b64_char (code b mod 16 * 4 + code c div 64) # b64_char (code c mod 64) # b64encode cs"

text \<open>
  The reader works through the characters with its position in a group of four, the bits
  left over and the number of padding characters in a row; characters outside the alphabet
  are skipped, and a complete padding ends the data whatever follows.
\<close>

fun b64_scan :: "nat \<Rightarrow> nat \<Rightarrow> nat \<Rightarrow> string \<Rightarrow> string res" where
  "b64_scan quad left pads [] = (if quad = 0 then Inr [] else Inl ValueError)"
| "b64_scan quad left pads (ch # cs) =
     (if ch = CHR ''='' then
        (if quad \<ge> 2
         then (if quad + (pads + 1) \<ge> 4 then Inr [] else b64_scan quad left (pads + 1) cs)
         else b64_scan quad left pads cs)
      else (case b64_value ch of
              None \<Rightarrow> b64_scan quad left pads cs
            | Some v \<Rightarrow>
                if quad = 0 then b64_scan 1 v 0 cs
                else if quad = 1
                then rbind (b64_scan 2 (v mod 16) 0 cs) (\<lambda>r. Inr (char_of (left * 4 + v div 16) # r))
                else if quad = 2
                then rbind (b64_scan 3 (v mod 4) 0 cs) (\<lambda>r. Inr (char_of (left * 16 + v div 4) # r))
                else rbind (b64_scan 0 0 0 cs) (\<lambda>r. Inr (char_of (left * 64 + v) # r))))"

definition b64decode :: "string \<Rightarrow> string res" where
  "b64decode s = b64_scan 0 0 0 s"

section \<open>Reading back what was printed\<close>

fun json_wf :: "pyval \<Rightarrow> bool" where
  "json_wf (PBytes s) = False"
| "json_wf (PList xs) = list_all json_wf xs"
| "json_wf (PDict d) = (distinct (map fst d) \<and> list_all (\<lambda>p. json_wf (snd p)) d)"
| "json_wf _ = True"

lemma json_wf_ok: "json_wf v \<Longrightarrow> json_ok v"
  by (induction v) (auto simp: list_all_iff)

lemma cons_res_Some [simp]: "cons_res x (Some (xs, s)) = Some (x # xs, s)"
  by (simp add: cons_res_def)

lemma code_CHR: "code (CHR 0x22) = 34" "code (CHR 0x5C) = 92" "code (CHR 0x0A) = 10" "code (CHR 0x0D) = 13"
  "code (CHR 0x09) = 9" "code (CHR 0x08) = 8" "code (CHR 0x0C) = 12" "code (CHR ''0'') = 48"
  by (simp_all add: code_def)

lemma hex_value_char: "n < 16 \<Longrightarrow> hex_value (hex_char n) = Some n"
  by (auto simp: hex_char_def hex_value_def Let_def)

lemma hex_value_zero: "hex_value (CHR ''0'') = Some 0"
  by (simp add: hex_value_def code_CHR)

lemma parse_escape: "parse_chars (json_escape c @ r) = cons_res c (parse_chars r)"
proof (cases "c \<in> {CHR 0x22, CHR 0x5C, CHR 0x0A, CHR 0x0D, CHR 0x09, CHR 0x08, CHR 0x0C}")
  case True
  then show ?thesis by (elim insertE emptyE) (simp_all add: json_escape_def simple_escape_def)
next
  case False
  show ?thesis
  proof (cases "code c < 32 \<or> 126 < code c")
    case True
    have "code c div 16 < 16" using code_less [of c] by (intro less_mult_imp_div_less) simp
    then have h: "hex_string 0 [CHR ''0'', CHR ''0'', hex_char (code c div 16), hex_char (code c mod 16)] = Some (code c)"
      by (simp add: hex_value_char hex_value_zero)
    have "json_escape c = [CHR 0x5C, CHR ''u'', CHR ''0'', CHR ''0'', hex_char (code c div 16), hex_char (code c mod 16)]"
      using False True by (auto simp: json_escape_def)
    then show ?thesis using h by (simp del: hex_string.simps)
  next
    case plain: False
    then have "json_escape c = [c]" using False by (auto simp: json_escape_def)
    then show ?thesis using False plain by auto
  qed
qed

lemma parse_json_string: "parse_chars (concat (map json_escape s) @ CHR 0x22 # r) = Some (s, r)"
  by (induction s) (simp_all add: parse_escape)

definition stops :: "string \<Rightarrow> bool" where
  "stops r \<longleftrightarrow> r = [] \<or> hd r \<in> {CHR '','', CHR '']'', CHR ''}''}"

lemma nat_str_lead: "0 < n \<Longrightarrow> hd (nat_str n) \<noteq> CHR ''0''"
proof (induction n rule: nat_str.induct)
  case (1 n)
  show ?case
  proof (cases "n < 10")
    case True
    have "code (digit_char n) = 48 + n" using True by (simp add: digit_char_def)
    then have "digit_char n \<noteq> CHR ''0''" using 1(2) code_CHR(8) by auto
    then show ?thesis using True by (simp add: nat_str.simps [of n])
  next
    case False
    then have "0 < n div 10" by (simp add: div_greater_zero_iff)
    with 1 False show ?thesis by (simp add: nat_str.simps [of n])
  qed
qed

lemma nat_str_value_nat: "foldl (\<lambda>a c. 10 * a + (code c - 48)) 0 (nat_str n) = n"
proof (induction n rule: nat_str.induct)
  case (1 n)
  show ?case
  proof (cases "n < 10")
    case True
    then show ?thesis by (simp add: nat_str.simps [of n])
  next
    case False
    with 1 have "foldl (\<lambda>a c. 10 * a + (code c - 48)) 0 (nat_str (n div 10)) = n div 10" by simp
    then show ?thesis using False by (simp add: nat_str.simps [of n])
  qed
qed

lemma parse_nat_str:
  assumes "stops r"
  shows "parse_nat (nat_str n @ r) = Some (n, r)"
proof -
  have nd: "r = [] \<or> \<not> is_digit (hd r)"
    using assms by (auto simp: stops_def is_digit_def code_def)
  have all: "\<forall>c\<in>set (nat_str n). is_digit c" using nat_str_digits by blast
  have tw: "takeWhile is_digit (nat_str n @ r) = nat_str n" "dropWhile is_digit (nat_str n @ r) = r"
    using all nd by (cases r; simp add: takeWhile_append dropWhile_append)+
  show ?thesis
  proof (cases "n = 0")
    case True
    have "digit_char 0 = CHR ''0''" by code_simp
    then have "nat_str 0 = [CHR ''0'']" by (simp add: nat_str.simps)
    then show ?thesis using tw True by (simp add: parse_nat_def)
  next
    case False
    then show ?thesis using tw nat_str_lead [of n] nat_str_value_nat [of n] by (simp add: parse_nat_def Let_def)
  qed
qed

lemma parse_int_str:
  assumes "stops r"
  shows "parse_number (int_str i @ r) = Some (PInt i, r)"
proof -
  have ok: "\<not> (r \<noteq> [] \<and> hd r \<in> {CHR ''.'', CHR ''e'', CHR ''E''})"
    using assms by (auto simp: stops_def)
  show ?thesis
  proof (cases "i < 0")
    case True
    then show ?thesis using ok parse_nat_str [OF assms, of "nat (- i)"]
      by (simp add: parse_number_def int_str_def)
  next
    case False
    obtain c cs where c: "nat_str (nat i) = c # cs" by (cases "nat_str (nat i)") auto
    then have "is_digit c" using nat_str_digits [of c "nat i"] by simp
    then have "c \<noteq> CHR ''-''" by (auto simp: is_digit_def code_def)
    then show ?thesis using False ok parse_nat_str [OF assms, of "nat i"] c
      by (simp add: parse_number_def int_str_def)
  qed
qed

lemma int_str_head:
  obtains c cs where "int_str i = c # cs" "is_digit c \<or> c = CHR ''-''"
proof (cases "i < 0")
  case True
  then show ?thesis using that by (simp add: int_str_def)
next
  case False
  obtain c cs where "nat_str (nat i) = c # cs" by (cases "nat_str (nat i)") auto
  moreover from this have "is_digit c" using nat_str_digits [of c "nat i"] by simp
  ultimately show ?thesis using that False by (simp add: int_str_def)
qed

lemma parse_value_space: "parse_value n (CHR '' '' # s) = parse_value n s"
  by (cases n) (simp_all add: skip_ws_def json_space_def)

lemma parse_members_space: "parse_members n (CHR '' '' # s) = parse_members n s"
  by (cases n) (simp_all add: skip_ws_def json_space_def)

lemma skip_ws_nonspace: "\<not> json_space c \<Longrightarrow> skip_ws (c # cs) = c # cs"
  by (simp add: skip_ws_def)

lemma json_space_simps [simp]:
  "\<not> json_space (CHR 0x22)" "\<not> json_space (CHR ''['')" "\<not> json_space (CHR ''{'')"
  "\<not> json_space (CHR '']'')" "\<not> json_space (CHR ''}'')" "\<not> json_space (CHR '','')"
  "\<not> json_space (CHR '':'')" "\<not> json_space (CHR ''n'')" "\<not> json_space (CHR ''t'')" "\<not> json_space (CHR ''f'')"
  by (simp_all add: json_space_def)

lemma json_space_heads:
  "is_digit c \<or> c = CHR ''-'' \<Longrightarrow>
   \<not> json_space c \<and> c \<notin> {CHR 0x22, CHR ''['', CHR ''{'', CHR ''n'', CHR ''t'', CHR ''f'', CHR '']'', CHR ''}''}"
  by (auto simp: json_space_def is_digit_def code_def)

definition member_text :: "string \<times> pyval \<Rightarrow> string" where
  "member_text p = json_string (fst p) @ '': '' @ json_dumps (snd p)"

definition value_ok :: "pyval \<Rightarrow> bool" where
  "value_ok v \<longleftrightarrow> (\<forall>n r. length (json_dumps v) \<le> n \<longrightarrow> stops r \<longrightarrow> parse_value n (json_dumps v @ r) = Some (v, r))"

lemma stops_simps [simp]: "stops (CHR '','' # r)" "stops (CHR '']'' # r)" "stops (CHR ''}'' # r)" "stops []"
  by (simp_all add: stops_def)

lemma parse_elems_dumps:
  assumes "xs \<noteq> []" "\<forall>x\<in>set xs. value_ok x" "length (join '', '' (map json_dumps xs)) < n"
  shows "parse_elems n (join '', '' (map json_dumps xs) @ CHR '']'' # r) = Some (xs, r)"
  using assms
proof (induction xs arbitrary: n)
  case (Cons x xs)
  obtain m where n: "n = Suc m" using Cons.prems(3) by (cases n) auto
  have x: "value_ok x" using Cons.prems by simp
  show ?case
  proof (cases xs)
    case Nil
    have "parse_value m (json_dumps x @ CHR '']'' # r) = Some (x, CHR '']'' # r)"
      using x Cons.prems(3) by (simp add: value_ok_def n Nil)
    then show ?thesis by (simp add: n Nil skip_ws_nonspace)
  next
    case (Cons y ys)
    define t where "t = join '', '' (map json_dumps xs)"
    have j: "join '', '' (map json_dumps (x # xs)) = json_dumps x @ CHR '','' # CHR '' '' # t"
      by (simp add: t_def Cons)
    have len: "length t < m" "length (json_dumps x) \<le> m"
      using Cons.prems(3) unfolding j by (simp_all add: n)
    have "parse_value m (json_dumps x @ CHR '','' # CHR '' '' # t @ CHR '']'' # r) =
        Some (x, CHR '','' # CHR '' '' # t @ CHR '']'' # r)"
      using x len by (simp add: value_ok_def)
    moreover have "parse_elems m (CHR '' '' # t @ CHR '']'' # r) = parse_elems m (t @ CHR '']'' # r)"
      by (cases m) (simp_all add: parse_value_space)
    moreover have "parse_elems m (t @ CHR '']'' # r) = Some (xs, r)"
      unfolding t_def using Cons.IH [of m] Cons.prems(2) len(1) Cons by (simp add: t_def)
    ultimately show ?thesis unfolding j n by (simp add: skip_ws_nonspace)
  qed
qed simp

lemma member_text_head: "member_text (k, v) @ s =
    CHR 0x22 # concat (map json_escape k) @ CHR 0x22 # CHR '':'' # CHR '' '' # json_dumps v @ s"
  by (simp add: member_text_def json_string_def)

lemma parse_members_dumps:
  assumes "d \<noteq> []" "\<forall>p\<in>set d. value_ok (snd p)" "length (join '', '' (map member_text d)) < n"
  shows "parse_members n (join '', '' (map member_text d) @ CHR ''}'' # r) = Some (d, r)"
  using assms
proof (induction d arbitrary: n)
  case (Cons p d)
  obtain k v where p: "p = (k, v)" by (cases p)
  obtain m where n: "n = Suc m" using Cons.prems(3) by (cases n) auto
  have x: "value_ok v" using Cons.prems by (simp add: p)
  have first: "parse_members n (member_text (k, v) @ c # s) =
      (if c = CHR '','' then cons_res (k, v) (parse_members m s)
       else if c = CHR ''}'' then Some ([(k, v)], s) else None)"
    if "c \<in> {CHR '','', CHR ''}''}" "length (json_dumps v) \<le> m" for c s
  proof -
    have "parse_value m (CHR '' '' # json_dumps v @ c # s) = Some (v, c # s)"
      using x that by (auto simp: value_ok_def parse_value_space)
    then show ?thesis
      using that(1) unfolding member_text_head n
      by (auto simp: skip_ws_nonspace parse_json_string)
  qed
  show ?case
  proof (cases d)
    case Nil
    then show ?thesis using first [of "CHR ''}''" r] Cons.prems(3)
      by (simp add: p n member_text_def)
  next
    case (Cons q ds)
    define t where "t = join '', '' (map member_text d)"
    have j: "join '', '' (map member_text (p # d)) = member_text (k, v) @ CHR '','' # CHR '' '' # t"
      by (simp add: t_def Cons p)
    have len: "length t < m" "length (json_dumps v) \<le> m"
      using Cons.prems(3) unfolding j by (simp_all add: n member_text_def)
    have "parse_members m (t @ CHR ''}'' # r) = Some (d, r)"
      unfolding t_def using Cons.IH [of m] Cons.prems(2) len(1) Cons by (simp add: t_def)
    then show ?thesis
      unfolding j using first [of "CHR '',''" "CHR '' '' # t @ CHR ''}'' # r"] len(2)
      by (simp add: p parse_members_space)
  qed
qed simp

lemma dset_fresh: "k \<notin> fst ` set d \<Longrightarrow> AList.update k v d = d @ [(k, v)]"
  by (induction d) auto

lemma dupdate_append: "distinct (map fst (d @ e)) \<Longrightarrow> dupdate d e = d @ e"
proof (induction e arbitrary: d)
  case (Cons p e)
  obtain k v where p: "p = (k, v)" by (cases p)
  have "k \<notin> fst ` set d" using Cons.prems by (auto simp: p)
  then have "dset k v d = d @ [(k, v)]" by (simp add: dset_fresh)
  then show ?case using Cons.IH [of "d @ [(k, v)]"] Cons.prems by (simp add: p)
qed simp

lemma value_ok_literals: "value_ok PNone" "value_ok (PBool b)" "value_ok (PStr t)" "value_ok (PInt i)"
proof -
  have lit: "parse_value n (json_dumps v @ r) = Some (v, r)"
    if vs: "v \<in> {PNone, PBool True, PBool False, PStr t}" and l: "length (json_dumps v) \<le> n" for v n r
  proof -
    have "0 < length (json_dumps v)" using vs by (auto simp: json_string_def)
    then obtain m where "n = Suc m" using l by (cases n) auto
    then show ?thesis
      using vs by (auto simp: json_string_def skip_ws_nonspace parse_json_string)
  qed
  then show "value_ok PNone" "value_ok (PStr t)" unfolding value_ok_def by blast+
  show "value_ok (PBool b)" unfolding value_ok_def using lit by (cases b) blast+
  show "value_ok (PInt i)"
    unfolding value_ok_def
  proof (intro allI impI)
    fix n r assume l: "length (json_dumps (PInt i)) \<le> n" and st: "stops r"
    obtain c cs where c: "int_str i = c # cs" "is_digit c \<or> c = CHR ''-''" by (rule int_str_head)
    then obtain m where n: "n = Suc m" using l by (cases n) auto
    have h: "\<not> json_space c" "c \<notin> {CHR 0x22, CHR ''['', CHR ''{'', CHR ''n'', CHR ''t'', CHR ''f''}"
      using json_space_heads [OF c(2)] by auto
    have "parse_number (c # cs @ r) = Some (PInt i, r)"
      using parse_int_str [OF st, of i] by (simp add: c(1))
    then show "parse_value n (json_dumps (PInt i) @ r) = Some (PInt i, r)"
      using h by (simp add: n c(1) skip_ws_nonspace)
  qed
qed

lemma json_head:
  assumes "json_wf v"
  obtains c cs where "json_dumps v = c # cs" "\<not> json_space c" "c \<noteq> CHR '']''"
proof (cases v)
  case (PInt i)
  obtain c cs where c: "int_str i = c # cs" "is_digit c \<or> c = CHR ''-''" by (rule int_str_head)
  then show ?thesis using that json_space_heads [OF c(2)] PInt by auto
next
  case (PBool b)
  then show ?thesis using that by (cases b) auto
qed (use that assms in \<open>auto simp: json_string_def\<close>)

lemma join_head: "xs \<noteq> [] \<Longrightarrow> hd xs = c # cs \<Longrightarrow> \<exists>t. join sep xs = c # t"
  by (induction sep xs rule: join.induct) auto

lemma value_ok_PList:
  assumes "\<And>x. x \<in> set xs \<Longrightarrow> value_ok x" "list_all json_wf xs"
  shows "value_ok (PList xs)"
  unfolding value_ok_def
proof (intro allI impI)
  fix n r assume l: "length (json_dumps (PList xs)) \<le> n" and "stops r"
  obtain m where n: "n = Suc m" using l by (cases n) auto
  let ?t = "join '', '' (map json_dumps xs)"
  have d: "json_dumps (PList xs) @ r = CHR ''['' # ?t @ CHR '']'' # r" by simp
  show "parse_value n (json_dumps (PList xs) @ r) = Some (PList xs, r)"
  proof (cases "xs = []")
    case True
    then show ?thesis by (simp add: n skip_ws_nonspace)
  next
    case False
    then have "json_wf (hd xs)" using assms(2) by (cases xs) auto
    then obtain c cs where c: "json_dumps (hd xs) = c # cs" "\<not> json_space c" "c \<noteq> CHR '']''" by (rule json_head)
    then have "hd (map json_dumps xs) = c # cs" using False by (simp add: hd_map)
    then obtain t where t: "?t = c # t" using False join_head [of "map json_dumps xs"] by fastforce
    have "parse_elems m (?t @ CHR '']'' # r) = Some (xs, r)"
      using assms(1) False l by (intro parse_elems_dumps) (auto simp: n)
    then have "parse_value (Suc m) (CHR ''['' # ?t @ CHR '']'' # r) = Some (PList xs, r)"
      using c by (simp add: t skip_ws_nonspace del: parse_elems.simps)
    then show ?thesis by (simp only: d n)
  qed
qed

lemma value_ok_PDict:
  assumes "\<And>p. p \<in> set d \<Longrightarrow> value_ok (snd p)" "distinct (map fst d)"
  shows "value_ok (PDict d)"
  unfolding value_ok_def
proof (intro allI impI)
  fix n r assume l: "length (json_dumps (PDict d)) \<le> n" and "stops r"
  obtain m where n: "n = Suc m" using l by (cases n) auto
  let ?t = "join '', '' (map member_text d)"
  have mt: "(\<lambda>p. json_string (fst p) @ '': '' @ json_dumps (snd p)) = member_text"
    by (simp add: member_text_def fun_eq_iff)
  have ds: "json_dumps (PDict d) @ r = CHR ''{'' # ?t @ CHR ''}'' # r" by (simp add: mt [simplified])
  show "parse_value n (json_dumps (PDict d) @ r) = Some (PDict d, r)"
  proof (cases "d = []")
    case True
    then show ?thesis by (simp add: n skip_ws_nonspace)
  next
    case False
    then have "hd (map member_text d) = CHR 0x22 # tl (hd (map member_text d))"
      by (cases d) (simp_all add: member_text_def json_string_def)
    then obtain t where t: "?t = CHR 0x22 # t" using False join_head [of "map member_text d"] by fastforce
    have "length ?t < m" using l by (simp add: n mt [simplified])
    then have "parse_members m (?t @ CHR ''}'' # r) = Some (d, r)"
      using assms(1) False by (intro parse_members_dumps) auto
    moreover have "dupdate [] d = d" using dupdate_append [of "[]" d] assms(2) by simp
    ultimately have "parse_value (Suc m) (CHR ''{'' # ?t @ CHR ''}'' # r) = Some (PDict d, r)"
      by (simp add: t skip_ws_nonspace del: parse_members.simps)
    then show ?thesis by (simp only: ds n)
  qed
qed

lemma json_value_ok: "json_wf v \<Longrightarrow> value_ok v"
proof (induction v)
  case (PList xs)
  then show ?case by (intro value_ok_PList) (auto simp: list_all_iff)
next
  case (PDict d)
  have "value_ok (snd p)" if "p \<in> set d" for p
  proof -
    have "snd p \<in> Basic_BNFs.snds p" by (cases p) simp
    moreover have "json_wf (snd p)" using PDict.prems that by (auto simp: list_all_iff)
    ultimately show ?thesis using PDict.IH that by blast
  qed
  then show ?case using PDict.prems by (intro value_ok_PDict) auto
qed (simp_all add: value_ok_literals)

lemma json_loads_dumps: "json_wf v \<Longrightarrow> json_loads (json_dumps v) = Inr v"
proof -
  assume "json_wf v"
  then have "parse_value (length (json_dumps v)) (json_dumps v @ []) = Some (v, [])"
    using json_value_ok [of v] unfolding value_ok_def by (meson order_refl stops_simps(4))
  then show ?thesis by (simp add: json_loads_def skip_ws_def)
qed

lemma b64_value_char: "n < 64 \<Longrightarrow> b64_value (b64_char n) = Some n \<and> b64_char n \<noteq> CHR ''=''"
proof -
  assume n: "n < 64"
  have eq: "code (CHR ''='') = 61" "code (CHR ''+'') = 43" "code (CHR ''/'') = 47" by (simp_all add: code_def)
  consider "n < 26" | "26 \<le> n" "n < 52" | "52 \<le> n" "n < 62" | "n = 62" | "n = 63" using n by linarith
  then show ?thesis
  proof cases
    case 1
    then have "code (b64_char n) = 65 + n" by (simp add: b64_char_def)
    then show ?thesis using 1 eq by (auto simp: b64_value_def Let_def)
  next
    case 2
    then have "code (b64_char n) = 71 + n" by (simp add: b64_char_def)
    then show ?thesis using 2 eq by (auto simp: b64_value_def Let_def)
  next
    case 3
    then have "code (b64_char n) = n - 4" by (simp add: b64_char_def)
    then show ?thesis using 3 eq by (auto simp: b64_value_def Let_def)
  qed (simp_all add: b64_char_def b64_value_def Let_def eq)
qed

lemma sextets:
  assumes "a < 256" "b < 256" "c < 256"
  shows "a div 4 < 64" "a mod 4 * 16 + b div 16 < 64" "b mod 16 * 4 + c div 64 < 64" "c mod 64 < 64"
    and "(a mod 4 * 16 + b div 16) div 16 = a mod 4" "(a mod 4 * 16 + b div 16) mod 16 = b div 16"
    and "(b mod 16 * 4 + c div 64) div 4 = b mod 16" "(b mod 16 * 4 + c div 64) mod 4 = c div 64"
    and "a div 4 * 4 + a mod 4 = a" "b div 16 * 16 + b mod 16 = b" "c div 64 * 64 + c mod 64 = (c::nat)"
proof -
  have d: "a div 4 < 64" "b div 16 < 16" "c div 64 < 4"
    using assms by (simp_all add: less_mult_imp_div_less)
  have m: "a mod 4 < 4" "b mod 16 < 16" by simp_all
  show "a div 4 < 64" by (rule d)
  show "a mod 4 * 16 + b div 16 < 64" "b mod 16 * 4 + c div 64 < 64" "c mod 64 < 64"
    using d m by (linarith, linarith, simp)
  show "(a mod 4 * 16 + b div 16) div 16 = a mod 4" "(a mod 4 * 16 + b div 16) mod 16 = b div 16"
    "(b mod 16 * 4 + c div 64) div 4 = b mod 16" "(b mod 16 * 4 + c div 64) mod 4 = c div 64"
    using d by simp_all
qed simp_all

lemma b64_scan_simps:
  assumes "v < 64"
  shows "b64_scan 0 l p (b64_char v # cs) = b64_scan (Suc 0) v 0 cs"
    and "b64_scan (Suc 0) l p (b64_char v # cs) = rbind (b64_scan 2 (v mod 16) 0 cs) (\<lambda>r. Inr (char_of (l * 4 + v div 16) # r))"
    and "b64_scan 2 l p (b64_char v # cs) = rbind (b64_scan 3 (v mod 4) 0 cs) (\<lambda>r. Inr (char_of (l * 16 + v div 4) # r))"
    and "b64_scan 3 l p (b64_char v # cs) = rbind (b64_scan 0 0 0 cs) (\<lambda>r. Inr (char_of (l * 64 + v) # r))"
  using b64_value_char [OF assms] by simp_all

lemma b64_scan_pads: "b64_scan 2 l 0 ''=='' = Inr []" "b64_scan 3 l 0 ''='' = Inr []"
  by simp_all

lemma b64_roundtrip: "b64decode (b64encode s) = Inr s"
  unfolding b64decode_def
proof (induction s rule: b64encode.induct)
  case (2 a)
  have z: "code a < 256" "0 < (256::nat)" by simp_all
  note sx = sextets [OF z(1) z(2) z(2), simplified]
  then have "code a mod 4 * 16 < 64" by simp
  then show ?case using sx by (simp add: b64_scan_simps b64_scan_pads del: b64_scan.simps(2))
next
  case (3 a b)
  have z: "code a < 256" "code b < 256" "0 < (256::nat)" by simp_all
  note sx = sextets [OF z, simplified]
  then show ?case by (simp add: b64_scan_simps b64_scan_pads del: b64_scan.simps(2))
next
  case (4 a b c cs)
  have z: "code a < 256" "code b < 256" "code c < 256" by simp_all
  note sx = sextets [OF z]
  show ?case using sx 4 by (simp add: b64_scan_simps del: b64_scan.simps(2))
qed simp

lemma b64encode_ascii: "c \<in> set (b64encode s) \<Longrightarrow> code c < 128"
proof -
  have ch: "code (b64_char n) < 128" for n
    by (auto simp: b64_char_def code_def split: if_splits)
  have eq: "code (CHR ''='') < 128" by (simp add: code_def)
  show "c \<in> set (b64encode s) \<Longrightarrow> code c < 128"
    by (induction s rule: b64encode.induct) (auto simp: ch eq)
qed

lemma utf8_ascii: "\<forall>c\<in>set s. code c < 128 \<Longrightarrow> utf8_encode s = s \<and> utf8_decode s = Some s"
  by (induction s) (auto simp: utf8_decode_ascii)

end
