(* ===== verification/ResponseManager.thy ===== *)
theory ResponseManager
  imports Codecs
begin

text \<open>
  The path of the connection information from a kernel launcher to the gateway: \<open>_encrypt\<close>
  and \<open>return_connection_info\<close> of the Python launcher (etc/kernel-launchers/python/scripts/
  launch_ipykernel.py) and \<open>ResponseManager\<close> (services/processproxies/processproxy.py).
  The ciphers and the padding are those of a third-party package and are parameters.
\<close>

section \<open>State and ciphers\<close>

text \<open>A wrong key size or a text that is no sequence of blocks makes a cipher raise.\<close>

record crypto =
  aes_encrypt :: "string \<Rightarrow> string \<Rightarrow> string res"
  aes_decrypt :: "string \<Rightarrow> string \<Rightarrow> string res"
  rsa_encrypt :: "string \<Rightarrow> string \<Rightarrow> string res"
  rsa_decrypt :: "string \<Rightarrow> string \<Rightarrow> string res"
  block_pad :: "string \<Rightarrow> string"
  block_unpad :: "string \<Rightarrow> string res"

text \<open>A registered kernel has an event; its response is \<open>None\<close> until it is set.\<close>

record response_manager =
  response_registry :: "(string, pyval option) dict"
  response_ip :: string
  response_port :: int
  response_socket :: bool
  connection_processor :: bool
  private_key :: string
  public_pem :: string

definition public_key :: "response_manager \<Rightarrow> string" where
  "public_key m =
     replace [CHR 0x0A] [] (replace ''-----END PUBLIC KEY-----'' []
       (replace ''-----BEGIN PUBLIC KEY-----'' [] (public_pem m)))"

definition response_address :: "response_manager \<Rightarrow> string" where
  "response_address m = response_ip m @ '':'' @ int_str (response_port m)"

definition register_event :: "string \<Rightarrow> response_manager \<Rightarrow> response_manager" where
  "register_event kernel_id m =
     m\<lparr>response_registry := dset kernel_id None (response_registry m)\<rparr>"

text \<open>The wait runs into its timeout while the event is not set; the entry goes when it is.\<close>

definition get_connection_info :: "string \<Rightarrow> response_manager \<Rightarrow> pyval res \<times> response_manager" where
  "get_connection_info kernel_id m =
     (case dget (response_registry m) kernel_id of
        None \<Rightarrow> (Inl KeyError, m)
      | Some None \<Rightarrow> (Inl TimeoutError, m)
      | Some (Some r) \<Rightarrow> (Inr r, m\<lparr>response_registry := ddel kernel_id (response_registry m)\<rparr>))"

section \<open>The response socket\<close>

text \<open>\<open>bind\<close> answers the exception it raises, if any; the candidate ports are jupyter_server's.\<close>

fun bind_response_port :: "(int \<Rightarrow> exn option) \<Rightarrow> int list \<Rightarrow> int res" where
  "bind_response_port bind [] = Inl RuntimeError"
| "bind_response_port bind (port # ports) =
     (case bind port of
        None \<Rightarrow> Inr port
      | Some (OSError n) \<Rightarrow>
          if n = EADDRINUSE then bind_response_port bind ports
          else if n = EACCES then bind_response_port bind ports
          else Inl RuntimeError
      | Some e \<Rightarrow> Inl e)"

definition prepare_response_socket ::
  "(string \<Rightarrow> int \<Rightarrow> exn option) \<Rightarrow> int list \<Rightarrow> string \<Rightarrow> string option \<Rightarrow> bool \<Rightarrow>
   response_manager \<Rightarrow> unit res \<times> response_manager" where
  "prepare_response_socket bind ports local_ip eg_response_ip response_addr_any m =
     (let ip = (case eg_response_ip of None \<Rightarrow> local_ip | Some i \<Rightarrow> i);
          bind_ip = (if \<not> response_addr_any then ip else []) in
      case bind_response_port (bind bind_ip) ports of
        Inl e \<Rightarrow> (Inl e, m)
      | Inr port \<Rightarrow> (Inr (), m\<lparr>response_socket := True, response_port := port, response_ip := ip\<rparr>))"

definition start_response_manager ::
  "(response_manager \<Rightarrow> unit res \<times> response_manager) \<Rightarrow> response_manager \<Rightarrow> unit res \<times> response_manager" where
  "start_response_manager prepare m =
     bindE (if \<not> response_socket m then prepare m else (Inr (), m))
       (\<lambda>_ m'. (Inr (), if \<not> connection_processor m' then m'\<lparr>connection_processor := True\<rparr> else m'))"

definition stop_response_manager :: "response_manager \<Rightarrow> response_manager" where
  "stop_response_manager m = m\<lparr>connection_processor := False, response_socket := False\<rparr>"

section \<open>Decoding a response\<close>

definition as_text :: "pyval \<Rightarrow> string res" where
  "as_text v = (case v of PStr s \<Rightarrow> Inr (utf8_encode s) | _ \<Rightarrow> Inl AttributeError)"

definition decode_text :: "string \<Rightarrow> string res" where
  "decode_text b = of_option UnicodeError (utf8_decode b)"

text \<open>A version 1 payload; \<open>True\<close> is equal to 1 in Python.\<close>

definition decode_v1 :: "crypto \<Rightarrow> string \<Rightarrow> string \<Rightarrow> string res" where
  "decode_v1 c private payload_str =
     rbind (decode_text payload_str) (\<lambda>text.
     rbind (json_loads text) (\<lambda>payload.
     rbind (py_get payload ''version'') (\<lambda>version.
       if version = PInt 1 \<or> version = PBool True
       then rbind (py_item payload ''key'') (\<lambda>key.
            rbind (as_text key) (\<lambda>key_text.
            rbind (b64decode key_text) (\<lambda>encrypted_aes_key.
            rbind (rsa_decrypt c private encrypted_aes_key) (\<lambda>aes_key.
            rbind (py_item payload ''conn_info'') (\<lambda>conn_info.
            rbind (as_text conn_info) (\<lambda>conn_text.
            rbind (b64decode conn_text) (\<lambda>encrypted.
            rbind (aes_decrypt c aes_key encrypted) (\<lambda>padded.
            rbind (block_unpad c padded) decode_text))))))))
       else Inl ValueError)))"

definition before_last_brace :: "string \<Rightarrow> string" where
  "before_last_brace s =
     (if CHR ''}'' \<in> set s then rev (tl (dropWhile (\<lambda>c. c \<noteq> CHR ''}'') (rev s))) else s)"

text \<open>A version 0 payload is the connection information encrypted with the kernel id.\<close>

definition decode_v0 :: "crypto \<Rightarrow> string \<Rightarrow> string \<Rightarrow> string res" where
  "decode_v0 c payload_str kernel_id =
     rbind (aes_decrypt c (utf8_encode (take 16 kernel_id)) payload_str) (\<lambda>decrypted.
     rbind (decode_text decrypted) (\<lambda>text.
     rbind (json_loads (before_last_brace text @ ''}'')) (\<lambda>info.
       (case info of
          PDict d \<Rightarrow> dumps (PDict (dset ''kernel_id'' (PStr kernel_id) d))
        | _ \<Rightarrow> Inl TypeError))))"

fun try_legacy :: "crypto \<Rightarrow> string \<Rightarrow> string list \<Rightarrow> string option" where
  "try_legacy c payload_str [] = None"
| "try_legacy c payload_str (kernel_id # ids) =
     (case decode_v0 c payload_str kernel_id of Inr s \<Rightarrow> Some s | Inl _ \<Rightarrow> try_legacy c payload_str ids)"

definition decode_payload :: "crypto \<Rightarrow> string \<Rightarrow> response_manager \<Rightarrow> pyval res" where
  "decode_payload c data m =
     rbind (b64decode data) (\<lambda>payload_str.
     rbind (case decode_v1 c (private_key m) payload_str of
              Inr s \<Rightarrow> Inr s
            | Inl ex \<Rightarrow>
                (case try_legacy c payload_str (dkeys (response_registry m)) of
                   Some s \<Rightarrow> Inr s
                 | None \<Rightarrow> Inl ex))
       json_loads)"

definition post_connection :: "pyval \<Rightarrow> response_manager \<Rightarrow> unit res \<times> response_manager" where
  "post_connection connection_info m =
     (case py_get connection_info ''kernel_id'' of
        Inl e \<Rightarrow> (Inl e, m)
      | Inr kid \<Rightarrow>
          (case kid of
             PStr k \<Rightarrow>
               (Inr (), if dhas (response_registry m) k
                        then m\<lparr>response_registry := dset k (Some connection_info) (response_registry m)\<rparr>
                        else m)
           | PList _ \<Rightarrow> (Inl TypeError, m)
           | PDict _ \<Rightarrow> (Inl TypeError, m)
           | _ \<Rightarrow> (Inr (), m)))"

section \<open>Processing a connection\<close>

text \<open>The chunks a peer sends are decoded one by one and collected until it closes.\<close>

fun receive_all :: "string \<Rightarrow> string list \<Rightarrow> string res" where
  "receive_all data [] = Inr data"
| "receive_all data (buffer # bs) = rbind (decode_text buffer) (\<lambda>t. receive_all (data @ t) bs)"

text \<open>A timeout of \<open>accept\<close> is silent and every other exception is logged: neither leaves.\<close>

definition process_connection :: "crypto \<Rightarrow> string list res \<Rightarrow> response_manager \<Rightarrow> response_manager" where
  "process_connection c accepted m =
     (case accepted of
        Inl _ \<Rightarrow> m
      | Inr chunks \<Rightarrow>
          (case rbind (receive_all [] chunks) (\<lambda>data. decode_payload c data m) of
             Inl _ \<Rightarrow> m
           | Inr payload \<Rightarrow> snd (post_connection payload m)))"

section \<open>The launcher's side\<close>

definition launcher_encrypt :: "crypto \<Rightarrow> string \<Rightarrow> string \<Rightarrow> string \<Rightarrow> string res" where
  "launcher_encrypt c aes_key connection_info_str pub =
     rbind (aes_encrypt c aes_key (block_pad c connection_info_str)) (\<lambda>encrypted_connection_info.
     let b64_connection_info = b64encode encrypted_connection_info in
     rbind (b64decode (utf8_encode pub)) (\<lambda>imported_public_key.
     rbind (rsa_encrypt c imported_public_key aes_key) (\<lambda>encrypted.
     let encrypted_key = b64encode encrypted in
     rbind (decode_text encrypted_key) (\<lambda>key.
     rbind (decode_text b64_connection_info) (\<lambda>conn_info.
     rbind (dumps (PDict [(''version'', PInt 1), (''key'', PStr key), (''conn_info'', PStr conn_info)])) (\<lambda>payload.
       Inr (b64encode (utf8_encode payload))))))))"

text \<open>
  What the launcher sends, and to whom: \<open>None\<close> is the pull mode it falls back to for an
  address it cannot use.  \<open>listen\<close> opens its own communication socket.
\<close>

definition return_connection_info ::
  "crypto \<Rightarrow> string \<Rightarrow> (string, pyval) dict \<Rightarrow> string \<Rightarrow> int res \<Rightarrow> string \<Rightarrow> string \<Rightarrow> int \<Rightarrow> int \<Rightarrow>
   (string \<times> int \<times> string) option res" where
  "return_connection_info c aes_key connection_file response_addr listen kernel_id pub pid pgid =
     (let parts = split_on '':'' response_addr in
      if length parts \<noteq> 2 then Inr None
      else (case py_int (parts ! 1) of
              None \<Rightarrow> Inr None
            | Some port \<Rightarrow>
                rbind listen (\<lambda>comm_port.
                  let cf = dset ''kernel_id'' (PStr kernel_id) (dset ''comm_port'' (PInt comm_port)
                             (dset ''pgid'' (PInt pgid) (dset ''pid'' (PInt pid) connection_file))) in
                  rbind (dumps (PDict cf)) (\<lambda>json_content.
                  rbind (launcher_encrypt c aes_key (utf8_encode json_content) pub) (\<lambda>payload.
                    Inr (Some (parts ! 0, port, payload)))))))"

section \<open>Properties\<close>

text \<open>
  The documented behaviour of the ciphers: what was encrypted with a key is decrypted with
  it, for the key pair with the private half, and padding can be undone.
\<close>

definition crypto_ok :: "crypto \<Rightarrow> string \<Rightarrow> string \<Rightarrow> bool" where
  "crypto_ok c private pub \<longleftrightarrow>
     (\<forall>k e. rsa_encrypt c pub k = Inr e \<longrightarrow> rsa_decrypt c private e = Inr k) \<and>
     (\<forall>k t e. aes_encrypt c k t = Inr e \<longrightarrow> aes_decrypt c k e = Inr t) \<and>
     (\<forall>t. block_unpad c (block_pad c t) = Inr t)"

lemma receive_all_ascii:
  "\<forall>b\<in>set (concat chunks). code b < 128 \<Longrightarrow> receive_all data chunks = Inr (data @ concat chunks)"
  by (induction chunks arbitrary: data) (simp_all add: decode_text_def utf8_ascii)

lemma json_wf_dset: "json_wf (PDict d) \<Longrightarrow> json_wf v \<Longrightarrow> json_wf (PDict (dset k v d))"
  by (induction d) (auto simp: dom_update)

lemma encrypt_decode_v1:
  assumes "crypto_ok c private der" "b64decode (utf8_encode pub) = Inr der"
    and "launcher_encrypt c aes_key (utf8_encode t) pub = Inr payload"
  shows "\<exists>s. payload = b64encode s \<and> decode_v1 c private s = Inr t"
proof -
  obtain ci ek where ci: "aes_encrypt c aes_key (block_pad c (utf8_encode t)) = Inr ci"
    and ek: "rsa_encrypt c der aes_key = Inr ek"
    and p: "payload = b64encode (utf8_encode (json_dumps (PDict [(''version'', PInt 1),
      (''key'', PStr (b64encode ek)), (''conn_info'', PStr (b64encode ci))])))"
    using assms(2,3) b64encode_ascii
    by (auto simp: launcher_encrypt_def rbind_Inr_iff Let_def decode_text_def utf8_ascii dumps_def
        simp del: json_dumps.simps split: if_splits)
  have wf: "json_wf (PDict [(''version'', PInt 1), (''key'', PStr (b64encode ek)), (''conn_info'', PStr (b64encode ci))])"
    by simp
  have "rsa_decrypt c private ek = Inr aes_key"
    "aes_decrypt c aes_key ci = Inr (block_pad c (utf8_encode t))"
    "block_unpad c (block_pad c (utf8_encode t)) = Inr (utf8_encode t)"
    using assms(1) ci ek by (auto simp: crypto_ok_def)
  then have "decode_v1 c private (utf8_encode (json_dumps (PDict [(''version'', PInt 1),
      (''key'', PStr (b64encode ek)), (''conn_info'', PStr (b64encode ci))]))) = Inr t"
    using json_loads_dumps [OF wf] b64encode_ascii
    by (simp add: decode_v1_def decode_text_def as_text_def utf8_ascii b64_roundtrip del: json_dumps.simps)
  with p show ?thesis by blast
qed

text \<open>
  C8: The connection information a launcher encrypts and sends reaches the waiting proxy of
  its kernel unchanged, completed by the process ids, the communication port and the kernel
  id, however the network cuts the message, and no other kernel's entry is touched.
\<close>

theorem launcher_response_arrives:
  assumes "crypto_ok c (private_key m) der" "b64decode (utf8_encode pub) = Inr der"
    and "return_connection_info c aes_key cf addr (Inr comm_port) kid pub pid pgid = Inr (Some (ip, port, payload))"
    and "json_wf (PDict cf)" "dhas (response_registry m) kid" "concat chunks = payload"
    and "m' = process_connection c (Inr chunks) m"
  shows "fst (get_connection_info kid m') =
      Inr (PDict (dset ''kernel_id'' (PStr kid) (dset ''comm_port'' (PInt comm_port)
        (dset ''pgid'' (PInt pgid) (dset ''pid'' (PInt pid) cf))))) \<and>
    (\<forall>k. k \<noteq> kid \<longrightarrow> dget (response_registry m') k = dget (response_registry m) k)"
proof -
  let ?cf = "dset ''kernel_id'' (PStr kid) (dset ''comm_port'' (PInt comm_port)
        (dset ''pgid'' (PInt pgid) (dset ''pid'' (PInt pid) cf)))"
  have wf: "json_wf (PDict ?cf)" using assms(4) by (intro json_wf_dset) simp_all
  have enc: "launcher_encrypt c aes_key (utf8_encode (json_dumps (PDict ?cf))) pub = Inr payload"
    using assms(3)
    by (auto simp: return_connection_info_def rbind_Inr_iff Let_def dumps_def
        split: option.splits if_splits simp del: json_dumps.simps)
  from encrypt_decode_v1 [OF assms(1,2) enc] obtain s where s: "payload = b64encode s"
    "decode_v1 c (private_key m) s = Inr (json_dumps (PDict ?cf))" by blast
  have "receive_all [] chunks = Inr payload"
    using receive_all_ascii [of chunks "[]"] b64encode_ascii assms(6) s(1) by auto
  then have "m' = snd (post_connection (PDict ?cf) m)"
    using s json_loads_dumps [OF wf] assms(7)
    by (simp add: process_connection_def decode_payload_def b64_roundtrip del: json_dumps.simps)
  then show ?thesis
    using assms(5) by (simp add: post_connection_def get_connection_info_def)
qed

text \<open>Ciphers that leave the text as it is.\<close>

definition plain_crypto :: crypto where
  "plain_crypto = \<lparr>aes_encrypt = (\<lambda>k t. Inr t), aes_decrypt = (\<lambda>k t. Inr t),
     rsa_encrypt = (\<lambda>k t. Inr t), rsa_decrypt = (\<lambda>k t. Inr t), block_pad = (\<lambda>t. t), block_unpad = Inr\<rparr>"

definition demo_manager :: response_manager where
  "demo_manager = \<lparr>response_registry = [(''k1'', None), (''k2'', None)], response_ip = ''10.0.0.1'',
     response_port = 8877, response_socket = True, connection_processor = True,
     private_key = ''priv'', public_pem = ''''\<rparr>"

lemma launcher_response_arrives_witness:
  "\<exists>payload. fst (get_connection_info ''k1'' (process_connection plain_crypto (Inr [payload]) demo_manager)) =
     Inr (PDict [(''shell_port'', PInt 1), (''pid'', PInt 7), (''pgid'', PInt 6), (''comm_port'', PInt 2),
       (''kernel_id'', PStr ''k1'')])"
proof -
  have ok: "crypto_ok plain_crypto (private_key demo_manager) ''''"
    by (simp add: crypto_ok_def plain_crypto_def)
  have pub: "b64decode (utf8_encode '''') = Inr ''''" by (simp add: b64decode_def)
  have parts: "split_on '':'' ''10.0.0.1:8877'' = [''10.0.0.1'', ''8877'']" "py_int ''8877'' = Some 8877"
    by code_simp+
  obtain payload where p: "return_connection_info plain_crypto ''0123456789abcdef'' [(''shell_port'', PInt 1)]
      ''10.0.0.1:8877'' (Inr 2) ''k1'' '''' 7 6 = Inr (Some (''10.0.0.1'', 8877, payload))"
    using b64encode_ascii pub
    by (simp add: return_connection_info_def parts launcher_encrypt_def plain_crypto_def
        dumps_def decode_text_def utf8_ascii Let_def del: json_dumps.simps b64encode.simps)
  have "json_wf (PDict [(''shell_port'', PInt 1)])" "dhas (response_registry demo_manager) ''k1''"
    by (simp_all add: demo_manager_def dhas_def)
  from launcher_response_arrives [OF ok pub p this _ refl, of "[payload]"] show ?thesis by auto
qed

text \<open>
  C20: Whatever a peer sends, processing it raises nothing, registers and removes no kernel,
  and sets at most one response: that of a registered kernel, to information that carries
  this kernel's id.
\<close>

theorem process_connection_confined:
  "let m' = process_connection c accepted m in
   m' = m \<or>
   (\<exists>kid info. dhas (response_registry m) kid \<and> py_get info ''kernel_id'' = Inr (PStr kid) \<and>
      m' = m\<lparr>response_registry := dset kid (Some info) (response_registry m)\<rparr> \<and>
      dkeys (response_registry m') = dkeys (response_registry m))"
proof (cases "process_connection c accepted m = m")
  case False
  then obtain payload where p: "process_connection c accepted m = snd (post_connection payload m)"
    by (auto simp: process_connection_def split: sum.splits)
  with False obtain k where k: "py_get payload ''kernel_id'' = Inr (PStr k)" "dhas (response_registry m) k"
    "snd (post_connection payload m) = m\<lparr>response_registry := dset k (Some payload) (response_registry m)\<rparr>"
    by (auto simp: post_connection_def split: sum.splits pyval.splits if_splits)
  moreover have "map fst (dset k v d) = map fst d" if "k \<in> set (map fst d)" for v and d :: "(string, pyval option) dict"
    using that by (induction d) auto
  ultimately show ?thesis unfolding p Let_def by (auto simp: dkeys_def dhas_def)
qed simp

end
