(* ===== verification/Container.thy ===== *)
theory Container
  imports RemoteProxy KernelSessions
begin

text \<open>
  \<open>ContainerProcessProxy\<close> (services/processproxies/container.py): images, the check of the
  user and group ids, and the lifecycle shared by the container platforms.  The platform's
  \<open>get_container_status\<close>, \<open>terminate_container_resources\<close> and lists of states are arguments.
\<close>

section \<open>Prohibited ids\<close>

fun parse_ids :: "string list \<Rightarrow> int list res" where
  "parse_ids [] = Inr []"
| "parse_ids (item # items) =
     (let stripped = strip item in
      if stripped \<noteq> []
      then rbind (of_option ValueError (py_int stripped)) (\<lambda>i. rbind (parse_ids items) (\<lambda>is. Inr (i # is)))
      else parse_ids items)"

definition parse_prohibited_ids :: "string option \<Rightarrow> string \<Rightarrow> int list res" where
  "parse_prohibited_ids env_value dflt =
     parse_ids (split_on '','' (case env_value of None \<Rightarrow> dflt | Some v \<Rightarrow> v))"

definition max_id :: int where
  "max_id = 4294967295"

definition enforce_prohibited_ids ::
  "int list \<Rightarrow> int list \<Rightarrow> string \<Rightarrow> string \<Rightarrow> env \<Rightarrow> unit res \<times> env" where
  "enforce_prohibited_ids prohibited_uids prohibited_gids default_uid default_gid env =
     (case py_int (dget_or env ''KERNEL_UID'' default_uid) of
        None \<Rightarrow> (Inl (HTTPError 403), env)
      | Some uid_int \<Rightarrow>
          (case py_int (dget_or env ''KERNEL_GID'' default_gid) of
             None \<Rightarrow> (Inl (HTTPError 403), env)
           | Some gid_int \<Rightarrow>
               if \<not> (0 \<le> uid_int \<and> uid_int \<le> max_id) then (Inl (HTTPError 403), env)
               else if \<not> (0 \<le> gid_int \<and> gid_int \<le> max_id) then (Inl (HTTPError 403), env)
               else if uid_int \<in> set prohibited_uids then (Inl (HTTPError 403), env)
               else if gid_int \<in> set prohibited_gids then (Inl (HTTPError 403), env)
               else (Inr (), dset ''KERNEL_GID'' (int_str gid_int) (dset ''KERNEL_UID'' (int_str uid_int) env))))"

section \<open>Images and the launch environment\<close>

definition determine_kernel_images ::
  "(string, string) dict \<Rightarrow> string option \<Rightarrow> string option \<Rightarrow> env \<Rightarrow> (string \<times> string) res" where
  "determine_kernel_images proxy_config default_kernel_image default_executor_image env =
     (let or_else = (\<lambda>a b. case a of Some x \<Rightarrow> Some x | None \<Rightarrow> b) in
      case or_else (dget env ''KERNEL_IMAGE'') (or_else (dget proxy_config ''image_name'') default_kernel_image) of
        None \<Rightarrow> Inl (HTTPError 500)
      | Some kernel_image \<Rightarrow>
          let executor_default =
            (case default_executor_image of
               Some i \<Rightarrow> if i \<noteq> [] then i else kernel_image | None \<Rightarrow> kernel_image) in
          Inr (kernel_image,
               dget_or env ''KERNEL_EXECUTOR_IMAGE''
                 (dget_or proxy_config ''executor_image_name'' executor_default)))"

definition container_env ::
  "(string, string) dict \<Rightarrow> string option \<Rightarrow> string option \<Rightarrow> bool \<Rightarrow>
   (env \<Rightarrow> unit res \<times> env) \<Rightarrow> env \<Rightarrow> unit res \<times> env" where
  "container_env proxy_config default_kernel_image default_executor_image mirror_working_dirs enforce env =
     (case determine_kernel_images proxy_config default_kernel_image default_executor_image env of
        Inl e \<Rightarrow> (Inl e, env)
      | Inr (kernel_image, kernel_executor_image) \<Rightarrow>
          let env1 = dset ''KERNEL_EXECUTOR_IMAGE'' kernel_executor_image (dset ''KERNEL_IMAGE'' kernel_image env) in
          enforce (if \<not> mirror_working_dirs then ddel ''KERNEL_WORKING_DIR'' env1 else env1))"

section \<open>Lifecycle\<close>

record container_proxy = remote_proxy +
  container_name :: "string option"
  assigned_node_ip :: "string option"

definition has_container :: "'a container_proxy_scheme \<Rightarrow> bool" where
  "has_container p \<longleftrightarrow> (case container_name p of None \<Rightarrow> False | Some n \<Rightarrow> n \<noteq> [])"

text \<open>\<open>v.lower()\<close> on a value of a platform's JSON.\<close>

definition py_lower :: "pyval \<Rightarrow> string res" where
  "py_lower v = (case v of PStr s \<Rightarrow> Inr (lower s) | _ \<Rightarrow> Inl AttributeError)"

type_synonym ('p, 'w) status_fn = "'p \<Rightarrow> 'w \<Rightarrow> string res \<times> 'p \<times> 'w"
type_synonym ('p, 'w) answer_fn = "'p \<Rightarrow> 'w \<Rightarrow> pyval res \<times> 'p \<times> 'w"

text \<open>\<open>None\<close> while the platform reports an initial or running state, \<open>False\<close> otherwise.\<close>

definition container_poll :: "string list \<Rightarrow> ('p, 'w) status_fn \<Rightarrow> ('p, 'w) answer_fn" where
  "container_poll initial_states get_container_status p w =
     bindE (get_container_status p w) (\<lambda>status pw.
       (Inr (if status \<in> set initial_states then PNone else PBool False), pw))"

definition container_kill ::
  "('a container_proxy_scheme, 'w) answer_fn \<Rightarrow> ('a container_proxy_scheme, 'w) answer_fn" where
  "container_kill terminate p w = (if has_container p then terminate p w else (Inr PNone, p, w))"

definition container_send_signal ::
  "('p, 'w) answer_fn \<Rightarrow> ('p, 'w) answer_fn \<Rightarrow> (int \<Rightarrow> ('p, 'w) answer_fn) \<Rightarrow> int \<Rightarrow> ('p, 'w) answer_fn" where
  "container_send_signal poll kill super_send_signal signum p w =
     (if signum = 0 then poll p w
      else if signum = SIGKILL then kill p w
      else super_send_signal signum p w)"

definition container_shutdown_listener ::
  "'w remote_ops \<Rightarrow> ('a container_proxy_scheme, 'w) answer_fn \<Rightarrow> 'a container_proxy_scheme \<Rightarrow> 'w \<Rightarrow>
   unit res \<times> 'a container_proxy_scheme \<times> 'w" where
  "container_shutdown_listener ops terminate p w =
     (case shutdown_listener ops p w of
        (p1, w1) \<Rightarrow>
          if has_container p1 then bindE (terminate p1 w1) (\<lambda>_ pw. (Inr (), pw)) else (Inr (), p1, w1))"

text \<open>One pass of \<open>confirm_remote_startup\<close> behind its timeout check.\<close>

definition container_confirm_step ::
  "string list \<Rightarrow> ('a container_proxy_scheme, 'w) status_fn \<Rightarrow>
   ('a container_proxy_scheme \<Rightarrow> 'w \<Rightarrow> bool res \<times> 'a container_proxy_scheme \<times> 'w) \<Rightarrow>
   ('a container_proxy_scheme \<Rightarrow> 'w \<Rightarrow> unit res \<times> 'a container_proxy_scheme \<times> 'w) \<Rightarrow>
   'a container_proxy_scheme \<Rightarrow> 'w \<Rightarrow> bool res \<times> 'a container_proxy_scheme \<times> 'w" where
  "container_confirm_step error_states get_container_status receive detect_failure p w =
     bindE (get_container_status p w) (\<lambda>status (p1, w1).
       if status \<noteq> []
       then (if status \<in> set error_states then (Inl (HTTPError 500), p1, w1)
             else if assigned_host p1 \<noteq> []
             then bindE (receive p1 w1) (\<lambda>ready (p2, w2).
                    (Inr ready, p2\<lparr>proxy_pid := 0, proxy_pgid := 0\<rparr>, w2))
             else (Inr False, p1, w1))
       else bindE (detect_failure p1 w1) (\<lambda>_ pw. (Inr False, pw)))"

definition container_get_process_info :: "'a container_proxy_scheme \<Rightarrow> (string, pyval) dict" where
  "container_get_process_info p =
     dupdate (remote_get_process_info p) [(''assigned_node_ip'', opt_str (assigned_node_ip p))]"

definition container_load_process_info ::
  "('a container_proxy_scheme \<Rightarrow> 'w \<Rightarrow> unit res \<times> 'a container_proxy_scheme \<times> 'w) \<Rightarrow>
   (string, pyval) dict \<Rightarrow> 'a container_proxy_scheme \<Rightarrow> 'w \<Rightarrow>
   unit res \<times> 'a container_proxy_scheme \<times> 'w" where
  "container_load_process_info super_load info p w =
     bindE (super_load p w) (\<lambda>_ (p1, w1).
       (case rbind (of_option KeyError (dget info ''assigned_node_ip'')) as_opt_str of
          Inl e \<Rightarrow> (Inl e, p1, w1)
        | Inr ip \<Rightarrow> (Inr (), p1\<lparr>assigned_node_ip := ip\<rparr>, w1)))"

section \<open>Properties\<close>

text \<open>
  A container is only launched with a user and a group id that are integers of 32 bits
  outside the prohibited lists, whatever spelling the client chose for them, and the
  environment then holds their canonical form; everything else is refused with 403 and
  leaves the environment alone.
\<close>

lemma prohibited_ids_enforced:
  "case enforce_prohibited_ids uids gids du dg env of
     (Inr _, env') \<Rightarrow>
       (\<exists>u g. py_int (dget_or env ''KERNEL_UID'' du) = Some u \<and> py_int (dget_or env ''KERNEL_GID'' dg) = Some g \<and>
          {u, g} \<subseteq> {0..<2 ^ 32} \<and> u \<notin> set uids \<and> g \<notin> set gids \<and>
          (\<forall>k. dget env' k = (if k = ''KERNEL_UID'' then Some (int_str u)
             else if k = ''KERNEL_GID'' then Some (int_str g) else dget env k)))
   | (Inl e, env') \<Rightarrow> e = HTTPError 403 \<and> env' = env \<and>
       (\<forall>u g. py_int (dget_or env ''KERNEL_UID'' du) = Some u \<longrightarrow> py_int (dget_or env ''KERNEL_GID'' dg) = Some g \<longrightarrow>
          \<not> {u, g} \<subseteq> {0..<2 ^ 32} \<or> u \<in> set uids \<or> g \<in> set gids)"
  by (auto simp: enforce_prohibited_ids_def max_id_def split: option.splits)

lemma prohibited_ids_enforced_witness:
  "fst (enforce_prohibited_ids [0] [0] ''1000'' ''100'' [(''KERNEL_UID'', '' +0_0 '')]) = Inl (HTTPError 403)"
proof -
  have "py_int '' +0_0 '' = Some 0" "py_int ''100'' = Some 100" by code_simp+
  then show ?thesis
    using prohibited_ids_enforced [where uids = "[0]" and gids = "[0]" and du = "''1000''" and dg = "''100''"
        and env = "[(''KERNEL_UID'', '' +0_0 '')]"]
    by (auto simp: dget_or_def split: prod.splits sum.splits)
qed

text \<open>
  The prohibited lists fail closed: every entry that is not blank ends up as the
  integer it denotes, and one that is no integer makes the parse raise instead of being
  dropped.
\<close>

lemma prohibited_lists_fail_closed:
  "let entries = filter (\<lambda>s. s \<noteq> []) (map strip (split_on '','' (case v of None \<Rightarrow> dflt | Some s \<Rightarrow> s))) in
   case parse_prohibited_ids v dflt of
     Inr ids \<Rightarrow> map py_int entries = map Some ids
   | Inl e \<Rightarrow> e = ValueError \<and> None \<in> set (map py_int entries)"
proof -
  have "case parse_ids items of
      Inr ids \<Rightarrow> map py_int (filter (\<lambda>s. s \<noteq> []) (map strip items)) = map Some ids
    | Inl e \<Rightarrow> e = ValueError \<and> None \<in> set (map py_int (filter (\<lambda>s. s \<noteq> []) (map strip items)))" for items
    by (induction items) (auto simp: Let_def rbind_def of_option_def split: sum.splits option.splits)
  then show ?thesis by (simp add: parse_prohibited_ids_def)
qed

lemma container_info_roundtrip:
  "container_load_process_info (\<lambda>p w. remote_load_process_info setup (container_get_process_info q) p w)
     (container_get_process_info q) p w =
   bindE (remote_load_process_info setup (container_get_process_info q) p w)
     (\<lambda>_ (p1, w1). (Inr (), p1\<lparr>assigned_node_ip := assigned_node_ip q\<rparr>, w1))"
  by (auto simp: container_load_process_info_def container_get_process_info_def as_opt_str_def opt_str_def
      bindE_def split: prod.splits sum.splits option.splits)

end
