(* ===== verification/Docker.thy ===== *)
theory Docker
  imports Container
begin

text \<open>
  \<open>DockerSwarmProcessProxy\<close> and \<open>DockerProcessProxy\<close>
  (services/processproxies/docker_swarm.py): the container proxies for services of a Docker
  swarm and for plain Docker containers.  Objects are found by the label with the kernel id;
  tasks and container attributes are the JSON of the Docker API.
\<close>

section \<open>The Docker API\<close>

record dk_service =
  svc_id :: string
  svc_name :: string

record dk_container =
  ctr_id :: string
  ctr_name :: string
  ctr_status :: "string option"
  ctr_attrs :: pyval

text \<open>
  Lists by label, the tasks of a service whose desired state is running, and removals;
  \<open>docker.errors.NotFound\<close> is the API's status 404.
\<close>

record 'w docker_api =
  da_services :: "string \<Rightarrow> 'w \<Rightarrow> dk_service list res \<times> 'w"
  da_tasks :: "dk_service \<Rightarrow> 'w \<Rightarrow> pyval list res \<times> 'w"
  da_remove_service :: "dk_service \<Rightarrow> 'w \<Rightarrow> unit res \<times> 'w"
  da_containers :: "string \<Rightarrow> 'w \<Rightarrow> dk_container list res \<times> 'w"
  da_remove_container :: "dk_container \<Rightarrow> 'w \<Rightarrow> unit res \<times> 'w"

definition NotFound :: exn where "NotFound = ApiException 404"

text \<open>Nothing, the only element, or an error when there are more.\<close>

definition at_most_one :: "'x list \<Rightarrow> 'x option res" where
  "at_most_one xs = (case xs of [] \<Rightarrow> Inr None | [x] \<Rightarrow> Inr (Some x) | _ \<Rightarrow> Inl RuntimeError)"

section \<open>Launching\<close>

definition docker_env :: "string \<Rightarrow> string \<Rightarrow> env \<Rightarrow> env" where
  "docker_env docker_network mode env =
     dset ''EG_DOCKER_MODE'' mode (dset ''EG_DOCKER_NETWORK'' docker_network env)"

definition swarm_launch_env :: "string \<Rightarrow> env \<Rightarrow> env" where
  "swarm_launch_env docker_network env = docker_env docker_network ''swarm'' env"

definition docker_launch_env :: "string \<Rightarrow> env \<Rightarrow> env" where
  "docker_launch_env docker_network env = docker_env docker_network ''docker'' env"

definition swarm_initial_states :: "string list" where
  "swarm_initial_states = [''preparing'', ''starting'', ''running'']"

definition swarm_error_states :: "string list" where
  "swarm_error_states = [''failed'', ''rejected'', ''complete'', ''shutdown'', ''orphaned'', ''remove'']"

definition docker_initial_states :: "string list" where
  "docker_initial_states = [''created'', ''running'']"

definition docker_error_states :: "string list" where
  "docker_error_states = [''restarting'', ''removing'', ''paused'', ''exited'', ''dead'']"

section \<open>The service and its task\<close>

definition get_service ::
  "'w docker_api \<Rightarrow> string \<Rightarrow> 'a container_proxy_scheme \<Rightarrow> 'w \<Rightarrow>
   dk_service option res \<times> 'a container_proxy_scheme \<times> 'w" where
  "get_service api kernel_id p w =
     (case da_services api (''kernel_id='' @ kernel_id) w of
        (Inl e, w1) \<Rightarrow> (Inl e, p, w1)
      | (Inr services, w1) \<Rightarrow>
          (at_most_one services,
           (case services of [s] \<Rightarrow> p\<lparr>container_name := Some (svc_name s)\<rparr> | _ \<Rightarrow> p), w1))"

definition get_task ::
  "'w docker_api \<Rightarrow> string \<Rightarrow> 'a container_proxy_scheme \<Rightarrow> 'w \<Rightarrow>
   pyval option res \<times> 'a container_proxy_scheme \<times> 'w" where
  "get_task api kernel_id p w =
     bindE (get_service api kernel_id p w) (\<lambda>service (p1, w1).
       case service of
         None \<Rightarrow> (Inr None, p1, w1)
       | Some s \<Rightarrow>
           (case da_tasks api s w1 of
              (Inl e, w2) \<Rightarrow> (Inl e, p1, w2)
            | (Inr tasks, w2) \<Rightarrow> (at_most_one tasks, p1, w2)))"

text \<open>\<open>v[0]\<close> and \<open>v.split('/')[0]\<close> on values of the API's JSON, which has no bytes.\<close>

definition py_first :: "pyval \<Rightarrow> pyval res" where
  "py_first v =
     (case v of
        PList (x # _) \<Rightarrow> Inr x | PList [] \<Rightarrow> Inl IndexError
      | PStr (c # _) \<Rightarrow> Inr (PStr [c]) | PStr [] \<Rightarrow> Inl IndexError
      | PBytes (c # _) \<Rightarrow> Inr (PInt (int (code c))) | PBytes [] \<Rightarrow> Inl IndexError
      | PDict _ \<Rightarrow> Inl KeyError
      | _ \<Rightarrow> Inl TypeError)"

definition before_slash :: "pyval \<Rightarrow> string res" where
  "before_slash v =
     (case v of PStr s \<Rightarrow> Inr (hd (split_on ''/'' s)) | PBytes _ \<Rightarrow> Inl TypeError | _ \<Rightarrow> Inl AttributeError)"

fun py_nonempty :: "pyval \<Rightarrow> bool res" where
  "py_nonempty (PStr s) = Inr (s \<noteq> [])"
| "py_nonempty (PBytes s) = Inr (s \<noteq> [])"
| "py_nonempty (PList xs) = Inr (xs \<noteq> [])"
| "py_nonempty (PDict d) = Inr (d \<noteq> [])"
| "py_nonempty _ = Inl TypeError"

text \<open>The first address of the first network a running task is attached to.\<close>

definition task_address :: "pyval \<Rightarrow> string option res" where
  "task_address task =
     rbind (py_item task ''NetworksAttachments'') (\<lambda>attachments.
     rbind (py_nonempty attachments) (\<lambda>b.
       if b
       then rbind (py_first attachments) (\<lambda>a. rbind (py_item a ''Addresses'') (\<lambda>addresses.
            rbind (py_first addresses) (\<lambda>address. rbind (before_slash address) (\<lambda>ip. Inr (Some ip)))))
       else Inr None))"

definition task_status ::
  "pyval \<Rightarrow> 'a container_proxy_scheme \<Rightarrow> string res \<times> 'a container_proxy_scheme" where
  "task_status task p =
     (case rbind (py_item task ''Status'') (\<lambda>status. rbind (py_item task ''ID'') (\<lambda>_. Inr status)) of
        Inl e \<Rightarrow> (Inl e, p)
      | Inr status \<Rightarrow>
          if \<not> truthy status then (Inr [], p)
          else (case rbind (py_item status ''State'') py_lower of
                  Inl e \<Rightarrow> (Inl e, p)
                | Inr task_state \<Rightarrow>
                    if assigned_host p = [] \<and> task_state = ''running''
                    then (case task_address task of
                            Inl e \<Rightarrow> (Inl e, p)
                          | Inr None \<Rightarrow> (Inr task_state, p)
                          | Inr (Some ip) \<Rightarrow>
                              (Inr task_state,
                               p\<lparr>assigned_ip := Some ip,
                                 assigned_host := (case container_name p of None \<Rightarrow> [] | Some n \<Rightarrow> n)\<rparr>))
                    else (Inr task_state, p)))"

definition swarm_get_container_status ::
  "'w docker_api \<Rightarrow> string \<Rightarrow> ('a container_proxy_scheme, 'w) status_fn" where
  "swarm_get_container_status api kernel_id p w =
     bindE (get_task api kernel_id p w) (\<lambda>task (p1, w1).
       case task of
         None \<Rightarrow> (Inr [], p1, w1)
       | Some t \<Rightarrow>
           if truthy t then (case task_status t p1 of (r, p2) \<Rightarrow> (r, p2, w1)) else (Inr [], p1, w1))"

text \<open>What the removal of the object found amounts to: \<open>None\<close> and no name any more, or \<open>False\<close>.\<close>

definition finish_removal ::
  "unit res \<Rightarrow> 'a container_proxy_scheme \<Rightarrow> pyval \<times> 'a container_proxy_scheme" where
  "finish_removal removed p =
     (if (case removed of Inr _ \<Rightarrow> True | Inl e \<Rightarrow> e = NotFound)
      then (PNone, p\<lparr>container_name := None\<rparr>) else (PBool False, p))"

definition swarm_terminate ::
  "'w docker_api \<Rightarrow> string \<Rightarrow> ('a container_proxy_scheme, 'w) answer_fn" where
  "swarm_terminate api kernel_id p w =
     bindE (get_service api kernel_id p w) (\<lambda>service (p1, w1).
       case (case service of None \<Rightarrow> (Inr (), w1) | Some s \<Rightarrow> da_remove_service api s w1) of
         (removed, w2) \<Rightarrow> (case finish_removal removed p1 of (r, p2) \<Rightarrow> (Inr r, p2, w2)))"

section \<open>The container\<close>

definition get_container ::
  "'w docker_api \<Rightarrow> string \<Rightarrow> 'w \<Rightarrow> dk_container option res \<times> 'w" where
  "get_container api kernel_id w =
     (case da_containers api (''kernel_id='' @ kernel_id) w of
        (Inl e, w1) \<Rightarrow> (Inl e, w1) | (Inr containers, w1) \<Rightarrow> (at_most_one containers, w1))"

text \<open>
  The address of a running container: the container's own as a fallback, then the one in the
  configured network.  An address is a string or \<open>None\<close>.
\<close>

definition capture_ip ::
  "string \<Rightarrow> pyval \<Rightarrow> 'a container_proxy_scheme \<Rightarrow> unit res \<times> 'a container_proxy_scheme" where
  "capture_ip docker_network attrs p =
     (case rbind (py_get attrs ''NetworkSettings'') (\<lambda>settings. rbind (py_get settings ''IPAddress'') as_opt_str) of
        Inl e \<Rightarrow> (Inl e, p)
      | Inr ip \<Rightarrow>
          (let p1 = p\<lparr>assigned_ip := ip\<rparr> in
           case rbind (py_get attrs ''NetworkSettings'') (\<lambda>settings.
                rbind (py_get settings ''Networks'') (\<lambda>networks.
                rbind (py_nonempty networks) (\<lambda>b.
                  if b
                  then rbind (py_get networks docker_network) (\<lambda>network.
                       rbind (py_get network ''IPAddress'') (\<lambda>v. rbind (as_opt_str v) (\<lambda>i. Inr (Some i))))
                  else Inr None))) of
             Inl e \<Rightarrow> (Inl e, p1)
           | Inr None \<Rightarrow> (Inr (), p1)
           | Inr (Some i) \<Rightarrow> (Inr (), p1\<lparr>assigned_ip := i\<rparr>)))"

definition docker_get_container_status ::
  "'w docker_api \<Rightarrow> string \<Rightarrow> string \<Rightarrow> ('a container_proxy_scheme, 'w) status_fn" where
  "docker_get_container_status api docker_network kernel_id p w =
     (case get_container api kernel_id w of
        (Inl e, w1) \<Rightarrow> (Inl e, p, w1)
      | (Inr None, w1) \<Rightarrow> (Inr [], p, w1)
      | (Inr (Some c), w1) \<Rightarrow>
          (let p1 = p\<lparr>container_name := Some (ctr_name c)\<rparr> in
           case ctr_status c of
             None \<Rightarrow> (Inr [], p1, w1)
           | Some status \<Rightarrow>
               if lower status = ''running'' \<and> assigned_host p1 = []
               then (case capture_ip docker_network (ctr_attrs c) p1 of
                       (Inl e, p2) \<Rightarrow> (Inl e, p2, w1)
                     | (Inr _, p2) \<Rightarrow> (Inr (lower status), p2\<lparr>assigned_host := ctr_name c\<rparr>, w1))
               else (Inr (lower status), p1, w1)))"

definition docker_terminate ::
  "'w docker_api \<Rightarrow> string \<Rightarrow> ('a container_proxy_scheme, 'w) answer_fn" where
  "docker_terminate api kernel_id p w =
     (case get_container api kernel_id w of
        (Inl e, w1) \<Rightarrow> (Inl e, p, w1)
      | (Inr container, w1) \<Rightarrow>
          (case (case container of None \<Rightarrow> (Inr (), w1) | Some c \<Rightarrow> da_remove_container api c w1) of
             (removed, w2) \<Rightarrow> (case finish_removal removed p of (r, p2) \<Rightarrow> (Inr r, p2, w2))))"

section \<open>Properties\<close>

text \<open>
  What the documented calls do to the objects a label selects: listing changes nothing, removing
  deletes the object wherever it is listed, and a failure other than 404 leaves it there.
\<close>

definition removal_laws ::
  "(string \<Rightarrow> 'w \<Rightarrow> 'x list res \<times> 'w) \<Rightarrow> ('x \<Rightarrow> 'w \<Rightarrow> unit res \<times> 'w) \<Rightarrow> ('w \<Rightarrow> string \<Rightarrow> 'x list) \<Rightarrow> bool" where
  "removal_laws list_by remove objects \<longleftrightarrow>
     (\<forall>l w. list_by l w = (Inr (objects w l), w)) \<and>
     (\<forall>x w r w'. remove x w = (r, w') \<longrightarrow>
        objects w' = (if r = Inr () \<or> r = Inl NotFound then \<lambda>l. filter (\<lambda>y. y \<noteq> x) (objects w l) else objects w))"

lemma removal_lawsD:
  assumes "removal_laws list_by remove objects"
  shows "list_by l w = (Inr (objects w l), w)"
    and "remove x w = (r, w') \<Longrightarrow> objects w' =
      (if r = Inr () \<or> r = Inl NotFound then \<lambda>l. filter (\<lambda>y. y \<noteq> x) (objects w l) else objects w)"
  using assms unfolding removal_laws_def by blast+

lemma finish_removal_None:
  "finish_removal removed p = (PNone, p') \<longleftrightarrow>
   (removed = Inr () \<or> removed = Inl NotFound) \<and> p' = p\<lparr>container_name := None\<rparr>"
  by (auto simp: finish_removal_def split: sum.splits)

lemma docker_terminate_gone:
  assumes laws: "removal_laws (da_containers api) (da_remove_container api) objects"
    and t: "docker_terminate api kernel_id p w = (Inr PNone, p', w')"
  defines "mine \<equiv> objects w (''kernel_id='' @ kernel_id)"
  shows "objects w' = (\<lambda>l. filter (\<lambda>y. y \<notin> set mine) (objects w l)) \<and> container_name p' = None"
proof -
  note l = removal_lawsD [OF laws]
  consider "mine = []" | c where "mine = [c]" | c d cs where "mine = c # d # cs"
    by (cases mine; cases "tl mine") auto
  then show ?thesis
  proof cases
    case 1
    then show ?thesis
      using t l(1) by (auto simp: docker_terminate_def get_container_def at_most_one_def finish_removal_def mine_def)
  next
    case 2
    obtain r w2 where r: "da_remove_container api c w = (r, w2)" by fastforce
    have "finish_removal r p = (PNone, p')" "w' = w2"
      using t r 2 l(1) by (auto simp: docker_terminate_def get_container_def at_most_one_def mine_def split: prod.splits)
    then show ?thesis using l(2) [OF r] 2 by (auto simp: finish_removal_None)
  next
    case 3
    then show ?thesis using t l(1) by (simp add: docker_terminate_def get_container_def at_most_one_def mine_def)
  qed
qed

lemma swarm_terminate_gone:
  assumes laws: "removal_laws (da_services api) (da_remove_service api) objects"
    and t: "swarm_terminate api kernel_id p w = (Inr PNone, p', w')"
  defines "mine \<equiv> objects w (''kernel_id='' @ kernel_id)"
  shows "objects w' = (\<lambda>l. filter (\<lambda>y. y \<notin> set mine) (objects w l)) \<and> container_name p' = None"
proof -
  note l = removal_lawsD [OF laws]
  consider "mine = []" | c where "mine = [c]" | c d cs where "mine = c # d # cs"
    by (cases mine; cases "tl mine") auto
  then show ?thesis
  proof cases
    case 1
    then show ?thesis
      using t l(1) by (auto simp: swarm_terminate_def get_service_def at_most_one_def finish_removal_def mine_def)
  next
    case 2
    obtain r w2 where r: "da_remove_service api c w = (r, w2)" by fastforce
    have "finish_removal r (p\<lparr>container_name := Some (svc_name c)\<rparr>) = (PNone, p')" "w' = w2"
      using t r 2 l(1) by (auto simp: swarm_terminate_def get_service_def at_most_one_def mine_def split: prod.splits)
    then show ?thesis using l(2) [OF r] 2 by (auto simp: finish_removal_None)
  next
    case 3
    then show ?thesis using t l(1) by (simp add: swarm_terminate_def get_service_def at_most_one_def mine_def)
  qed
qed

text \<open>
  When \<open>kill\<close> answers that a Docker kernel or a swarm kernel is gone, it is: nothing that
  carries the kernel's label is left, nothing else was removed, and the proxy, which has
  forgotten the name, sees the kernel as dead from then on.
\<close>

lemma docker_kill_removes_exactly:
  fixes objects :: "'w \<Rightarrow> string \<Rightarrow> dk_container list" and services :: "'w \<Rightarrow> string \<Rightarrow> dk_service list"
    and p :: "'a container_proxy_scheme"
  assumes "removal_laws (da_containers api) (da_remove_container api) objects"
    and "removal_laws (da_services api) (da_remove_service api) services" and "has_container p"
  shows "(container_kill (docker_terminate api kernel_id) p w = (Inr PNone, p', w') \<longrightarrow>
      objects w' = (\<lambda>l. filter (\<lambda>y. y \<notin> set (objects w (''kernel_id='' @ kernel_id))) (objects w l)) \<and>
      container_poll docker_initial_states (docker_get_container_status api network kernel_id) p' w' = (Inr (PBool False), p', w') \<and>
      \<not> has_container p') \<and>
    (container_kill (swarm_terminate api kernel_id) p w = (Inr PNone, p', w') \<longrightarrow>
      services w' = (\<lambda>l. filter (\<lambda>y. y \<notin> set (services w (''kernel_id='' @ kernel_id))) (services w l)) \<and>
      container_poll swarm_initial_states (swarm_get_container_status api kernel_id) p' w' = (Inr (PBool False), p', w') \<and>
      \<not> has_container p')"
proof (rule conjI; rule impI)
  assume k: "container_kill (docker_terminate api kernel_id) p w = (Inr PNone, p', w')"
  have t: "docker_terminate api kernel_id p w = (Inr PNone, p', w')"
    using k assms(3) by (simp add: container_kill_def)
  note gone = docker_terminate_gone [OF assms(1) t]
  have "objects w' (''kernel_id='' @ kernel_id) = []"
    unfolding gone [THEN conjunct1] by (rule filter_False) blast
  then have "container_poll docker_initial_states (docker_get_container_status api network kernel_id) p' w' =
      (Inr (PBool False), p', w')"
    using removal_lawsD(1) [OF assms(1)]
    by (simp add: container_poll_def docker_get_container_status_def get_container_def at_most_one_def docker_initial_states_def)
  with gone show "objects w' = (\<lambda>l. filter (\<lambda>y. y \<notin> set (objects w (''kernel_id='' @ kernel_id))) (objects w l)) \<and>
      container_poll docker_initial_states (docker_get_container_status api network kernel_id) p' w' = (Inr (PBool False), p', w') \<and>
      \<not> has_container p'" by (simp only: has_container_def option.case simp_thms)
next
  assume k: "container_kill (swarm_terminate api kernel_id) p w = (Inr PNone, p', w')"
  have t: "swarm_terminate api kernel_id p w = (Inr PNone, p', w')"
    using k assms(3) by (simp add: container_kill_def)
  note gone = swarm_terminate_gone [OF assms(2) t]
  have "services w' (''kernel_id='' @ kernel_id) = []"
    unfolding gone [THEN conjunct1] by (rule filter_False) blast
  then have "container_poll swarm_initial_states (swarm_get_container_status api kernel_id) p' w' =
      (Inr (PBool False), p', w')"
    using removal_lawsD(1) [OF assms(2)]
    by (simp add: container_poll_def swarm_get_container_status_def get_task_def get_service_def at_most_one_def
        swarm_initial_states_def)
  with gone show "services w' = (\<lambda>l. filter (\<lambda>y. y \<notin> set (services w (''kernel_id='' @ kernel_id))) (services w l)) \<and>
      container_poll swarm_initial_states (swarm_get_container_status api kernel_id) p' w' = (Inr (PBool False), p', w') \<and>
      \<not> has_container p'" by (simp only: has_container_def option.case simp_thms)
qed

text \<open>
  A running container with networks, none of which is the configured one, makes the status
  raise: the fallback address that has just been captured is never used.
\<close>

lemma other_network_raises:
  assumes "da_containers api (''kernel_id='' @ kernel_id) w = (Inr [c], w1)" "ctr_status c = Some ''running''"
    and "ctr_attrs c = PDict [(''NetworkSettings'', PDict [(''IPAddress'', PStr ip), (''Networks'', PDict (n # ns))])]"
    and "dget (n # ns) network = None" "assigned_host p = []"
  shows "fst (docker_get_container_status api network kernel_id p w) = Inl AttributeError"
proof -
  have "lower ''running'' = ''running''" by code_simp
  then show ?thesis
    using assms
    by (cases n) (simp add: docker_get_container_status_def get_container_def at_most_one_def capture_ip_def as_opt_str_def)
qed

text \<open>A Docker host with one labelled container and one service of another kernel.\<close>

definition demo_docker :: "(dk_container list \<times> dk_service list) docker_api" where
  "demo_docker =
     \<lparr>da_services = (\<lambda>l s. (Inr (if l = ''kernel_id=k2'' then snd s else []), s)),
      da_tasks = (\<lambda>x s. (Inr [], s)),
      da_remove_service = (\<lambda>x s. (Inr (), fst s, filter (\<lambda>y. y \<noteq> x) (snd s))),
      da_containers = (\<lambda>l s. (Inr (if l = ''kernel_id=k1'' then fst s else []), s)),
      da_remove_container = (\<lambda>x s. (Inr (), filter (\<lambda>y. y \<noteq> x) (fst s), snd s))\<rparr>"

definition demo_container :: container_proxy where
  "demo_container = remote_proxy.extend demo_remote \<lparr>container_name = Some ''c1'', assigned_node_ip = None\<rparr>"

lemma docker_kill_removes_exactly_witness:
  "container_poll docker_initial_states (docker_get_container_status demo_docker ''bridge'' ''k1'')
     (fst (snd (container_kill (docker_terminate demo_docker ''k1'') demo_container
       ([\<lparr>ctr_id = ''1'', ctr_name = ''c1'', ctr_status = None, ctr_attrs = PNone\<rparr>], [])))) ([], []) =
   (Inr (PBool False), demo_container\<lparr>container_name := None\<rparr>, ([], []))"
proof -
  have laws: "removal_laws (da_containers demo_docker) (da_remove_container demo_docker)
      (\<lambda>s l. if l = ''kernel_id=k1'' then fst s else [])"
    "removal_laws (da_services demo_docker) (da_remove_service demo_docker)
      (\<lambda>s l. if l = ''kernel_id=k2'' then snd s else [])"
    by (auto simp: removal_laws_def demo_docker_def NotFound_def)
  have c: "has_container demo_container"
    by (simp add: has_container_def demo_container_def remote_proxy.extend_def)
  have k: "container_kill (docker_terminate demo_docker ''k1'') demo_container
      ([\<lparr>ctr_id = ''1'', ctr_name = ''c1'', ctr_status = None, ctr_attrs = PNone\<rparr>], []) =
    (Inr PNone, demo_container\<lparr>container_name := None\<rparr>, ([], []))"
    using c by (simp add: container_kill_def docker_terminate_def get_container_def at_most_one_def demo_docker_def
        finish_removal_def)
  show ?thesis
    using docker_kill_removes_exactly [OF laws c, of "''k1''", THEN conjunct1, rule_format, OF k, of "''bridge''"] k
    by simp
qed

end
