(* ===== verification/K8s.thy ===== *)
theory K8s
  imports Container
begin

text \<open>
  \<open>KubernetesProcessProxy\<close> (services/processproxies/k8s.py): the name of the kernel's pod,
  its namespace and role binding, the status of the pod and the teardown.  The Kubernetes
  API is a record of calls on a state \<open>'w\<close>, each of which may raise.
\<close>

section \<open>The pod name\<close>

definition is_word_char :: "char \<Rightarrow> bool" where
  "is_word_char c \<longleftrightarrow>
     (let n = code c in 65 \<le> n \<and> n \<le> 90 \<or> 97 \<le> n \<and> n \<le> 122 \<or> 48 \<le> n \<and> n \<le> 57 \<or> n = 95)"

definition is_letter :: "char \<Rightarrow> bool" where
  "is_letter c \<longleftrightarrow> (let n = code c in 65 \<le> n \<and> n \<le> 90 \<or> 97 \<le> n \<and> n \<le> 122)"

text \<open>
  A match of \<open>{{ name }}\<close> at the start of a string: the name and what follows it.  White
  space is no name character, so the longest runs are the only ones that can match.
\<close>

definition match_placeholder :: "string \<Rightarrow> (string \<times> string) option" where
  "match_placeholder s =
     (if startswith s ''{{''
      then (let r = dropWhile is_space (drop 2 s);
                name = takeWhile is_word_char r;
                r' = dropWhile is_space (dropWhile is_word_char r) in
            if name \<noteq> [] \<and> is_letter (hd name) \<and> startswith r' ''}}'' then Some (name, drop 2 r') else None)
      else None)"

lemma match_placeholder_length: "match_placeholder s = Some (name, r) \<Longrightarrow> length r < length s"
proof -
  assume a: "match_placeholder s = Some (name, r)"
  let ?r = "dropWhile is_space (dropWhile is_word_char (dropWhile is_space (drop 2 s)))"
  have "length ?r \<le> length (drop 2 s)" by (meson length_dropWhile_le order_trans)
  moreover have "startswith s ''{{''" using a by (auto simp: match_placeholder_def split: if_splits)
  then have "0 < length s" by auto
  ultimately have "length (drop 2 ?r) < length s" unfolding length_drop by linarith
  moreover have "r = drop 2 ?r" using a by (auto simp: match_placeholder_def Let_def split: if_splits)
  ultimately show ?thesis by simp
qed

text \<open>The substituted text and the names that have no value.\<close>

function substitute_vars :: "(string, string) dict \<Rightarrow> string \<Rightarrow> string \<times> string list" where
  "substitute_vars vs [] = ([], [])"
| "substitute_vars vs (c # cs) =
     (case match_placeholder (c # cs) of
        Some (name, r) \<Rightarrow>
          (case substitute_vars vs r of
             (t, missing) \<Rightarrow>
               (case dget vs name of
                  Some v \<Rightarrow> (v @ t, missing)
                | None \<Rightarrow> (take (length (c # cs) - length r) (c # cs) @ t, name # missing)))
      | None \<Rightarrow> (case substitute_vars vs cs of (t, missing) \<Rightarrow> (c # t, missing)))"
  by pat_completeness auto
termination
  by (relation "measure (\<lambda>(vs, s). length s)") (auto dest: match_placeholder_length)

definition safe_template_substitute :: "string \<Rightarrow> (string, string) dict \<Rightarrow> string option" where
  "safe_template_substitute template_str variables =
     (case substitute_vars variables template_str of
        (result, missing_vars) \<Rightarrow>
          if contains ''{{'' result \<and> contains ''}}'' result then None
          else if missing_vars \<noteq> [] then None
          else Some result)"

text \<open>\<open>re.sub("[^0-9a-z]+", "-", s)\<close>: every run of other characters becomes one hyphen.\<close>

definition dns_char :: "char \<Rightarrow> bool" where
  "dns_char c \<longleftrightarrow> (let n = code c in 48 \<le> n \<and> n \<le> 57 \<or> 97 \<le> n \<and> n \<le> 122)"

fun hyphenate :: "bool \<Rightarrow> string \<Rightarrow> string" where
  "hyphenate in_run [] = []"
| "hyphenate in_run (c # cs) =
     (if dns_char c then c # hyphenate False cs
      else if in_run then hyphenate True cs else CHR ''-'' # hyphenate True cs)"

definition strip_hyphens :: "string \<Rightarrow> string" where
  "strip_hyphens s =
     rev (dropWhile (\<lambda>c. c = CHR ''-'') (rev (dropWhile (\<lambda>c. c = CHR ''-'') s)))"

definition dns_name :: "string \<Rightarrow> string" where
  "dns_name s = strip_hyphens (hyphenate False (lower s))"

text \<open>\<open>default_pod_name\<close> also stores the user name into the environment when it was missing.\<close>

definition default_pod_name :: "string \<Rightarrow> string \<Rightarrow> env \<Rightarrow> string \<times> env" where
  "default_pod_name getuser kernel_id env =
     (case get_kernel_username getuser \<lparr>la_env = Some env, la_rest = []\<rparr> of
        (u, kw) \<Rightarrow> (u @ ''-'' @ kernel_id, case la_env kw of None \<Rightarrow> env | Some e \<Rightarrow> e))"

definition template_variables :: "string \<Rightarrow> env \<Rightarrow> (string, string) dict" where
  "template_variables kernel_id env =
     dset ''kernel_id'' kernel_id
       (dupdate [] (map (\<lambda>(k, v). (lower k, v)) [(k, v) \<leftarrow> env. startswith k ''KERNEL_'']))"

definition determine_kernel_pod_name :: "string \<Rightarrow> string \<Rightarrow> env \<Rightarrow> string \<times> env" where
  "determine_kernel_pod_name getuser kernel_id env =
     (let (raw, env1) =
        (case dget env ''KERNEL_POD_NAME'' of
           None \<Rightarrow> default_pod_name getuser kernel_id env
         | Some pod_name \<Rightarrow>
             if contains ''{{'' pod_name \<and> contains ''}}'' pod_name
             then (case safe_template_substitute pod_name (template_variables kernel_id env) of
                     None \<Rightarrow> default_pod_name getuser kernel_id env
                   | Some s \<Rightarrow> (s, env))
             else (pod_name, env));
        pod_name = dns_name raw in
      (pod_name, dset ''KERNEL_POD_NAME'' pod_name env1))"

section \<open>State and platform\<close>

record k8s_proxy = container_proxy +
  kernel_pod_name :: string
  kernel_namespace :: string
  delete_kernel_namespace :: bool

text \<open>A pod as listed: its name and, if it has a status, the phase with the two addresses.\<close>

record pod =
  pod_name :: string
  pod_status :: "(string \<times> string option \<times> string option) option"

record 'w k8s_api =
  ka_list_pods :: "string \<Rightarrow> string \<Rightarrow> 'w \<Rightarrow> pod list res \<times> 'w"
  ka_delete_pod :: "string \<Rightarrow> string option \<Rightarrow> 'w \<Rightarrow> string option res \<times> 'w"
  ka_create_namespace :: "string \<Rightarrow> 'w \<Rightarrow> unit res \<times> 'w"
  ka_delete_namespace :: "string \<Rightarrow> 'w \<Rightarrow> string option res \<times> 'w"
  ka_create_role_binding :: "string \<Rightarrow> string \<Rightarrow> string \<Rightarrow> 'w \<Rightarrow> unit res \<times> 'w"
  ka_remove_file :: "string \<Rightarrow> 'w \<Rightarrow> 'w"

definition k8s_initial_states :: "string list" where
  "k8s_initial_states = [''pending'', ''running'']"

definition k8s_error_states :: "string list" where
  "k8s_error_states = [''failed'']"

definition k8s_get_container_status ::
  "'w k8s_api \<Rightarrow> string \<Rightarrow> ('a k8s_proxy_scheme, 'w) status_fn" where
  "k8s_get_container_status api kernel_id p w =
     (case ka_list_pods api (kernel_namespace p) (''kernel_id='' @ kernel_id @ '',component=kernel'') w of
        (Inl e, w1) \<Rightarrow> (Inl e, p, w1)
      | (Inr [], w1) \<Rightarrow> (Inr [], p, w1)
      | (Inr (pod_info # _), w1) \<Rightarrow>
          let p1 = p\<lparr>container_name := Some (pod_name pod_info)\<rparr> in
          (case pod_status pod_info of
             None \<Rightarrow> (Inr [], p1, w1)
           | Some (phase, pod_ip, host_ip) \<Rightarrow>
               (Inr (lower phase),
                if lower phase = ''running'' \<and> assigned_host p1 = []
                then p1\<lparr>assigned_ip := pod_ip, assigned_host := pod_name pod_info, assigned_node_ip := host_ip\<rparr>
                else p1, w1)))"

section \<open>Namespaces\<close>

definition k8s_launch_env :: "env \<Rightarrow> env \<Rightarrow> env" where
  "k8s_launch_env os_environ env =
     dupdate env [(k, v) \<leftarrow> os_environ. startswith k ''KUBECONFIG'' \<or> startswith k ''KUBERNETES_SERVICE'']"

definition determine_service_account :: "string \<Rightarrow> env \<Rightarrow> string \<times> env" where
  "determine_service_account default_account env =
     (let a = dget_or env ''KERNEL_SERVICE_ACCOUNT_NAME'' default_account in
      (a, dset ''KERNEL_SERVICE_ACCOUNT_NAME'' a env))"

definition create_kernel_namespace ::
  "'w k8s_api \<Rightarrow> string \<Rightarrow> bool \<Rightarrow> string \<Rightarrow> 'a k8s_proxy_scheme \<Rightarrow> 'w \<Rightarrow>
   string res \<times> 'a k8s_proxy_scheme \<times> 'w" where
  "create_kernel_namespace api kernel_cluster_role restarting service_account_name p w =
     (let namespace = kernel_pod_name p;
          failed = (\<lambda>err p w.
            if err = ApiException 409 \<and> restarting
            then (Inr namespace, p\<lparr>delete_kernel_namespace := True\<rparr>, w)
            else if delete_kernel_namespace p
            then (case ka_delete_namespace api namespace w of
                    (Inl e, w') \<Rightarrow> (Inl e, p, w')
                  | (Inr _, w') \<Rightarrow> (Inl (HTTPError 500), p, w'))
            else (Inl (HTTPError 500), p, w)) in
      case ka_create_namespace api namespace w of
        (Inl err, w1) \<Rightarrow> failed err p w1
      | (Inr _, w1) \<Rightarrow>
          let p1 = p\<lparr>delete_kernel_namespace := True\<rparr> in
          (case ka_create_role_binding api namespace kernel_cluster_role service_account_name w1 of
             (Inl err, w2) \<Rightarrow> failed err p1 w2
           | (Inr _, w2) \<Rightarrow> (Inr namespace, p1, w2)))"

text \<open>
  The role binding of a new namespace: the cluster role, under its own name, for one service
  account of that namespace.  The class of a subject was renamed in the Kubernetes client.
\<close>

definition get_subject_class :: "string list \<Rightarrow> string" where
  "get_subject_class client_classes =
     (if ''V1Subject'' \<in> set client_classes then ''V1Subject'' else ''RbacV1Subject'')"

record role_binding =
  rb_name :: string
  rb_labels :: "(string, string) dict"
  rb_role_kind :: string
  rb_role_name :: string
  rb_subject_class :: string
  rb_subjects :: "(string \<times> string \<times> string) list"

definition create_role_binding ::
  "(string \<Rightarrow> role_binding \<Rightarrow> 'w \<Rightarrow> unit res \<times> 'w) \<Rightarrow> string list \<Rightarrow> string \<Rightarrow> string \<Rightarrow> string \<Rightarrow> string \<Rightarrow> 'w \<Rightarrow>
   unit res \<times> 'w" where
  "create_role_binding create_namespaced_role_binding client_classes kernel_id namespace kernel_cluster_role
     service_account_name w =
     create_namespaced_role_binding namespace
       \<lparr>rb_name = kernel_cluster_role,
        rb_labels = [(''app'', ''enterprise-gateway''), (''component'', ''kernel''), (''kernel_id'', kernel_id)],
        rb_role_kind = ''ClusterRole'', rb_role_name = kernel_cluster_role,
        rb_subject_class = get_subject_class client_classes,
        rb_subjects = [(''ServiceAccount'', service_account_name, namespace)]\<rparr> w"

definition determine_kernel_namespace ::
  "'w k8s_api \<Rightarrow> string \<Rightarrow> string \<Rightarrow> bool \<Rightarrow> string \<Rightarrow> bool \<Rightarrow> env \<Rightarrow> 'a k8s_proxy_scheme \<Rightarrow> 'w \<Rightarrow>
   env res \<times> 'a k8s_proxy_scheme \<times> 'w" where
  "determine_kernel_namespace api kernel_cluster_role default_account share_gateway_namespace
     gateway_namespace restarting env p w =
     (let (account, env1) = determine_service_account default_account env in
      case dget env1 ''KERNEL_NAMESPACE'' of
        Some ns \<Rightarrow> (Inr env1, p\<lparr>kernel_namespace := ns\<rparr>, w)
      | None \<Rightarrow>
          if share_gateway_namespace
          then (Inr (dset ''KERNEL_NAMESPACE'' gateway_namespace env1),
                p\<lparr>kernel_namespace := gateway_namespace\<rparr>, w)
          else (case create_kernel_namespace api kernel_cluster_role restarting account p w of
                  (Inl e, pw) \<Rightarrow> (Inl e, pw)
                | (Inr ns, p1, w1) \<Rightarrow>
                    (Inr (dset ''KERNEL_NAMESPACE'' ns env1), p1\<lparr>kernel_namespace := ns\<rparr>, w1)))"

section \<open>Teardown\<close>

definition termination_stati :: "string list" where
  "termination_stati = [''Succeeded'', ''Failed'', ''Terminating'', ''Success'']"

definition k8s_delete_managed_object ::
  "'w k8s_api \<Rightarrow> 'a k8s_proxy_scheme \<Rightarrow> 'w \<Rightarrow> bool res \<times> 'w" where
  "k8s_delete_managed_object api p w =
     bindE (ka_delete_pod api (kernel_namespace p) (container_name p) w) (\<lambda>status w1.
       (Inr (case status of None \<Rightarrow> False | Some s \<Rightarrow> s \<in> set termination_stati), w1))"

text \<open>
  The body of the \<open>try\<close>: delete the pod, look at its status when that did not finish it, and
  delete the namespace if the proxy created it and the kernel is not restarting.  The status
  (the class's own, as is the deletion) is a string, so it never is \<open>None\<close>.  The flag is the value of \<open>result\<close> so far.
\<close>

definition terminate_body ::
  "'w k8s_api \<Rightarrow> ('a k8s_proxy_scheme, 'w) status_fn \<Rightarrow> bool \<Rightarrow>
   ('a k8s_proxy_scheme \<Rightarrow> 'w \<Rightarrow> bool res \<times> 'w) \<Rightarrow>
   'a k8s_proxy_scheme \<Rightarrow> 'w \<Rightarrow> exn option \<times> bool \<times> 'a k8s_proxy_scheme \<times> 'w" where
  "terminate_body api get_status restarting delete_object p w =
     (case delete_object p w of
        (Inl e, w1) \<Rightarrow> (Some e, False, p, w1)
      | (Inr result, w1) \<Rightarrow>
          (case (if result then (Inr [], p, w1) else get_status p w1) of
             (Inl e, p2, w2) \<Rightarrow> (Some e, result, p2, w2)
           | (Inr _, p2, w2) \<Rightarrow>
               if delete_kernel_namespace p2 \<and> \<not> restarting
               then (case ka_delete_namespace api (kernel_namespace p2) w2 of
                       (Inl e, w3) \<Rightarrow> (Some e, result, p2, w3)
                     | (Inr status, w3) \<Rightarrow>
                         (None,
                          (case status of
                             None \<Rightarrow> result
                           | Some s \<Rightarrow> result \<or> s \<noteq> [] \<and> list_ex (\<lambda>t. contains t s) termination_stati), p2, w3))
               else (None, result, p2, w2)))"

definition terminate_container_resources ::
  "'w k8s_api \<Rightarrow> string \<Rightarrow> string \<Rightarrow> ('a k8s_proxy_scheme, 'w) status_fn \<Rightarrow> bool \<Rightarrow>
   ('a k8s_proxy_scheme \<Rightarrow> 'w \<Rightarrow> bool res \<times> 'w) \<Rightarrow> ('a k8s_proxy_scheme, 'w) answer_fn" where
  "terminate_container_resources api kpt_dir kernel_id get_status restarting delete_object p w =
     (case terminate_body api get_status restarting delete_object p w of
        (err, r, p1, w1) \<Rightarrow>
          let result = (case err of None \<Rightarrow> r | Some e \<Rightarrow> if e = ApiException 404 then True else r);
              w2 = ka_remove_file api (kpt_dir @ ''/kpt_'' @ kernel_id) w1 in
          if result then (Inr PNone, p1\<lparr>container_name := None\<rparr>, w2) else (Inr (PBool False), p1, w2))"

definition k8s_get_process_info :: "'a k8s_proxy_scheme \<Rightarrow> (string, pyval) dict" where
  "k8s_get_process_info p =
     dupdate (container_get_process_info p)
       [(''kernel_ns'', PStr (kernel_namespace p)), (''delete_ns'', PBool (delete_kernel_namespace p))]"

definition k8s_load_process_info ::
  "('a k8s_proxy_scheme \<Rightarrow> 'w \<Rightarrow> unit res \<times> 'a k8s_proxy_scheme \<times> 'w) \<Rightarrow>
   (string, pyval) dict \<Rightarrow> 'a k8s_proxy_scheme \<Rightarrow> 'w \<Rightarrow> unit res \<times> 'a k8s_proxy_scheme \<times> 'w" where
  "k8s_load_process_info super_load info p w =
     bindE (super_load p w) (\<lambda>_ (p1, w1).
       (case rbind (of_option KeyError (dget info ''kernel_ns'')) as_str of
          Inl e \<Rightarrow> (Inl e, p1, w1)
        | Inr ns \<Rightarrow>
            let p2 = p1\<lparr>kernel_namespace := ns\<rparr> in
            (case dget info ''delete_ns'' of
               None \<Rightarrow> (Inl KeyError, p2, w1)
             | Some b \<Rightarrow> (Inr (), p2\<lparr>delete_kernel_namespace := truthy b\<rparr>, w1))))"

section \<open>The name is a DNS label\<close>

definition dns_label :: "string \<Rightarrow> bool" where
  "dns_label s \<longleftrightarrow>
     list_all (\<lambda>c. dns_char c \<or> c = CHR ''-'') s
     \<and> \<not> startswith s ''-'' \<and> \<not> startswith (rev s) ''-'' \<and> \<not> contains ''--'' s"

lemma hyphen_not_dns [simp]: "\<not> dns_char (CHR ''-'')"
  by code_simp

lemma hyphenate_chars: "c \<in> set (hyphenate b s) \<Longrightarrow> dns_char c \<or> c = CHR ''-''"
  by (induction b s rule: hyphenate.induct) (auto split: if_splits)

lemma hyphenate_no_double:
  "\<not> contains ''--'' (hyphenate b s) \<and> (b \<longrightarrow> \<not> startswith (hyphenate b s) ''-'')"
  by (induction b s rule: hyphenate.induct) auto

lemma contains_infix: "\<not> contains sub (a @ s @ b) \<Longrightarrow> \<not> contains sub s"
  by (auto simp: contains_iff) (metis append.assoc)

lemma strip_hyphens_infix: "\<exists>a b. s = a @ strip_hyphens s @ b"
proof -
  let ?P = "\<lambda>c. c = CHR ''-''"
  have 1: "s = takeWhile ?P s @ dropWhile ?P s" by simp
  let ?u = "dropWhile ?P s"
  have "rev ?u = takeWhile ?P (rev ?u) @ dropWhile ?P (rev ?u)" by simp
  then have "?u = rev (dropWhile ?P (rev ?u)) @ rev (takeWhile ?P (rev ?u))"
    by (metis rev_append rev_rev_ident)
  with 1 show ?thesis unfolding strip_hyphens_def by metis
qed

lemma startswith_single: "startswith s [c] \<longleftrightarrow> s \<noteq> [] \<and> hd s = c"
  by (cases s) auto

lemma strip_hyphens_first: "\<not> startswith (strip_hyphens s) ''-''"
proof -
  let ?P = "\<lambda>c. c = CHR ''-''"
  let ?u = "dropWhile ?P s"
  obtain x where x: "?u = strip_hyphens s @ x"
    unfolding strip_hyphens_def by (metis rev_append rev_rev_ident takeWhile_dropWhile_id)
  show ?thesis
  proof (cases "strip_hyphens s")
    case (Cons c cs)
    with x have "?u \<noteq> []" "hd ?u = c" by auto
    then show ?thesis using hd_dropWhile [of ?P s] Cons by auto
  qed simp
qed

lemma strip_hyphens_last: "\<not> startswith (rev (strip_hyphens s)) ''-''"
  unfolding strip_hyphens_def rev_rev_ident startswith_single using hd_dropWhile by blast

lemma dns_name_label: "dns_label (dns_name s)"
proof -
  let ?h = "hyphenate False (lower s)"
  obtain a b where ab: "?h = a @ dns_name s @ b"
    unfolding dns_name_def using strip_hyphens_infix by blast
  then have "set (dns_name s) \<subseteq> set ?h" by auto
  then have "list_all (\<lambda>c. dns_char c \<or> c = CHR ''-'') (dns_name s)"
    by (auto simp: list_all_iff dest!: subsetD hyphenate_chars)
  moreover have "\<not> contains ''--'' (dns_name s)"
    using hyphenate_no_double [of False "lower s"] ab contains_infix by metis
  ultimately show ?thesis
    by (simp add: dns_label_def dns_name_def strip_hyphens_first strip_hyphens_last)
qed

text \<open>
  Whatever name or template the client asks for, the name of the pod is a lower case DNS
  label apart from its length (letters and digits separated by single hyphens), and the
  kernel's environment records that name.
\<close>

lemma pod_name_is_label:
  "case determine_kernel_pod_name getuser kernel_id env of
     (n, env') \<Rightarrow> dns_label n \<and> dget env' ''KERNEL_POD_NAME'' = Some n"
  by (simp add: determine_kernel_pod_name_def Let_def dns_name_label split: prod.splits)

text \<open>Nothing makes the name non-empty: a template of punctuation leaves no character.\<close>

lemma pod_name_can_be_empty:
  "fst (determine_kernel_pod_name ''root'' ''k1'' [(''KERNEL_POD_NAME'', ''__'')]) = []"
  by code_simp

lemma pod_name_example:
  "fst (determine_kernel_pod_name ''root'' ''K-1''
          [(''KERNEL_USERNAME'', ''Bob''), (''KERNEL_POD_NAME'', ''{{ kernel_username }}_{{kernel_id}}'')]) = ''bob-k-1''"
  by code_simp

section \<open>Who deletes a namespace\<close>

lemma k8s_status_keeps_namespace:
  "k8s_get_container_status api kernel_id p w = (r, p', w') \<Longrightarrow>
   kernel_namespace p' = kernel_namespace p \<and> delete_kernel_namespace p' = delete_kernel_namespace p"
  by (auto simp: k8s_get_container_status_def Let_def split: prod.splits sum.splits list.splits option.splits if_splits)

lemma status_ignores_ns_deletion [simp]:
  "k8s_get_container_status (api\<lparr>ka_delete_namespace := f\<rparr>) = k8s_get_container_status api"
  by (simp add: k8s_get_container_status_def fun_eq_iff)

lemma delete_object_ignores_ns_deletion [simp]:
  "k8s_delete_managed_object (api\<lparr>ka_delete_namespace := f\<rparr>) = k8s_delete_managed_object api"
  by (simp add: k8s_delete_managed_object_def fun_eq_iff)

definition keeps_namespace :: "('a k8s_proxy_scheme, 'w) status_fn \<Rightarrow> bool" where
  "keeps_namespace get_status \<longleftrightarrow> (\<forall>p w. let p' = fst (snd (get_status p w)) in
     kernel_namespace p' = kernel_namespace p \<and> delete_kernel_namespace p' = delete_kernel_namespace p)"

lemma keeps_namespaceD:
  "keeps_namespace get_status \<Longrightarrow> get_status p w = (r, p', w') \<Longrightarrow>
   kernel_namespace p' = kernel_namespace p \<and> delete_kernel_namespace p' = delete_kernel_namespace p"
  unfolding keeps_namespace_def Let_def by (metis fst_conv snd_conv)

lemma k8s_status_keeps [simp]: "keeps_namespace (k8s_get_container_status api kernel_id)"
  unfolding keeps_namespace_def Let_def
  using k8s_status_keeps_namespace by (metis prod.collapse)

text \<open>Without the mark, or during a restart, teardown is the same whatever deleting a namespace would do.\<close>

lemma terminate_without_namespace:
  assumes "\<not> delete_kernel_namespace p \<or> restarting" "keeps_namespace get_status"
  shows "terminate_container_resources (api\<lparr>ka_delete_namespace := f\<rparr>) dir kernel_id get_status restarting d p w
         = terminate_container_resources api dir kernel_id get_status restarting d p w"
proof -
  have "terminate_body (api\<lparr>ka_delete_namespace := f\<rparr>) get_status restarting d p w
      = terminate_body api get_status restarting d p w"
    using assms
    by (auto simp: terminate_body_def dest: keeps_namespaceD [OF assms(2)] split: prod.splits sum.splits if_splits)
  then show ?thesis by (simp add: terminate_container_resources_def)
qed

text \<open>
  C26: When the client names the namespace of the kernel, or the gateway shares its own, the
  launch makes no call on the cluster, records that namespace for the kernel and leaves the
  proxy's delete mark unset; the teardown of the kernel is then the same whatever deleting a
  namespace would do, that is, it never deletes one.
\<close>

theorem foreign_namespace_never_deleted:
  assumes "dget env ''KERNEL_NAMESPACE'' = Some ns \<or> share_gateway_namespace"
    and "\<not> delete_kernel_namespace p"
    and "determine_kernel_namespace api role account share_gateway_namespace gateway_ns restarting env p w = (r, p', w')"
  shows "w' = w \<and> \<not> delete_kernel_namespace p'
    \<and> (\<exists>env'. r = Inr env' \<and> dget env' ''KERNEL_NAMESPACE'' = Some (kernel_namespace p'))
    \<and> terminate_container_resources (api\<lparr>ka_delete_namespace := f\<rparr>) dir kernel_id
         (k8s_get_container_status (api\<lparr>ka_delete_namespace := f\<rparr>) kernel_id) restarting'
         (k8s_delete_managed_object (api\<lparr>ka_delete_namespace := f\<rparr>)) p' wt
      = terminate_container_resources api dir kernel_id (k8s_get_container_status api kernel_id) restarting'
         (k8s_delete_managed_object api) p' wt"
proof -
  have p': "w' = w" "\<not> delete_kernel_namespace p'"
    "\<exists>env'. r = Inr env' \<and> dget env' ''KERNEL_NAMESPACE'' = Some (kernel_namespace p')"
    using assms by (auto simp: determine_kernel_namespace_def determine_service_account_def
        dget_dset Let_def split: option.splits if_splits)
  then show ?thesis
    by (simp add: terminate_without_namespace)
qed

text \<open>A cluster with one list of namespaces, on which role bindings are refused.\<close>

definition sample_api :: "string list k8s_api" where
  "sample_api =
     \<lparr>ka_list_pods = \<lambda>ns sel w. (Inr [], w),
      ka_delete_pod = \<lambda>ns n w. (Inl (ApiException 404), w),
      ka_create_namespace = \<lambda>ns w. if List.member w ns then (Inl (ApiException 409), w) else (Inr (), ns # w),
      ka_delete_namespace = \<lambda>ns w. (Inr (Some ''Terminating''), removeAll ns w),
      ka_create_role_binding = \<lambda>ns role account w. (Inl (ApiException 403), w),
      ka_remove_file = \<lambda>f w. w\<rparr>"

definition sample_proxy :: k8s_proxy where
  "sample_proxy =
     \<lparr>local_proc = False, proxy_ip = None, proxy_pid = 0, proxy_pgid = 0,
      assigned_ip = None, assigned_host = [], comm_ip = None, comm_port = 0,
      tunneled_connect_info = None, tunnel_processes = [], km_connection = None,
      connection_file_written = False, container_name = None, assigned_node_ip = None,
      kernel_pod_name = ''bob-k1'', kernel_namespace = [], delete_kernel_namespace = False\<rparr>"

lemma foreign_namespace_never_deleted_witness:
  "terminate_container_resources (sample_api\<lparr>ka_delete_namespace := \<lambda>ns w. (Inr (Some ''Success''), [])\<rparr>)
     ''/tmp'' ''k1''
     (k8s_get_container_status (sample_api\<lparr>ka_delete_namespace := \<lambda>ns w. (Inr (Some ''Success''), [])\<rparr>) ''k1'') False
     (k8s_delete_managed_object (sample_api\<lparr>ka_delete_namespace := \<lambda>ns w. (Inr (Some ''Success''), [])\<rparr>))
     (sample_proxy\<lparr>kernel_namespace := ''team''\<rparr>) [''team'']
   = terminate_container_resources sample_api ''/tmp'' ''k1'' (k8s_get_container_status sample_api ''k1'') False
       (k8s_delete_managed_object sample_api) (sample_proxy\<lparr>kernel_namespace := ''team''\<rparr>) [''team'']"
proof -
  have p: "\<not> delete_kernel_namespace sample_proxy" by (simp add: sample_proxy_def)
  have d: "determine_kernel_namespace sample_api ''cluster-admin'' ''default'' False ''eg'' False
      [(''KERNEL_NAMESPACE'', ''team'')] sample_proxy [''team'']
    = (Inr [(''KERNEL_NAMESPACE'', ''team''), (''KERNEL_SERVICE_ACCOUNT_NAME'', ''default'')],
       sample_proxy\<lparr>kernel_namespace := ''team''\<rparr>, [''team''])"
    by (simp add: determine_kernel_namespace_def determine_service_account_def dget_or_def Let_def)
  have ns: "dget [(''KERNEL_NAMESPACE'', ''team'')] ''KERNEL_NAMESPACE'' = Some ''team'' \<or> False" by simp
  show ?thesis
    using foreign_namespace_never_deleted [OF ns p d] by blast
qed

section \<open>A launch that fails leaves no namespace\<close>

text \<open>
  What the documented API calls do to the namespaces of the cluster: creating adds one or fails,
  deleting removes it, a role binding leaves them alone.
\<close>

definition namespace_laws :: "'w k8s_api \<Rightarrow> ('w \<Rightarrow> string set) \<Rightarrow> bool" where
  "namespace_laws api namespaces \<longleftrightarrow>
     (\<forall>ns w. case ka_create_namespace api ns w of
        (Inl e, w') \<Rightarrow> namespaces w' = namespaces w
      | (Inr _, w') \<Rightarrow> ns \<notin> namespaces w \<and> namespaces w' = insert ns (namespaces w))
     \<and> (\<forall>ns role account w. namespaces (snd (ka_create_role_binding api ns role account w)) = namespaces w)
     \<and> (\<forall>ns w. case ka_delete_namespace api ns w of
        (Inl e, w') \<Rightarrow> namespaces w' = namespaces w
      | (Inr _, w') \<Rightarrow> namespaces w' = namespaces w - {ns})"

lemma namespace_lawsD:
  assumes "namespace_laws api namespaces"
  shows "ka_create_namespace api ns w = (Inl e, w') \<Longrightarrow> namespaces w' = namespaces w"
    and "ka_create_namespace api ns w = (Inr u, w') \<Longrightarrow> ns \<notin> namespaces w \<and> namespaces w' = insert ns (namespaces w)"
    and "ka_create_role_binding api ns role account w = (b, w') \<Longrightarrow> namespaces w' = namespaces w"
    and "ka_delete_namespace api ns w = (Inr s, w') \<Longrightarrow> namespaces w' = namespaces w - {ns}"
    and "ka_delete_namespace api ns w = (Inl e, w') \<Longrightarrow> namespaces w' = namespaces w"
proof -
  have c: "case ka_create_namespace api ns w of
        (Inl e, w') \<Rightarrow> namespaces w' = namespaces w
      | (Inr _, w') \<Rightarrow> ns \<notin> namespaces w \<and> namespaces w' = insert ns (namespaces w)"
    and b: "namespaces (snd (ka_create_role_binding api ns role account w)) = namespaces w"
    and d: "case ka_delete_namespace api ns w of
        (Inl e, w') \<Rightarrow> namespaces w' = namespaces w
      | (Inr _, w') \<Rightarrow> namespaces w' = namespaces w - {ns}"
    using assms unfolding namespace_laws_def by simp_all
  show "ka_create_namespace api ns w = (Inl e, w') \<Longrightarrow> namespaces w' = namespaces w"
    and "ka_create_namespace api ns w = (Inr u, w') \<Longrightarrow> ns \<notin> namespaces w \<and> namespaces w' = insert ns (namespaces w)"
    using c by simp_all
  show "ka_create_role_binding api ns role account w = (b, w') \<Longrightarrow> namespaces w' = namespaces w"
    using b by simp
  show "ka_delete_namespace api ns w = (Inr s, w') \<Longrightarrow> namespaces w' = namespaces w - {ns}"
    and "ka_delete_namespace api ns w = (Inl e, w') \<Longrightarrow> namespaces w' = namespaces w"
    using d by simp_all
qed

text \<open>With the proxy's own role binding: the law about it is one about the API call it makes.\<close>

lemma role_binding_law:
  assumes "\<And>ns b w. namespaces (snd (rbac ns b w)) = namespaces w"
  shows "namespaces (snd (create_role_binding rbac classes kernel_id ns role account w)) = namespaces w"
  by (simp add: create_role_binding_def assms)

text \<open>
  C27: At the first launch of a kernel whose environment names no namespace, by a gateway that
  does not share its own, the outcome follows the two API calls.  If the namespace cannot be
  created the launch raises 500 and the cluster's namespaces are as they were.  If it is created
  but its role binding is not, the launch raises too: 500, with the namespace deleted again, or,
  when that deletion fails, its error, and only then the new namespace is left.  If both succeed
  the launch goes on, the proxy is marked to delete the namespace that the environment records,
  which is new, and only that one was added.  (In a restart a namespace that exists already is
  taken over, which is not claimed here.)
\<close>

theorem failed_launch_leaves_no_namespace:
  assumes "namespace_laws api namespaces"
    and "dget env ''KERNEL_NAMESPACE'' = None" and "\<not> delete_kernel_namespace p"
    and "kernel_pod_name p = ns" "fst (determine_service_account account env) = sa"
    and "determine_kernel_namespace api role account False gateway_ns False env p w = (r, p', w')"
  shows "case ka_create_namespace api ns w of
      (Inl _, _) \<Rightarrow> r = Inl (HTTPError 500) \<and> namespaces w' = namespaces w
    | (Inr _, w1) \<Rightarrow>
        (case ka_create_role_binding api ns role sa w1 of
           (Inl _, w2) \<Rightarrow>
             (case ka_delete_namespace api ns w2 of
                (Inr _, _) \<Rightarrow> r = Inl (HTTPError 500) \<and> namespaces w' = namespaces w
              | (Inl e, _) \<Rightarrow> r = Inl e \<and> namespaces w' = insert ns (namespaces w))
         | (Inr _, _) \<Rightarrow>
             \<exists>env'. r = Inr env' \<and> dget env' ''KERNEL_NAMESPACE'' = Some ns
               \<and> delete_kernel_namespace p' \<and> kernel_namespace p' = ns
               \<and> ns \<notin> namespaces w \<and> namespaces w' = insert ns (namespaces w))"
proof -
  note laws = namespace_lawsD [OF assms(1)]
  obtain c w1 where c: "ka_create_namespace api ns w = (c, w1)" by fastforce
  have a: "determine_service_account account env = (sa, dset ''KERNEL_SERVICE_ACCOUNT_NAME'' sa env)"
    using assms(5) by (simp add: determine_service_account_def dget_or_def Let_def)
  show ?thesis
  proof (cases c)
    case (Inl e)
    with laws(1) c have "namespaces w1 = namespaces w" by blast
    with assms(2-4,6) a c Inl show ?thesis by (auto simp: determine_kernel_namespace_def create_kernel_namespace_def)
  next
    case (Inr u)
    with c laws(2) have n1: "ns \<notin> namespaces w" "namespaces w1 = insert ns (namespaces w)" by auto
    obtain b w2 where b: "ka_create_role_binding api ns role sa w1 = (b, w2)" by fastforce
    have n2: "namespaces w2 = namespaces w1" using laws(3) b by blast
    obtain d w3 where d: "ka_delete_namespace api ns w2 = (d, w3)" by fastforce
    have "namespaces w3 = (case d of Inl e \<Rightarrow> namespaces w2 | Inr s \<Rightarrow> namespaces w2 - {ns})"
      using d laws(4,5) by (cases d) auto
    with assms(2-4,6) c Inr a b d n1 n2 show ?thesis
      by (cases b; cases d) (auto simp: determine_kernel_namespace_def create_kernel_namespace_def)
  qed
qed

lemma failed_launch_leaves_no_namespace_witness:
  "namespace_laws sample_api set
   \<and> fst (determine_kernel_namespace sample_api ''cluster-admin'' ''default'' False ''eg'' False
        [] sample_proxy [''eg'']) = Inl (HTTPError 500)
   \<and> set (snd (snd (determine_kernel_namespace sample_api ''cluster-admin'' ''default'' False ''eg'' False
        [] sample_proxy [''eg'']))) = {''eg''}"
proof -
  have laws: "namespace_laws sample_api set"
    by (auto simp: namespace_laws_def sample_api_def)
  have env: "dget [] ''KERNEL_NAMESPACE'' = None" by simp
  have p: "\<not> delete_kernel_namespace sample_proxy" "kernel_pod_name sample_proxy = ''bob-k1''"
    by (simp_all add: sample_proxy_def)
  obtain r p' w' where d: "determine_kernel_namespace sample_api ''cluster-admin'' ''default'' False ''eg'' False
      [] sample_proxy [''eg''] = (r, p', w')" by (metis prod_cases3)
  show ?thesis
    using failed_launch_leaves_no_namespace [OF laws env p refl d] laws d
    by (auto simp: sample_api_def split: prod.splits sum.splits)
qed

end
