(* ===== verification/CustomResource.thy ===== *)
theory CustomResource
  imports K8s
begin

text \<open>
  \<open>CustomResourceProcessProxy\<close> and \<open>SparkOperatorProcessProxy\<close>
  (services/processproxies/crd.py, spark_operator.py): a kernel that an operator runs for a
  custom resource.  They are the Kubernetes proxy with the resource as the managed object.
\<close>

section \<open>State and API\<close>

record crd_proxy = k8s_proxy +
  crd_group :: "string option"
  crd_version :: "string option"
  crd_plural :: "string option"
  kernel_resource_name :: "string option"

text \<open>
  Reading and deleting a custom object, named by group, version, namespace, plural and name;
  the proxy hands over whatever it has, a missing name too.
\<close>

record 'w crd_api = "'w k8s_api" +
  ka_get_object :: "string option \<Rightarrow> string option \<Rightarrow> string \<Rightarrow> string option \<Rightarrow> string option \<Rightarrow> 'w \<Rightarrow> pyval res \<times> 'w"
  ka_delete_object :: "string option \<Rightarrow> string option \<Rightarrow> string \<Rightarrow> string option \<Rightarrow> string option \<Rightarrow> 'w \<Rightarrow> pyval res \<times> 'w"

definition crd_init :: "'a crd_proxy_scheme \<Rightarrow> 'a crd_proxy_scheme" where
  "crd_init p = p\<lparr>crd_group := None, crd_version := None, crd_plural := None, kernel_resource_name := None\<rparr>"

definition spark_operator_init :: "'a crd_proxy_scheme \<Rightarrow> 'a crd_proxy_scheme" where
  "spark_operator_init p = (crd_init p)\<lparr>crd_group := Some ''sparkoperator.k8s.io'',
     crd_version := Some ''v1beta2'', crd_plural := Some ''sparkapplications''\<rparr>"

definition crd_initial_states :: "string list" where
  "crd_initial_states = [''submitted'', ''pending'', ''running'']"

section \<open>Launching\<close>

text \<open>The environment holds strings; the group, version and plural are set by the subclass.\<close>

definition crd_launch_env ::
  "string \<Rightarrow> string \<Rightarrow> env \<Rightarrow> 'a crd_proxy_scheme \<Rightarrow> (string, string option) dict \<times> 'a crd_proxy_scheme" where
  "crd_launch_env getuser kernel_id env p =
     (let (pod_name, env1) = determine_kernel_pod_name getuser kernel_id env in
      (dset ''KERNEL_CRD_PLURAL'' (crd_plural p) (dset ''KERNEL_CRD_VERSION'' (crd_version p)
         (dset ''KERNEL_CRD_GROUP'' (crd_group p) (dset ''KERNEL_RESOURCE_NAME'' (Some pod_name)
           (map (\<lambda>(k, v). (k, Some v)) env1)))),
       p\<lparr>kernel_resource_name := Some pod_name\<rparr>))"

section \<open>Status and deletion\<close>

definition application_state :: "pyval \<Rightarrow> string res" where
  "application_state v =
     rbind (py_item v ''status'') (\<lambda>s. rbind (py_item s ''applicationState'') (\<lambda>a.
     rbind (py_item a ''state'') py_lower))"

text \<open>
  Every exception is suppressed: the state is then what had been read so far, the empty string
  before that.  The pod is only looked at once the resource runs and no host is assigned.
\<close>

definition crd_get_container_status ::
  "'w crd_api \<Rightarrow> string \<Rightarrow> ('a crd_proxy_scheme, 'w) status_fn" where
  "crd_get_container_status api kernel_id p w =
     (case ka_get_object api (crd_group p) (crd_version p) (kernel_namespace p) (crd_plural p)
             (kernel_resource_name p) w of
        (Inl _, w1) \<Rightarrow> (Inr [], p, w1)
      | (Inr v, w1) \<Rightarrow>
          (case (if truthy v then application_state v else Inr []) of
             Inl _ \<Rightarrow> (Inr [], p, w1)
           | Inr state \<Rightarrow>
               if state \<notin> set k8s_error_states \<and> state = ''running'' \<and> assigned_host p = []
               then (case k8s_get_container_status (k8s_api.truncate api) kernel_id p w1 of
                       (_, p2, w2) \<Rightarrow> (Inr state, p2, w2))
               else (Inr state, p, w1)))"

definition crd_delete_managed_object ::
  "'w crd_api \<Rightarrow> 'a crd_proxy_scheme \<Rightarrow> 'w \<Rightarrow> bool res \<times> 'w" where
  "crd_delete_managed_object api p w =
     bindE (ka_delete_object api (crd_group p) (crd_version p) (kernel_namespace p) (crd_plural p)
              (kernel_resource_name p) w) (\<lambda>delete_status w1.
       (if truthy delete_status
        then rbind (py_get delete_status ''status'') (\<lambda>s.
               Inr (case s of PStr t \<Rightarrow> t \<in> set termination_stati | _ \<Rightarrow> False))
        else Inr False, w1))"

definition crd_terminate ::
  "'w crd_api \<Rightarrow> string \<Rightarrow> string \<Rightarrow> bool \<Rightarrow> ('a crd_proxy_scheme, 'w) answer_fn" where
  "crd_terminate api kpt_dir kernel_id restarting p w =
     terminate_container_resources (k8s_api.truncate api) kpt_dir kernel_id
       (crd_get_container_status api kernel_id) restarting (crd_delete_managed_object api) p w"

section \<open>Properties\<close>

lemma crd_status_keeps_resource:
  assumes "crd_get_container_status api kernel_id p w = (r, p', w')"
  shows "(\<exists>s. r = Inr s) \<and> kernel_resource_name p' = kernel_resource_name p \<and> crd_plural p' = crd_plural p \<and>
    kernel_namespace p' = kernel_namespace p \<and> delete_kernel_namespace p' = delete_kernel_namespace p"
  using assms
  by (auto simp: crd_get_container_status_def k8s_get_container_status_def Let_def
      split: prod.splits sum.splits if_splits list.splits option.splits)

lemma crd_status_keeps [simp]: "keeps_namespace (crd_get_container_status api kernel_id)"
  unfolding keeps_namespace_def Let_def using crd_status_keeps_resource by (metis prod.collapse)

text \<open>As for a pod, the teardown of a kernel in a namespace that is not its own never deletes one.\<close>

lemma crd_keeps_foreign_namespace:
  assumes "\<not> delete_kernel_namespace p \<or> restarting"
  shows "terminate_container_resources ((k8s_api.truncate api)\<lparr>ka_delete_namespace := f\<rparr>) kpt_dir kernel_id
      (crd_get_container_status api kernel_id) restarting (crd_delete_managed_object api) p w =
    crd_terminate api kpt_dir kernel_id restarting p w"
  using assms by (simp add: crd_terminate_def terminate_without_namespace)

text \<open>
  Until the resource is seen running nobody learns the container's name, and without a name
  \<open>kill\<close> does nothing: a launch that is given up while its resource is submitted or pending
  (or has failed) leaves the resource in the cluster.
\<close>

lemma pending_resource_not_deleted:
  assumes "\<not> has_container p"
    and "ka_get_object api (crd_group p) (crd_version p) (kernel_namespace p) (crd_plural p) (kernel_resource_name p) w = (Inr v, w1)"
    and "application_state v = Inr state" "state \<noteq> ''running''"
    and "crd_get_container_status api kernel_id p w = (r, p', w')"
  shows "container_kill (crd_terminate api dir kernel_id restarting) p' w' = (Inr PNone, p', w')"
  using assms by (auto simp: crd_get_container_status_def container_kill_def split: if_splits)

text \<open>The name of the resource is not part of the process information, so a proxy that is revived lacks it.\<close>

lemma revived_without_resource:
  assumes "dget info ''tunneled_connect_info'' = Some PNone"
    and "k8s_load_process_info (\<lambda>p w. container_load_process_info (\<lambda>p w. remote_load_process_info setup info p w) info p w)
           info (spark_operator_init p) w = (Inr (), p', w')"
  shows "kernel_resource_name p' = None \<and> has_container p' = has_container p"
  using assms
  by (auto simp: k8s_load_process_info_def container_load_process_info_def remote_load_process_info_def
      load_remote_fields_def base_load_process_info_def bindE_Inr_iff rbind_Inr_iff spark_operator_init_def crd_init_def
      has_container_def Let_def split: sum.splits option.splits)

text \<open>
  A kernel of the Spark operator does not survive its gateway: the proxy that is restored
  from the persisted information does not know the resource's name, with which the cluster's API
  cannot be asked, so the poll reports the kernel dead whatever its state in the cluster; and as
  the proxy has no container name either, \<open>kill\<close> answers success and deletes nothing.
\<close>

lemma revived_operator_kernel_is_lost:
  assumes "dget info ''tunneled_connect_info'' = Some PNone" "\<not> has_container p"
    and "k8s_load_process_info (\<lambda>p w. container_load_process_info (\<lambda>p w. remote_load_process_info setup info p w) info p w)
           info (spark_operator_init p) w = (Inr (), p', w')"
    and "\<And>g v ns pl w. ka_get_object api g v ns pl None w = (Inl ValueError, w)"
  shows "container_poll crd_initial_states (crd_get_container_status api kernel_id) p' w'' = (Inr (PBool False), p', w'') \<and>
    container_kill (crd_terminate api dir kernel_id restarting) p' w'' = (Inr PNone, p', w'')"
proof -
  have p': "kernel_resource_name p' = None" "\<not> has_container p'"
    using revived_without_resource [OF assms(1,3)] assms(2) by simp_all
  then show ?thesis
    using assms(4) by (simp add: container_poll_def crd_get_container_status_def container_kill_def crd_initial_states_def)
qed

definition sample_crd_api :: "string list crd_api" where
  "sample_crd_api = k8s_api.extend sample_api
     \<lparr>ka_get_object = (\<lambda>g v ns pl name w. (case name of
          None \<Rightarrow> Inl ValueError
        | Some _ \<Rightarrow> Inr (PDict [(''status'', PDict [(''applicationState'', PDict [(''state'', PStr ''RUNNING'')])])]), w)),
      ka_delete_object = (\<lambda>g v ns pl name w. (Inr (PDict [(''status'', PStr ''Success'')]), w))\<rparr>"

definition sample_crd :: crd_proxy where
  "sample_crd = k8s_proxy.extend sample_proxy
     \<lparr>crd_group = None, crd_version = None, crd_plural = None, kernel_resource_name = None\<rparr>"

lemma revived_operator_kernel_is_lost_witness:
  "\<exists>p' :: crd_proxy. container_poll crd_initial_states (crd_get_container_status sample_crd_api ''k1'') p' [] =
      (Inr (PBool False), p', []) \<and> kernel_namespace p' = ''team''"
proof -
  let ?info = "[(''pid'', PInt 0), (''pgid'', PInt 0), (''ip'', PNone), (''assigned_ip'', PStr ''10.0.0.9''),
    (''assigned_host'', PStr ''pod1''), (''comm_ip'', PNone), (''comm_port'', PInt 0),
    (''tunneled_connect_info'', PNone), (''assigned_node_ip'', PNone), (''kernel_ns'', PStr ''team''), (''delete_ns'', PBool False)]"
  let ?load = "k8s_load_process_info (\<lambda>p w. container_load_process_info
      (\<lambda>p w. remote_load_process_info (\<lambda>i p w. (Inr (), p, w)) ?info p w) ?info p w) ?info (spark_operator_init sample_crd) []"
  obtain p' where l: "?load = (Inr (), p', [])" and ns: "kernel_namespace p' = ''team''"
    by (simp add: k8s_load_process_info_def container_load_process_info_def remote_load_process_info_def
        load_remote_fields_def base_load_process_info_def as_int_def as_opt_str_def as_str_def)
  have c: "\<not> has_container sample_crd"
    by (simp add: has_container_def sample_crd_def sample_proxy_def k8s_proxy.extend_def)
  have a: "ka_get_object sample_crd_api g v ns pl None w = (Inl ValueError, w)" for g v ns pl w
    by (simp add: sample_crd_api_def k8s_api.extend_def)
  have t: "dget ?info ''tunneled_connect_info'' = Some PNone" by simp
  show ?thesis
    using revived_operator_kernel_is_lost [OF t c l a, THEN conjunct1] ns by blast
qed

end
