(* ===== verification/Yarn.thy ===== *)
theory Yarn
  imports RemoteProxy KernelSessions
begin

text \<open>
  \<open>YarnClusterProcessProxy\<close> (services/processproxies/yarn.py): a kernel that runs as an
  application of a YARN cluster.  The proxy finds its application by the kernel id in the
  application's name, follows its state through the resource manager, and falls back to the
  signals of the remote proxy when the resource manager cannot end it.  What the resource
  manager answers is JSON, read with all the checks (and failures) of the code.
\<close>

section \<open>State and resource manager\<close>

record yarn_proxy = remote_proxy +
  yarn_kernel_id :: string
  start_time :: "int option"
  application_id :: pyval
  last_known_state :: pyval
  candidate_queue :: pyval
  candidate_partition :: pyval
  yarn_launch_timeout :: rat
  resource_check_wait_time :: rat

text \<open>
  The calls of \<open>yarn_api_client\<close>'s \<open>ResourceManager\<close> the proxy makes (the \<open>data\<close> of the
  response where it reads it), name resolution and \<open>get_current_time\<close>.
\<close>

record 'w yarn_ops = "'w remote_ops" +
  rm_applications :: "string \<Rightarrow> 'w \<Rightarrow> pyval res \<times> 'w"
  rm_application :: "pyval \<Rightarrow> 'w \<Rightarrow> pyval res \<times> 'w"
  rm_application_state :: "pyval \<Rightarrow> 'w \<Rightarrow> pyval res \<times> 'w"
  rm_application_kill :: "pyval \<Rightarrow> 'w \<Rightarrow> unit res \<times> 'w"
  rm_container_memory :: "'w \<Rightarrow> int res \<times> 'w"
  rm_scheduler_queue :: "string \<Rightarrow> 'w \<Rightarrow> pyval res \<times> 'w"
  rm_queue_partition :: "pyval \<Rightarrow> string \<Rightarrow> 'w \<Rightarrow> pyval res \<times> 'w"
  rm_queue_availability :: "pyval \<Rightarrow> rat \<Rightarrow> 'w \<Rightarrow> bool res \<times> 'w"
  rm_gethostbyname :: "string \<Rightarrow> 'w \<Rightarrow> string res \<times> 'w"
  rm_current_time :: "'w \<Rightarrow> int \<times> 'w"

definition initial_states :: "string list" where
  "initial_states = [''NEW'', ''SUBMITTED'', ''ACCEPTED'', ''RUNNING'']"

definition final_states :: "string list" where
  "final_states = [''FINISHED'', ''KILLED'', ''FAILED'']"

text \<open>\<open>get_time_diff(self.start_time, get_current_time())\<close>\<close>

definition time_since_start :: "'w yarn_ops \<Rightarrow> 'a yarn_proxy_scheme \<Rightarrow> 'w \<Rightarrow> rat res \<times> 'w" where
  "time_since_start ops p w =
     (case rm_current_time ops w of
        (now, w1) \<Rightarrow>
          ((case start_time p of None \<Rightarrow> Inl TypeError | Some s \<Rightarrow> Inr (get_time_diff s now)), w1))"

section \<open>Creating the proxy\<close>


record yarn_endpoints =
  ye_endpoint :: pyval
  ye_alt_endpoint :: pyval
  ye_security_enabled :: pyval


text \<open>
  The endpoints and the authentication the resource manager is created with; \<open>None\<close> as mutual
  authentication is a value that is not one of the three known ones.
\<close>

datatype mutual_auth = REQUIRED | OPTIONAL | DISABLED

datatype rm_auth = KerberosAuth "mutual_auth option" | SimpleAuth string | NoAuth

definition upper_ascii :: "string \<Rightarrow> string" where
  "upper_ascii s =
     map (\<lambda>c. if 97 \<le> code c \<and> code c \<le> 122 then char_of (code c - 32) else c) s"

definition rm_endpoints :: "yarn_endpoints \<Rightarrow> pyval list option" where
  "rm_endpoints y =
     (if truthy (ye_endpoint y)
      then Some (ye_endpoint y # (if truthy (ye_alt_endpoint y) then [ye_alt_endpoint y] else []))
      else None)"

definition rm_authentication ::
  "string \<Rightarrow> bool \<Rightarrow> string \<Rightarrow> yarn_endpoints \<Rightarrow> launch_args \<Rightarrow> rm_auth \<times> launch_args" where
  "rm_authentication mutual_authentication has_simple_auth getuser y kw =
     (if truthy (ye_security_enabled y)
      then (KerberosAuth (map_of [(''REQUIRED'', REQUIRED), (''OPTIONAL'', OPTIONAL), (''DISABLED'', DISABLED)]
              (upper_ascii mutual_authentication)), kw)
      else if has_simple_auth
      then (case get_kernel_username getuser kw of (user, kw') \<Rightarrow> (SimpleAuth user, kw'))
      else (NoAuth, kw))"

section \<open>Finding the application\<close>

text \<open>The order of strings: by code points, a proper prefix is smaller.\<close>

fun str_less :: "string \<Rightarrow> string \<Rightarrow> bool" where
  "str_less s [] \<longleftrightarrow> False"
| "str_less [] (d # ds) \<longleftrightarrow> True"
| "str_less (c # cs) (d # ds) \<longleftrightarrow> code c < code d \<or> c = d \<and> str_less cs ds"

text \<open>\<open>v.find(s) >= 0\<close>: a string has the method, bytes have it for bytes only.\<close>

definition py_find :: "pyval \<Rightarrow> string \<Rightarrow> bool res" where
  "py_find v s =
     (case v of PStr t \<Rightarrow> Inr (contains s t) | PBytes _ \<Rightarrow> Inl TypeError | _ \<Rightarrow> Inl AttributeError)"

text \<open>\<open>v > s\<close> for a string \<open>s\<close>.\<close>

definition py_greater :: "pyval \<Rightarrow> string \<Rightarrow> bool res" where
  "py_greater v s = (case v of PStr t \<Rightarrow> Inr (str_less s t) | _ \<Rightarrow> Inl TypeError)"

definition pick_app :: "string \<Rightarrow> pyval \<Rightarrow> pyval \<times> string \<Rightarrow> (pyval \<times> string) res" where
  "pick_app kernel_id app best =
     (case best of (target_app, top_most_app_id) \<Rightarrow>
        rbind (py_get_or app ''name'' (PStr [])) (\<lambda>name.
        rbind (py_find name kernel_id) (\<lambda>found.
          if found
          then rbind (py_get app ''id'') (\<lambda>app_id.
               rbind (py_greater app_id top_most_app_id) (\<lambda>higher.
                 Inr (if higher then (app, case app_id of PStr s \<Rightarrow> s | _ \<Rightarrow> top_most_app_id)
                      else (target_app, top_most_app_id))))
          else Inr (target_app, top_most_app_id))))"

fun pick_apps :: "string \<Rightarrow> pyval list \<Rightarrow> pyval \<times> string \<Rightarrow> (pyval \<times> string) res" where
  "pick_apps kernel_id [] best = Inr best"
| "pick_apps kernel_id (app # rest) best =
     rbind (pick_app kernel_id app best) (pick_apps kernel_id rest)"

text \<open>The list of applications in an answer of the expected shape.\<close>

definition apps_of :: "pyval \<Rightarrow> pyval option" where
  "apps_of v =
     (case v of
        PDict d \<Rightarrow> (case dget d ''apps'' of Some (PDict a) \<Rightarrow> dget a ''app'' | _ \<Rightarrow> None)
      | _ \<Rightarrow> None)"

definition query_app_by_name ::
  "'w yarn_ops \<Rightarrow> string \<Rightarrow> 'a yarn_proxy_scheme \<Rightarrow> 'w \<Rightarrow> pyval res \<times> 'w" where
  "query_app_by_name ops kernel_id p w =
     (case rm_applications ops (case start_time p of None \<Rightarrow> ''None'' | Some t \<Rightarrow> int_str t) w of
        (Inl _, w1) \<Rightarrow> (Inr PNone, w1)
      | (Inr answer, w1) \<Rightarrow>
          ((case apps_of answer of
              None \<Rightarrow> Inr PNone
            | Some apps \<Rightarrow>
                rbind (py_iter apps) (\<lambda>xs.
                rbind (pick_apps kernel_id xs (PNone, [])) (\<lambda>(app, _). Inr app))), w1))"

definition query_app_by_id :: "'w yarn_ops \<Rightarrow> pyval \<Rightarrow> 'w \<Rightarrow> pyval \<times> 'w" where
  "query_app_by_id ops app_id w =
     (case rm_application ops app_id w of
        (Inl _, w1) \<Rightarrow> (PNone, w1)
      | (Inr (PDict d), w1) \<Rightarrow> (dget_or d ''app'' PNone, w1)
      | (Inr _, w1) \<Rightarrow> (PNone, w1))"

definition query_app_state_by_id ::
  "'w yarn_ops \<Rightarrow> pyval \<Rightarrow> 'a yarn_proxy_scheme \<Rightarrow> 'w \<Rightarrow> pyval res \<times> 'a yarn_proxy_scheme \<times> 'w" where
  "query_app_state_by_id ops app_id p w =
     (case rm_application_state ops app_id w of
        (Inl _, w1) \<Rightarrow> (Inr (last_known_state p), p, w1)
      | (Inr data, w1) \<Rightarrow>
          (case py_item data ''state'' of
             Inl e \<Rightarrow> (Inl e, p, w1)
           | Inr state \<Rightarrow> (Inr state, p\<lparr>last_known_state := state\<rparr>, w1)))"

definition kill_app_by_id :: "'w yarn_ops \<Rightarrow> pyval \<Rightarrow> 'w \<Rightarrow> 'w" where
  "kill_app_by_id ops app_id w = snd (rm_application_kill ops app_id w)"

text \<open>An application just found: its state is remembered, its id taken unless it has ended.\<close>

definition adopt_app ::
  "bool \<Rightarrow> 'w yarn_ops \<Rightarrow> (string, pyval) dict \<Rightarrow> 'a yarn_proxy_scheme \<Rightarrow> 'w \<Rightarrow>
   unit res \<times> 'a yarn_proxy_scheme \<times> 'w" where
  "adopt_app ignore_final_states ops app p w =
     (let state = dget_or app ''state'' PNone; p1 = p\<lparr>last_known_state := state\<rparr> in
      case rbind (if ignore_final_states then rbind (in_states final_states state) (\<lambda>b. Inr (\<not> b)) else Inr True)
             (\<lambda>state_condition. rbind (py_len (dget_or app ''id'' (PStr []))) (\<lambda>n.
                Inr (n > 0 \<and> state_condition))) of
        Inl e \<Rightarrow> (Inl e, p1, w)
      | Inr False \<Rightarrow> (Inr (), p1, w)
      | Inr True \<Rightarrow>
          (let p2 = p1\<lparr>application_id := dget_or app ''id'' PNone\<rparr> in
           case time_since_start ops p2 w of
             (Inl e, w1) \<Rightarrow> (Inl e, p2, w1)
           | (Inr _, w1) \<Rightarrow> (Inr (), p2, w1)))"

definition get_application_id ::
  "bool \<Rightarrow> 'w yarn_ops \<Rightarrow> 'a yarn_proxy_scheme \<Rightarrow> 'w \<Rightarrow> pyval res \<times> 'a yarn_proxy_scheme \<times> 'w" where
  "get_application_id ignore_final_states ops p w =
     (if truthy (application_id p) then (Inr (application_id p), p, w)
      else (case query_app_by_name ops (yarn_kernel_id p) p w of
              (Inl e, w1) \<Rightarrow> (Inl e, p, w1)
            | (Inr (PDict app), w1) \<Rightarrow>
                bindE (adopt_app ignore_final_states ops app p w1)
                  (\<lambda>_ (p1, w2). (Inr (application_id p1), p1, w2))
            | (Inr _, w1) \<Rightarrow> (Inr (application_id p), p, w1)))"

text \<open>Where the application landed: the host is recorded before its address is resolved.\<close>

definition assign_host ::
  "'w yarn_ops \<Rightarrow> pyval \<Rightarrow> 'a yarn_proxy_scheme \<Rightarrow> 'w \<Rightarrow> unit res \<times> 'a yarn_proxy_scheme \<times> 'w" where
  "assign_host ops address p w =
     (case address of
        PStr s \<Rightarrow>
          (let p1 = p\<lparr>assigned_host := hd (split_on '':'' s)\<rparr> in
           case rm_gethostbyname ops (assigned_host p1) w of
             (Inl e, w1) \<Rightarrow> (Inl e, p1, w1)
           | (Inr ip, w1) \<Rightarrow> (Inr (), p1\<lparr>assigned_ip := Some ip\<rparr>, w1))
      | PBytes _ \<Rightarrow> (Inl TypeError, p, w)
      | _ \<Rightarrow> (Inl AttributeError, p, w))"

definition get_application_state ::
  "'w yarn_ops \<Rightarrow> 'a yarn_proxy_scheme \<Rightarrow> 'w \<Rightarrow> pyval res \<times> 'a yarn_proxy_scheme \<times> 'w" where
  "get_application_state ops p w =
     (case query_app_by_id ops (application_id p) w of
        (app, w1) \<Rightarrow>
          if \<not> truthy app then (Inr (last_known_state p), p, w1)
          else (case py_get app ''state'' of
                  Inl e \<Rightarrow> (Inl e, p, w1)
                | Inr state \<Rightarrow>
                    (let p1 = (if truthy state then p\<lparr>last_known_state := state\<rparr> else p) in
                     case py_get app ''amHostHttpAddress'' of
                       Inl e \<Rightarrow> (Inl e, p1, w1)
                     | Inr address \<Rightarrow>
                         if assigned_host p1 = [] \<and> truthy address
                         then bindE (assign_host ops address p1 w1)
                                (\<lambda>_ (p2, w2). (Inr (last_known_state p1), p2, w2))
                         else (Inr (last_known_state p1), p1, w1))))"

section \<open>Polling, signals and the end of a kernel\<close>

definition yarn_poll ::
  "'w yarn_ops \<Rightarrow> 'a yarn_proxy_scheme \<Rightarrow> 'w \<Rightarrow> pyval res \<times> 'a yarn_proxy_scheme \<times> 'w" where
  "yarn_poll ops p w =
     bindE (get_application_id False ops p w) (\<lambda>app_id (p1, w1).
       if truthy app_id
       then bindE (query_app_state_by_id ops (application_id p1) p1 w1) (\<lambda>state (p2, w2).
              (rbind (in_states initial_states state) (\<lambda>b. Inr (if b then PNone else PBool False)), p2, w2))
       else (Inr (PBool False), p1, w1))"

text \<open>The wait for a final state after the request to kill: \<open>n\<close> further queries are left.\<close>

fun final_state_loop ::
  "'w yarn_ops \<Rightarrow> nat \<Rightarrow> pyval \<Rightarrow> 'a yarn_proxy_scheme \<Rightarrow> 'w \<Rightarrow>
   bool res \<times> 'a yarn_proxy_scheme \<times> 'w" where
  "final_state_loop ops 0 state p w = (in_states final_states state, p, w)"
| "final_state_loop ops (Suc n) state p w =
     (case in_states final_states state of
        Inl e \<Rightarrow> (Inl e, p, w)
      | Inr True \<Rightarrow> (Inr True, p, w)
      | Inr False \<Rightarrow>
          bindE (query_app_state_by_id ops (application_id p) p (po_sleep ops w))
            (\<lambda>state (p1, w1). final_state_loop ops n state p1 w1))"

definition kill_by_yarn ::
  "nat \<Rightarrow> 'w yarn_ops \<Rightarrow> 'a yarn_proxy_scheme \<Rightarrow> 'w \<Rightarrow> bool res \<times> 'a yarn_proxy_scheme \<times> 'w" where
  "kill_by_yarn max_poll_attempts ops p w =
     bindE (get_application_id False ops p w) (\<lambda>app_id (p1, w1).
       if truthy app_id
       then bindE (query_app_state_by_id ops (application_id p1) p1 (kill_app_by_id ops (application_id p1) w1))
              (\<lambda>state (p2, w2). final_state_loop ops max_poll_attempts state p2 w2)
       else (Inr False, p1, w1))"

definition yarn_kill ::
  "nat \<Rightarrow> 'w yarn_ops \<Rightarrow> 'a yarn_proxy_scheme \<Rightarrow> 'w \<Rightarrow> pyval res \<times> 'a yarn_proxy_scheme \<times> 'w" where
  "yarn_kill max_poll_attempts ops p w =
     bindE (kill_by_yarn max_poll_attempts ops p w) (\<lambda>ended (p1, w1).
       if ended then (Inr PNone, p1, w1)
       else inherited_kill max_poll_attempts (proc_ops.truncate ops) (yarn_poll ops) p1 w1)"

definition yarn_send_signal ::
  "nat \<Rightarrow> 'w yarn_ops \<Rightarrow> 'a yarn_proxy_scheme \<Rightarrow> int \<Rightarrow> 'w \<Rightarrow> pyval res \<times> 'a yarn_proxy_scheme \<times> 'w" where
  "yarn_send_signal max_poll_attempts ops p signum w =
     (if signum = 0 then yarn_poll ops p w
      else if signum = SIGKILL then yarn_kill max_poll_attempts ops p w
      else (case remote_send_signal (remote_ops.truncate ops) p signum w of (r, w1) \<Rightarrow> (Inr r, p, w1)))"

definition yarn_cleanup ::
  "nat \<Rightarrow> 'w yarn_ops \<Rightarrow> 'a yarn_proxy_scheme \<Rightarrow> 'w \<Rightarrow> unit res \<times> 'a yarn_proxy_scheme \<times> 'w" where
  "yarn_cleanup max_poll_attempts ops p w =
     bindE (clear_defunct max_poll_attempts (proc_ops.truncate ops) (yarn_poll ops) p w) (\<lambda>_ (p1, w1).
       case remote_cleanup (remote_ops.truncate ops) (p1\<lparr>application_id := PNone\<rparr>) w1 of
         (p2, w2) \<Rightarrow> (Inr (), p2, w2))"

section \<open>Start-up\<close>

definition yarn_timed_out ::
  "nat \<Rightarrow> 'w yarn_ops \<Rightarrow> 'a yarn_proxy_scheme \<Rightarrow> 'w \<Rightarrow> unit res \<times> 'a yarn_proxy_scheme \<times> 'w" where
  "yarn_timed_out max_poll_attempts ops p w =
     bindE (get_application_id True ops p w) (\<lambda>app_id (p1, w1).
     bindE (if truthy app_id
            then bindE (query_app_state_by_id ops (application_id p1) p1 w1) (\<lambda>state pw.
                   (Inr (if state = PStr ''RUNNING'' then 500 else 503), pw))
            else (Inr (500::nat), p1, w1)) (\<lambda>error_http_code (p2, w2).
     bindE (yarn_kill max_poll_attempts ops p2 w2) (\<lambda>_ pw.
       (Inl (HTTPError error_http_code), pw))))"

text \<open>The sleep of \<open>poll_interval\<close> comes first.\<close>

definition yarn_handle_timeout ::
  "nat \<Rightarrow> 'w yarn_ops \<Rightarrow> 'a yarn_proxy_scheme \<Rightarrow> 'w \<Rightarrow> unit res \<times> 'a yarn_proxy_scheme \<times> 'w" where
  "yarn_handle_timeout max_poll_attempts ops p w =
     (case time_since_start ops p (po_sleep ops w) of
        (Inl e, w1) \<Rightarrow> (Inl e, p, w1)
      | (Inr time_interval, w1) \<Rightarrow>
          if time_interval > yarn_launch_timeout p then yarn_timed_out max_poll_attempts ops p w1
          else (Inr (), p, w1))"

text \<open>
  One pass of \<open>confirm_remote_startup\<close> after the timeout check; \<open>receive\<close> is
  \<open>receive_connection_info\<close>.
\<close>

definition yarn_confirm_step ::
  "'w yarn_ops \<Rightarrow> ('a yarn_proxy_scheme \<Rightarrow> 'w \<Rightarrow> bool res \<times> 'a yarn_proxy_scheme \<times> 'w) \<Rightarrow>
   'a yarn_proxy_scheme \<Rightarrow> 'w \<Rightarrow> bool res \<times> 'a yarn_proxy_scheme \<times> 'w" where
  "yarn_confirm_step ops receive p w =
     bindE (get_application_id True ops p w) (\<lambda>app_id (p1, w1).
       if truthy app_id
       then bindE (get_application_state ops p1 w1) (\<lambda>app_state (p2, w2).
              case in_states final_states app_state of
                Inl e \<Rightarrow> (Inl e, p2, w2)
              | Inr True \<Rightarrow> (Inl (HTTPError 500), p2, w2)
              | Inr False \<Rightarrow> if assigned_host p2 \<noteq> [] then receive p2 w2 else (Inr False, p2, w2))
       else bindE (detect_launch_failure (remote_ops.truncate ops) p1 w1) (\<lambda>_ pw. (Inr False, pw)))"

definition yarn_confirm_startup ::
  "nat \<Rightarrow> 'w yarn_ops \<Rightarrow> ('a yarn_proxy_scheme \<Rightarrow> 'w \<Rightarrow> bool res \<times> 'a yarn_proxy_scheme \<times> 'w) \<Rightarrow>
   nat \<Rightarrow> 'a yarn_proxy_scheme \<Rightarrow> 'w \<Rightarrow> (unit res \<times> 'a yarn_proxy_scheme \<times> 'w) option" where
  "yarn_confirm_startup max_poll_attempts ops receive fuel p w =
     (case rm_current_time ops w of
        (now, w1) \<Rightarrow>
          confirm_loop (yarn_handle_timeout max_poll_attempts ops) (yarn_confirm_step ops receive)
            fuel (p\<lparr>start_time := Some now\<rparr>) w1)"

section \<open>The queue\<close>

definition env_int :: "(string, string) dict \<Rightarrow> string \<Rightarrow> int res" where
  "env_int env k = (case dget env k of None \<Rightarrow> Inr 0 | Some s \<Rightarrow> of_option ValueError (py_int s))"

text \<open>The containers of the executors and of the driver must fit.\<close>

definition check_container_memory :: "'w yarn_ops \<Rightarrow> (string, string) dict \<Rightarrow> 'w \<Rightarrow> unit res \<times> 'w" where
  "check_container_memory ops env w =
     (case rbind (env_int env ''KERNEL_EXECUTOR_MEMORY'') (\<lambda>executor_memory.
            rbind (env_int env ''KERNEL_DRIVER_MEMORY'') (\<lambda>driver_memory.
              Inr (executor_memory, driver_memory))) of
        Inl e \<Rightarrow> (Inl e, w)
      | Inr (executor_memory, driver_memory) \<Rightarrow>
          if executor_memory * driver_memory > 0
          then bindE (rm_container_memory ops w) (\<lambda>container_memory w1.
                 (if max executor_memory driver_memory > container_memory
                  then Inl (HTTPError 500) else Inr (), w1))
          else (Inr (), w))"

definition handle_yarn_queue_timeout ::
  "'w yarn_ops \<Rightarrow> 'a yarn_proxy_scheme \<Rightarrow> 'w \<Rightarrow> unit res \<times> 'a yarn_proxy_scheme \<times> 'w" where
  "handle_yarn_queue_timeout ops p w =
     (case time_since_start ops p (po_sleep ops w) of
        (Inl e, w1) \<Rightarrow> (Inl e, p, w1)
      | (Inr time_interval, w1) \<Rightarrow>
          (if time_interval > resource_check_wait_time p then Inl (HTTPError 500) else Inr (), p, w1))"

definition queue_available ::
  "'w yarn_ops \<Rightarrow> rat \<Rightarrow> 'a yarn_proxy_scheme \<Rightarrow> 'w \<Rightarrow> bool res \<times> 'a yarn_proxy_scheme \<times> 'w" where
  "queue_available ops threshold p w =
     (case rm_queue_availability ops (candidate_partition p) threshold w of (r, w1) \<Rightarrow> (r, p, w1))"

text \<open>
  The wait for the queue is the loop of \<open>confirm_loop\<close> after a first look; the time it took is
  taken from the launch timeout.
\<close>

definition wait_for_queue ::
  "'w yarn_ops \<Rightarrow> rat \<Rightarrow> nat \<Rightarrow> 'a yarn_proxy_scheme \<Rightarrow> 'w \<Rightarrow>
   (unit res \<times> 'a yarn_proxy_scheme \<times> 'w) option" where
  "wait_for_queue ops threshold fuel p w =
     (case queue_available ops threshold p w of
        (Inl e, pw) \<Rightarrow> Some (Inl e, pw)
      | (Inr True, pw) \<Rightarrow> Some (Inr (), pw)
      | (Inr False, p1, w1) \<Rightarrow>
          confirm_loop (handle_yarn_queue_timeout ops) (queue_available ops threshold) fuel p1 w1)"

definition reduce_launch_timeout ::
  "'w yarn_ops \<Rightarrow> 'a yarn_proxy_scheme \<Rightarrow> 'w \<Rightarrow> unit res \<times> 'a yarn_proxy_scheme \<times> 'w" where
  "reduce_launch_timeout ops p w =
     (case time_since_start ops p w of
        (Inl e, w1) \<Rightarrow> (Inl e, p, w1)
      | (Inr spent, w1) \<Rightarrow> (Inr (), p\<lparr>yarn_launch_timeout := yarn_launch_timeout p - spent\<rparr>, w1))"

definition find_partition ::
  "'w yarn_ops \<Rightarrow> string \<Rightarrow> string \<Rightarrow> 'a yarn_proxy_scheme \<Rightarrow> 'w \<Rightarrow>
   bool res \<times> 'a yarn_proxy_scheme \<times> 'w" where
  "find_partition ops queue_name node_label p w =
     (case rm_current_time ops w of
        (now, w1) \<Rightarrow>
          (let p1 = p\<lparr>start_time := Some now\<rparr> in
           case rm_scheduler_queue ops queue_name w1 of
             (Inl e, w2) \<Rightarrow> (Inl e, p1, w2)
           | (Inr q, w2) \<Rightarrow>
               (let p2 = p1\<lparr>candidate_queue := q\<rparr> in
                if q = PNone then (Inr False, p2, w2)
                else (case rm_queue_partition ops q node_label w2 of
                        (Inl e, w3) \<Rightarrow> (Inl e, p2, w3)
                      | (Inr part, w3) \<Rightarrow>
                          (Inr (part \<noteq> PNone), p2\<lparr>candidate_partition := part\<rparr>, w3)))))"

definition confirm_yarn_queue_availability ::
  "(string \<Rightarrow> rat option) \<Rightarrow> 'w yarn_ops \<Rightarrow> (string, string) dict \<Rightarrow> nat \<Rightarrow> 'a yarn_proxy_scheme \<Rightarrow> 'w \<Rightarrow>
   (unit res \<times> 'a yarn_proxy_scheme \<times> 'w) option" where
  "confirm_yarn_queue_availability to_float ops env fuel p w =
     (case check_container_memory ops env w of
        (Inl e, w1) \<Rightarrow> Some (Inl e, p, w1)
      | (Inr _, w1) \<Rightarrow>
          (case (case dget env ''YARN_PARTITION_THRESHOLD'' of
                   None \<Rightarrow> Some 95 | Some s \<Rightarrow> to_float s) of
             None \<Rightarrow> Some (Inl ValueError, p, w1)
           | Some threshold \<Rightarrow>
               (case (dget env ''KERNEL_QUEUE'', dget env ''KERNEL_NODE_LABEL'') of
                  (Some queue_name, Some node_label) \<Rightarrow>
                    (case find_partition ops queue_name node_label p w1 of
                       (Inl e, pw) \<Rightarrow> Some (Inl e, pw)
                     | (Inr False, pw) \<Rightarrow> Some (Inr (), pw)
                     | (Inr True, p2, w2) \<Rightarrow>
                         map_option (\<lambda>r. bindE r (\<lambda>_ (p3, w3). reduce_launch_timeout ops p3 w3))
                           (wait_for_queue ops threshold fuel p2 w2))
                | _ \<Rightarrow> Some (Inr (), p, w1))))"

text \<open>
  \<open>launch_process\<close> once the resource manager exists: \<open>prepare\<close> is the superclass's
  \<open>launch_process\<close>, \<open>popen\<close> starts the local launcher and answers its pid.
\<close>

definition yarn_launch ::
  "(string \<Rightarrow> rat option) \<Rightarrow> nat \<Rightarrow> 'w yarn_ops \<Rightarrow>
   ('a yarn_proxy_scheme \<Rightarrow> 'w \<Rightarrow> unit res \<times> 'a yarn_proxy_scheme \<times> 'w) \<Rightarrow> ('w \<Rightarrow> int res \<times> 'w) \<Rightarrow>
   ('a yarn_proxy_scheme \<Rightarrow> 'w \<Rightarrow> bool res \<times> 'a yarn_proxy_scheme \<times> 'w) \<Rightarrow> string \<Rightarrow>
   (string, string) dict \<Rightarrow> nat \<Rightarrow> 'a yarn_proxy_scheme \<Rightarrow> 'w \<Rightarrow>
   (unit res \<times> 'a yarn_proxy_scheme \<times> 'w) option" where
  "yarn_launch to_float max_poll_attempts ops prepare popen receive local_ip env fuel p w =
     Option.bind (confirm_yarn_queue_availability to_float ops env fuel p w) (\<lambda>r.
       case bindE r (\<lambda>_ (p1, w1). prepare p1 w1) of
         (Inl e, pw) \<Rightarrow> Some (Inl e, pw)
       | (Inr _, p2, w2) \<Rightarrow>
           (case popen w2 of
              (Inl e, w3) \<Rightarrow> Some (Inl e, p2, w3)
            | (Inr pid, w3) \<Rightarrow>
                yarn_confirm_startup max_poll_attempts ops receive fuel
                  (p2\<lparr>local_proc := True, proxy_pid := pid, proxy_ip := Some local_ip\<rparr>) w3))"

section \<open>Process information\<close>



section \<open>Properties: finding the application\<close>

lemma str_less_irrefl [simp]: "\<not> str_less s s"
  by (induction s) auto

lemma str_less_trans: "str_less a b \<Longrightarrow> str_less b c \<Longrightarrow> str_less a c"
proof (induction a b arbitrary: c rule: str_less.induct)
  case (2 d ds)
  then show ?case by (cases c) auto
next
  case (3 x xs y ys)
  then show ?case by (cases c) auto
qed simp

definition app_named :: "string \<Rightarrow> (string, pyval) dict \<Rightarrow> bool" where
  "app_named kernel_id app =
     (case dget app ''name'' of Some (PStr n) \<Rightarrow> contains kernel_id n | _ \<Rightarrow> False)"

definition app_id_of :: "(string, pyval) dict \<Rightarrow> string" where
  "app_id_of app = (case dget app ''id'' of Some (PStr s) \<Rightarrow> s | _ \<Rightarrow> [])"

text \<open>An entry of the resource manager's list: it has a name and an id.\<close>

definition app_entry :: "(string, pyval) dict \<Rightarrow> bool" where
  "app_entry app \<longleftrightarrow> (\<exists>n. dget app ''name'' = Some (PStr n)) \<and> (\<exists>i. dget app ''id'' = Some (PStr i) \<and> i \<noteq> [])"

lemma pick_app_entry:
  "app_entry d \<Longrightarrow> pick_app kernel_id (PDict d) (app, high) =
     Inr (if app_named kernel_id d \<and> str_less high (app_id_of d) then (PDict d, app_id_of d) else (app, high))"
  by (auto simp: app_entry_def pick_app_def py_get_or_def dget_or_def py_find_def py_greater_def
      app_named_def app_id_of_def)

lemma pick_apps_maximum:
  "\<forall>d\<in>set ds. app_entry d \<Longrightarrow>
   \<exists>app' high'. pick_apps kernel_id (map PDict ds) (app, high) = Inr (app', high') \<and>
    (high' = high \<and> app' = app \<or> str_less high high' \<and>
       (\<exists>d\<in>set ds. app' = PDict d \<and> app_named kernel_id d \<and> app_id_of d = high')) \<and>
    (\<forall>d\<in>set ds. app_named kernel_id d \<longrightarrow> \<not> str_less high' (app_id_of d))"
proof (induction ds arbitrary: app high)
  case (Cons d ds)
  show ?case
  proof (cases "app_named kernel_id d \<and> str_less high (app_id_of d)")
    case True
    obtain app' high' where r: "pick_apps kernel_id (map PDict ds) (PDict d, app_id_of d) = Inr (app', high')"
      "high' = app_id_of d \<and> app' = PDict d \<or> str_less (app_id_of d) high' \<and>
         (\<exists>d\<in>set ds. app' = PDict d \<and> app_named kernel_id d \<and> app_id_of d = high')"
      "\<forall>d\<in>set ds. app_named kernel_id d \<longrightarrow> \<not> str_less high' (app_id_of d)"
      using Cons.IH [of "PDict d" "app_id_of d"] Cons.prems by auto
    have "str_less high high'" using r(2) True str_less_trans by blast
    moreover have "\<not> str_less high' (app_id_of d)" using r(2) str_less_trans by fastforce
    ultimately show ?thesis
      using True Cons.prems r by (intro exI [of _ app'] exI [of _ high']) (auto simp: pick_app_entry)
  next
    case False
    obtain app' high' where r: "pick_apps kernel_id (map PDict ds) (app, high) = Inr (app', high')"
      "high' = high \<and> app' = app \<or> str_less high high' \<and>
         (\<exists>d\<in>set ds. app' = PDict d \<and> app_named kernel_id d \<and> app_id_of d = high')"
      "\<forall>d\<in>set ds. app_named kernel_id d \<longrightarrow> \<not> str_less high' (app_id_of d)"
      using Cons.IH [of app high] Cons.prems by auto
    have "app_named kernel_id d \<Longrightarrow> \<not> str_less high' (app_id_of d)"
      using r(2) False str_less_trans by blast
    then show ?thesis
      using False Cons.prems r by (intro exI [of _ app'] exI [of _ high']) (auto simp: pick_app_entry)
  qed
qed simp

text \<open>
  Of the applications the resource manager lists, the proxy takes one whose name contains
  the kernel id and whose id no other such application exceeds, and none only if no
  application is named after the kernel.
\<close>

lemma newest_application_found:
  assumes "rm_applications ops (case start_time p of None \<Rightarrow> ''None'' | Some t \<Rightarrow> int_str t) w = (Inr data, w')"
    and "apps_of data = Some (PList (map PDict ds))" and "\<forall>d\<in>set ds. app_entry d"
  shows "\<exists>app. query_app_by_name ops kernel_id p w = (Inr app, w') \<and>
    (app = PNone \<and> (\<forall>d\<in>set ds. \<not> app_named kernel_id d) \<or>
     (\<exists>d\<in>set ds. app = PDict d \<and> app_named kernel_id d \<and>
        (\<forall>e\<in>set ds. app_named kernel_id e \<longrightarrow> \<not> str_less (app_id_of d) (app_id_of e))))"
proof -
  have nonempty: "str_less [] (app_id_of d)" if "d \<in> set ds" for d
    using assms(3) that by (cases "app_id_of d") (auto simp: app_entry_def app_id_of_def)
  obtain app high where r: "pick_apps kernel_id (map PDict ds) (PNone, []) = Inr (app, high)"
    "high = [] \<and> app = PNone \<or>
       (\<exists>d\<in>set ds. app = PDict d \<and> app_named kernel_id d \<and> app_id_of d = high)"
    "\<forall>d\<in>set ds. app_named kernel_id d \<longrightarrow> \<not> str_less high (app_id_of d)"
    using pick_apps_maximum [OF assms(3), of kernel_id PNone "[]"] by blast
  have "query_app_by_name ops kernel_id p w = (Inr app, w')"
    using assms(1,2) r(1) by (simp add: query_app_by_name_def)
  then show ?thesis using r(2,3) nonempty by blast
qed

text \<open>
  When the resource manager cannot be asked, or gives an answer of another shape, the
  application is simply not found yet.
\<close>

lemma failed_query_finds_nothing:
  assumes "rm_applications ops (case start_time p of None \<Rightarrow> ''None'' | Some t \<Rightarrow> int_str t) w = (r, w')"
    and "(\<exists>e. r = Inl e) \<or> (\<exists>data. r = Inr data \<and> apps_of data = None)"
  shows "query_app_by_name ops kernel_id p w = (Inr PNone, w')"
  using assms by (auto simp: query_app_by_name_def)

text \<open>
  Ids are compared as strings, so from the ten-thousandth application of a resource manager
  on the newest is not the greatest.
\<close>

lemma ten_thousandth_is_less:
  "str_less ''application_1600000000000_10000'' ''application_1600000000000_9999''"
  by code_simp

section \<open>Properties: ending a kernel\<close>

text \<open>The proxy after a query that answered the state of the application in the world \<open>w\<close>.\<close>

abbreviation knows_state :: "('w \<Rightarrow> string) \<Rightarrow> 'a yarn_proxy_scheme \<Rightarrow> 'w \<Rightarrow> 'a yarn_proxy_scheme" where
  "knows_state st p w \<equiv> p\<lparr>last_known_state := PStr (st w)\<rparr>"

lemma query_state_known:
  "rm_application_state ops aid w = (Inr (PDict [(''state'', PStr (st w))]), w) \<Longrightarrow>
   query_app_state_by_id ops aid p w = (Inr (PStr (st w)), knows_state st p w, w)"
  by (simp add: query_app_state_by_id_def)

lemma final_state_loop_spec:
  assumes state: "\<And>w. rm_application_state ops (application_id p) w = (Inr (PDict [(''state'', PStr (st w))]), w)"
  shows "(\<forall>i. i \<le> n \<longrightarrow> st ((po_sleep ops ^^ i) w) \<in> set final_states \<longrightarrow>
      (\<forall>j<i. st ((po_sleep ops ^^ j) w) \<notin> set final_states) \<longrightarrow>
      final_state_loop ops n (PStr (st w)) (knows_state st p w) w =
        (Inr True, knows_state st p ((po_sleep ops ^^ i) w), (po_sleep ops ^^ i) w)) \<and>
    ((\<forall>i\<le>n. st ((po_sleep ops ^^ i) w) \<notin> set final_states) \<longrightarrow>
      final_state_loop ops n (PStr (st w)) (knows_state st p w) w =
        (Inr False, knows_state st p ((po_sleep ops ^^ n) w), (po_sleep ops ^^ n) w))"
proof (induction n arbitrary: w)
  case (Suc n)
  have step: "final_state_loop ops (Suc n) (PStr (st w)) (knows_state st p w) w =
    (if st w \<in> set final_states then (Inr True, knows_state st p w, w)
     else final_state_loop ops n (PStr (st (po_sleep ops w))) (knows_state st p (po_sleep ops w)) (po_sleep ops w))"
    using state by (simp add: in_states_def query_state_known)
  show ?case
  proof (cases "st w \<in> set final_states")
    case True
    have "i = 0" if "\<forall>j<i. st ((po_sleep ops ^^ j) w) \<notin> set final_states" for i
      using that True by (cases i) auto
    with True step show ?thesis by fastforce
  next
    case False
    have shift: "(po_sleep ops ^^ Suc i) w = (po_sleep ops ^^ i) (po_sleep ops w)" for i
      by (simp add: funpow_Suc_right del: funpow.simps)
    show ?thesis
    proof (intro conjI allI impI, goal_cases)
      case (1 i)
      then obtain k where i: "i = Suc k" using False by (cases i) auto
      have "\<forall>j<k. st ((po_sleep ops ^^ j) (po_sleep ops w)) \<notin> set final_states"
        using 1(3) unfolding i by (metis Suc_mono shift)
      with 1 i shift [of k] Suc.IH [of "po_sleep ops w"] show ?case
        unfolding step using False by (simp del: funpow.simps)
    next
      case 2
      have "\<forall>i\<le>n. st ((po_sleep ops ^^ i) (po_sleep ops w)) \<notin> set final_states"
        using 2 by (metis Suc_le_mono shift)
      with shift [of n] Suc.IH [of "po_sleep ops w"] show ?case
        unfolding step using False by (simp del: funpow.simps)
    qed
  qed
qed (simp add: in_states_def)

text \<open>
  C30: \<open>kill\<close> asks the resource manager first: if the application is seen in a final state
  within \<open>max_poll_attempts\<close> further queries the answer is \<open>None\<close> and no signal is sent -- the
  world has only seen the request and the sleeps between the queries; otherwise the kernel is
  signalled, with SIGTERM and then SIGKILL as the base class does.
\<close>

theorem yarn_kill_asks_first:
  assumes "application_id p = PStr aid" "aid \<noteq> []"
    and "\<And>w. rm_application_state ops (PStr aid) w = (Inr (PDict [(''state'', PStr (st w))]), w)"
    and "seen = (\<lambda>i. (po_sleep ops ^^ i) (kill_app_by_id ops (PStr aid) w))"
  shows "(\<forall>i\<le>m. st (seen i) \<in> set final_states \<longrightarrow> (\<forall>j<i. st (seen j) \<notin> set final_states) \<longrightarrow>
      yarn_kill m ops p w = (Inr PNone, knows_state st p (seen i), seen i)) \<and>
    ((\<forall>i\<le>m. st (seen i) \<notin> set final_states) \<longrightarrow>
      yarn_kill m ops p w =
        inherited_kill m (proc_ops.truncate ops) (yarn_poll ops) (knows_state st p (seen m)) (seen m))"
proof -
  define w0 where "w0 = kill_app_by_id ops (PStr aid) w"
  have "kill_by_yarn m ops p w = final_state_loop ops m (PStr (st w0)) (knows_state st p w0) w0"
    using assms(1-3) by (simp add: kill_by_yarn_def get_application_id_def query_state_known w0_def)
  moreover have "\<And>w. rm_application_state ops (application_id p) w = (Inr (PDict [(''state'', PStr (st w))]), w)"
    using assms(1,3) by simp
  ultimately show ?thesis
    using final_state_loop_spec [of ops p st m w0] unfolding assms(4) w0_def [symmetric]
    by (auto simp: yarn_kill_def)
qed

text \<open>
  \<open>cleanup\<close> is meant to end a local launcher that is still running before it waits for it.  A
  launcher that is running has no return code, so it is not signalled: the wait blocks until it
  ends by itself.
\<close>

lemma cleanup_spares_running_launcher:
  assumes "local_proc p" "po_poll ops w = (None, w1)"
  shows "yarn_cleanup m ops p w = (Inr (), p\<lparr>local_proc := False, application_id := PNone,
      assigned_ip := None, tunnel_processes := []\<rparr>,
    end_tunnels (remote_ops.truncate ops) (tunnel_processes p) (snd (po_wait ops w1)))"
  using assms by (simp add: yarn_cleanup_def clear_defunct_def remote_cleanup_def proc_ops.truncate_def)

section \<open>Properties: start-up\<close>

definition listing :: "pyval list \<Rightarrow> pyval" where
  "listing apps = PDict [(''apps'', PDict [(''app'', PList apps)])]"

definition listed_app :: "string \<Rightarrow> string \<Rightarrow> string \<Rightarrow> pyval" where
  "listed_app aid name state = PDict [(''id'', PStr aid), (''name'', PStr name), (''state'', PStr state)]"

definition running_app :: "string \<Rightarrow> pyval" where
  "running_app address = PDict [(''app'', PDict [(''state'', PStr ''RUNNING''), (''amHostHttpAddress'', PStr address)])]"
















section \<open>Properties: timeouts\<close>

text \<open>
  A launch that takes too long is ended and reported as 503 when the application is known but
  not running, as 500 when it is running.
\<close>

lemma timed_out_code:
  assumes "application_id p = PStr aid" "aid \<noteq> []"
    and "rm_application_state ops (PStr aid) w = (Inr (PDict [(''state'', PStr st)]), w1)"
    and "yarn_kill m ops (p\<lparr>last_known_state := PStr st\<rparr>) w1 = (Inr r, p2, w2)"
  shows "yarn_timed_out m ops p w = (Inl (HTTPError (if st = ''RUNNING'' then 500 else 503)), p2, w2)"
  using assms by (simp add: yarn_timed_out_def get_application_id_def query_app_state_by_id_def)

text \<open>The wait for the queue ends on any clock that advances.\<close>

lemma queue_wait_ends:
  fixes rclock :: "'w \<Rightarrow> int"
  assumes clock: "\<And>w. rm_current_time ops w = (1000 * (rclock w div 1000), w)"
    and sleep: "\<And>w. rclock w < rclock (po_sleep ops w)"
    and avail: "\<And>q t w r w'. rm_queue_availability ops q t w = (r, w') \<Longrightarrow> rclock w \<le> rclock w'"
    and start: "start_time p = Some (1000 * (a div 1000))"
  shows "\<exists>N. \<forall>n\<ge>N. wait_for_queue ops threshold n p w \<noteq> None"
proof -
  obtain lim where lim: "\<And>b. lim \<le> b \<Longrightarrow>
      resource_check_wait_time p < get_time_diff (1000 * (a div 1000)) (1000 * (b div 1000))"
    using deadline_exists by blast
  let ?m = "\<lambda>p v. nat (lim - rclock v)"
  have pass: "p2 = p \<and> ?m p2 v2 < ?m p v" if "q = p"
    and t: "handle_yarn_queue_timeout ops q v = (Inr (), p1, v1)"
    and s: "queue_available ops threshold p1 v1 = (Inr False, p2, v2)" for q v p1 v1 p2 v2
  proof -
    have v1: "v1 = po_sleep ops v" "p1 = p"
      and ok: "\<not> resource_check_wait_time p < get_time_diff (1000 * (a div 1000)) (1000 * (rclock v1 div 1000))"
      using t clock start \<open>q = p\<close>
      by (auto simp: handle_yarn_queue_timeout_def time_since_start_def split: if_splits)
    have "rclock v1 < lim" using ok lim [of "rclock v1"] by linarith
    moreover have "rclock v1 \<le> rclock v2" "p2 = p"
      using s avail v1(2) by (auto simp: queue_available_def split: prod.splits)
    ultimately show ?thesis using sleep [of v] v1 by simp
  qed
  have loop: "confirm_loop (handle_yarn_queue_timeout ops) (queue_available ops threshold) n p v \<noteq> None"
    if "nat (lim - rclock v) < n" for n v
    by (rule confirm_loop_ends [of "\<lambda>q v. q = p" _ _ ?m, OF _ refl that]) (use pass in blast)
  obtain r w1 where q: "queue_available ops threshold p w = (r, p, w1)"
    by (cases "rm_queue_availability ops (candidate_partition p) threshold w") (simp add: queue_available_def)
  show ?thesis
    by (intro exI [of _ "Suc (nat (lim - rclock w1))"] allI impI)
      (use loop [of w1] q in \<open>auto simp: wait_for_queue_def Suc_le_eq split: sum.splits bool.splits\<close>)
qed

text \<open>
  The time spent waiting for the queue is taken from the launch timeout, but the superclass's
  \<open>launch_process\<close>, which comes next, replaces it by a KERNEL_LAUNCH_TIMEOUT of the user.
\<close>

definition prepare_timeout ::
  "(string \<Rightarrow> rat option) \<Rightarrow> (string, string) dict \<Rightarrow> 'a yarn_proxy_scheme \<Rightarrow>
   unit res \<times> 'a yarn_proxy_scheme" where
  "prepare_timeout to_float env p =
     (case dget_or env ''KERNEL_LAUNCH_TIMEOUT'' [] of
        [] \<Rightarrow> (Inr (), p)
      | s \<Rightarrow> (case to_float s of
                None \<Rightarrow> (Inl ValueError, p)
              | Some t \<Rightarrow> (Inr (), p\<lparr>yarn_launch_timeout := t\<rparr>)))"

lemma queue_wait_not_deducted:
  assumes "dget env ''KERNEL_LAUNCH_TIMEOUT'' = Some s" "s \<noteq> []" "to_float s = Some t"
    and "reduce_launch_timeout ops p w = (Inr (), p1, w1)"
  shows "yarn_launch_timeout (snd (prepare_timeout to_float env p1)) = t"
  using assms by (cases s) (auto simp: prepare_timeout_def dget_or_def)

section \<open>Properties: what is persisted\<close>


text \<open>
  When the resource manager does not answer that one query, a revived proxy, which has no last
  known state, reports the kernel as dead; the session is then deleted.
\<close>

lemma unanswered_revival_is_dead:
  assumes "application_id q = PStr aid" "aid \<noteq> []" "last_known_state q = PNone"
    and "rm_application_state ops (PStr aid) v = (Inl e, v1)"
  shows "yarn_poll ops q v = (Inr (PBool False), q, v1)"
  using assms by (simp add: yarn_poll_def get_application_id_def query_app_state_by_id_def in_states_def)

section \<open>A cluster with one application\<close>

text \<open>
  The resource manager does not answer before the first sleep, then lists one application; a
  request to kill it counts \<open>ds_alive\<close> down, at zero it is killed.
\<close>

definition demo_yarn_ops :: "demo_sys yarn_ops" where
  "demo_yarn_ops = remote_ops.extend (demo_remote_ops\<lparr>po_poll := \<lambda>s. (None, s)\<rparr>)
     \<lparr>rm_applications = (\<lambda>started s. (if ds_slept s < 1 then Inl TimeoutError
          else Inr (listing [listed_app ''application_1_0001'' ''job-k1'' ''ACCEPTED'']), s)),
      rm_application = (\<lambda>a s. (Inr (running_app (''node1'' @ '':'' @ ''8042'')), s)),
      rm_application_state = (\<lambda>a s. (Inr (PDict [(''state'',
        PStr (if ds_alive s > 0 then ''RUNNING'' else ''KILLED''))]), s)),
      rm_application_kill = (\<lambda>a s. (Inr (), s\<lparr>ds_alive := ds_alive s - 1\<rparr>)),
      rm_container_memory = (\<lambda>s. (Inr 2048, s)), rm_scheduler_queue = (\<lambda>q s. (Inr (PStr q), s)),
      rm_queue_partition = (\<lambda>q l s. (Inr (PStr l), s)),
      rm_queue_availability = (\<lambda>q t s. (Inr (ds_slept s \<ge> 3), s)),
      rm_gethostbyname = (\<lambda>h s. (Inr ''10.0.0.7'', s)),
      rm_current_time = (\<lambda>s. (1000 * (int (500 * ds_slept s) div 1000), s))\<rparr>"

definition demo_yarn :: yarn_proxy where
  "demo_yarn = remote_proxy.extend (demo_remote\<lparr>assigned_ip := None, assigned_host := []\<rparr>)
     \<lparr>yarn_kernel_id = ''k1'', start_time = None, application_id = PNone, last_known_state = PNone,
      candidate_queue = PNone, candidate_partition = PNone, yarn_launch_timeout = 30,
      resource_check_wait_time = 6\<rparr>"

lemma demo_yarn_ops_simps [simp]:
  "rm_applications demo_yarn_ops started s = (if ds_slept s < 1 then Inl TimeoutError
     else Inr (listing [listed_app ''application_1_0001'' ''job-k1'' ''ACCEPTED'']), s)"
  "rm_application demo_yarn_ops a s = (Inr (running_app (''node1'' @ '':'' @ ''8042'')), s)"
  "rm_application_state demo_yarn_ops a s =
     (Inr (PDict [(''state'', PStr (if ds_alive s > 0 then ''RUNNING'' else ''KILLED''))]), s)"
  "rm_application_kill demo_yarn_ops a s = (Inr (), s\<lparr>ds_alive := ds_alive s - 1\<rparr>)"
  "rm_gethostbyname demo_yarn_ops h s = (Inr ''10.0.0.7'', s)"
  "rm_current_time demo_yarn_ops s = (1000 * (int (500 * ds_slept s) div 1000), s)"
  "po_poll demo_yarn_ops s = (None, s)" "po_sleep demo_yarn_ops s = s\<lparr>ds_slept := ds_slept s + 1\<rparr>"
  by (simp_all add: demo_yarn_ops_def demo_remote_ops_def demo_ops_def remote_ops.extend_def proc_ops.extend_def)

lemma demo_yarn_simps [simp]:
  "yarn_kernel_id demo_yarn = ''k1''" "application_id demo_yarn = PNone" "assigned_host demo_yarn = []"
  "yarn_launch_timeout demo_yarn = 30" "tunneled_connect_info demo_yarn = None" "start_time demo_yarn = None"
  by (simp_all add: demo_yarn_def demo_remote_def remote_proxy.extend_def)

lemma newest_application_found_witness:
  "\<exists>app. query_app_by_name demo_yarn_ops ''k1'' demo_yarn \<lparr>ds_alive = 1, ds_log = [], ds_slept = 1\<rparr> =
     (Inr app, \<lparr>ds_alive = 1, ds_log = [], ds_slept = 1\<rparr>)"
  using newest_application_found [of demo_yarn_ops demo_yarn "\<lparr>ds_alive = 1, ds_log = [], ds_slept = 1\<rparr>" _ _
      "[[(''id'', PStr ''application_1_0001''), (''name'', PStr ''job-k1''), (''state'', PStr ''ACCEPTED'')]]" "''k1''"]
  by (auto simp: apps_of_def listing_def listed_app_def app_entry_def)

lemma yarn_kill_asks_first_witness:
  "yarn_kill 10 demo_yarn_ops (demo_yarn\<lparr>application_id := PStr ''application_1_0001''\<rparr>)
     \<lparr>ds_alive = 1, ds_log = [], ds_slept = 1\<rparr> =
   (Inr PNone, demo_yarn\<lparr>application_id := PStr ''application_1_0001'', last_known_state := PStr ''KILLED''\<rparr>,
    \<lparr>ds_alive = 0, ds_log = [], ds_slept = 1\<rparr>)"
  using yarn_kill_asks_first [of "demo_yarn\<lparr>application_id := PStr ''application_1_0001''\<rparr>" "''application_1_0001''"
      demo_yarn_ops "\<lambda>s. if ds_alive s > 0 then ''RUNNING'' else ''KILLED''" _
      "\<lparr>ds_alive = 1, ds_log = [], ds_slept = 1\<rparr>" 10, OF _ _ _ refl, THEN conjunct1, rule_format, of 0]
  by (simp add: kill_app_by_id_def final_states_def)




end
