(* ===== verification/Authorization.thy ===== *)
theory Authorization
  imports KernelSessions
begin

text \<open>
  Who may start which kernel: the user sets a process proxy is built with and the check it
  makes at launch (services/processproxies/processproxy.py), and the filter the kernelspec
  handlers apply to what a user gets to see (services/kernelspecs/handlers.py).
\<close>

section \<open>The sets of a process proxy\<close>

record auth_sets =
  unauthorized_users :: "string list"
  authorized_users :: "string list"

text \<open>The kernelspec's unauthorized users join the global ones; its authorized users replace them.\<close>

definition init_authorization :: "auth_sets \<Rightarrow> (string, string) dict \<Rightarrow> auth_sets" where
  "init_authorization global_sets proxy_config =
     \<lparr>unauthorized_users =
        unauthorized_users global_sets @
          (case dget proxy_config ''unauthorized_users'' of
             Some s \<Rightarrow> if s \<noteq> [] then split_on '','' s else []
           | None \<Rightarrow> []),
      authorized_users =
        (case dget proxy_config ''authorized_users'' of
           Some s \<Rightarrow> if s \<noteq> [] then split_on '','' s else authorized_users global_sets
         | None \<Rightarrow> authorized_users global_sets)\<rparr>"

definition py_bool_str :: "bool \<Rightarrow> string" where
  "py_bool_str b = (if b then ''True'' else ''False'')"

definition raise_authorization_error :: "'a res" where
  "raise_authorization_error = Inl (HTTPError 403)"

definition enforce_authorization ::
  "bool \<Rightarrow> string \<Rightarrow> auth_sets \<Rightarrow> env \<Rightarrow> unit res \<times> env" where
  "enforce_authorization impersonation_enabled getuser a env =
     (let env1 = dset ''EG_IMPERSONATION_ENABLED'' (py_bool_str impersonation_enabled) env;
          (kernel_username, kw) = get_kernel_username getuser \<lparr>la_env = Some env1, la_rest = []\<rparr>;
          env2 = (case la_env kw of None \<Rightarrow> env1 | Some e \<Rightarrow> e) in
      if kernel_username \<in> set (unauthorized_users a) then (raise_authorization_error, env2)
      else if length (authorized_users a) > 0 \<and> kernel_username \<notin> set (authorized_users a)
      then (raise_authorization_error, env2)
      else (Inr (), env2))"

text \<open>
  \<open>EG_REMOTE_GSS_SSH\<close> is validated without regard to case and then compared with the
  lower-case word; the remote user only matters without GSS.
\<close>

definition gss_setting :: "string \<Rightarrow> bool res" where
  "gss_setting raw =
     (if lower raw \<notin> {'''', ''true'', ''false''} then Inl ValueError else Inr (raw = ''true''))"

definition remote_user_of :: "bool \<Rightarrow> string option \<Rightarrow> string \<Rightarrow> string option" where
  "remote_user_of use_gss remote_user getuser =
     (if use_gss then None
      else case remote_user of
        Some u \<Rightarrow> if u \<noteq> [] then Some u else Some getuser
      | None \<Rightarrow> Some getuser)"

section \<open>The kernelspec filter\<close>

text \<open>\<open>x in v\<close> for a string \<open>x\<close>: a substring of a string, an element of a list, a key of a dict.\<close>

fun py_in :: "string \<Rightarrow> pyval \<Rightarrow> bool res" where
  "py_in x (PStr s) = Inr (contains x s)"
| "py_in x (PList vs) = Inr (PStr x \<in> set vs)"
| "py_in x (PDict d) = Inr (dhas d x)"
| "py_in x _ = Inl TypeError"

definition config_entry :: "pyval \<Rightarrow> string \<Rightarrow> pyval res" where
  "config_entry model key =
     rbind (py_item model ''spec'') (\<lambda>spec.
     rbind (py_item spec ''metadata'') (\<lambda>metadata.
     rbind (py_item metadata ''process_proxy'') (\<lambda>process_proxy.
     rbind (py_item process_proxy ''config'') (\<lambda>config.
     py_item config key))))"

definition filter_authorized :: "pyval \<Rightarrow> string list \<Rightarrow> string \<Rightarrow> pyval option res" where
  "filter_authorized model global_authorized_list kernel_user =
     (case config_entry model ''authorized_users'' of
        Inl KeyError \<Rightarrow>
          if global_authorized_list \<noteq> [] \<and> kernel_user \<notin> set global_authorized_list then Inr None
          else Inr (Some model)
      | Inl e \<Rightarrow> Inl e
      | Inr authorized_list \<Rightarrow>
          if truthy authorized_list
          then rbind (py_in kernel_user authorized_list) (\<lambda>b.
                 if \<not> b then Inr None else Inr (Some model))
          else Inr (Some model))"

definition apply_user_filter ::
  "pyval \<Rightarrow> string list \<Rightarrow> string list \<Rightarrow> string option \<Rightarrow> pyval option res" where
  "apply_user_filter model global_authorized_list global_unauthorized_list kernel_user =
     (case kernel_user of
        None \<Rightarrow> Inr (Some model)
      | Some u \<Rightarrow>
          if u = [] then Inr (Some model)
          else
            (let rest = (if u \<in> set global_unauthorized_list then Inr None
                         else filter_authorized model global_authorized_list u) in
             case config_entry model ''unauthorized_users'' of
               Inl KeyError \<Rightarrow> rest
             | Inl e \<Rightarrow> Inl e
             | Inr unauthorized_list \<Rightarrow>
                 rbind (py_in u unauthorized_list) (\<lambda>b. if b then Inr None else rest)))"

section \<open>Properties\<close>

text \<open>Whom the check lets through, in terms of the sets of the proxy.\<close>

definition user_allowed :: "auth_sets \<Rightarrow> string \<Rightarrow> bool" where
  "user_allowed a u \<longleftrightarrow>
     u \<notin> set (unauthorized_users a) \<and> (authorized_users a = [] \<or> u \<in> set (authorized_users a))"

lemma enforce_authorization_outcome:
  "fst (enforce_authorization imp getuser a env) =
     (if user_allowed a (dget_or env ''KERNEL_USERNAME'' getuser) then Inr () else Inl (HTTPError 403))"
  by (auto simp: enforce_authorization_def user_allowed_def get_kernel_username_def Let_def
      raise_authorization_error_def dget_or_def split: option.splits)

lemma join_elem: "x \<in> set xs \<Longrightarrow> \<exists>a b. join sep xs = a @ x @ b"
proof (induction sep xs rule: join.induct)
  case (3 sep y z zs)
  show ?case
  proof (cases "x = y")
    case True
    then show ?thesis by (auto intro: exI [of _ "[]"])
  next
    case False
    with 3 obtain a b where "join sep (z # zs) = a @ x @ b" by auto
    then have "join sep (y # z # zs) = (y @ sep @ a) @ x @ b" by simp
    then show ?thesis by blast
  qed
qed (auto intro: exI [of _ "[]"])

lemma split_on_contains: "x \<in> set (split_on [c] s) \<Longrightarrow> contains x s"
  using join_elem [of x "split_on [c] s" "[c]"] by (simp add: join_split_on contains_iff)

text \<open>
  C10: A launch passes the check exactly for users who are in no list of unauthorized users,
  global or of the kernelspec, and in the kernelspec's list of authorized users or, when it
  has none, in the global one unless that is empty; otherwise it is refused with 403.
\<close>

theorem enforce_authorization_spec:
  "fst (enforce_authorization imp getuser (init_authorization g cfg) env) =
   (let u = dget_or env ''KERNEL_USERNAME'' getuser;
        listed = (\<lambda>k. case dget cfg k of Some s \<Rightarrow> if s \<noteq> [] then split_on '','' s else [] | None \<Rightarrow> []);
        allowed = (if listed ''authorized_users'' \<noteq> [] then listed ''authorized_users''
                   else authorized_users g) in
    if u \<notin> set (unauthorized_users g) \<and> u \<notin> set (listed ''unauthorized_users'') \<and>
       (allowed = [] \<or> u \<in> set allowed)
    then Inr () else Inl (HTTPError 403))"
  by (auto simp: enforce_authorization_outcome user_allowed_def init_authorization_def Let_def dget_or_def
      split: option.splits)

text \<open>
  A user the launch check would refuse as unauthorized is never shown the kernelspec,
  whether the name is in the global list or in the kernelspec's comma-separated one.
\<close>

lemma unauthorized_never_listed:
  assumes "u \<noteq> []"
    and "u \<in> set gu \<or> config_entry model ''unauthorized_users'' = Inr (PStr s) \<and> u \<in> set (split_on '','' s)"
    and "apply_user_filter model ga gu (Some u) = Inr r"
  shows "r = None"
  using assms split_on_contains [of u "CHR '',''" s]
  by (auto simp: apply_user_filter_def rbind_Inr_iff Let_def split: sum.splits exn.splits if_splits)

definition demo_spec :: "string \<Rightarrow> pyval \<Rightarrow> pyval" where
  "demo_spec key v = PDict [(''spec'', PDict [(''metadata'', PDict [(''process_proxy'',
     PDict [(''config'', PDict [(key, v)])])])])]"

lemma unauthorized_never_listed_witness:
  "apply_user_filter (demo_spec ''unauthorized_users'' (PStr ''bob,alice'')) [] [] (Some ''alice'') = Inr None"
proof -
  have e: "config_entry (demo_spec ''unauthorized_users'' (PStr ''bob,alice'')) ''unauthorized_users'' =
      Inr (PStr ''bob,alice'')"
    by (simp add: demo_spec_def config_entry_def)
  have s: "''alice'' \<in> set (split_on '','' ''bob,alice'')" by (simp add: split_on_def)
  obtain r where r: "apply_user_filter (demo_spec ''unauthorized_users'' (PStr ''bob,alice'')) [] []
      (Some ''alice'') = Inr r"
    using e by (simp add: apply_user_filter_def)
  show ?thesis using unauthorized_never_listed [OF _ _ r] e s r by simp
qed

text \<open>
  Where the kernelspec has no lists of its own, the filter shows it exactly to the users
  the launch check lets through.
\<close>

lemma filter_agrees_with_launch_check:
  assumes "u \<noteq> []" "config_entry model ''unauthorized_users'' = Inl KeyError"
    and "config_entry model ''authorized_users'' = Inl KeyError"
    and "dget env ''KERNEL_USERNAME'' = Some u"
  shows "apply_user_filter model (authorized_users g) (unauthorized_users g) (Some u) = Inr (Some model) \<longleftrightarrow>
    fst (enforce_authorization imp getuser (init_authorization g []) env) = Inr ()"
  using assms
  by (auto simp: enforce_authorization_outcome user_allowed_def init_authorization_def apply_user_filter_def filter_authorized_def dget_or_def Let_def)

lemma filter_agrees_with_launch_check_witness:
  "fst (enforce_authorization False ''root''
     (init_authorization \<lparr>unauthorized_users = [''root''], authorized_users = [''alice'']\<rparr> [])
     [(''KERNEL_USERNAME'', ''alice'')]) = Inr ()"
  using filter_agrees_with_launch_check [of "''alice''" "PDict [(''spec'', PDict [])]"
      "[(''KERNEL_USERNAME'', ''alice'')]"
      "\<lparr>unauthorized_users = [''root''], authorized_users = [''alice'']\<rparr>" False "''root''"]
  by (simp add: config_entry_def apply_user_filter_def filter_authorized_def)

text \<open>With a list in the kernelspec the filter tests for a substring of the whole list.\<close>

lemma filter_shows_refused_user:
  "apply_user_filter (demo_spec ''authorized_users'' (PStr ''alice'')) [] [] (Some ''ali'') =
     Inr (Some (demo_spec ''authorized_users'' (PStr ''alice''))) \<and>
   fst (enforce_authorization False ''root''
     (init_authorization \<lparr>unauthorized_users = [], authorized_users = []\<rparr> [(''authorized_users'', ''alice'')])
     [(''KERNEL_USERNAME'', ''ali'')]) = Inl (HTTPError 403)"
  by (simp add: enforce_authorization_outcome user_allowed_def init_authorization_def apply_user_filter_def filter_authorized_def demo_spec_def
      config_entry_def dget_or_def Let_def split_on_def startswith_def)

lemma gss_true_is_off: "gss_setting ''True'' = Inr False \<and> gss_setting ''true'' = Inr True"
  by code_simp

end
