(* ===== verification/Conductor.thy ===== *)
theory Conductor
  imports RemoteProxy Codecs Authorization KernelSessions
begin

text \<open>
  \<open>ConductorClusterProcessProxy\<close> (services/processproxies/conductor.py): a kernel that runs as
  a Spark application of an IBM Spectrum Conductor cluster.  The launcher prints the id of the
  driver it submitted; the proxy asks Conductor's REST interface, through \<open>curl\<close>, for the
  driver's application, its state and its host.  What Conductor answers is JSON, read with all
  the checks (and failures) of the code.
\<close>

section \<open>Text\<close>

text \<open>\<open>s.split()\<close>: the maximal runs without white space.\<close>

fun words_acc :: "string \<Rightarrow> string \<Rightarrow> string list" where
  "words_acc acc [] = (if acc = [] then [] else [rev acc])"
| "words_acc acc (c # cs) =
     (if is_space c then (if acc = [] then words_acc [] cs else rev acc # words_acc [] cs)
      else words_acc (c # acc) cs)"

definition split_ws :: "string \<Rightarrow> string list" where
  "split_ws s = words_acc [] s"

text \<open>\<open>s.find(sub)\<close> and, for a single character, \<open>s.rfind(c)\<close>; -1 when there is none.\<close>

fun find_from :: "int \<Rightarrow> string \<Rightarrow> string \<Rightarrow> int" where
  "find_from i sub [] = (if sub = [] then i else - 1)"
| "find_from i sub (c # cs) = (if startswith (c # cs) sub then i else find_from (i + 1) sub cs)"

definition str_find :: "string \<Rightarrow> string \<Rightarrow> int" where
  "str_find s sub = find_from 0 sub s"

fun rfind_from :: "int \<Rightarrow> int \<Rightarrow> char \<Rightarrow> string \<Rightarrow> int" where
  "rfind_from found i c [] = found"
| "rfind_from found i c (d # ds) = rfind_from (if d = c then i else found) (i + 1) c ds"

definition str_rfind :: "string \<Rightarrow> char \<Rightarrow> int" where
  "str_rfind s c = rfind_from (- 1) 0 c s"

text \<open>\<open>s[a:b]\<close> and \<open>s[a:]\<close>: a negative index counts from the end, one out of range is clamped.\<close>

definition py_index :: "string \<Rightarrow> int \<Rightarrow> nat" where
  "py_index s i = (if i < 0 then length s - nat (- i) else nat i)"

definition py_slice :: "string \<Rightarrow> int \<Rightarrow> int \<Rightarrow> string" where
  "py_slice s a b = take (py_index s b - py_index s a) (drop (py_index s a) s)"

definition py_slice_from :: "string \<Rightarrow> int \<Rightarrow> string" where
  "py_slice_from s a = drop (py_index s a) s"

text \<open>\<open>re.findall(r'"([^"]*)"', s)\<close>\<close>

definition QUOTE :: char where "QUOTE = char_of (34::nat)"

function quoted_parts :: "string \<Rightarrow> string list" where
  "quoted_parts s =
     (case dropWhile (\<lambda>c. c \<noteq> QUOTE) s of
        [] \<Rightarrow> []
      | _ # rest \<Rightarrow>
          (case dropWhile (\<lambda>c. c \<noteq> QUOTE) rest of
             [] \<Rightarrow> []
           | _ # after \<Rightarrow> takeWhile (\<lambda>c. c \<noteq> QUOTE) rest # quoted_parts after))"
  by pat_completeness auto
termination
proof (relation "measure length")
  fix s rest after :: string and x y
  assume a: "dropWhile (\<lambda>c. c \<noteq> QUOTE) s = x # rest" and b: "dropWhile (\<lambda>c. c \<noteq> QUOTE) rest = y # after"
  have "length (x # rest) \<le> length s" "length (y # after) \<le> length rest"
    using length_dropWhile_le [of _ s] length_dropWhile_le [of _ rest] unfolding a [symmetric] b [symmetric] .
  then show "(after, s) \<in> measure length" by simp
qed simp

declare quoted_parts.simps [simp del]

definition strip_quotes :: "string \<Rightarrow> string" where
  "strip_quotes s = rev (dropWhile (\<lambda>c. c = QUOTE) (rev (dropWhile (\<lambda>c. c = QUOTE) s)))"

text \<open>
  A value put into text by \<open>format\<close>; a list or dict, whose representation the code never
  expects there, is read as a type error.
\<close>

fun py_format :: "pyval \<Rightarrow> string res" where
  "py_format PNone = Inr ''None''"
| "py_format (PBool b) = Inr (if b then ''True'' else ''False'')"
| "py_format (PInt i) = Inr (int_str i)"
| "py_format (PStr s) = Inr s"
| "py_format _ = Inl TypeError"

text \<open>A value of which a method of strings is called.\<close>

definition str_method :: "pyval \<Rightarrow> string res" where
  "str_method v = (case v of PStr s \<Rightarrow> Inr s | _ \<Rightarrow> Inl AttributeError)"

text \<open>\<open>v[0]\<close>\<close>

definition py_first :: "pyval \<Rightarrow> pyval res" where
  "py_first v =
     (case v of
        PList (x # _) \<Rightarrow> Inr x
      | PList [] \<Rightarrow> Inl IndexError
      | PStr (c # _) \<Rightarrow> Inr (PStr [c])
      | PStr [] \<Rightarrow> Inl IndexError
      | PDict _ \<Rightarrow> Inl KeyError
      | _ \<Rightarrow> Inl TypeError)"

text \<open>\<open>os.path.join(d, f)\<close>: an absolute second part replaces the first.\<close>

definition pjoin :: "pyval \<Rightarrow> pyval \<Rightarrow> string res" where
  "pjoin d f =
     rbind (as_str d) (\<lambda>d. rbind (as_str f) (\<lambda>f.
       Inr (if startswith f ''/'' then f else path_join d f)))"

section \<open>State and system\<close>

record conductor_proxy = remote_proxy +
  cd_start_time :: "int option"
  cd_launch_timeout :: rat
  cd_application_id :: pyval
  cd_driver_id :: pyval
  cd_env :: "(string, pyval) dict option"
  cd_rest_credential :: pyval
  cd_jwt_token :: pyval
  conductor_endpoint :: pyval
  ascd_endpoint :: pyval

text \<open>
  The environment is one dict: \<open>self.env\<close>, the \<open>env\<close> of the launch and the \<open>env_dict\<close> of
  every helper.  The system runs \<open>curl\<close> and answers what it printed, as bytes
  (\<open>cd_run\<close>) or as text with its error stream (\<open>cd_run_text\<close>), reads the launcher's error
  stream to its end, resolves names, reads \<open>get_current_time\<close> and sets a variable of the
  gateway's own environment.
\<close>

record 'w conductor_ops = "'w remote_ops" +
  cd_run :: "string list \<Rightarrow> 'w \<Rightarrow> string res \<times> 'w"
  cd_run_text :: "string list \<Rightarrow> 'w \<Rightarrow> (string \<times> string) res \<times> 'w"
  cd_read_stderr :: "'w \<Rightarrow> string res \<times> 'w"
  cd_gethostbyname :: "string \<Rightarrow> 'w \<Rightarrow> string res \<times> 'w"
  cd_current_time :: "'w \<Rightarrow> int \<times> 'w"
  cd_setenv :: "string \<Rightarrow> string \<Rightarrow> 'w \<Rightarrow> 'w"

definition cd_initial_states :: "string list" where
  "cd_initial_states = [''SUBMITTED'', ''WAITING'', ''RUNNING'']"

definition cd_final_states :: "string list" where
  "cd_final_states = [''FINISHED'', ''KILLED'', ''RECLAIMED'']"

definition cd_init :: "(string, pyval) dict \<Rightarrow> pyval \<Rightarrow> 'a conductor_proxy_scheme \<Rightarrow> 'a conductor_proxy_scheme" where
  "cd_init proxy_config km_conductor_endpoint p =
     (let endpoint = dget_or proxy_config ''conductor_endpoint'' km_conductor_endpoint in
      p\<lparr>cd_application_id := PNone, cd_driver_id := PNone, cd_env := None, cd_rest_credential := PNone,
        cd_jwt_token := PNone, conductor_endpoint := endpoint, ascd_endpoint := endpoint\<rparr>)"

definition cd_env_item :: "'a conductor_proxy_scheme \<Rightarrow> string \<Rightarrow> pyval res" where
  "cd_env_item p k = (case cd_env p of None \<Rightarrow> Inl TypeError | Some d \<Rightarrow> of_option KeyError (dget d k))"

definition cd_env_set :: "string \<Rightarrow> pyval \<Rightarrow> 'a conductor_proxy_scheme \<Rightarrow> 'a conductor_proxy_scheme" where
  "cd_env_set k v p = p\<lparr>cd_env := map_option (dset k v) (cd_env p)\<rparr>"

definition cd_env_has :: "'a conductor_proxy_scheme \<Rightarrow> string \<Rightarrow> bool" where
  "cd_env_has p k \<longleftrightarrow> (case cd_env p of None \<Rightarrow> False | Some d \<Rightarrow> dhas d k)"

section \<open>The REST interface\<close>

definition curl_cmd :: "string list \<Rightarrow> string \<Rightarrow> string \<Rightarrow> string \<Rightarrow> string \<Rightarrow> string \<Rightarrow> string list" where
  "curl_cmd sslconf jar_option cookie_jar verb authorization url =
     [''curl'', ''-v''] @ sslconf @
     [jar_option, cookie_jar, ''-X'', verb, ''-H'', ''Accept: application/json'', ''-H'', authorization, url]"

definition cookie_and_ssl :: "'a conductor_proxy_scheme \<Rightarrow> (string \<times> string list) res" where
  "cookie_and_ssl p =
     rbind (cd_env_item p ''KERNEL_NOTEBOOK_DATA_DIR'') (\<lambda>dir.
     rbind (cd_env_item p ''KERNEL_NOTEBOOK_COOKIE_JAR'') (\<lambda>jar.
     rbind (pjoin dir jar) (\<lambda>cookie_jar.
     rbind (cd_env_item p ''KERNEL_CURL_SECURITY_OPT'') (\<lambda>opt.
     rbind (str_method opt) (\<lambda>s. Inr (cookie_jar, split_ws s))))))"

text \<open>The command of the four calls to the Conductor endpoint.\<close>

definition conductor_cmd :: "string \<Rightarrow> string \<Rightarrow> pyval \<Rightarrow> 'a conductor_proxy_scheme \<Rightarrow> string list res" where
  "conductor_cmd verb path ident p =
     rbind (py_format (cd_rest_credential p)) (\<lambda>credential.
     rbind (cookie_and_ssl p) (\<lambda>(cookie_jar, sslconf).
     rbind (py_format (conductor_endpoint p)) (\<lambda>endpoint.
     rbind (py_format ident) (\<lambda>i.
       Inr (curl_cmd sslconf ''-b'' cookie_jar verb (''Authorization: '' @ credential)
              (endpoint @ path @ i))))))"

text \<open>\<open>json.loads(output) if output else None\<close> on what \<open>curl\<close> printed.\<close>

definition run_json :: "'w conductor_ops \<Rightarrow> string list \<Rightarrow> 'w \<Rightarrow> pyval res \<times> 'w" where
  "run_json ops cmd w =
     (case cd_run ops cmd w of
        (Inl e, w1) \<Rightarrow> (Inl e, w1)
      | (Inr output, w1) \<Rightarrow>
          (if output = [] then Inr PNone
           else rbind (of_option UnicodeError (utf8_decode output)) json_loads, w1))"

text \<open>
  The list of applications in an answer.  When there is none the exception leaves the whole
  answer in \<open>response\<close>, which is then returned.
\<close>

definition answered_apps :: "pyval \<Rightarrow> pyval" where
  "answered_apps response =
     (case py_item response ''applist'' of
        Inl _ \<Rightarrow> response
      | Inr apps \<Rightarrow> if truthy apps then apps else PNone)"

definition query_app_by_driver_id ::
  "'w conductor_ops \<Rightarrow> pyval \<Rightarrow> 'a conductor_proxy_scheme \<Rightarrow> 'w \<Rightarrow> pyval res \<times> 'w" where
  "query_app_by_driver_id ops driver_id p w =
     (if \<not> truthy driver_id then (Inr PNone, w)
      else (case conductor_cmd ''GET'' ''/v1/applications?driverid='' driver_id p of
              Inl e \<Rightarrow> (Inl e, w)
            | Inr cmd \<Rightarrow>
                (case run_json ops cmd w of
                   (Inl _, w1) \<Rightarrow> (Inr PNone, w1)
                 | (Inr response, w1) \<Rightarrow>
                     (Inr (if truthy response then answered_apps response else PNone), w1))))"

definition cd_query_app_by_id ::
  "'w conductor_ops \<Rightarrow> pyval \<Rightarrow> 'a conductor_proxy_scheme \<Rightarrow> 'w \<Rightarrow> pyval res \<times> 'w" where
  "cd_query_app_by_id ops app_id p w =
     (case conductor_cmd ''GET'' ''/v1/applications?applicationid='' app_id p of
        Inl e \<Rightarrow> (Inl e, w)
      | Inr cmd \<Rightarrow>
          (case run_json ops cmd w of
             (Inl _, w1) \<Rightarrow> (Inr PNone, w1)
           | (Inr response, w1) \<Rightarrow>
               (Inr (if response = PNone then PNone else answered_apps response), w1)))"

text \<open>\<open>if apps: for app in apps\<close>\<close>

definition apps_to_visit :: "pyval \<Rightarrow> pyval list res" where
  "apps_to_visit apps = (if truthy apps then py_iter apps else Inr [])"

definition state_or :: "pyval \<Rightarrow> pyval \<Rightarrow> pyval res" where
  "state_or app state = rbind (py_in ''state'' app) (\<lambda>b. if b then py_item app ''state'' else Inr state)"

fun last_state :: "pyval list \<Rightarrow> pyval \<Rightarrow> pyval res" where
  "last_state [] state = Inr state"
| "last_state (app # rest) state = rbind (state_or app state) (last_state rest)"

definition query_app_state_by_driver_id ::
  "'w conductor_ops \<Rightarrow> pyval \<Rightarrow> 'a conductor_proxy_scheme \<Rightarrow> 'w \<Rightarrow> pyval res \<times> 'w" where
  "query_app_state_by_driver_id ops driver_id p w =
     (case query_app_by_driver_id ops driver_id p w of
        (r, w1) \<Rightarrow> (rbind r (\<lambda>apps. rbind (apps_to_visit apps) (\<lambda>xs. last_state xs PNone)), w1))"

fun last_driver :: "pyval list \<Rightarrow> pyval \<Rightarrow> pyval res" where
  "last_driver [] driver = Inr driver"
| "last_driver (app # rest) driver =
     (if \<not> truthy app then last_driver rest driver
      else rbind (py_item app ''driver'') (\<lambda>d.
             if truthy d then rbind (py_item d ''id'') (\<lambda>_. last_driver rest d)
             else last_driver rest driver))"

definition get_driver_by_app_id ::
  "'w conductor_ops \<Rightarrow> pyval \<Rightarrow> 'a conductor_proxy_scheme \<Rightarrow> 'w \<Rightarrow> pyval res \<times> 'w" where
  "get_driver_by_app_id ops app_id p w =
     (case cd_query_app_by_id ops app_id p w of
        (r, w1) \<Rightarrow> (rbind r (\<lambda>apps. rbind (apps_to_visit apps) (\<lambda>xs. last_driver xs PNone)), w1))"

definition kill_app_by_driver_id ::
  "'w conductor_ops \<Rightarrow> pyval \<Rightarrow> 'a conductor_proxy_scheme \<Rightarrow> 'w \<Rightarrow>
   pyval res \<times> 'a conductor_proxy_scheme \<times> 'w" where
  "kill_app_by_driver_id ops driver_id p w =
     bindE (if driver_id \<noteq> PNone then (Inr True, p, w)
            else if cd_application_id p = PNone then (Inr False, p, w)
            else (case get_driver_by_app_id ops (cd_application_id p) p w of
                    (Inl e, w1) \<Rightarrow> (Inl e, p, w1)
                  | (Inr driver_info, w1) \<Rightarrow>
                      if truthy driver_info
                      then (case py_item driver_info ''id'' of
                              Inl e \<Rightarrow> (Inl e, p, w1)
                            | Inr i \<Rightarrow> (Inr True, p\<lparr>cd_driver_id := i\<rparr>, w1))
                      else (Inr False, p, w1)))
       (\<lambda>found (p1, w1).
          if \<not> found then (Inr PNone, p1, w1)
          else (case conductor_cmd ''POST'' ''/v1/submissions/kill/'' (cd_driver_id p1) p1 of
                  Inl e \<Rightarrow> (Inl e, p1, w1)
                | Inr cmd \<Rightarrow>
                    (case run_json ops cmd w1 of
                       (Inl _, w2) \<Rightarrow> (Inr PNone, p1, w2)
                     | (Inr response, w2) \<Rightarrow> (Inr response, p1, w2))))"


section \<open>The application\<close>

definition cd_time_since_start ::
  "'w conductor_ops \<Rightarrow> 'a conductor_proxy_scheme \<Rightarrow> 'w \<Rightarrow> rat res \<times> 'w" where
  "cd_time_since_start ops p w =
     (case cd_current_time ops w of
        (now, w1) \<Rightarrow>
          ((case cd_start_time p of None \<Rightarrow> Inl TypeError | Some s \<Rightarrow> Inr (get_time_diff s now)), w1))"

text \<open>
  Whether an application of the list is taken, and the id it then has; \<open>allowed\<close> is
  \<open>state_condition\<close>, which an application without a state leaves as the previous one set it.
\<close>

definition allowed_by_state :: "bool \<Rightarrow> pyval \<Rightarrow> bool \<Rightarrow> bool res" where
  "allowed_by_state ignore_final_states app allowed =
     rbind (py_in ''state'' app) (\<lambda>b.
       if b \<and> ignore_final_states
       then rbind (py_item app ''state'') (\<lambda>s. rbind (in_states cd_final_states s) (\<lambda>f. Inr (\<not> f)))
       else Inr allowed)"

definition offered_id :: "pyval \<Rightarrow> bool \<Rightarrow> pyval option res" where
  "offered_id app allowed =
     rbind (py_in ''applicationid'' app) (\<lambda>b.
       if \<not> b then Inr None
       else rbind (py_item app ''applicationid'') (\<lambda>i. rbind (py_len i) (\<lambda>n.
              Inr (if n > 0 \<and> allowed then Some i else None))))"

fun visit_apps ::
  "bool \<Rightarrow> 'w conductor_ops \<Rightarrow> pyval list \<Rightarrow> bool \<Rightarrow> 'a conductor_proxy_scheme \<Rightarrow> 'w \<Rightarrow>
   unit res \<times> 'a conductor_proxy_scheme \<times> 'w" where
  "visit_apps ignore_final_states ops [] allowed p w = (Inr (), p, w)"
| "visit_apps ignore_final_states ops (app # rest) allowed p w =
     (case rbind (allowed_by_state ignore_final_states app allowed) (\<lambda>allowed'.
             rbind (offered_id app allowed') (\<lambda>i. Inr (allowed', i))) of
        Inl e \<Rightarrow> (Inl e, p, w)
      | Inr (allowed', None) \<Rightarrow> visit_apps ignore_final_states ops rest allowed' p w
      | Inr (allowed', Some i) \<Rightarrow>
          (let p1 = p\<lparr>cd_application_id := i\<rparr> in
           case cd_time_since_start ops p1 w of
             (r, w1) \<Rightarrow>
               (case rbind r (\<lambda>_. py_item app ''state'') of
                  Inl e \<Rightarrow> (Inl e, p1, w1)
                | Inr _ \<Rightarrow> visit_apps ignore_final_states ops rest allowed' p1 w1)))"

definition cd_get_application_id ::
  "bool \<Rightarrow> 'w conductor_ops \<Rightarrow> 'a conductor_proxy_scheme \<Rightarrow> 'w \<Rightarrow>
   pyval res \<times> 'a conductor_proxy_scheme \<times> 'w" where
  "cd_get_application_id ignore_final_states ops p w =
     (if truthy (cd_application_id p) then (Inr (cd_application_id p), p, w)
      else (case query_app_by_driver_id ops (cd_driver_id p) p w of
              (r, w1) \<Rightarrow>
                (case rbind r apps_to_visit of
                   Inl e \<Rightarrow> (Inl e, p, w1)
                 | Inr xs \<Rightarrow>
                     bindE (visit_apps ignore_final_states ops xs True p w1)
                       (\<lambda>_ (p1, w2). (Inr (cd_application_id p1), p1, w2)))))"

text \<open>The host of the driver is recorded before its address is resolved, and only once.\<close>

definition note_driver_host ::
  "'w conductor_ops \<Rightarrow> pyval \<Rightarrow> 'a conductor_proxy_scheme \<Rightarrow> 'w \<Rightarrow>
   unit res \<times> 'a conductor_proxy_scheme \<times> 'w" where
  "note_driver_host ops app p w =
     (if assigned_host p \<noteq> [] then (Inr (), p, w)
      else (case rbind (py_item app ''driver'') (\<lambda>d.
                   if truthy d then rbind (py_item d ''host'') (\<lambda>h. rbind (as_str h) (\<lambda>s. Inr (Some s)))
                   else Inr None) of
              Inl e \<Rightarrow> (Inl e, p, w)
            | Inr None \<Rightarrow> (Inr (), p, w)
            | Inr (Some host) \<Rightarrow>
                (let p1 = p\<lparr>assigned_host := host\<rparr> in
                 case cd_gethostbyname ops host w of
                   (Inl e, w1) \<Rightarrow> (Inl e, p1, w1)
                 | (Inr ip, w1) \<Rightarrow> (Inr (), p1\<lparr>assigned_ip := Some ip\<rparr>, w1))))"

fun follow_apps ::
  "'w conductor_ops \<Rightarrow> pyval list \<Rightarrow> pyval \<Rightarrow> 'a conductor_proxy_scheme \<Rightarrow> 'w \<Rightarrow>
   pyval res \<times> 'a conductor_proxy_scheme \<times> 'w" where
  "follow_apps ops [] state p w = (Inr state, p, w)"
| "follow_apps ops (app # rest) state p w =
     (case state_or app state of
        Inl e \<Rightarrow> (Inl e, p, w)
      | Inr state' \<Rightarrow>
          bindE (note_driver_host ops app p w) (\<lambda>_ (p1, w1). follow_apps ops rest state' p1 w1))"

definition cd_get_application_state ::
  "'w conductor_ops \<Rightarrow> 'a conductor_proxy_scheme \<Rightarrow> 'w \<Rightarrow> pyval res \<times> 'a conductor_proxy_scheme \<times> 'w" where
  "cd_get_application_state ops p w =
     (case query_app_by_driver_id ops (cd_driver_id p) p w of
        (r, w1) \<Rightarrow>
          (case rbind r apps_to_visit of
             Inl e \<Rightarrow> (Inl e, p, w1)
           | Inr xs \<Rightarrow> follow_apps ops xs PNone p w1))"

section \<open>Polling, signals and the end of a kernel\<close>

definition cd_poll ::
  "'w conductor_ops \<Rightarrow> 'a conductor_proxy_scheme \<Rightarrow> 'w \<Rightarrow> pyval res \<times> 'a conductor_proxy_scheme \<times> 'w" where
  "cd_poll ops p w =
     bindE (cd_get_application_id False ops p w) (\<lambda>app_id (p1, w1).
       if truthy app_id
       then (case query_app_state_by_driver_id ops (cd_driver_id p1) p1 w1 of
               (r, w2) \<Rightarrow>
                 (rbind r (\<lambda>state. rbind (in_states cd_initial_states state) (\<lambda>b.
                    Inr (if b then PNone else PBool False))), p1, w2))
       else (Inr (PBool False), p1, w1))"

text \<open>The wait for a final state after the request to kill: \<open>n\<close> further queries are left.\<close>

fun cd_final_loop ::
  "('w \<Rightarrow> pyval res \<times> 'w) \<Rightarrow> ('w \<Rightarrow> 'w) \<Rightarrow> nat \<Rightarrow> pyval \<Rightarrow> 'w \<Rightarrow> bool res \<times> 'w" where
  "cd_final_loop query sleep 0 state w = (in_states cd_final_states state, w)"
| "cd_final_loop query sleep (Suc n) state w =
     (case in_states cd_final_states state of
        Inl e \<Rightarrow> (Inl e, w)
      | Inr True \<Rightarrow> (Inr True, w)
      | Inr False \<Rightarrow> bindE (query (sleep w)) (cd_final_loop query sleep n))"

definition kill_by_conductor ::
  "nat \<Rightarrow> 'w conductor_ops \<Rightarrow> 'a conductor_proxy_scheme \<Rightarrow> 'w \<Rightarrow>
   bool res \<times> 'a conductor_proxy_scheme \<times> 'w" where
  "kill_by_conductor max_poll_attempts ops p w =
     (if \<not> truthy (cd_driver_id p) then (Inr False, p, w)
      else bindE (kill_app_by_driver_id ops (cd_driver_id p) p w) (\<lambda>_ (p1, w1).
             let query = query_app_state_by_driver_id ops (cd_driver_id p1) p1 in
             case bindE (query w1) (cd_final_loop query (po_sleep ops) max_poll_attempts) of
               (r, w2) \<Rightarrow> (r, p1, w2)))"

text \<open>The signals of the superclass follow whatever Conductor said.\<close>

definition cd_kill ::
  "nat \<Rightarrow> 'w conductor_ops \<Rightarrow> 'a conductor_proxy_scheme \<Rightarrow> 'w \<Rightarrow>
   pyval res \<times> 'a conductor_proxy_scheme \<times> 'w" where
  "cd_kill max_poll_attempts ops p w =
     bindE (kill_by_conductor max_poll_attempts ops p w) (\<lambda>ended (p1, w1).
       bindE (inherited_kill max_poll_attempts (proc_ops.truncate ops) (cd_poll ops) p1 w1)
         (\<lambda>_ pw. (Inr (if ended then PNone else PBool False), pw)))"

definition cd_send_signal ::
  "nat \<Rightarrow> 'w conductor_ops \<Rightarrow> 'a conductor_proxy_scheme \<Rightarrow> int \<Rightarrow> 'w \<Rightarrow>
   pyval res \<times> 'a conductor_proxy_scheme \<times> 'w" where
  "cd_send_signal max_poll_attempts ops p signum w =
     (if signum = 0 then cd_poll ops p w
      else if signum = SIGKILL then cd_kill max_poll_attempts ops p w
      else (case remote_send_signal (remote_ops.truncate ops) p signum w of (r, w1) \<Rightarrow> (Inr r, p, w1)))"

definition cd_cleanup ::
  "nat \<Rightarrow> 'w conductor_ops \<Rightarrow> 'a conductor_proxy_scheme \<Rightarrow> 'w \<Rightarrow>
   unit res \<times> 'a conductor_proxy_scheme \<times> 'w" where
  "cd_cleanup max_poll_attempts ops p w =
     bindE (clear_defunct max_poll_attempts (proc_ops.truncate ops) (cd_poll ops) p w) (\<lambda>_ (p1, w1).
       case remote_cleanup (remote_ops.truncate ops) (p1\<lparr>cd_application_id := PNone\<rparr>) w1 of
         (p2, w2) \<Rightarrow> (Inr (), p2, w2))"

section \<open>Start-up\<close>

definition parse_driver_submission_id ::
  "string \<Rightarrow> 'a conductor_proxy_scheme \<Rightarrow> unit res \<times> 'a conductor_proxy_scheme" where
  "parse_driver_submission_id submission_response p =
     (let ls = split_on [CHR 0x0A] submission_response;
          failed = (\<lambda>p. (if list_ex (contains ''Application submission failed'') ls
                         then Inl (HTTPError 500) else Inr (), p)) in
      if submission_response = [] then (Inr (), p)
      else (case filter (contains ''submissionId'') ls of
              [] \<Rightarrow> failed p
            | driver_info # _ \<Rightarrow>
                (case split_on '':'' driver_info of
                   _ # part # _ \<Rightarrow>
                     (case quoted_parts part of
                        [] \<Rightarrow> failed p
                      | i # _ \<Rightarrow> failed (p\<lparr>cd_driver_id := PStr i\<rparr>))
                 | _ \<Rightarrow> (Inl IndexError, p))))"

definition read_submission ::
  "'w conductor_ops \<Rightarrow> 'a conductor_proxy_scheme \<Rightarrow> 'w \<Rightarrow> unit res \<times> 'a conductor_proxy_scheme \<times> 'w" where
  "read_submission ops p w =
     (if \<not> local_proc p then (Inl AttributeError, p, w)
      else (case cd_read_stderr ops w of
              (r, w1) \<Rightarrow>
                (case rbind r (\<lambda>bytes. of_option UnicodeError (utf8_decode bytes)) of
                   Inl e \<Rightarrow> (Inl e, p, w1)
                 | Inr output \<Rightarrow>
                     (case parse_driver_submission_id output p of (r2, p1) \<Rightarrow> (r2, p1, w1)))))"

definition cd_timed_out ::
  "nat \<Rightarrow> 'w conductor_ops \<Rightarrow> 'a conductor_proxy_scheme \<Rightarrow> 'w \<Rightarrow>
   unit res \<times> 'a conductor_proxy_scheme \<times> 'w" where
  "cd_timed_out max_poll_attempts ops p w =
     bindE (cd_get_application_id True ops p w) (\<lambda>app_id (p1, w1).
     bindE (if truthy app_id
            then (case query_app_state_by_driver_id ops (cd_driver_id p1) p1 w1 of
                    (r, w2) \<Rightarrow> (rbind r (\<lambda>state. Inr (if state \<noteq> PStr ''WAITING'' then 503 else 500)), p1, w2))
            else (Inr (500::nat), p1, w1)) (\<lambda>error_http_code (p2, w2).
     bindE (cd_kill max_poll_attempts ops p2 w2) (\<lambda>_ pw.
       (Inl (HTTPError error_http_code), pw))))"

definition cd_handle_timeout ::
  "nat \<Rightarrow> 'w conductor_ops \<Rightarrow> 'a conductor_proxy_scheme \<Rightarrow> 'w \<Rightarrow>
   unit res \<times> 'a conductor_proxy_scheme \<times> 'w" where
  "cd_handle_timeout max_poll_attempts ops p w =
     (case cd_time_since_start ops p (po_sleep ops w) of
        (Inl e, w1) \<Rightarrow> (Inl e, p, w1)
      | (Inr time_interval, w1) \<Rightarrow>
          if time_interval > cd_launch_timeout p then cd_timed_out max_poll_attempts ops p w1
          else (Inr (), p, w1))"

text \<open>A pass of the loop begins with the launcher's error stream, then checks the timeout.\<close>

definition cd_pass_start ::
  "nat \<Rightarrow> 'w conductor_ops \<Rightarrow> 'a conductor_proxy_scheme \<Rightarrow> 'w \<Rightarrow>
   unit res \<times> 'a conductor_proxy_scheme \<times> 'w" where
  "cd_pass_start max_poll_attempts ops p w =
     bindE (read_submission ops p w) (\<lambda>_ (p1, w1). cd_handle_timeout max_poll_attempts ops p1 w1)"

definition cd_confirm_step ::
  "'w conductor_ops \<Rightarrow>
   ('a conductor_proxy_scheme \<Rightarrow> 'w \<Rightarrow> bool res \<times> 'a conductor_proxy_scheme \<times> 'w) \<Rightarrow>
   'a conductor_proxy_scheme \<Rightarrow> 'w \<Rightarrow> bool res \<times> 'a conductor_proxy_scheme \<times> 'w" where
  "cd_confirm_step ops receive p w =
     bindE (cd_get_application_id True ops p w) (\<lambda>app_id (p1, w1).
       if truthy app_id
       then bindE (cd_get_application_state ops p1 w1) (\<lambda>app_state (p2, w2).
              case in_states cd_final_states app_state of
                Inl e \<Rightarrow> (Inl e, p2, w2)
              | Inr True \<Rightarrow> (Inl (HTTPError 500), p2, w2)
              | Inr False \<Rightarrow> if assigned_host p2 \<noteq> [] then receive p2 w2 else (Inr False, p2, w2))
       else bindE (detect_launch_failure (remote_ops.truncate ops) p1 w1) (\<lambda>_ pw. (Inr False, pw)))"

definition cd_confirm_startup ::
  "nat \<Rightarrow> 'w conductor_ops \<Rightarrow>
   ('a conductor_proxy_scheme \<Rightarrow> 'w \<Rightarrow> bool res \<times> 'a conductor_proxy_scheme \<times> 'w) \<Rightarrow>
   nat \<Rightarrow> 'a conductor_proxy_scheme \<Rightarrow> 'w \<Rightarrow> (unit res \<times> 'a conductor_proxy_scheme \<times> 'w) option" where
  "cd_confirm_startup max_poll_attempts ops receive fuel p w =
     (case cd_current_time ops w of
        (now, w1) \<Rightarrow>
          confirm_loop (cd_pass_start max_poll_attempts ops) (cd_confirm_step ops receive)
            fuel (p\<lparr>cd_start_time := Some now\<rparr>) w1)"


section \<open>The launch environment\<close>

text \<open>The \<open>value\<close> of an output of the instance group, \<open>None\<close> when it is missing or empty.\<close>

definition output_value :: "pyval \<Rightarrow> string \<Rightarrow> pyval option res" where
  "output_value outputs key =
     rbind (py_in key outputs) (\<lambda>has_key.
       if \<not> has_key then Inr None
       else rbind (py_item outputs key) (\<lambda>out.
         if \<not> truthy out then Inr None
         else rbind (py_in ''value'' out) (\<lambda>has_value.
           if \<not> has_value then Inr None
           else rbind (py_item out ''value'') (\<lambda>v. Inr (if truthy v then Some v else None)))))"

text \<open>
  The answer about the instance group, \<open>None\<close> when it holds no outputs; what fails before
  that is logged and the update is skipped.
\<close>

definition usable_instance_group :: "pyval \<Rightarrow> pyval res" where
  "usable_instance_group response =
     (if response = PNone then Inr PNone
      else rbind (py_len response) (\<lambda>n.
        if n < 1 then Inr PNone
        else rbind (py_first response) (\<lambda>first.
          if \<not> truthy first then Inr PNone
          else rbind (py_item first ''outputs'') (\<lambda>outputs.
            Inr (if truthy outputs then response else PNone)))))"

text \<open>The two addresses in the outputs; \<open>None\<close> when one of them is missing.\<close>

definition master_urls :: "pyval \<Rightarrow> (pyval \<times> pyval) option res" where
  "master_urls response =
     rbind (py_first response) (\<lambda>first.
     rbind (py_item first ''outputs'') (\<lambda>outputs.
     rbind (output_value outputs ''one_notebook_master_rest_url'') (\<lambda>rest_url.
       case rest_url of
         None \<Rightarrow> Inr None
       | Some r \<Rightarrow>
           rbind (output_value outputs ''one_notebook_master_web_submission_url'') (\<lambda>submission_url.
             Inr (map_option (Pair r) submission_url)))))"

definition instance_group_cmd :: "'a conductor_proxy_scheme \<Rightarrow> string list res" where
  "instance_group_cmd p =
     rbind (py_format (cd_rest_credential p)) (\<lambda>credential.
     rbind (cookie_and_ssl p) (\<lambda>(cookie_jar, sslconf).
     rbind (cd_env_item p ''CONDUCTOR_REST_URL'') (\<lambda>u. rbind (py_format u) (\<lambda>ascd_rest_url.
     rbind (cd_env_item p ''KERNEL_SIG_ID'') (\<lambda>i. rbind (py_format i) (\<lambda>ig_id.
       Inr (curl_cmd sslconf ''-b'' cookie_jar ''GET'' (''Authorization: '' @ credential)
              (ascd_rest_url @ ''conductor/v1/instances?id='' @ ig_id @ ''&fields=outputs''))))))))"

definition update_notebook_master_rest_url ::
  "'w conductor_ops \<Rightarrow> 'a conductor_proxy_scheme \<Rightarrow> 'w \<Rightarrow>
   unit res \<times> 'a conductor_proxy_scheme \<times> 'w" where
  "update_notebook_master_rest_url ops p w =
     (if \<not> (cd_env_has p ''KERNEL_NOTEBOOK_DATA_DIR'' \<and> cd_env_has p ''KERNEL_NOTEBOOK_COOKIE_JAR'' \<and>
            cd_env_has p ''KERNEL_CURL_SECURITY_OPT'') \<or>
         \<not> (cd_env_has p ''CONDUCTOR_REST_URL'' \<and> cd_env_has p ''KERNEL_SIG_ID'' \<and>
            cd_env_has p ''KERNEL_NOTEBOOK_MASTER_REST'')
      then (Inr (), p, w)
      else (case instance_group_cmd p of
              Inl e \<Rightarrow> (Inl e, p, w)
            | Inr cmd \<Rightarrow>
                (case run_json ops cmd w of
                   (r, w1) \<Rightarrow>
                     (case rbind r usable_instance_group of
                        Inl _ \<Rightarrow> (Inr (), p, w1)
                      | Inr response \<Rightarrow>
                          (case master_urls response of
                             Inl e \<Rightarrow> (Inl e, p, w1)
                           | Inr None \<Rightarrow> (Inr (), p, w1)
                           | Inr (Some (PStr rest_url, submission_url)) \<Rightarrow>
                               (Inr (), (cd_env_set ''KERNEL_NOTEBOOK_MASTER_REST'' (PStr rest_url) p)
                                  \<lparr>conductor_endpoint := submission_url\<rparr>,
                                cd_setenv ops ''KERNEL_NOTEBOOK_MASTER_REST'' rest_url w1)
                           | Inr (Some _) \<Rightarrow> (Inl TypeError, p, w1))))))"

text \<open>The command of a kernelspec without a shell script gets the kernelspec's own.\<close>

definition with_run_script :: "string option \<Rightarrow> string list \<Rightarrow> string list res" where
  "with_run_script kernel_dir kernel_cmd =
     (if list_ex (\<lambda>arg. endswith arg ''.sh'') kernel_cmd then Inr kernel_cmd
      else rbind (of_option TypeError kernel_dir) (\<lambda>d. Inr (path_join d ''bin/run.sh'' # kernel_cmd)))"

definition spark_opts_value :: "pyval \<Rightarrow> 'a conductor_proxy_scheme \<Rightarrow> string res" where
  "spark_opts_value user_defined_spark_opts p =
     rbind (cd_env_item p ''KERNEL_NOTEBOOK_MASTER_REST'') (\<lambda>m.
     rbind (as_str (cd_rest_credential p)) (\<lambda>rest_cred.
     rbind (cd_env_item p ''PYSPARK_PYTHON'') (\<lambda>y.
     rbind (cd_env_item p ''SPARK_OPTS'') (\<lambda>o'.
     rbind (py_format m) (\<lambda>master. rbind (py_format y) (\<lambda>pyspark_python.
     rbind (py_format o') (\<lambda>spark_opts. rbind (py_format user_defined_spark_opts) (\<lambda>user_opts.
       Inr (''--master '' @ master @ '' --conf spark.ego.credential='' @ [CHR 0x27] @ rest_cred @ [CHR 0x27] @
            '' --conf spark.pyspark.python='' @ pyspark_python @ '' '' @ spark_opts @ '' '' @ user_opts)))))))))"

definition set_spark_opts ::
  "pyval \<Rightarrow> 'a conductor_proxy_scheme \<Rightarrow> unit res \<times> 'a conductor_proxy_scheme" where
  "set_spark_opts user_defined_spark_opts p =
     (case rbind (cd_env_item p ''SPARK_OPTS'') (py_in ''--master'') of
        Inl e \<Rightarrow> (Inl e, p)
      | Inr True \<Rightarrow> (Inr (), p)
      | Inr False \<Rightarrow>
          (case spark_opts_value user_defined_spark_opts p of
             Inl e \<Rightarrow> (Inl e, p)
           | Inr s \<Rightarrow> (Inr (), cd_env_set ''SPARK_OPTS'' (PStr s) p)))"

definition store_env_item ::
  "string \<Rightarrow> pyval res \<Rightarrow> 'a conductor_proxy_scheme \<Rightarrow> unit res \<times> 'a conductor_proxy_scheme" where
  "store_env_item k r p = (case r of Inl e \<Rightarrow> (Inl e, p) | Inr v \<Rightarrow> (Inr (), cd_env_set k v p))"

definition copy_env_item ::
  "string \<Rightarrow> string \<Rightarrow> 'a conductor_proxy_scheme \<Rightarrow> unit res \<times> 'a conductor_proxy_scheme" where
  "copy_env_item target source p = store_env_item target (cd_env_item p source) p"

text \<open>\<open>_update_launch_info\<close> on the environment; the command is \<open>with_run_script\<close>.\<close>

definition update_launch_info ::
  "'w conductor_ops \<Rightarrow> 'a conductor_proxy_scheme \<Rightarrow> 'w \<Rightarrow>
   unit res \<times> 'a conductor_proxy_scheme \<times> 'w" where
  "update_launch_info ops p w =
     (case bindE (copy_env_item ''SPARK_HOME'' ''KERNEL_SPARK_HOME'' p)
             (\<lambda>_. copy_env_item ''PYSPARK_PYTHON'' ''KERNEL_PYSPARK_PYTHON'') of
        (Inl e, p1) \<Rightarrow> (Inl e, p1, w)
      | (Inr _, p1) \<Rightarrow>
          (let user_defined_spark_opts =
                 (case cd_env_item p1 ''KERNEL_SPARK_OPTS'' of Inl _ \<Rightarrow> PStr [] | Inr v \<Rightarrow> v) in
           bindE (if cd_jwt_token p1 = PNone then update_notebook_master_rest_url ops p1 w
                  else (Inr (), p1, w))
             (\<lambda>_ (p2, w1).
                case set_spark_opts user_defined_spark_opts p2 of (r, p3) \<Rightarrow> (r, p3, w1))))"

section \<open>Log-on with a token\<close>

definition with_host :: "string \<Rightarrow> string \<Rightarrow> string" where
  "with_host url HA =
     py_slice url 0 (str_find url ''://'' + 3) @ HA @ py_slice_from url (str_rfind url (CHR '':''))"

definition reached :: "string \<Rightarrow> bool" where
  "reached stderr \<longleftrightarrow> \<not> contains ''Could not resolve host'' stderr \<and>
     \<not> contains ''Failed connect to'' stderr \<and> \<not> contains ''Connection refused'' stderr"

text \<open>\<open>_performRestCall\<close>: the hosts in turn; the last word of the command is the address.\<close>

fun perform_rest_call ::
  "'w conductor_ops \<Rightarrow> string list \<Rightarrow> string \<Rightarrow> string list \<Rightarrow> 'w \<Rightarrow> string res \<times> 'w" where
  "perform_rest_call ops cmd url [] w = (Inl (HTTPError 500), w)"
| "perform_rest_call ops cmd url (HA # rest) w =
     (let url' = with_host url HA; cmd' = butlast cmd @ [url'] in
      case cd_run_text ops cmd' w of
        (Inl e, w1) \<Rightarrow> (Inl e, w1)
      | (Inr (output, stderr), w1) \<Rightarrow>
          if reached stderr then (Inr output, w1) else perform_rest_call ops cmd' url' rest w1)"

record ascd_session =
  as_endpoint :: string
  as_hosts :: "string list"
  as_cookie_jar :: string
  as_sslconf :: "string list"

definition open_ascd :: "'a conductor_proxy_scheme \<Rightarrow> ascd_session res" where
  "open_ascd p =
     rbind (cd_env_item p ''KERNEL_IG_UUID'') (\<lambda>ig.
       if ig = PNone then Inl (HTTPError 500)
       else rbind (str_method (ascd_endpoint p)) (\<lambda>url.
            rbind (cd_env_item p ''KERNEL_CONDUCTOR_HA_ENDPOINTS'') (\<lambda>h. rbind (str_method h) (\<lambda>hosts.
            rbind (cookie_and_ssl p) (\<lambda>(cookie_jar, sslconf).
              let host = py_slice url (str_find url ''://'' + 3) (str_rfind url (CHR '':'')) in
              Inr \<lparr>as_endpoint = url, as_hosts = host # split_on '','' hosts,
                   as_cookie_jar = cookie_jar, as_sslconf = sslconf\<rparr>)))))"

definition ascd_get ::
  "'w conductor_ops \<Rightarrow> ascd_session \<Rightarrow> string \<Rightarrow> string \<Rightarrow> string \<Rightarrow> 'w \<Rightarrow> string res \<times> 'w" where
  "ascd_get ops s jar_option authorization path w =
     (let url = as_endpoint s @ path in
      perform_rest_call ops (curl_cmd (as_sslconf s) jar_option (as_cookie_jar s) ''GET'' authorization url)
        url (as_hosts s) w)"

text \<open>An answer that mentions an error ends the log-on.\<close>

definition logon_get ::
  "'w conductor_ops \<Rightarrow> ascd_session \<Rightarrow> string \<Rightarrow> string \<Rightarrow> string \<Rightarrow> 'w \<Rightarrow> string res \<times> 'w" where
  "logon_get ops s jar_option authorization path w =
     (case ascd_get ops s jar_option authorization path w of
        (r, w1) \<Rightarrow>
          (rbind r (\<lambda>output. if contains ''Error'' output then Inl (HTTPError 500) else Inr output), w1))"

definition json_get ::
  "'w conductor_ops \<Rightarrow> ascd_session \<Rightarrow> string \<Rightarrow> string \<Rightarrow> 'w \<Rightarrow> pyval res \<times> 'w" where
  "json_get ops s authorization path w =
     (case ascd_get ops s ''-b'' authorization path w of
        (r, w1) \<Rightarrow> (rbind r (\<lambda>output. if output = [] then Inr PNone else json_loads output), w1))"

text \<open>The two log-ons: the credential of later calls, and the authorization of the next ones.\<close>

definition jwt_tokens ::
  "'w conductor_ops \<Rightarrow> (string \<Rightarrow> string) \<Rightarrow> ascd_session \<Rightarrow> 'a conductor_proxy_scheme \<Rightarrow> 'w \<Rightarrow>
   string res \<times> 'a conductor_proxy_scheme \<times> 'w" where
  "jwt_tokens ops url_unescape s p w =
     (case rbind (py_format (cd_jwt_token p)) (\<lambda>token.
             rbind (cd_env_item p ''KERNEL_TOPOLOGY'') (\<lambda>t. rbind (py_format t) (\<lambda>topology.
               Inr (token, topology)))) of
        Inl e \<Rightarrow> (Inl e, p, w)
      | Inr (token, topology) \<Rightarrow>
          (case logon_get ops s ''-b'' (''Authorization: Bearer '' @ token)
                  (''/auth/logon/jwt?topology='' @ topology) w of
             (Inl e, w1) \<Rightarrow> (Inl e, p, w1)
           | (Inr output, w1) \<Rightarrow>
               (let p1 = p\<lparr>cd_rest_credential := PStr (py_slice (url_unescape output) 1 (- 1))\<rparr>;
                    authorization = ''Authorization: PlatformToken token='' @ strip_quotes output in
                case logon_get ops s ''-c'' authorization ''/auth/logon'' w1 of
                  (r, w2) \<Rightarrow> (rbind r (\<lambda>_. Inr authorization), p1, w2))))"

text \<open>The path of the Python of the kernel's conda environment.\<close>

definition jwt_python ::
  "'w conductor_ops \<Rightarrow> ascd_session \<Rightarrow> string \<Rightarrow> 'a conductor_proxy_scheme \<Rightarrow> 'w \<Rightarrow>
   unit res \<times> 'a conductor_proxy_scheme \<times> 'w" where
  "jwt_python ops s authorization p w =
     (case rbind (cd_env_item p ''KERNEL_ANACONDA_INST_UUID'') (\<lambda>u. rbind (py_format u) (\<lambda>t. Inr (u, t))) of
        Inl e \<Rightarrow> (Inl e, p, w)
      | Inr (u, uuid) \<Rightarrow>
          (case json_get ops s authorization (''/anaconda/instances/'' @ uuid) w of
             (r, w1) \<Rightarrow>
               (case rbind r (\<lambda>response.
                       if response = PNone then Inr PNone
                       else rbind (py_item response ''parameters'') (\<lambda>ps.
                            rbind (py_item ps ''deploy_home'') (\<lambda>d. py_item d ''value''))) of
                  Inl e \<Rightarrow> (Inl e, p, w1)
                | Inr home \<Rightarrow>
                    if \<not> truthy home then (rbind (as_str u) (\<lambda>_. Inl (HTTPError 500)), p, w1)
                    else (case rbind (as_str home) (\<lambda>h.
                                 rbind (cd_env_item p ''KERNEL_ANACONDA_ENV'') (\<lambda>n. rbind (as_str n) (\<lambda>name.
                                   Inr (h @ ''/anaconda/envs/'' @ name @ ''/bin/python'')))) of
                            Inl e \<Rightarrow> (Inl e, p, w1)
                          | Inr python \<Rightarrow>
                              (Inr (), cd_env_set ''KERNEL_PYSPARK_PYTHON'' (PStr python) p, w1)))))"

text \<open>The instance group of the answer, when it is there and has been started.\<close>

definition started_instance_group :: "pyval \<Rightarrow> pyval \<Rightarrow> pyval res" where
  "started_instance_group ig response =
     (let failed = rbind (as_str ig) (\<lambda>_. Inl (HTTPError 500)) in
      if response = PNone then failed
      else rbind (py_len response) (\<lambda>n.
        if n = 0 then failed
        else rbind (py_first response) (\<lambda>first.
          if first = PNone then failed
          else rbind (py_item first ''outputs'') (\<lambda>outputs.
               rbind (py_item outputs ''batch_master_rest_urls'') (\<lambda>urls.
               rbind (py_in ''value'' urls) (\<lambda>b. if b then Inr first else failed))))))"

definition output_of :: "pyval \<Rightarrow> string \<Rightarrow> pyval res" where
  "output_of first key =
     rbind (py_item first ''outputs'') (\<lambda>outputs.
     rbind (py_item outputs key) (\<lambda>out. py_item out ''value''))"

definition jwt_instance_group ::
  "'w conductor_ops \<Rightarrow> ascd_session \<Rightarrow> string \<Rightarrow> 'a conductor_proxy_scheme \<Rightarrow> 'w \<Rightarrow>
   unit res \<times> 'a conductor_proxy_scheme \<times> 'w" where
  "jwt_instance_group ops s authorization p w =
     (case rbind (cd_env_item p ''KERNEL_IG_UUID'') (\<lambda>i. rbind (py_format i) (\<lambda>t. Inr (i, t))) of
        Inl e \<Rightarrow> (Inl e, p, w)
      | Inr (ig, ig_id) \<Rightarrow>
          (case json_get ops s authorization
                  (''/instances?id='' @ ig_id @ ''&fields=sparkinstancegroup,outputs'') w of
             (r, w1) \<Rightarrow>
               (case rbind r (started_instance_group ig) of
                  Inl e \<Rightarrow> (Inl e, p, w1)
                | Inr first \<Rightarrow>
                    (case bindE (store_env_item ''KERNEL_SPARK_HOME''
                                   (rbind (py_item first ''sparkinstancegroup'') (\<lambda>g. py_item g ''sparkhomedir'')) p)
                            (\<lambda>_. store_env_item ''KERNEL_NOTEBOOK_MASTER_REST''
                                   (output_of first ''batch_master_rest_urls'')) of
                       (Inl e, p1) \<Rightarrow> (Inl e, p1, w1)
                     | (Inr _, p1) \<Rightarrow>
                         (case output_of first ''one_batch_master_web_submission_url'' of
                            Inl e \<Rightarrow> (Inl e, p1, w1)
                          | Inr url \<Rightarrow> (Inr (), p1\<lparr>conductor_endpoint := url\<rparr>, w1))))))"

definition jwt_logon ::
  "'w conductor_ops \<Rightarrow> (string \<Rightarrow> string) \<Rightarrow> 'a conductor_proxy_scheme \<Rightarrow> 'w \<Rightarrow>
   unit res \<times> 'a conductor_proxy_scheme \<times> 'w" where
  "jwt_logon ops url_unescape p w =
     (if \<not> truthy (cd_jwt_token p) then (Inr (), p, w)
      else (case open_ascd p of
              Inl e \<Rightarrow> (Inl e, p, w)
            | Inr s \<Rightarrow>
                bindE (jwt_tokens ops url_unescape s p w) (\<lambda>authorization (p1, w1).
                bindE (jwt_python ops s authorization p1 w1) (\<lambda>_ (p2, w2).
                  jwt_instance_group ops s authorization p2 w2))))"


section \<open>Launching\<close>

text \<open>
  The credential: the gateway's own, else a log-on with the token the client's headers carry.
  \<open>draw\<close> is \<open>randint(0, 1000)\<close>.
\<close>

definition obtain_credential ::
  "'w conductor_ops \<Rightarrow> (string \<Rightarrow> string) \<Rightarrow> ('w \<Rightarrow> int \<times> 'w) \<Rightarrow> (string, string) dict \<Rightarrow>
   (string, string) dict option \<Rightarrow> 'a conductor_proxy_scheme \<Rightarrow> 'w \<Rightarrow>
   unit res \<times> 'a conductor_proxy_scheme \<times> 'w" where
  "obtain_credential ops url_unescape draw environ kernel_headers p w =
     (case (dget environ ''EGO_SERVICE_CREDENTIAL'',
            Option.bind kernel_headers (\<lambda>h. dget h ''Jwt-Auth-User-Payload'')) of
        (Some c, _) \<Rightarrow> (Inr (), p\<lparr>cd_rest_credential := PStr c\<rparr>, w)
      | (None, None) \<Rightarrow> (Inl (HTTPError 500), p, w)
      | (None, Some payload) \<Rightarrow>
          (case draw w of
             (n, w1) \<Rightarrow>
               (let p1 = cd_env_set ''KERNEL_NOTEBOOK_COOKIE_JAR'' (PStr (''kernelcookie'' @ int_str n)) p in
                case rbind (json_loads payload) (\<lambda>v. py_item v ''accessToken'') of
                  Inl e \<Rightarrow> (Inl e, p1, w1)
                | Inr token \<Rightarrow> jwt_logon ops url_unescape (p1\<lparr>cd_jwt_token := token\<rparr>) w1)))"

text \<open>
  \<open>launch_process\<close>: \<open>prepare\<close> is the superclass's, which completes the environment, \<open>popen\<close>
  starts the local launcher with its error stream piped and answers its pid, \<open>receive\<close> is
  \<open>receive_connection_info\<close>.
\<close>

definition cd_launch ::
  "nat \<Rightarrow> 'w conductor_ops \<Rightarrow> (string \<Rightarrow> string) \<Rightarrow> ('w \<Rightarrow> int \<times> 'w) \<Rightarrow>
   ((string, pyval) dict \<Rightarrow> 'a conductor_proxy_scheme \<Rightarrow> 'w \<Rightarrow>
      (string, pyval) dict res \<times> 'a conductor_proxy_scheme \<times> 'w) \<Rightarrow>
   (string list \<Rightarrow> (string, pyval) dict option \<Rightarrow> 'w \<Rightarrow> int res \<times> 'w) \<Rightarrow>
   ('a conductor_proxy_scheme \<Rightarrow> 'w \<Rightarrow> bool res \<times> 'a conductor_proxy_scheme \<times> 'w) \<Rightarrow> string \<Rightarrow>
   (string, string) dict \<Rightarrow> (string, string) dict option \<Rightarrow> string option \<Rightarrow> string list \<Rightarrow>
   (string, pyval) dict \<Rightarrow> nat \<Rightarrow> 'a conductor_proxy_scheme \<Rightarrow> 'w \<Rightarrow>
   (unit res \<times> 'a conductor_proxy_scheme \<times> 'w) option" where
  "cd_launch max_poll_attempts ops url_unescape draw prepare popen receive local_ip environ kernel_headers
     kernel_dir kernel_cmd env fuel p w =
     (case bindE (prepare env p w) (\<lambda>env (p1, w1).
           bindE (obtain_credential ops url_unescape draw environ kernel_headers (p1\<lparr>cd_env := Some env\<rparr>) w1)
             (\<lambda>_ (p2, w2).
           bindE (with_run_script kernel_dir kernel_cmd, p2, w2) (\<lambda>cmd (p2, w2).
           bindE (update_launch_info ops p2 w2) (\<lambda>_ (p3, w3).
             case popen cmd (cd_env p3) w3 of (r, w4) \<Rightarrow> (r, p3, w4))))) of
        (Inl e, pw) \<Rightarrow> Some (Inl e, pw)
      | (Inr pid, p3, w4) \<Rightarrow>
          cd_confirm_startup max_poll_attempts ops receive fuel
            (p3\<lparr>local_proc := True, proxy_pid := pid, proxy_ip := Some local_ip\<rparr>) w4)"

section \<open>Process information\<close>

definition cd_get_process_info :: "'a conductor_proxy_scheme \<Rightarrow> (string, pyval) dict" where
  "cd_get_process_info p =
     dupdate (remote_get_process_info p)
       [(''application_id'', cd_application_id p), (''rest_credential'', cd_rest_credential p)]"

definition cd_load_process_info ::
  "((string, pyval) dict \<Rightarrow> 'a conductor_proxy_scheme \<Rightarrow> 'w \<Rightarrow> unit res \<times> 'a conductor_proxy_scheme \<times> 'w) \<Rightarrow>
   (string, pyval) dict \<Rightarrow> 'a conductor_proxy_scheme \<Rightarrow> 'w \<Rightarrow> unit res \<times> 'a conductor_proxy_scheme \<times> 'w" where
  "cd_load_process_info setup info p w =
     bindE (remote_load_process_info setup info p w) (\<lambda>_ (p1, w1).
       case dget info ''application_id'' of
         None \<Rightarrow> (Inl KeyError, p1, w1)
       | Some i \<Rightarrow>
           (let p2 = p1\<lparr>cd_application_id := i\<rparr> in
            case dget info ''rest_credential'' of
              None \<Rightarrow> (Inl KeyError, p2, w1)
            | Some c \<Rightarrow> (Inr (), p2\<lparr>cd_rest_credential := c\<rparr>, w1)))"


section \<open>Properties: a gateway that takes over\<close>

text \<open>
  C31: The driver id is not persisted.  A Conductor kernel that another gateway revives from its
  session has its application id and credential back, but without the driver's every poll
  answers that it is dead, and a kill never asks Conductor to end it.
\<close>

theorem revived_conductor_kernel_is_lost:
  assumes "tunneled_connect_info p = None" "truthy (cd_application_id p)"
  shows "\<exists>q'. cd_load_process_info setup (cd_get_process_info p) (cd_init config endpoint q) w = (Inr (), q', w) \<and>
    cd_application_id q' = cd_application_id p \<and> cd_rest_credential q' = cd_rest_credential p \<and>
    (\<forall>v. cd_poll ops q' v = (Inr (PBool False), q', v) \<and>
         kill_by_conductor m ops q' v = (Inr False, q', v))"
  using assms
  by (simp add: cd_load_process_info_def cd_get_process_info_def remote_load_process_info_def
      remote_get_process_info_def base_get_process_info_def base_load_process_info_def load_remote_fields_def
      as_int_def as_opt_str_def as_str_def opt_str_def cd_init_def Let_def cd_poll_def cd_get_application_id_def
      query_app_state_by_driver_id_def query_app_by_driver_id_def apps_to_visit_def in_states_def
      kill_by_conductor_def split: option.splits)

text \<open>The way from the application to its driver, meant for this case, is not taken by \<open>kill\<close>.\<close>

lemma driver_lookup_unreachable:
  "kill_by_conductor m ops p w = kill_by_conductor m (ops\<lparr>cd_run := f\<rparr>) p w" if "cd_driver_id p = PNone"
  using that by (simp add: kill_by_conductor_def)

section \<open>Properties: the end of a kernel\<close>

lemma cd_final_loop_spec:
  assumes "\<And>v. query v = (Inr (PStr (st v)), v)"
  shows "\<exists>j\<le>m. (\<forall>i<j. st ((sleep ^^ i) w) \<notin> set cd_final_states) \<and>
    (st ((sleep ^^ j) w) \<in> set cd_final_states \<or> j = m) \<and>
    cd_final_loop query sleep m (PStr (st w)) w =
      (Inr (st ((sleep ^^ j) w) \<in> set cd_final_states), (sleep ^^ j) w)"
proof (induction m arbitrary: w)
  case (Suc m)
  show ?case
  proof (cases "st w \<in> set cd_final_states")
    case False
    obtain j where j: "j \<le> m" "\<forall>i<j. st ((sleep ^^ i) (sleep w)) \<notin> set cd_final_states"
      "st ((sleep ^^ j) (sleep w)) \<in> set cd_final_states \<or> j = m"
      "cd_final_loop query sleep m (PStr (st (sleep w))) (sleep w) =
        (Inr (st ((sleep ^^ j) (sleep w)) \<in> set cd_final_states), (sleep ^^ j) (sleep w))"
      using Suc by blast
    have "\<forall>i<Suc j. st ((sleep ^^ i) w) \<notin> set cd_final_states"
      using j(2) False by (auto simp: less_Suc_eq_0_disj funpow_Suc_right simp del: funpow.simps(2))
    then show ?thesis
      using j False assms [of "sleep w"]
      by (intro exI [of _ "Suc j"]) (simp add: in_states_def funpow_Suc_right del: funpow.simps(2))
  qed (auto simp: in_states_def)
qed (simp add: in_states_def)

text \<open>
  \<open>kill\<close> asks Conductor to end the driver, queries its state until it is final or the
  attempts are used up, then sends the superclass's signals in either case; its answer tells
  whether a final state was seen.
\<close>

lemma conductor_kill_report:
  assumes "truthy (cd_driver_id p)" "kill_app_by_driver_id ops (cd_driver_id p) p w = (Inr response, p, w0)"
    and "\<And>v. query_app_state_by_driver_id ops (cd_driver_id p) p v = (Inr (PStr (st v)), v)"
    and "seen = (\<lambda>i. (po_sleep ops ^^ i) w0)"
  shows "\<exists>j\<le>m. (\<forall>i<j. st (seen i) \<notin> set cd_final_states) \<and>
    (st (seen j) \<in> set cd_final_states \<or> j = m) \<and>
    cd_kill m ops p w =
      bindE (inherited_kill m (proc_ops.truncate ops) (cd_poll ops) p (seen j))
        (\<lambda>_ pw. (Inr (if st (seen j) \<in> set cd_final_states then PNone else PBool False), pw))"
proof -
  let ?q = "query_app_state_by_driver_id ops (cd_driver_id p) p"
  obtain j where j: "j \<le> m" "\<forall>i<j. st (seen i) \<notin> set cd_final_states"
      "st (seen j) \<in> set cd_final_states \<or> j = m"
      "cd_final_loop ?q (po_sleep ops) m (PStr (st w0)) w0 = (Inr (st (seen j) \<in> set cd_final_states), seen j)"
    using cd_final_loop_spec [of ?q st m "po_sleep ops" w0, OF assms(3)] unfolding assms(4) by blast
  have "kill_by_conductor m ops p w = (Inr (st (seen j) \<in> set cd_final_states), p, seen j)"
    using assms(1-3) j(4) by (simp add: kill_by_conductor_def)
  with j(1-3) show ?thesis by (intro exI [of _ j]) (simp add: cd_kill_def)
qed

section \<open>Properties: the submission\<close>

text \<open>The quoted text after the colon of the line that names the submission.\<close>

lemma quoted_parts_first:
  assumes "QUOTE \<notin> set a" "QUOTE \<notin> set i"
  shows "\<exists>ms. quoted_parts (a @ QUOTE # i @ QUOTE # b) = i # ms"
proof -
  have drop: "dropWhile (\<lambda>c. c \<noteq> QUOTE) (x @ QUOTE # y) = QUOTE # y" if "QUOTE \<notin> set x" for x y
    using that by (induction x) auto
  have take: "takeWhile (\<lambda>c. c \<noteq> QUOTE) (i @ QUOTE # b) = i"
    using assms(2) by (induction i) auto
  show ?thesis
    by (subst quoted_parts.simps) (simp add: drop [OF assms(1)] drop [OF assms(2)] take)
qed

text \<open>The id the launcher reports is the driver's, whatever other lines say.\<close>

lemma submission_id_recorded:
  assumes "filter (contains ''submissionId'') (split_on [CHR 0x0A] response) = (pre @ '':'' @ a @ QUOTE # i @ QUOTE # b) # others"
    and "CHR '':'' \<notin> set pre" "CHR '':'' \<notin> set (a @ QUOTE # i @ QUOTE # b)" "QUOTE \<notin> set a" "QUOTE \<notin> set i"
  shows "parse_driver_submission_id response p =
    (if list_ex (contains ''Application submission failed'') (split_on [CHR 0x0A] response)
     then Inl (HTTPError 500) else Inr (), p\<lparr>cd_driver_id := PStr i\<rparr>)"
proof -
  have ne: "response \<noteq> []" using assms(1) by (auto simp: split_on_def)
  have "split_on [CHR '':''] (join [CHR '':''] [pre, a @ QUOTE # i @ QUOTE # b]) = [pre, a @ QUOTE # i @ QUOTE # b]"
    by (rule split_join_char) (use assms(2,3) in auto)
  moreover obtain ms where "quoted_parts (a @ QUOTE # i @ QUOTE # b) = i # ms"
    using quoted_parts_first [OF assms(4,5)] by blast
  ultimately show ?thesis using assms(1) ne by (simp add: parse_driver_submission_id_def Let_def)
qed

text \<open>A launch whose submission failed is reported in the first pass, before any query.\<close>

lemma failed_submission_reported:
  assumes "local_proc p" "cd_current_time ops w = (now, w1)" "cd_read_stderr ops w1 = (Inr bytes, w2)"
    and "utf8_decode bytes = Some response" "fst (parse_driver_submission_id response (p\<lparr>cd_start_time := Some now\<rparr>)) = Inl e"
  shows "\<exists>p'. cd_confirm_startup m ops receive (Suc n) p w = Some (Inl e, p', w2)"
proof -
  obtain p' where "parse_driver_submission_id response (p\<lparr>cd_start_time := Some now\<rparr>) = (Inl e, p')"
    using assms(5) by (metis prod.collapse)
  with assms show ?thesis by (simp add: cd_confirm_startup_def cd_pass_start_def read_submission_def)
qed

section \<open>Properties: the hosts of the log-on\<close>

lemma find_from_skip: "c \<notin> set x \<Longrightarrow> find_from i (c # cs) (x @ c # cs @ y) = i + int (length x)"
  by (induction x arbitrary: i) (auto simp: startswith_iff)

lemma rfind_from_none: "c \<notin> set x \<Longrightarrow> rfind_from f i c x = f"
  by (induction x arbitrary: f i) auto

lemma rfind_from_last: "c \<notin> set y \<Longrightarrow> rfind_from f i c (x @ c # y) = i + int (length x)"
  by (induction x arbitrary: f i) (auto simp: rfind_from_none)

text \<open>An address: scheme, host, port and path.\<close>

definition address :: "string \<Rightarrow> string \<Rightarrow> string \<Rightarrow> string" where
  "address scheme host rest = scheme @ ''://'' @ host @ '':'' @ rest"

lemma with_host_address:
  assumes "CHR '':'' \<notin> set scheme" "CHR '':'' \<notin> set rest"
  shows "with_host (address scheme host rest) HA = address scheme HA rest"
proof -
  have f: "str_find (address scheme host rest) ''://'' = int (length scheme)"
    using find_from_skip [OF assms(1), of 0 "''//''"] by (simp add: str_find_def address_def)
  have "rfind_from (- 1) 0 (CHR '':'') ((scheme @ ''://'' @ host) @ CHR '':'' # rest) =
      int (length (scheme @ ''://'' @ host))"
    by (subst rfind_from_last [OF assms(2)]) simp
  then have r: "str_rfind (address scheme host rest) (CHR '':'') = int (length (scheme @ ''://'' @ host))"
    by (simp add: str_rfind_def address_def)
  have "py_slice (address scheme host rest) 0 (int (length scheme) + 3) = scheme @ ''://''"
    by (simp add: py_slice_def py_index_def address_def nat_add_distrib)
  moreover have "py_slice_from (address scheme host rest) (int (length (scheme @ ''://'' @ host))) = '':'' @ rest"
    by (simp add: py_slice_from_def py_index_def address_def nat_add_distrib numeral_3_eq_3)
  ultimately show ?thesis unfolding with_host_def f r by (simp add: address_def)
qed

definition answered ::
  "'w conductor_ops \<Rightarrow> string list \<Rightarrow> (string \<Rightarrow> string) \<Rightarrow> (string \<Rightarrow> string) \<Rightarrow> (string \<Rightarrow> 'w \<Rightarrow> 'w) \<Rightarrow> bool" where
  "answered ops cmd out err visit \<longleftrightarrow>
     (\<forall>u w. cd_run_text ops (cmd @ [u]) w = (Inr (out u, err u), visit u w))"

text \<open>
  A call of the log-on tries the endpoint's own host and then the alternatives in their
  order, at the same scheme, port and path; it answers what the first host that could be
  reached printed and contacts none after it, and raises when no host could be reached.
\<close>

lemma ascd_hosts_in_order:
  assumes "CHR '':'' \<notin> set scheme" "CHR '':'' \<notin> set rest" "answered ops cmd out err visit"
    and "\<forall>h\<in>set unreached. \<not> reached (err (address scheme h rest))"
  shows "perform_rest_call ops (cmd @ [u]) (address scheme h0 rest) unreached w =
      (Inl (HTTPError 500), fold (\<lambda>h. visit (address scheme h rest)) unreached w) \<and>
    (reached (err (address scheme h rest)) \<longrightarrow>
     perform_rest_call ops (cmd @ [u]) (address scheme h0 rest) (unreached @ h # others) w =
      (Inr (out (address scheme h rest)),
       fold (\<lambda>h. visit (address scheme h rest)) (unreached @ [h]) w))"
  using assms(4)
proof (induction unreached arbitrary: u h0 w)
  case Nil
  then show ?case
    using assms(3) by (simp add: with_host_address [OF assms(1,2)] answered_def Let_def)
next
  case (Cons x xs)
  have *: "perform_rest_call ops (cmd @ [u]) (address scheme h0 rest) (x # ys) w =
      perform_rest_call ops (cmd @ [address scheme x rest]) (address scheme x rest) ys (visit (address scheme x rest) w)" for ys
    using Cons.prems assms(3) by (simp add: with_host_address [OF assms(1,2)] answered_def Let_def)
  show ?case
    using Cons by (simp only: append_Cons *) simp
qed

text \<open>Without a port the address is torn apart at the colon of its scheme.\<close>

lemma no_port_tears_address:
  "with_host ''https://ascd/auth'' ''h2'' = ''https://h2://ascd/auth''"
  by code_simp

section \<open>Properties: what Conductor does not answer\<close>

text \<open>
  An instance group that is not found is meant to be skipped with a warning; the code goes on
  to read the answer it has just set to \<open>None\<close>, so the launch fails with a type error.
\<close>

lemma missing_instance_group_raises:
  assumes "cd_env p = Some env"
    and "\<forall>k\<in>{''KERNEL_NOTEBOOK_DATA_DIR'', ''KERNEL_NOTEBOOK_COOKIE_JAR'', ''KERNEL_CURL_SECURITY_OPT'',
         ''CONDUCTOR_REST_URL'', ''KERNEL_SIG_ID'', ''KERNEL_NOTEBOOK_MASTER_REST''}. dhas env k"
    and "instance_group_cmd p = Inr cmd" "run_json ops cmd w = (Inr (PList []), w1)"
  shows "update_notebook_master_rest_url ops p w = (Inl TypeError, p, w1)"
  using assms
  by (simp add: update_notebook_master_rest_url_def cd_env_has_def usable_instance_group_def master_urls_def
      py_first_def)

text \<open>An answer without a list of applications is itself taken for the list: its keys are visited.\<close>

lemma answer_taken_for_list:
  "rbind (apps_to_visit (answered_apps (PDict [(''state'', PStr ''unknown'')]))) (\<lambda>xs. last_state xs PNone) =
     Inl TypeError"
proof -
  have "contains ''state'' ''state''" by code_simp
  then show ?thesis by (simp add: apps_to_visit_def answered_apps_def state_or_def)
qed

section \<open>A cluster with one driver\<close>

text \<open>Every request to kill counts \<open>ds_alive\<close> down; at zero the application is killed.\<close>

definition demo_answer :: "string \<Rightarrow> pyval" where
  "demo_answer state = PDict [(''applist'', PList [PDict [(''state'', PStr state)]])]"

definition demo_conductor_ops :: "demo_sys conductor_ops" where
  "demo_conductor_ops = remote_ops.extend demo_remote_ops
     \<lparr>cd_run = (\<lambda>cmd s.
        if ''POST'' \<in> set cmd then (Inr [], s\<lparr>ds_alive := ds_alive s - 1\<rparr>)
        else (Inr (utf8_encode (json_dumps (demo_answer (if ds_alive s > 0 then ''RUNNING'' else ''KILLED'')))), s)),
      cd_run_text = (\<lambda>cmd s. (Inr (''token'',
        if contains ''//h1:'' (last cmd) then ''Connection refused'' else []), s\<lparr>ds_slept := ds_slept s + 1\<rparr>)),
      cd_read_stderr = (\<lambda>s. (Inr [], s)), cd_gethostbyname = (\<lambda>h s. (Inr ''10.0.0.7'', s)),
      cd_current_time = (\<lambda>s. (1000 * (int (500 * ds_slept s) div 1000), s)), cd_setenv = (\<lambda>k v s. s)\<rparr>"

definition demo_conductor :: conductor_proxy where
  "demo_conductor = remote_proxy.extend demo_remote
     \<lparr>cd_start_time = Some 0, cd_launch_timeout = 30, cd_application_id = PStr ''app-1'',
      cd_driver_id = PStr ''driver-1'',
      cd_env = Some [(''KERNEL_NOTEBOOK_DATA_DIR'', PStr ''/data''), (''KERNEL_NOTEBOOK_COOKIE_JAR'', PStr ''jar''),
        (''KERNEL_CURL_SECURITY_OPT'', PStr ''-k'')],
      cd_rest_credential = PStr ''cred'', cd_jwt_token = PNone, conductor_endpoint = PStr ''http://c:1'',
      ascd_endpoint = PStr ''http://c:1''\<rparr>"

lemma demo_conductor_ops_simps [simp]:
  "cd_run demo_conductor_ops cmd s =
     (if ''POST'' \<in> set cmd then (Inr [], s\<lparr>ds_alive := ds_alive s - 1\<rparr>)
      else (Inr (utf8_encode (json_dumps (demo_answer (if ds_alive s > 0 then ''RUNNING'' else ''KILLED'')))), s))"
  "cd_run_text demo_conductor_ops cmd s = (Inr (''token'',
     if contains ''//h1:'' (last cmd) then ''Connection refused'' else []), s\<lparr>ds_slept := ds_slept s + 1\<rparr>)"
  "po_sleep demo_conductor_ops s = s\<lparr>ds_slept := ds_slept s + 1\<rparr>"
  by (simp_all add: demo_conductor_ops_def demo_remote_ops_def demo_ops_def remote_ops.extend_def proc_ops.extend_def)

lemma demo_conductor_simps [simp]:
  "cd_application_id demo_conductor = PStr ''app-1''" "cd_driver_id demo_conductor = PStr ''driver-1''"
  "cd_rest_credential demo_conductor = PStr ''cred''" "conductor_endpoint demo_conductor = PStr ''http://c:1''"
  "cd_env demo_conductor = Some [(''KERNEL_NOTEBOOK_DATA_DIR'', PStr ''/data''),
     (''KERNEL_NOTEBOOK_COOKIE_JAR'', PStr ''jar''), (''KERNEL_CURL_SECURITY_OPT'', PStr ''-k'')]"
  "tunneled_connect_info demo_conductor = None"
  by (simp_all add: demo_conductor_def demo_remote_def remote_proxy.extend_def)

lemma run_json_answer:
  assumes "json_wf v" "json_dumps v \<noteq> []" "cd_run ops cmd w = (Inr (utf8_encode (json_dumps v)), w')"
  shows "run_json ops cmd w = (Inr v, w')"
proof -
  have "utf8_encode s \<noteq> []" if "s \<noteq> []" for s using that by (cases s) auto
  with assms show ?thesis by (simp add: run_json_def json_loads_dumps)
qed

lemma demo_cmd: "conductor_cmd verb path (PStr ''driver-1'') demo_conductor =
   Inr (curl_cmd [''-k''] ''-b'' ''/data/jar'' verb ''Authorization: cred'' (''http://c:1'' @ path @ ''driver-1''))"
proof -
  have "path_join ''/data'' ''jar'' = ''/data/jar''" "split_ws ''-k'' = [''-k'']" "startswith ''jar'' ''/'' = False"
    by code_simp+
  then show ?thesis
    by (simp add: conductor_cmd_def cookie_and_ssl_def cd_env_item_def pjoin_def as_str_def str_method_def)
qed

lemma demo_state:
  "query_app_state_by_driver_id demo_conductor_ops (PStr ''driver-1'') demo_conductor s =
     (Inr (PStr (if ds_alive s > 0 then ''RUNNING'' else ''KILLED'')), s)"
proof -
  let ?v = "demo_answer (if ds_alive s > 0 then ''RUNNING'' else ''KILLED'')"
  have "''POST'' \<notin> set (curl_cmd [''-k''] ''-b'' ''/data/jar'' ''GET'' ''Authorization: cred''
      (''http://c:1'' @ ''/v1/applications?driverid='' @ ''driver-1''))"
    by (simp add: curl_cmd_def)
  then have "run_json demo_conductor_ops (curl_cmd [''-k''] ''-b'' ''/data/jar'' ''GET'' ''Authorization: cred''
      (''http://c:1'' @ ''/v1/applications?driverid='' @ ''driver-1'')) s = (Inr ?v, s)"
    by (intro run_json_answer) (simp_all add: demo_answer_def)
  then show ?thesis
    by (simp add: query_app_state_by_driver_id_def query_app_by_driver_id_def demo_cmd apps_to_visit_def
        answered_apps_def demo_answer_def state_or_def dhas_def)
qed

lemma demo_kill_app:
  "kill_app_by_driver_id demo_conductor_ops (PStr ''driver-1'') demo_conductor s =
     (Inr PNone, demo_conductor, s\<lparr>ds_alive := ds_alive s - 1\<rparr>)"
  by (simp add: kill_app_by_driver_id_def demo_cmd run_json_def curl_cmd_def)

lemma conductor_kill_report_witness:
  "cd_kill 10 demo_conductor_ops demo_conductor \<lparr>ds_alive = 1, ds_log = [], ds_slept = 0\<rparr> =
     bindE (inherited_kill 10 (proc_ops.truncate demo_conductor_ops) (cd_poll demo_conductor_ops) demo_conductor
       \<lparr>ds_alive = 0, ds_log = [], ds_slept = 0\<rparr>) (\<lambda>_ pw. (Inr PNone, pw))"
  using conductor_kill_report [of demo_conductor demo_conductor_ops "\<lparr>ds_alive = 1, ds_log = [], ds_slept = 0\<rparr>"
      PNone "\<lparr>ds_alive = 0, ds_log = [], ds_slept = 0\<rparr>" "\<lambda>s. if ds_alive s > 0 then ''RUNNING'' else ''KILLED''" _ 10,
      OF _ _ _ refl]
  by (auto simp: demo_state demo_kill_app cd_final_states_def split: if_splits dest: spec [of _ 0])

lemma revived_conductor_kernel_is_lost_witness:
  "\<exists>q'. cd_load_process_info (\<lambda>d p s. (Inr (), p, s)) (cd_get_process_info demo_conductor)
      (cd_init [] (PStr ''http://c:1'') demo_conductor) \<lparr>ds_alive = 1, ds_log = [], ds_slept = 0\<rparr> =
     (Inr (), q', \<lparr>ds_alive = 1, ds_log = [], ds_slept = 0\<rparr>) \<and> cd_application_id q' = PStr ''app-1'' \<and>
    cd_poll demo_conductor_ops q' \<lparr>ds_alive = 1, ds_log = [], ds_slept = 0\<rparr> =
      (Inr (PBool False), q', \<lparr>ds_alive = 1, ds_log = [], ds_slept = 0\<rparr>)"
  using revived_conductor_kernel_is_lost [of demo_conductor "\<lambda>d p s. (Inr (), p, s)" "[]" "PStr ''http://c:1''"
      demo_conductor "\<lparr>ds_alive = 1, ds_log = [], ds_slept = 0\<rparr>" demo_conductor_ops 10]
  by fastforce

lemma ascd_hosts_in_order_witness:
  "perform_rest_call demo_conductor_ops [''curl'', ''u''] (address ''http'' ''c'' ''1/auth'') [''h1'', ''h2'', ''h3'']
     \<lparr>ds_alive = 1, ds_log = [], ds_slept = 0\<rparr> = (Inr ''token'', \<lparr>ds_alive = 1, ds_log = [], ds_slept = 2\<rparr>)"
proof -
  have r: "\<not> reached (if contains ''//h1:'' (address ''http'' ''h1'' ''1/auth'') then ''Connection refused'' else [])"
    "reached (if contains ''//h1:'' (address ''http'' ''h2'' ''1/auth'') then ''Connection refused'' else [])"
    by code_simp+
  show ?thesis
    using ascd_hosts_in_order [of "''http''" "''1/auth''" demo_conductor_ops "[''curl'']" "\<lambda>u. ''token''"
      "\<lambda>u. if contains ''//h1:'' u then ''Connection refused'' else []" "\<lambda>u s. s\<lparr>ds_slept := ds_slept s + 1\<rparr>"
      "[''h1'']" "''u''" "''c''" "\<lparr>ds_alive = 1, ds_log = [], ds_slept = 0\<rparr>" "''h2''" "[''h3'']"] r
    by (simp add: answered_def)
qed

end
