(* ===== verification/KernelIds.thy ===== *)
theory KernelIds
  imports KernelSessions
begin

unbundle bit_operations_syntax

text \<open>
  The id of a new kernel: \<open>new_kernel_id\<close> of services/kernels/remotemanager.py and the part
  of the standard library's \<open>uuid.UUID(hex, version=4)\<close> it validates client ids with.
\<close>

section \<open>uuid.UUID\<close>

definition hex_value :: "char \<Rightarrow> int option" where
  "hex_value c =
     (let n = code c in
      if 48 \<le> n \<and> n \<le> 57 then Some (int n - 48)
      else if 97 \<le> n \<and> n \<le> 102 then Some (int n - 87)
      else if 65 \<le> n \<and> n \<le> 70 then Some (int n - 55)
      else None)"

fun hex_digits :: "bool \<Rightarrow> int \<Rightarrow> string \<Rightarrow> int option" where
  "hex_digits seen acc [] = (if seen then Some acc else None)"
| "hex_digits seen acc (c # cs) =
     (case hex_value c of
        Some d \<Rightarrow> hex_digits True (16 * acc + d) cs
      | None \<Rightarrow> if c = CHR ''_'' \<and> seen then hex_digits False acc cs else None)"

text \<open>\<open>int(s, 16)\<close>: white space around, a sign, the prefix \<open>0x\<close> with an underscore behind it.\<close>

definition hex_body :: "string \<Rightarrow> int option" where
  "hex_body s =
     (if startswith s ''0x'' \<or> startswith s ''0X''
      then hex_digits False 0 (if startswith (drop 2 s) ''_'' then drop 3 s else drop 2 s)
      else hex_digits False 0 s)"

definition py_int_hex :: "string \<Rightarrow> int option" where
  "py_int_hex s =
     (case strip s of
        [] \<Rightarrow> None
      | c # cs \<Rightarrow>
          if c = CHR ''-'' then map_option uminus (hex_body cs)
          else if c = CHR ''+'' then hex_body cs
          else hex_body (c # cs))"

definition strip_chars :: "string \<Rightarrow> string \<Rightarrow> string" where
  "strip_chars cs s =
     rev (dropWhile (\<lambda>c. c \<in> set cs) (rev (dropWhile (\<lambda>c. c \<in> set cs) s)))"

text \<open>The variant and the version are forced into the number.\<close>

definition uuid_v4 :: "int \<Rightarrow> int" where
  "uuid_v4 i =
     (let i1 = i AND NOT (push_bit 48 0xc000); i2 = i1 OR push_bit 48 0x8000;
          i3 = i2 AND NOT (push_bit 64 0xf000) in
      i3 OR push_bit 76 4)"

definition uuid_of_hex :: "string \<Rightarrow> int res" where
  "uuid_of_hex s =
     (let hex = replace ''-'' [] (strip_chars ''{}'' (replace ''uuid:'' [] (replace ''urn:'' [] s))) in
      if length hex \<noteq> 32 then Inl ValueError
      else case py_int_hex hex of
        None \<Rightarrow> Inl ValueError
      | Some i \<Rightarrow> if 0 \<le> i \<and> i < 2 ^ 128 then Inr (uuid_v4 i) else Inl ValueError)"

definition nibble :: "int \<Rightarrow> nat \<Rightarrow> int" where
  "nibble i k = take_bit 4 (drop_bit (4 * k) i)"

definition hex_char :: "int \<Rightarrow> char" where
  "hex_char d = ''0123456789abcdef'' ! nat d"

text \<open>\<open>'%032x' % i\<close> for a number of 128 bits, and the string with its hyphens.\<close>

definition hex32 :: "int \<Rightarrow> string" where
  "hex32 i = map (\<lambda>k. hex_char (nibble i k)) (rev [0..<32])"

definition uuid_str :: "int \<Rightarrow> string" where
  "uuid_str i =
     (let hex = hex32 i in
      join ''-'' [take 8 hex, take 4 (drop 8 hex), take 4 (drop 12 hex), take 4 (drop 16 hex), drop 20 hex])"

section \<open>new_kernel_id\<close>

text \<open>\<open>kernel_id_fn\<close> is the generator of ids; an empty id counts as none.\<close>

definition new_kernel_id :: "(unit \<Rightarrow> string) \<Rightarrow> launch_args \<Rightarrow> string res" where
  "new_kernel_id kernel_id_fn kw =
     (case la_env kw of
        None \<Rightarrow> Inr (kernel_id_fn ())
      | Some env \<Rightarrow>
          (case dget env ''KERNEL_ID'' of
             None \<Rightarrow> Inr (kernel_id_fn ())
           | Some str_kernel_id \<Rightarrow>
               if str_kernel_id = [] then Inr (kernel_id_fn ())
               else rbind (uuid_of_hex str_kernel_id) (\<lambda>u.
                 if str_kernel_id \<noteq> uuid_str u then Inl ValueError else Inr str_kernel_id)))"

section \<open>Nibbles\<close>

lemma nibble_bound: "0 \<le> nibble i k" "nibble i k < 16"
  using take_bit_int_less_exp [of 4 "drop_bit (4 * k) i"] by (simp_all add: nibble_def)

lemma bit_one_at: "bit (push_bit m (1 :: int)) n \<longleftrightarrow> n = m"
  unfolding bit_push_bit_iff_int bit_1_iff by auto

lemma bit_masks [simp]:
  "bit (push_bit 48 (0xc000 :: int)) n \<longleftrightarrow> n = 62 \<or> n = 63"
  "bit (push_bit 48 (0x8000 :: int)) n \<longleftrightarrow> n = 63"
  "bit (push_bit 64 (0xf000 :: int)) n \<longleftrightarrow> 76 \<le> n \<and> n < 80"
  "bit (push_bit 76 (4 :: int)) n \<longleftrightarrow> n = 78"
  "bit (8 :: int) n \<longleftrightarrow> n = 3"
  "bit (4 :: int) n \<longleftrightarrow> n = 2"
proof -
  have f: "push_bit 48 (0xc000 :: int) = push_bit 62 (mask 2)" "push_bit 48 (0x8000 :: int) = push_bit 63 1"
    "push_bit 64 (0xf000 :: int) = push_bit 76 (mask 4)" "push_bit 76 (4 :: int) = push_bit 78 1"
    "(8 :: int) = push_bit 3 1" "(4 :: int) = push_bit 2 1"
    by (simp_all add: push_bit_eq_mult mask_eq_exp_minus_1)
  show "bit (push_bit 48 (0xc000 :: int)) n \<longleftrightarrow> n = 62 \<or> n = 63"
    unfolding f bit_push_bit_iff_int bit_mask_iff by auto
  show "bit (push_bit 64 (0xf000 :: int)) n \<longleftrightarrow> 76 \<le> n \<and> n < 80"
    unfolding f bit_push_bit_iff_int bit_mask_iff by auto
  show "bit (push_bit 48 (0x8000 :: int)) n \<longleftrightarrow> n = 63" unfolding f(2) by (rule bit_one_at)
  show "bit (push_bit 76 (4 :: int)) n \<longleftrightarrow> n = 78" unfolding f(4) by (rule bit_one_at)
  show "bit (8 :: int) n \<longleftrightarrow> n = 3" unfolding f(5) by (rule bit_one_at)
  show "bit (4 :: int) n \<longleftrightarrow> n = 2" unfolding f(6) by (rule bit_one_at)
qed

lemma bit_uuid_v4:
  "bit (uuid_v4 i) n \<longleftrightarrow>
     (if n = 62 then False else if n = 63 then True
      else if 76 \<le> n \<and> n < 80 then n = 78 else bit i n)"
  unfolding uuid_v4_def Let_def bit_or_iff bit_and_iff bit_not_iff bit_masks by auto

lemma nibble_uuid_v4:
  "nibble (uuid_v4 i) k =
     (if k = 15 then take_bit 2 (nibble i k) OR 8 else if k = 19 then 4 else nibble i k)"
proof (rule bit_eqI)
  fix n
  consider "k = 15" | "k = 19" | "k \<noteq> 15" "k \<noteq> 19" by blast
  then show "bit (nibble (uuid_v4 i) k) n \<longleftrightarrow>
      bit (if k = 15 then take_bit 2 (nibble i k) OR 8 else if k = 19 then 4 else nibble i k) n"
  proof cases
    case 1
    then show ?thesis by (auto simp: nibble_def bit_simps bit_uuid_v4)
  next
    case 2
    then show ?thesis by (auto simp: nibble_def bit_simps bit_uuid_v4)
  next
    case 3
    then show ?thesis by (auto simp: nibble_def bit_simps bit_uuid_v4)
  qed
qed

lemma nibble_eq: "nibble i k = i div 16 ^ k mod 16"
  by (simp add: nibble_def take_bit_eq_mod drop_bit_eq_div power_mult)

section \<open>Canonical ids\<close>

text \<open>
  The specification: lower case hexadecimal digits in groups of 8, 4, 4, 4 and 12, the version
  digit 4, and a variant digit of RFC 4122.
\<close>

definition hexes :: string where
  "hexes = ''0123456789abcdef''"

definition v4_pattern :: "string list" where
  "v4_pattern =
     replicate 8 hexes @ [''-''] @ replicate 4 hexes @ [''-''] @ [''4''] @ replicate 3 hexes @ [''-'']
     @ [''89ab''] @ replicate 3 hexes @ [''-''] @ replicate 12 hexes"

definition canonical_v4 :: "string \<Rightarrow> bool" where
  "canonical_v4 s \<longleftrightarrow> list_all2 (\<lambda>cs c. c \<in> set cs) v4_pattern s"

lemma list_all2_replicate:
  "list_all2 (\<lambda>cs c. c \<in> set cs) (replicate n q) s \<longleftrightarrow> length s = n \<and> set s \<subseteq> set q"
proof (induction n arbitrary: s)
  case (Suc n)
  then show ?case by (cases s) auto
qed auto

lemma hex_chars_checked:
  "list_all (\<lambda>c. (case hex_value c of Some d \<Rightarrow> hex_char d = c \<and> 0 \<le> d \<and> d < 16 | None \<Rightarrow> False)
     \<and> \<not> is_space c \<and> c \<noteq> CHR ''-'' \<and> c \<noteq> CHR ''+'' \<and> c \<noteq> CHR ''_'' \<and> c \<noteq> CHR ''x'' \<and> c \<noteq> CHR ''X''
     \<and> c \<noteq> CHR '':'' \<and> c \<noteq> CHR ''{'' \<and> c \<noteq> CHR ''}'') hexes"
  by code_simp

definition hexv :: "char \<Rightarrow> int" where
  "hexv c = (case hex_value c of Some d \<Rightarrow> d | None \<Rightarrow> 0)"

lemma hexes_props:
  assumes "c \<in> set hexes"
  shows "hex_value c = Some (hexv c)" "hex_char (hexv c) = c" "0 \<le> hexv c" "hexv c < 16"
    "\<not> is_space c" "c \<notin> set ''-+_xX:{}''"
proof -
  note c = hex_chars_checked [unfolded list_all_iff, THEN bspec, OF assms]
  then obtain d where "hex_value c = Some d" by (cases "hex_value c") simp_all
  with c show "hex_value c = Some (hexv c)" "hex_char (hexv c) = c" "0 \<le> hexv c" "hexv c < 16"
    "\<not> is_space c" by (simp_all add: hexv_def)
  show "c \<notin> set ''-+_xX:{}''" using c by simp
qed

lemma hex_char_mem:
  assumes "0 \<le> d" "d < 16"
  shows "hex_char d \<in> set hexes"
proof -
  have "nat d < length hexes" using assms by (simp add: hexes_def)
  then show ?thesis unfolding hex_char_def hexes_def by (rule nth_mem)
qed

lemma rev_32: "rev [0..<32] = [31, 30, 29, 28, 27, 26, 25, 24, 23, 22, 21, 20, 19, 18, 17, 16,
    15, 14, 13, 12, 11, 10, 9, 8, 7, 6, 5, 4, 3, 2, 1, 0 :: nat]"
  by code_simp

lemma variant_digit:
  "hex_char (take_bit 2 (i :: int) OR 8) \<in> set ''89ab''"
proof -
  define j where "j = take_bit 2 i"
  have "0 \<le> j" "j < 4" using take_bit_int_less_exp [of 2 i] by (simp_all add: j_def)
  then have "j = 0 \<or> j = 1 \<or> j = 2 \<or> j = 3" by arith
  moreover have "list_all (\<lambda>j :: int. hex_char (j OR 8) \<in> set ''89ab'') [0, 1, 2, 3]" by code_simp
  ultimately show ?thesis unfolding j_def [symmetric] by (elim disjE) simp_all
qed

lemma variant_kept: "c \<in> set ''89ab'' \<Longrightarrow> take_bit 2 (hexv c) OR 8 = hexv c"
proof -
  have "list_all (\<lambda>c. take_bit 2 (hexv c) OR 8 = hexv c) ''89ab''" by code_simp
  then show "c \<in> set ''89ab'' \<Longrightarrow> ?thesis" unfolding list_all_iff by (rule bspec)
qed

lemma uuid_str_canonical: "canonical_v4 (uuid_str (uuid_v4 i))"
proof -
  have h: "hex_char (nibble j k) \<in> set hexes" for j k by (intro hex_char_mem nibble_bound)
  have "hex_char 4 = CHR ''4''" by code_simp
  then have n: "hex_char (nibble (uuid_v4 i) 19) = CHR ''4''" "hex_char (nibble (uuid_v4 i) 15) \<in> set ''89ab''"
    using variant_digit by (simp_all add: nibble_uuid_v4)
  define D where "D k = hex_char (nibble (uuid_v4 i) k)" for k
  have D: "D k \<in> set hexes" "D 19 = CHR ''4''" "D 15 \<in> set ''89ab''" for k
    using n h by (simp_all add: D_def)
  have "hex32 (uuid_v4 i) = map D (rev [0..<32])" by (simp add: hex32_def D_def)
  then show ?thesis
    using D by (simp add: uuid_str_def Let_def rev_32 canonical_v4_def v4_pattern_def numeral_eq_Suc)
qed

lemma group_elim:
  assumes "list_all2 (\<lambda>cs c. c \<in> set cs) (replicate n q @ [q'] @ rest) s"
  obtains u x t where "s = u @ x # t" "length u = n" "set u \<subseteq> set q" "x \<in> set q'"
    "list_all2 (\<lambda>cs c. c \<in> set cs) rest t"
proof -
  from assms obtain u s' where "s = u @ s'" "list_all2 (\<lambda>cs c. c \<in> set cs) (replicate n q) u"
    "list_all2 (\<lambda>cs c. c \<in> set cs) ([q'] @ rest) s'"
    unfolding list_all2_append1 by blast
  then show ?thesis using that by (cases s') (simp_all add: list_all2_replicate)
qed

lemma canonical_groups:
  assumes "canonical_v4 s"
  obtains a b c v d e where "s = join ''-'' [a, b, CHR ''4'' # c, v # d, e]"
    "length a = 8" "length b = 4" "length c = 3" "length d = 3" "length e = 12"
    "set a \<union> set b \<union> set c \<union> set d \<union> set e \<subseteq> set hexes" "v \<in> set ''89ab''"
proof -
  note p = assms [unfolded canonical_v4_def v4_pattern_def]
  obtain a s1 h1 where 1: "s = a @ h1 # s1" "length a = 8" "set a \<subseteq> set hexes" "h1 \<in> set ''-''"
    and p1: "list_all2 (\<lambda>cs c. c \<in> set cs) (replicate 4 hexes @ [''-''] @ [''4''] @ replicate 3 hexes @ [''-'']
        @ [''89ab''] @ replicate 3 hexes @ [''-''] @ replicate 12 hexes) s1"
    using p by (rule group_elim)
  obtain b s2 h2 where 2: "s1 = b @ h2 # s2" "length b = 4" "set b \<subseteq> set hexes" "h2 \<in> set ''-''"
    and p2: "list_all2 (\<lambda>cs c. c \<in> set cs) ([''4''] @ replicate 3 hexes @ [''-'']
        @ [''89ab''] @ replicate 3 hexes @ [''-''] @ replicate 12 hexes) s2"
    using p1 by (rule group_elim)
  obtain f s3 where 3: "s2 = f # s3" "f \<in> set ''4''"
    and p3: "list_all2 (\<lambda>cs c. c \<in> set cs) (replicate 3 hexes @ [''-'']
        @ [''89ab''] @ replicate 3 hexes @ [''-''] @ replicate 12 hexes) s3"
    using p2 unfolding append_Cons append_Nil list_all2_Cons1 by blast
  obtain c s4 h4 where 4: "s3 = c @ h4 # s4" "length c = 3" "set c \<subseteq> set hexes" "h4 \<in> set ''-''"
    and p4: "list_all2 (\<lambda>cs c. c \<in> set cs) ([''89ab''] @ replicate 3 hexes @ [''-''] @ replicate 12 hexes) s4"
    using p3 by (rule group_elim)
  obtain v s5 where 5: "s4 = v # s5" "v \<in> set ''89ab''"
    and p5: "list_all2 (\<lambda>cs c. c \<in> set cs) (replicate 3 hexes @ [''-''] @ replicate 12 hexes) s5"
    using p4 unfolding append_Cons append_Nil list_all2_Cons1 by blast
  obtain d e h6 where 6: "s5 = d @ h6 # e" "length d = 3" "set d \<subseteq> set hexes" "h6 \<in> set ''-''"
    and p6: "list_all2 (\<lambda>cs c. c \<in> set cs) (replicate 12 hexes) e"
    using p5 by (rule group_elim)
  have hs: "h1 = CHR ''-''" "h2 = CHR ''-''" "h4 = CHR ''-''" "h6 = CHR ''-''" "f = CHR ''4''"
    using 1(4) 2(4) 3(2) 4(4) 6(4) by simp_all
  have "length e = 12" "set e \<subseteq> set hexes" using p6 unfolding list_all2_replicate by simp_all
  moreover have "s = join ''-'' [a, b, CHR ''4'' # c, v # d, e]"
    unfolding 1(1) 2(1) 3(1) 4(1) 5(1) 6(1) hs by simp
  ultimately show ?thesis
    using that [of a b c v d e] 1(2,3) 2(2,3) 4(2,3) 5(2) 6(2,3) by blast
qed

section \<open>Reading a canonical id\<close>

definition horner :: "string \<Rightarrow> int" where
  "horner h = foldl (\<lambda>a c. 16 * a + hexv c) 0 h"

lemma hex_digits_horner:
  "set h \<subseteq> set hexes \<Longrightarrow> h \<noteq> [] \<or> seen \<Longrightarrow>
   hex_digits seen acc h = Some (foldl (\<lambda>a c. 16 * a + hexv c) acc h)"
  by (induction h arbitrary: seen acc) (auto simp: hexes_props)

lemma horner_bounds:
  "set h \<subseteq> set hexes \<Longrightarrow> 0 \<le> horner h \<and> horner h < 16 ^ length h"
proof (induction h rule: rev_induct)
  case (snoc c h)
  then show ?case using hexes_props(3,4) [of c] by (auto simp: horner_def)
qed (simp add: horner_def)

lemma nibble_horner:
  "set h \<subseteq> set hexes \<Longrightarrow> k < length h \<Longrightarrow> nibble (horner h) k = hexv (rev h ! k)"
proof (induction h arbitrary: k rule: rev_induct)
  case (snoc c h)
  have v: "0 \<le> hexv c" "hexv c < 16" using snoc.prems(1) hexes_props(3,4) [of c] by auto
  have e: "horner (h @ [c]) = hexv c + 16 * horner h" by (simp add: horner_def)
  show ?case
  proof (cases k)
    case 0
    with v show ?thesis by (simp add: nibble_eq e)
  next
    case (Suc j)
    have "horner (h @ [c]) div 16 ^ k = horner (h @ [c]) div 16 div 16 ^ j"
      by (simp add: Suc div_mult2_eq zdiv_zmult2_eq)
    also have "horner (h @ [c]) div 16 = horner h" using v by (simp add: e)
    finally show ?thesis using snoc Suc by (simp add: nibble_eq)
  qed
qed simp

lemma py_int_hex_digits:
  assumes "set h \<subseteq> set hexes" "h \<noteq> []"
  shows "py_int_hex h = Some (horner h)"
proof -
  have s: "strip h = h" using assms(1) hexes_props(5) by (intro strip_no_space) blast
  have n: "c \<notin> set ''-+_xX:{}''" if "c \<in> set h" for c using that assms(1) hexes_props(6) by blast
  have "\<not> startswith h ''0x''" "\<not> startswith h ''0X''"
    using n [of "CHR ''x''"] n [of "CHR ''X''"] by (auto simp: startswith_iff)
  then have "hex_body h = Some (horner h)"
    using assms hex_digits_horner [of h False 0] by (simp add: hex_body_def horner_def)
  moreover have "hd h \<noteq> CHR ''-''" "hd h \<noteq> CHR ''+''" using n [OF hd_in_set [OF assms(2)]] by auto
  ultimately show ?thesis using assms(2) s by (cases h) (simp_all add: py_int_hex_def)
qed

lemma replace_absent: "c \<in> set old \<Longrightarrow> c \<notin> set s \<Longrightarrow> replace old new s = s"
proof -
  assume a: "c \<in> set old" "c \<notin> set s"
  have "split_acc old acc s = [rev acc @ s]" for acc
    using a(2)
  proof (induction s arbitrary: acc)
    case (Cons d ds)
    have "\<not> startswith (d # ds) old"
      using a(1) Cons.prems unfolding startswith_iff by (metis Un_iff set_append)
    with Cons show ?case by simp
  qed simp
  then show ?thesis by (simp add: replace_def split_on_def)
qed

lemma strip_chars_absent: "set cs \<inter> set s = {} \<Longrightarrow> strip_chars cs s = s"
proof -
  assume a: "set cs \<inter> set s = {}"
  have "dropWhile (\<lambda>c. c \<in> set cs) t = t" if "set t \<subseteq> set s" for t
    using that a by (cases t) auto
  then show ?thesis by (simp add: strip_chars_def)
qed

lemma join_nil: "join [] xs = concat xs"
  by (induction "[] :: string" xs rule: join.induct) auto

lemma hex32_horner:
  assumes "set h \<subseteq> set hexes" "length h = 32" "h ! 12 = CHR ''4''" "h ! 16 \<in> set ''89ab''"
  shows "hex32 (uuid_v4 (horner h)) = h"
proof (rule nth_equalityI)
  show "length (hex32 (uuid_v4 (horner h))) = length h" using assms(2) by (simp add: hex32_def)
  fix i assume "i < length (hex32 (uuid_v4 (horner h)))"
  then have i: "i < 32" by (simp add: hex32_def)
  have c: "h ! i \<in> set hexes" using assms(1,2) i nth_mem [of i h] by auto
  have n: "nibble (horner h) (31 - i) = hexv (h ! i)"
    using nibble_horner [OF assms(1), of "31 - i"] assms(2) i by (simp add: rev_nth)
  have "nibble (uuid_v4 (horner h)) (31 - i) = hexv (h ! i)"
  proof -
    consider "i = 12" | "i = 16" | "31 - i \<noteq> 15" "31 - i \<noteq> 19" using i by linarith
    then show ?thesis
    proof cases
      case 1
      have "hexv (CHR ''4'') = 4" by code_simp
      with 1 assms(3) show ?thesis by (simp add: nibble_uuid_v4)
    next
      case 2
      then show ?thesis using n variant_kept [OF assms(4)] by (simp add: nibble_uuid_v4)
    qed (simp add: nibble_uuid_v4 n)
  qed
  then show "hex32 (uuid_v4 (horner h)) ! i = h ! i"
    using i c by (simp add: hex32_def rev_nth hexes_props(2))
qed

lemma uuid_of_canonical:
  assumes "canonical_v4 s"
  shows "\<exists>u. uuid_of_hex s = Inr u \<and> uuid_str u = s"
proof -
  obtain a b c v d e where s: "s = join ''-'' [a, b, CHR ''4'' # c, v # d, e]"
    and len: "length a = 8" "length b = 4" "length c = 3" "length d = 3" "length e = 12"
    and sub: "set a \<union> set b \<union> set c \<union> set d \<union> set e \<subseteq> set hexes" and v: "v \<in> set ''89ab''"
    using canonical_groups [OF assms] by blast
  let ?ps = "[a, b, CHR ''4'' # c, v # d, e]"
  define h where "h = concat ?ps"
  have vh: "v \<in> set hexes" using v by (auto simp: hexes_def)
  have h: "set h \<subseteq> set hexes" "length h = 32"
    using sub len vh by (auto simp: h_def) (simp add: hexes_def)
  have at: "h ! 12 = CHR ''4''" "h ! 16 = v" using len by (simp_all add: h_def nth_append)
  have n: "x \<notin> set ''-+_xX:{}''" if "x \<in> set h" for x using that h(1) hexes_props(6) by blast
  have ch: "x = CHR ''-'' \<or> x \<in> set h" if "x \<in> set s" for x
    using that by (auto simp: s h_def)
  have colon: "CHR '':'' \<notin> set s" using ch n by fastforce
  have r: "replace ''urn:'' [] s = s" "replace ''uuid:'' [] s = s"
    using colon replace_absent [of "CHR '':''"] by simp_all
  have st: "strip_chars ''{}'' s = s"
    using ch n by (intro strip_chars_absent) fastforce
  have "\<forall>x\<in>set ?ps. CHR ''-'' \<notin> set x" using n by (fastforce simp: h_def)
  then have "split_on ''-'' s = ?ps" unfolding s by (intro split_join_char) simp
  then have hex: "replace ''-'' [] s = h" by (simp add: replace_def join_nil h_def)
  have "py_int_hex h = Some (horner h)" using h by (intro py_int_hex_digits) auto
  moreover have "0 \<le> horner h \<and> horner h < 2 ^ 128" using horner_bounds [OF h(1)] h(2) by simp
  ultimately have u: "uuid_of_hex s = Inr (uuid_v4 (horner h))"
    by (simp add: uuid_of_hex_def r st hex h(2))
  have "hex32 (uuid_v4 (horner h)) = h" using h at v by (intro hex32_horner) simp_all
  then have "uuid_str (uuid_v4 (horner h)) = s" using len by (simp add: uuid_str_def Let_def h_def s)
  with u show ?thesis by blast
qed

text \<open>
  C11: A client may name the id of its kernel exactly when the id is a version 4 UUID in
  canonical form (lower case, hyphenated, version digit 4, variant digit 8, 9, a or b); every
  other non-empty value raises, and without one the generator decides.
\<close>

theorem new_kernel_id_spec:
  "new_kernel_id fn \<lparr>la_env = Some env, la_rest = rest\<rparr> =
     (let s = dget_or env ''KERNEL_ID'' [] in
      if s = [] then Inr (fn ())
      else if canonical_v4 s then Inr s else Inl ValueError)"
proof -
  have "rbind (uuid_of_hex s) (\<lambda>u. if s \<noteq> uuid_str u then Inl ValueError else Inr s)
      = (if canonical_v4 s then Inr s else Inl ValueError)" for s
  proof (cases "canonical_v4 s")
    case True
    then show ?thesis using uuid_of_canonical [of s] by auto
  next
    case False
    have "uuid_of_hex s = Inl ValueError \<or> (\<exists>i. uuid_of_hex s = Inr (uuid_v4 i))"
      by (auto simp: uuid_of_hex_def Let_def split: option.splits)
    then show ?thesis using False uuid_str_canonical by auto
  qed
  then show ?thesis
    by (simp add: new_kernel_id_def dget_or_def Let_def split: option.splits)
qed

lemma accepted_id_canonical:
  assumes "dget env ''KERNEL_ID'' = Some k" "k \<noteq> []"
    and "new_kernel_id fn \<lparr>la_env = Some env, la_rest = rest\<rparr> = Inr k'"
  shows "k' = k \<and> canonical_v4 k"
  using assms uuid_str_canonical
  by (auto simp: new_kernel_id_def uuid_of_hex_def Let_def split: option.splits if_splits)

lemma canonical_chars: "canonical_v4 s \<Longrightarrow> c \<in> set s \<Longrightarrow> c \<in> set hexes \<or> c = CHR ''-''"
proof -
  assume a: "canonical_v4 s" "c \<in> set s"
  obtain a b d v e f where g: "s = join ''-'' [a, b, CHR ''4'' # d, v # e, f]"
    "set a \<union> set b \<union> set d \<union> set e \<union> set f \<subseteq> set hexes" "v \<in> set ''89ab''"
    by (rule canonical_groups [OF a(1)]) (rule that)
  have "CHR ''4'' \<in> set hexes" "v \<in> set hexes" using g(3) by (auto simp: hexes_def)
  with g(1,2) a(2) show ?thesis by auto
qed

lemma new_kernel_id_example:
  "new_kernel_id (\<lambda>_. ''x'') \<lparr>la_env = Some [(''KERNEL_ID'', ''7f4c2b6e-9d3a-4e1f-8b5c-0a1b2c3d4e5f'')], la_rest = []\<rparr>
   = Inr ''7f4c2b6e-9d3a-4e1f-8b5c-0a1b2c3d4e5f''"
  by code_simp

end
