(* ===== verification/KernelManager.thy ===== *)
theory KernelManager
  imports Complex_Main KernelIds Authorization SessionStores
begin

text \<open>
  The kernel managers of services/kernels/remotemanager.py: the choice of the process proxy,
  restart, shutdown, signals and cleanup of one kernel (\<open>RemoteKernelManager\<close>), and the
  kernel map with the revival of persisted kernels (\<open>RemoteMappingKernelManager\<close>).  The base
  classes of jupyter_client and the process proxies are arguments; a proxy is a value \<open>'p\<close>,
  everything outside the managers a state \<open>'w\<close>.
\<close>

section \<open>The process proxy of a kernelspec\<close>

definition local_proxy_config :: pyval where
  "local_proxy_config = PDict
     [(''class_name'', PStr ''enterprise_gateway.services.processproxies.processproxy.LocalProcessProxy''),
      (''config'', PDict [])]"

text \<open>The kernelspec's own stanza is returned and completed in place.\<close>

definition get_process_proxy_config :: "(string, pyval) dict \<Rightarrow> pyval res \<times> (string, pyval) dict" where
  "get_process_proxy_config metadata =
     (case dget metadata ''process_proxy'' of
        None \<Rightarrow> (Inr local_proxy_config, metadata)
      | Some process_proxy \<Rightarrow>
          (case py_in ''class_name'' process_proxy of
             Inl e \<Rightarrow> (Inl e, metadata)
           | Inr named \<Rightarrow>
               if \<not> named then (Inr local_proxy_config, metadata)
               else (case py_in ''config'' process_proxy of
                  Inl e \<Rightarrow> (Inl e, metadata)
                | Inr has_config \<Rightarrow>
                    if has_config then (Inr process_proxy, metadata)
                    else (case process_proxy of
                       PDict d \<Rightarrow>
                         let pp = PDict (dset ''config'' (PDict []) d) in
                         (Inr pp, dset ''process_proxy'' pp metadata)
                     | _ \<Rightarrow> (Inl AttributeError, metadata)))))"

definition rsplit1 :: "char \<Rightarrow> string \<Rightarrow> string list" where
  "rsplit1 c s =
     (if c \<in> set s
      then [rev (tl (dropWhile (\<lambda>d. d \<noteq> c) (rev s))), rev (takeWhile (\<lambda>d. d \<noteq> c) (rev s))]
      else [s])"

text \<open>\<open>imp\<close> imports a module by name and \<open>attr\<close> looks an attribute of a module up.\<close>

datatype ('m, 'o) imported = Module 'm | Object 'o

definition import_item ::
  "(string \<Rightarrow> 'm res) \<Rightarrow> ('m \<Rightarrow> string \<Rightarrow> 'o option) \<Rightarrow> string \<Rightarrow> ('m, 'o) imported res" where
  "import_item imp attr name =
     (case rsplit1 CHR ''.'' name of
        [package, obj] \<Rightarrow>
          rbind (imp package) (\<lambda>module.
            (case attr module obj of None \<Rightarrow> Inl ImportError | Some pak \<Rightarrow> Inr (Object pak)))
      | parts \<Rightarrow> rbind (imp (hd parts)) (\<lambda>module. Inr (Module module)))"

text \<open>\<open>build\<close> calls what was imported with the \<open>config\<close> stanza; a module cannot be called.\<close>

definition make_process_proxy ::
  "(string \<Rightarrow> 'm res) \<Rightarrow> ('m \<Rightarrow> string \<Rightarrow> 'o option) \<Rightarrow> ('o \<Rightarrow> pyval \<Rightarrow> 'p res) \<Rightarrow>
   (string, pyval) dict \<Rightarrow> 'p res" where
  "make_process_proxy imp attr build metadata =
     rbind (fst (get_process_proxy_config metadata)) (\<lambda>cfg.
     rbind (py_get cfg ''class_name'') (\<lambda>name.
     rbind (case name of PStr n \<Rightarrow> Inr n | _ \<Rightarrow> Inl AttributeError) (\<lambda>class_name.
     rbind (import_item imp attr class_name) (\<lambda>item.
     rbind (py_get cfg ''config'') (\<lambda>config.
       (case item of Module m \<Rightarrow> Inl TypeError | Object c \<Rightarrow> build c config))))))"

section \<open>The manager of one kernel\<close>

datatype proxy_class = Local_Proxy | Remote_Proxy | Other_Proxy

record 'p rkm =
  km_process_proxy :: "(proxy_class \<times> 'p) option"
  km_has_kernel :: bool
  km_restarting :: bool
  km_kernel_id :: "string option"
  km_connection_file :: string
  km_response_address :: "string option"
  km_sigint_value :: "int option"
  km_ports :: "int list"
  km_activity_stream :: bool
  km_connection_info :: "(string, pyval) dict"
  km_launch_args :: launch_args

definition is_remote :: "'p rkm \<Rightarrow> bool" where
  "is_remote m \<longleftrightarrow> (case km_process_proxy m of Some (Remote_Proxy, _) \<Rightarrow> True | _ \<Rightarrow> False)"

definition is_local :: "'p rkm \<Rightarrow> bool" where
  "is_local m \<longleftrightarrow> (case km_process_proxy m of Some (Local_Proxy, _) \<Rightarrow> True | _ \<Rightarrow> False)"

text \<open>\<open>self.kernel_id or os.path.basename(..)\<close>\<close>

definition id_of_connection_file :: "string \<Rightarrow> string" where
  "id_of_connection_file f = replace ''.json'' [] (replace ''kernel-'' [] (basename f))"

definition kernel_id_of :: "'p rkm \<Rightarrow> string" where
  "kernel_id_of m =
     (let from_file = id_of_connection_file (km_connection_file m) in
      case km_kernel_id m of
        None \<Rightarrow> from_file
      | Some k \<Rightarrow> if k \<noteq> [] then k else from_file)"

text \<open>What the manager uses of its parent: the connection counts, its shutdown and the activity watch.\<close>

record ('p, 'w) parent_ops =
  pa_connections :: "'w \<Rightarrow> (string, nat) dict"
  pa_shutdown_kernel :: "string \<Rightarrow> bool \<Rightarrow> 'p rkm \<Rightarrow> 'w \<Rightarrow> unit res \<times> 'p rkm \<times> 'w"
  pa_start_watching :: "string \<Rightarrow> 'w \<Rightarrow> 'w"

text \<open>
  The second half of \<open>restart_kernel\<close>: an automatic restart sets the flag, and clears it only
  where nothing raised.  \<open>refresh\<close> is the session manager's, when there is one.
\<close>

definition restart_and_refresh ::
  "(bool \<Rightarrow> 'p rkm \<Rightarrow> 'w \<Rightarrow> unit res \<times> 'p rkm \<times> 'w) \<Rightarrow> ('p, 'w) parent_ops option \<Rightarrow>
   (string \<Rightarrow> 'p rkm \<Rightarrow> 'w \<Rightarrow> unit res \<times> 'w) option \<Rightarrow> bool \<Rightarrow> string \<Rightarrow> 'p rkm \<Rightarrow> 'w \<Rightarrow>
   unit res \<times> 'p rkm \<times> 'w" where
  "restart_and_refresh super_restart parent refresh now kernel_id m w =
     bindE (super_restart now (if now then m\<lparr>km_restarting := True\<rparr> else m) w) (\<lambda>_ (m1, w1).
       let m2 = (if is_remote m1 then m1\<lparr>km_activity_stream := False\<rparr> else m1);
           w2 = (case parent of
                   None \<Rightarrow> w1
                 | Some pa \<Rightarrow> if is_remote m1 then pa_start_watching pa kernel_id w1 else w1);
           (r, w3) = (case refresh of None \<Rightarrow> (Inr (), w2) | Some f \<Rightarrow> f kernel_id m2 w2) in
       case r of
         Inl e \<Rightarrow> (Inl e, m2, w3)
       | Inr _ \<Rightarrow> (Inr (), if now then m2\<lparr>km_restarting := False\<rparr> else m2, w3))"

definition rkm_restart_kernel ::
  "(bool \<Rightarrow> 'p rkm \<Rightarrow> 'w \<Rightarrow> unit res \<times> 'p rkm \<times> 'w) \<Rightarrow> ('p, 'w) parent_ops option \<Rightarrow>
   (string \<Rightarrow> 'p rkm \<Rightarrow> 'w \<Rightarrow> unit res \<times> 'w) option \<Rightarrow> bool \<Rightarrow> 'p rkm \<Rightarrow> 'w \<Rightarrow>
   unit res \<times> 'p rkm \<times> 'w" where
  "rkm_restart_kernel super_restart parent refresh now m w =
     (let kernel_id = kernel_id_of m in
      case parent of
        None \<Rightarrow> restart_and_refresh super_restart parent refresh now kernel_id m w
      | Some pa \<Rightarrow>
          if is_remote m \<and> now \<and> dget_or (pa_connections pa w) kernel_id 0 = 0
          then pa_shutdown_kernel pa kernel_id now m w
          else restart_and_refresh super_restart parent refresh now kernel_id m w)"

text \<open>A remote proxy also tells the launcher's listener to end.\<close>

definition rkm_request_shutdown ::
  "(bool \<Rightarrow> 'w \<Rightarrow> unit res \<times> 'w) \<Rightarrow> ('p \<Rightarrow> 'w \<Rightarrow> unit res \<times> 'p \<times> 'w) \<Rightarrow> bool \<Rightarrow> 'p rkm \<Rightarrow> 'w \<Rightarrow>
   unit res \<times> 'p rkm \<times> 'w" where
  "rkm_request_shutdown super_request shutdown_listener restart m w =
     (case super_request restart w of
        (Inl e, w1) \<Rightarrow> (Inl e, m, w1)
      | (Inr _, w1) \<Rightarrow>
          (case km_process_proxy m of
             Some (Remote_Proxy, p) \<Rightarrow>
               (case shutdown_listener p w1 of
                  (r, p1, w2) \<Rightarrow> (r, m\<lparr>km_process_proxy := Some (Remote_Proxy, p1)\<rparr>, w2))
           | _ \<Rightarrow> (Inr (), m, w1)))"

text \<open>
  \<open>signal_kernel\<close>: the interrupt is resolved once per manager.  \<open>signal_attr\<close> is the number of
  an attribute of the \<open>signal\<close> module, if it has one; the first component of the result is the
  signal that the proxy's \<open>send_signal\<close> is called with.
\<close>

definition SIGINT :: int where
  "SIGINT = 2"

definition resolve_sigint :: "(string \<Rightarrow> int option) \<Rightarrow> (string, string) dict \<Rightarrow> int" where
  "resolve_sigint signal_attr spec_env =
     (case dget spec_env ''EG_ALTERNATE_SIGINT'' of
        None \<Rightarrow> SIGINT
      | Some alt \<Rightarrow>
          if alt \<noteq> [] then (case signal_attr alt of None \<Rightarrow> SIGINT | Some v \<Rightarrow> v) else SIGINT)"

definition signal_kernel ::
  "(string \<Rightarrow> int option) \<Rightarrow> (string, string) dict \<Rightarrow> int \<Rightarrow> 'p rkm \<Rightarrow> int res \<times> 'p rkm" where
  "signal_kernel signal_attr spec_env signum m =
     (if \<not> km_has_kernel m then (Inl RuntimeError, m)
      else if signum = SIGINT
      then (let v = (case km_sigint_value m of None \<Rightarrow> resolve_sigint signal_attr spec_env | Some v \<Rightarrow> v) in
            (Inr v, m\<lparr>km_sigint_value := Some v\<rparr>))
      else (Inr signum, m))"

text \<open>\<open>cleanup\<close> and \<open>cleanup_resources\<close> differ in the base method called at the end only.\<close>

definition rkm_cleanup ::
  "('p \<Rightarrow> 'w \<Rightarrow> unit res \<times> 'w) \<Rightarrow> ('w \<Rightarrow> unit res \<times> 'w) \<Rightarrow> 'p rkm \<Rightarrow> 'w \<Rightarrow> unit res \<times> 'p rkm \<times> 'w" where
  "rkm_cleanup proxy_cleanup super_cleanup m w =
     (case km_process_proxy m of
        None \<Rightarrow> (case super_cleanup w of (r, w1) \<Rightarrow> (r, m, w1))
      | Some (_, p) \<Rightarrow>
          (case proxy_cleanup p w of
             (Inl e, w1) \<Rightarrow> (Inl e, m, w1)
           | (Inr _, w1) \<Rightarrow>
               (case super_cleanup w1 of (r, w2) \<Rightarrow> (r, m\<lparr>km_process_proxy := None\<rparr>, w2))))"

definition write_connection_file ::
  "('p \<Rightarrow> 'w \<Rightarrow> int list res \<times> 'w) \<Rightarrow> (int list \<Rightarrow> 'w \<Rightarrow> unit res \<times> 'w) \<Rightarrow> 'p rkm \<Rightarrow> 'w \<Rightarrow>
   unit res \<times> 'p rkm \<times> 'w" where
  "write_connection_file select_five super_write m w =
     (if (is_local m \<or> (case km_response_address m of None \<Rightarrow> True | Some a \<Rightarrow> a = [])) \<and> \<not> km_restarting m
      then (case km_process_proxy m of
              None \<Rightarrow> (Inl AttributeError, m, w)
            | Some (_, p) \<Rightarrow>
                (case select_five p w of
                   (Inl e, w1) \<Rightarrow> (Inl e, m, w1)
                 | (Inr ports, w1) \<Rightarrow>
                     if length ports < 5 then (Inl IndexError, m\<lparr>km_ports := ports\<rparr>, w1)
                     else (case super_write (take 5 ports) w1 of
                             (r, w2) \<Rightarrow> (r, m\<lparr>km_ports := take 5 ports\<rparr>, w2))))
      else (Inr (), m, w))"

section \<open>The kernel map\<close>

text \<open>
  The state of \<open>RemoteMappingKernelManager\<close> that these operations touch: the kernels, their
  connection counts and the kernels whose activity is watched.
\<close>

record 'p mkm =
  mk_kernels :: "(string, 'p rkm) dict"
  mk_connections :: "(string, nat) dict"
  mk_watched :: "string list"

definition set_restarting :: "bool \<Rightarrow> string \<Rightarrow> ('p, 'x) mkm_scheme \<Rightarrow> ('p, 'x) mkm_scheme" where
  "set_restarting b kernel_id s =
     (case dget (mk_kernels s) kernel_id of
        None \<Rightarrow> s
      | Some k \<Rightarrow> s\<lparr>mk_kernels := dset kernel_id (k\<lparr>km_restarting := b\<rparr>) (mk_kernels s)\<rparr>)"

text \<open>
  The wait for another restart to finish: the flag is another coroutine's to clear, so it is
  read from the state at every pass.  \<open>None\<close>: the fuel did not suffice.
\<close>

fun wait_for_restart_finish ::
  "('w \<Rightarrow> bool) \<Rightarrow> ('w \<Rightarrow> rat \<times> 'w) \<Rightarrow> ('w \<Rightarrow> 'w) \<Rightarrow> rat \<Rightarrow> rat \<Rightarrow> nat \<Rightarrow> 'w \<Rightarrow> 'w option" where
  "wait_for_restart_finish restarting clock sleep start_time timeout 0 w = None"
| "wait_for_restart_finish restarting clock sleep start_time timeout (Suc n) w =
     (if \<not> restarting w then Some w
      else (case clock w of
        (now, w1) \<Rightarrow>
          if now - start_time > timeout then Some w1
          else wait_for_restart_finish restarting clock sleep start_time timeout n (sleep w1)))"

text \<open>
  \<open>restart_kernel\<close> and \<open>shutdown_kernel\<close> of the map: \<open>missing\<close> is what the base class raises for an
  unknown id, \<open>wait\<close> the wait above, \<open>super_restart\<close> and \<open>super_shutdown\<close> the base class (the
  restart is called without \<open>now\<close>).  The flag is the kernel object's, so clearing it at the end
  does nothing to the map when the kernel was removed meanwhile.
\<close>

definition map_restart_kernel ::
  "exn \<Rightarrow> (string \<Rightarrow> ('p, 'x) mkm_scheme \<Rightarrow> 'w \<Rightarrow> unit res \<times> ('p, 'x) mkm_scheme \<times> 'w) \<Rightarrow>
   (string \<Rightarrow> ('p, 'x) mkm_scheme \<Rightarrow> 'w \<Rightarrow> ('p, 'x) mkm_scheme \<times> 'w) \<Rightarrow>
   string \<Rightarrow> ('p, 'x) mkm_scheme \<Rightarrow> 'w \<Rightarrow> unit res \<times> ('p, 'x) mkm_scheme \<times> 'w" where
  "map_restart_kernel missing super_restart wait kernel_id s w =
     (case dget (mk_kernels s) kernel_id of
        None \<Rightarrow> (Inl missing, s, w)
      | Some km \<Rightarrow>
          if km_restarting km then (case wait kernel_id s w of (s1, w1) \<Rightarrow> (Inr (), s1, w1))
          else (case super_restart kernel_id (set_restarting True kernel_id s) w of
                  (r, s1, w1) \<Rightarrow> (r, set_restarting False kernel_id s1, w1)))"

definition map_shutdown_kernel ::
  "exn \<Rightarrow> (string \<Rightarrow> bool \<Rightarrow> bool \<Rightarrow> ('p, 'x) mkm_scheme \<Rightarrow> 'w \<Rightarrow> unit res \<times> ('p, 'x) mkm_scheme \<times> 'w) \<Rightarrow>
   (string \<Rightarrow> ('p, 'x) mkm_scheme \<Rightarrow> 'w \<Rightarrow> ('p, 'x) mkm_scheme \<times> 'w) \<Rightarrow>
   string \<Rightarrow> bool \<Rightarrow> bool \<Rightarrow> ('p, 'x) mkm_scheme \<Rightarrow> 'w \<Rightarrow> unit res \<times> ('p, 'x) mkm_scheme \<times> 'w" where
  "map_shutdown_kernel missing super_shutdown wait kernel_id now restart s w =
     (case dget (mk_kernels s) kernel_id of
        None \<Rightarrow> (Inl missing, s, w)
      | Some km \<Rightarrow>
          (case (if km_restarting km then wait kernel_id s w else (s, w)) of
             (s1, w1) \<Rightarrow>
               (case super_shutdown kernel_id now restart s1 w1 of
                  (Inl e, sw) \<Rightarrow> (Inl (if e = KeyError then HTTPError 404 else e), sw)
                | (Inr _, sw) \<Rightarrow> (Inr (), sw))))"

section \<open>Revival of a persisted kernel\<close>

text \<open>
  What \<open>start_kernel_from_session\<close> calls: the kernelspec's metadata, the import of the proxy
  class and its construction, the proxy's \<open>load_process_info\<close> and \<open>poll\<close>, and the base class's
  restarter and control socket.
\<close>

record ('m, 'o, 'p, 'w) revival =
  rv_metadata :: "string \<Rightarrow> (string, pyval) dict res"
  rv_import :: "string \<Rightarrow> 'm res"
  rv_attr :: "'m \<Rightarrow> string \<Rightarrow> 'o option"
  rv_construct :: "'o \<Rightarrow> pyval \<Rightarrow> (proxy_class \<times> 'p) res"
  rv_load_process_info :: "(string, pyval) dict \<Rightarrow> 'p \<Rightarrow> 'w \<Rightarrow> unit res \<times> 'p \<times> 'w"
  rv_poll :: "'p \<Rightarrow> 'w \<Rightarrow> pyval res \<times> 'p \<times> 'w"
  rv_connect :: "'w \<Rightarrow> unit res \<times> 'w"
  rv_connection_dir :: string

text \<open>The initializer of the proxy gives the manager its kernel id, from the name of the connection file.\<close>

definition revived_manager :: "string \<Rightarrow> session \<Rightarrow> proxy_class \<times> 'p \<Rightarrow> 'p rkm" where
  "revived_manager connection_dir s proxy =
     (let f = path_join connection_dir (''kernel-'' @ ses_kernel_id s @ ''.json'') in
     \<lparr>km_process_proxy = Some proxy, km_has_kernel = True, km_restarting = False,
      km_kernel_id = Some (id_of_connection_file f), km_connection_file = f,
      km_response_address = None, km_sigint_value = None, km_ports = [], km_activity_stream = False,
      km_connection_info = ses_connection_info s, km_launch_args = ses_launch_args s\<rparr>)"

definition start_kernel_from_session ::
  "('m, 'o, 'p, 'w) revival \<Rightarrow> session \<Rightarrow> ('p, 'x) mkm_scheme \<times> 'w \<Rightarrow> bool res \<times> ('p, 'x) mkm_scheme \<times> 'w" where
  "start_kernel_from_session rv s kw =
     (case kw of (k, w) \<Rightarrow>
       case rbind (rv_metadata rv (ses_kernel_name s))
              (make_process_proxy (rv_import rv) (rv_attr rv) (rv_construct rv)) of
         Inl e \<Rightarrow> (Inl e, k, w)
       | Inr (c, p) \<Rightarrow>
           (case rv_load_process_info rv (ses_process_info s) p w of
              (Inl e, p1, w1) \<Rightarrow> (Inl e, k, w1)
            | (Inr _, p1, w1) \<Rightarrow>
                (case rv_poll rv p1 w1 of
                   (Inl e, p2, w2) \<Rightarrow> (Inl e, k, w2)
                 | (Inr alive, p2, w2) \<Rightarrow>
                     if alive = PBool False then (Inr False, k, w2)
                     else (case rv_connect rv w2 of
                       (Inl e, w3) \<Rightarrow> (Inl e, k, w3)
                     | (Inr _, w3) \<Rightarrow>
                         let kernel_id = ses_kernel_id s in
                         (Inr True,
                          k\<lparr>mk_kernels := dset kernel_id (revived_manager (rv_connection_dir rv) s (c, p2)) (mk_kernels k),
                            mk_connections := dset kernel_id 0 (mk_connections k),
                            mk_watched := mk_watched k @ [kernel_id]\<rparr>, w3)))))"

text \<open>
  \<open>_refresh_kernel\<close> and \<open>check_kernel_id\<close> over a session manager \<open>m\<close>: \<open>load\<close>, \<open>del\<close> are its
  store's operations, \<open>start\<close> is the revival above.  A load that raises counts as no session.
\<close>

definition refresh_kernel ::
  "bool \<Rightarrow> (string \<Rightarrow> 'a ksm_scheme \<Rightarrow> unit res \<times> 'a ksm_scheme) \<Rightarrow> (session \<Rightarrow> 'k \<Rightarrow> bool res \<times> 'k) \<Rightarrow>
   string \<Rightarrow> 'a ksm_scheme \<Rightarrow> 'k \<Rightarrow> bool res \<times> 'a ksm_scheme \<times> 'k" where
  "refresh_kernel replication load start kernel_id m k =
     (if replication
      then (case load kernel_id m of
              (Inl e, m1) \<Rightarrow> (Inr False, m1, k)
            | (Inr _, m1) \<Rightarrow>
                (case ksm_start_session start kernel_id m1 k of
                   (Inl e, k1) \<Rightarrow> (Inl e, m1, k1)
                 | (Inr b, k1) \<Rightarrow> (Inr (b = Some True), m1, k1)))
      else (Inr False, m, k))"

definition check_kernel_id ::
  "bool \<Rightarrow> (string \<Rightarrow> 'a ksm_scheme \<Rightarrow> unit res \<times> 'a ksm_scheme) \<Rightarrow>
   (string list \<Rightarrow> 'a ksm_scheme \<Rightarrow> unit res \<times> 'a ksm_scheme) \<Rightarrow> (session \<Rightarrow> 'k \<Rightarrow> bool res \<times> 'k) \<Rightarrow>
   ('k \<Rightarrow> string \<Rightarrow> bool) \<Rightarrow> string \<Rightarrow> 'a ksm_scheme \<Rightarrow> 'k \<Rightarrow> unit res \<times> 'a ksm_scheme \<times> 'k" where
  "check_kernel_id replication load del start known kernel_id m k =
     (if known k kernel_id then (Inr (), m, k)
      else (case refresh_kernel replication load start kernel_id m k of
        (Inl e, mk) \<Rightarrow> (Inl e, mk)
      | (Inr found, m1, k1) \<Rightarrow>
          if found then (Inr (), m1, k1)
          else (case ksm_delete_session del kernel_id m1 of
                  (Inl e, m2) \<Rightarrow> (Inl e, m2, k1)
                | (Inr _, m2) \<Rightarrow> (Inl (HTTPError 404), m2, k1))))"

section \<open>Waiting for a restart\<close>

lemma restart_wait_passes:
  fixes now_of :: "'w \<Rightarrow> rat"
  assumes clock: "\<And>w now w'. clock w = (now, w') \<Longrightarrow> now_of w \<le> now \<and> now_of w \<le> now_of w' \<and> now \<le> now_of w'"
    and sleep: "\<And>w. now_of w + poll \<le> now_of (sleep w)"
  shows "timeout < now_of w - start_time + of_nat n * poll \<Longrightarrow>
    \<exists>w'. wait_for_restart_finish restarting clock sleep start_time timeout (Suc n) w = Some w'
      \<and> (\<not> restarting w' \<or> timeout < now_of w' - start_time)"
proof (induction n arbitrary: w)
  case 0
  obtain now w1 where c: "clock w = (now, w1)" by fastforce
  with clock [OF c] 0 show ?case by auto
next
  case (Suc n)
  obtain now w1 where c: "clock w = (now, w1)" by fastforce
  have "now_of w + poll \<le> now_of (sleep w1)" using clock [OF c] sleep [of w1] by linarith
  with Suc.prems have "timeout < now_of (sleep w1) - start_time + of_nat n * poll"
    by (simp add: algebra_simps)
  from Suc.IH [OF this] show ?case
    using c clock [OF c] by auto
qed

text \<open>
  C33: Waiting for a restart ends: with a clock that never goes back and a sleep that lasts at
  least the polling interval, the loop makes at most \<open>timeout / poll + 2\<close> passes, and when it
  ends the restart is over or the launch timeout has been exceeded.
\<close>

theorem restart_wait_ends:
  fixes now_of :: "'w \<Rightarrow> rat"
  assumes "\<And>w now w'. clock w = (now, w') \<Longrightarrow> now_of w \<le> now \<and> now_of w \<le> now_of w' \<and> now \<le> now_of w'"
    and "\<And>w. now_of w + poll \<le> now_of (sleep w)" and "0 < poll" and "start_time = now_of w"
  shows "\<exists>w'. wait_for_restart_finish restarting clock sleep start_time timeout
      (nat \<lfloor>timeout / poll\<rfloor> + 2) w = Some w'
    \<and> (\<not> restarting w' \<or> timeout < now_of w' - start_time)"
proof -
  have "timeout / poll < of_nat (nat \<lfloor>timeout / poll\<rfloor> + 1)"
    by (cases "0 \<le> \<lfloor>timeout / poll\<rfloor>") (simp_all add: floor_less_zero, linarith+)
  then have "timeout < of_nat (nat \<lfloor>timeout / poll\<rfloor> + 1) * poll"
    using assms(3) by (simp add: pos_divide_less_eq)
  then have "timeout < now_of w - start_time + of_nat (nat \<lfloor>timeout / poll\<rfloor> + 1) * poll"
    by (simp add: assms(4))
  from restart_wait_passes [OF assms(1,2) this] show ?thesis by simp
qed

lemma restart_wait_ends_witness:
  "\<exists>w'. wait_for_restart_finish (\<lambda>_. True) (\<lambda>t. (t, t)) (\<lambda>t. t + 1) 0 30 (nat \<lfloor>30 / 1 :: rat\<rfloor> + 2) (0 :: rat) = Some w'
    \<and> (\<not> True \<or> 30 < w' - 0)"
  by (rule restart_wait_ends [where now_of = "\<lambda>t. t" and poll = 1]) auto

section \<open>The restart flag\<close>

lemma client_restart_clears_flag:
  assumes "dget (mk_kernels s) kid = Some k" "\<not> km_restarting k"
    and "map_restart_kernel missing super_restart wait kid s w = (r, s', w')"
    and "dget (mk_kernels s') kid = Some k'"
  shows "\<not> km_restarting k'"
  using assms by (auto simp: map_restart_kernel_def set_restarting_def split: prod.splits option.splits)

lemma restart_keeps_remote_flag:
  assumes "restart_and_refresh super_restart parent refresh True kid m w = (Inl e, m', w')"
    and "\<And>m w r m' w'. super_restart True m w = (r, m', w') \<Longrightarrow> km_restarting m' = km_restarting m"
  shows "km_restarting m'"
proof -
  obtain r m1 w1 where s: "super_restart True (m\<lparr>km_restarting := True\<rparr>) w = (r, m1, w1)"
    by (metis prod_cases3)
  have "km_restarting m1" using assms(2) [OF s] by simp
  then show ?thesis using assms(1) s
    by (cases r) (auto simp: restart_and_refresh_def Let_def split: prod.splits sum.splits option.splits if_splits)
qed

text \<open>
  An automatic restart that raises leaves the kernel marked as restarting: from then on a
  restart asked for by a client waits and returns success without ever calling the restart of
  the base class, whatever that would do.
\<close>

lemma failed_auto_restart_blocks_restarts:
  assumes "rkm_restart_kernel super_restart parent refresh True m w = (Inl e, m', w')"
    and "\<And>m w r m' w'. super_restart True m w = (r, m', w') \<Longrightarrow> km_restarting m' = km_restarting m"
    and "\<And>pa. parent = Some pa \<Longrightarrow> is_remote m \<Longrightarrow> 0 < dget_or (pa_connections pa w) (kernel_id_of m) 0"
    and "dget (mk_kernels s) kid = Some m'"
  shows "km_restarting m' \<and>
    map_restart_kernel missing base_restart wait kid s v = (case wait kid s v of (s1, v1) \<Rightarrow> (Inr (), s1, v1))"
proof -
  have "restart_and_refresh super_restart parent refresh True (kernel_id_of m) m w = (Inl e, m', w')"
    using assms(1) by (auto simp: rkm_restart_kernel_def Let_def dest: assms(3) split: option.splits if_splits)
  then have "km_restarting m'" using assms(2) by (rule restart_keeps_remote_flag)
  then show ?thesis using assms(4) by (simp add: map_restart_kernel_def)
qed

definition demo_rkm :: "nat rkm" where
  "demo_rkm = \<lparr>km_process_proxy = Some (Remote_Proxy, 0), km_has_kernel = True, km_restarting = False,
     km_kernel_id = None, km_connection_file = ''/run/kernel-k1.json'', km_response_address = None,
     km_sigint_value = None, km_ports = [], km_activity_stream = False, km_connection_info = [],
     km_launch_args = \<lparr>la_env = None, la_rest = []\<rparr>\<rparr>"

lemma failed_auto_restart_blocks_restarts_witness:
  "map_restart_kernel (HTTPError 404) (\<lambda>k s w. (Inl RuntimeError, s, w)) (\<lambda>k s w. (s, w)) ''k1''
     \<lparr>mk_kernels = [(''k1'', demo_rkm\<lparr>km_restarting := True\<rparr>)], mk_connections = [(''k1'', 2)], mk_watched = []\<rparr> ()
   = (Inr (), \<lparr>mk_kernels = [(''k1'', demo_rkm\<lparr>km_restarting := True\<rparr>)], mk_connections = [(''k1'', 2)], mk_watched = []\<rparr>, ())"
proof -
  let ?pa = "\<lparr>pa_connections = \<lambda>_. [(''k1'', 2)], pa_shutdown_kernel = \<lambda>k b m w. (Inr (), m, w),
      pa_start_watching = \<lambda>k w. w\<rparr> :: (nat, unit) parent_ops"
  have id: "kernel_id_of demo_rkm = ''k1''" by code_simp
  have r: "rkm_restart_kernel (\<lambda>b m w. (Inl RuntimeError, m, w)) (Some ?pa) None True demo_rkm ()
      = (Inl RuntimeError, demo_rkm\<lparr>km_restarting := True\<rparr>, ())"
    by (simp add: rkm_restart_kernel_def id restart_and_refresh_def dget_or_def)
  show ?thesis
    using failed_auto_restart_blocks_restarts [OF r, of "\<lparr>mk_kernels = [(''k1'', demo_rkm\<lparr>km_restarting := True\<rparr>)],
        mk_connections = [(''k1'', 2)], mk_watched = []\<rparr>" "''k1''" "HTTPError 404"
        "\<lambda>k s w. (Inl RuntimeError, s, w)" "\<lambda>k s w. (s, w)" "()"]
    by (simp add: id dget_or_def)
qed

lemma recovered_kernel_id: "kernel_id_of (revived_manager ''/run'' (demo_session\<lparr>ses_kernel_id := ''k2''\<rparr>) proxy) = ''k2''"
proof -
  have "replace ''.json'' [] (replace ''kernel-'' [] (basename ''/run/kernel-k2.json'')) = ''k2''" by code_simp
  then show ?thesis by (simp add: kernel_id_of_def id_of_connection_file_def revived_manager_def path_join_def endswith_def)
qed

section \<open>Signals\<close>

text \<open>Once an interrupt was sent, every later interrupt of the manager sends the same signal.\<close>

lemma interrupt_is_resolved_once:
  assumes "signal_kernel attr env SIGINT m = (Inr v, m')"
  shows "signal_kernel attr' env' SIGINT m' = (Inr v, m') \<and>
    signal_kernel attr' env' signum m' = (Inr (if signum = SIGINT then v else signum), m')"
  using assms by (auto simp: signal_kernel_def Let_def split: if_splits)

section \<open>Failover\<close>

lemma load_saved_session:
  assumes "enable_persistence b" "dget (ksm_files b) (json_name kid) = Some (Stored [(kid, s')])"
    and "map_key encode_utf8 s' = Inr s"
  shows "file_load_session kid b = (Inr (), b\<lparr>sessions := dset kid s (sessions b)\<rparr>)"
  using assms by (simp add: file_load_session_def load_session_from_file_def)

lemma revival_outcome:
  assumes "rbind (rv_metadata rv (ses_kernel_name s)) (make_process_proxy (rv_import rv) (rv_attr rv) (rv_construct rv))
      = Inr (c, p)"
    and "rv_load_process_info rv (ses_process_info s) p w = (Inr (), p1, w1)"
    and "rv_poll rv p1 w1 = (Inr polled, p2, w2)" and "polled \<noteq> PBool False \<Longrightarrow> rv_connect rv w2 = (Inr (), w3)"
  shows "start_kernel_from_session rv s (k, w) =
    (if polled = PBool False then (Inr False, k, w2)
     else (Inr True,
       k\<lparr>mk_kernels := dset (ses_kernel_id s) (revived_manager (rv_connection_dir rv) s (c, p2)) (mk_kernels k),
         mk_connections := dset (ses_kernel_id s) 0 (mk_connections k),
         mk_watched := mk_watched k @ [ses_kernel_id s]\<rparr>, w3))"
  using assms(4) by (simp add: start_kernel_from_session_def assms(1-3) Let_def)

text \<open>
  C9: Failover between gateways that replicate sessions: when one gateway has saved a session
  whose key is text in bytes, another on the same directory that does not know the kernel
  revives it on the first request for it, if the proxy of the kernelspec can be built, takes
  the persisted process information and is polled.  If the poll is anything but \<open>False\<close>, the
  request is served, the kernel is in the map under the session's id with that proxy, the
  session's connection information and launch arguments and no connections, and the table holds
  the session.  If the poll is \<open>False\<close>, the request ends in 404, the kernel map is unchanged and
  the session is gone from the table and from the directory.
\<close>

theorem replicated_session_fails_over:
  assumes "enable_persistence a" "key_is_bytes s" "ses_kernel_id s = kid"
    and "ksm_save_session file_save_session kid s a = (Inr (), a')"
    and "enable_persistence b" "ksm_files b = ksm_files a'"
    and "dget (mk_kernels k) kid = None"
    and "rbind (rv_metadata rv (ses_kernel_name s)) (make_process_proxy (rv_import rv) (rv_attr rv) (rv_construct rv))
      = Inr (c, p)"
    and "rv_load_process_info rv (ses_process_info s) p w = (Inr (), p1, w1)"
    and "rv_poll rv p1 w1 = (Inr polled, p2, w2)" and "polled \<noteq> PBool False \<Longrightarrow> rv_connect rv w2 = (Inr (), w3)"
    and "check_kernel_id True file_load_session file_delete_sessions (start_kernel_from_session rv)
      (\<lambda>(k, w) kid. dhas (mk_kernels k) kid) kid b (k, w) = (r, b', k'', w'')"
  shows "if polled = PBool False
    then r = Inl (HTTPError 404) \<and> k'' = k \<and> w'' = w2 \<and> dget (sessions b') kid = None \<and> file_persisted b' kid = None
    else r = Inr () \<and> w'' = w3 \<and> dget (sessions b') kid = Some s \<and> dget (mk_connections k'') kid = Some 0
      \<and> (\<exists>km. dget (mk_kernels k'') kid = Some km \<and> km_process_proxy km = Some (c, p2) \<and> km_has_kernel km
           \<and> \<not> km_restarting km \<and> km_connection_info km = ses_connection_info s \<and> km_launch_args km = ses_launch_args s)"
proof -
  obtain s' where s': "map_key decode_utf8 s = Inr s'" "map_key encode_utf8 s' = Inr s"
    using map_key_roundtrip [OF assms(2)] by blast
  have "dget (ksm_files b) (json_name kid) = Some (Stored [(kid, s')])"
    using assms(1,4,6) s'(1) by (auto simp: ksm_save_session_def elim!: file_save_ok [rotated])
  note ld = load_saved_session [OF assms(5) this s'(2)]
  have unknown: "\<not> dhas (mk_kernels k) kid" using assms(7) by (simp add: dhas_iff)
  have st: "start_kernel_from_session rv s (k, w) =
    (if polled = PBool False then (Inr False, k, w2)
     else (Inr True,
       k\<lparr>mk_kernels := dset (ses_kernel_id s) (revived_manager (rv_connection_dir rv) s (c, p2)) (mk_kernels k),
         mk_connections := dset (ses_kernel_id s) 0 (mk_connections k),
         mk_watched := mk_watched k @ [ses_kernel_id s]\<rparr>, w3))"
    using assms(8-11) by (intro revival_outcome)
  show ?thesis
  proof (cases "polled = PBool False")
    case False
    with assms(3,12) unknown show ?thesis
      by (auto simp: check_kernel_id_def refresh_kernel_def ld ksm_start_session_def st revived_manager_def Let_def)
  next
    case True
    with assms(5,7,12) unknown show ?thesis
      by (auto simp add: check_kernel_id_def refresh_kernel_def ld ksm_start_session_def st
          ksm_delete_session_def ksm_delete_sessions_def file_delete_sessions_def file_persisted_def dhas_iff)
  qed
qed

definition demo_revival :: "(unit, string, nat, unit) revival" where
  "demo_revival =
     \<lparr>rv_metadata = \<lambda>_. Inr [(''process_proxy'', PDict [(''class_name'', PStr ''proxies.k8s.K8s'')])],
      rv_import = \<lambda>_. Inr (), rv_attr = \<lambda>_ n. Some n, rv_construct = \<lambda>_ _. Inr (Remote_Proxy, 0),
      rv_load_process_info = \<lambda>i p w. (Inr (), p, w), rv_poll = \<lambda>p w. (Inr PNone, p, w),
      rv_connect = \<lambda>w. (Inr (), w), rv_connection_dir = ''/run''\<rparr>"

definition empty_map :: "nat mkm" where
  "empty_map = \<lparr>mk_kernels = [], mk_connections = [], mk_watched = []\<rparr>"

definition failover_request ::
  "pyval \<Rightarrow> unit res \<times> file_ksm \<times> nat mkm \<times> unit" where
  "failover_request polled = check_kernel_id True file_load_session file_delete_sessions
     (start_kernel_from_session (demo_revival\<lparr>rv_poll := \<lambda>p w. (Inr polled, p, w)\<rparr>)) (\<lambda>(k, w) kid. dhas (mk_kernels k) kid) ''k2''
     (file_ksm_init (ksm_files (snd (ksm_save_session file_save_session ''k2'' demo_session (file_ksm_init []))))) (empty_map, ())"

lemma replicated_session_fails_over_witness:
  "(\<exists>b k w. failover_request PNone = (Inr (), b, k, w) \<and> dget (sessions b) ''k2'' = Some demo_session)
   \<and> (\<exists>b w. failover_request (PBool False) = (Inl (HTTPError 404), b, empty_map, w) \<and> file_persisted b ''k2'' = None)"
proof -
  let ?a = "file_ksm_init []"
  let ?a' = "snd (ksm_save_session file_save_session ''k2'' demo_session ?a)"
  let ?b = "file_ksm_init (ksm_files ?a')"
  have a: "enable_persistence ?a" "enable_persistence ?b" "ksm_files ?b = ksm_files ?a'"
    by (simp_all add: file_ksm_init_def)
  have k: "key_is_bytes demo_session" "ses_kernel_id demo_session = ''k2''"
    by (simp_all add: demo_defs demo_session_def key_is_bytes_def)
  have save: "ksm_save_session file_save_session ''k2'' demo_session ?a = (Inr (), ?a')"
    by (simp add: demo_defs demo_session_def)
  have unknown: "dget (mk_kernels empty_map) ''k2'' = None" by (simp add: empty_map_def)
  have proxy: "make_process_proxy (\<lambda>_. Inr ()) (\<lambda>_ n. Some n) (\<lambda>_ _. Inr (Remote_Proxy, 0 :: nat))
      [(''process_proxy'', PDict [(''class_name'', PStr ''proxies.k8s.K8s'')])] = Inr (Remote_Proxy, 0)"
    by code_simp
  let ?rv = "\<lambda>polled. demo_revival\<lparr>rv_poll := \<lambda>p w. (Inr polled, p, w)\<rparr>"
  have rv: "rbind (rv_metadata (?rv v) (ses_kernel_name demo_session))
        (make_process_proxy (rv_import (?rv v)) (rv_attr (?rv v)) (rv_construct (?rv v))) = Inr (Remote_Proxy, 0)"
      "rv_load_process_info (?rv v) (ses_process_info demo_session) 0 () = (Inr (), 0, ())"
      "rv_poll (?rv v) 0 () = (Inr v, 0, ())" "v \<noteq> PBool False \<Longrightarrow> rv_connect (?rv v) () = (Inr (), ())" for v
    using proxy by (simp_all add: demo_revival_def)
  obtain r b k w where alive: "failover_request PNone = (r, b, k, w)" by (metis prod_cases4)
  obtain r' b' k' w' where dead: "failover_request (PBool False) = (r', b', k', w')" by (metis prod_cases4)
  show ?thesis
    using replicated_session_fails_over [OF a(1) k save a(2,3) unknown rv alive [unfolded failover_request_def]]
      replicated_session_fails_over [OF a(1) k save a(2,3) unknown rv dead [unfolded failover_request_def]] alive dead
    by auto
qed

text \<open>
  When a replicated gateway asks the webhook service for the session of a kernel it does not
  know and the request fails, even for a moment, the service is told to delete that session.
\<close>

lemma failed_load_deletes_session:
  assumes "enable_persistence m" "wh_auth_attr m = Some auth" "\<not> known k kid"
    and "wh_get h kid (wh_world m) = (status, body)" "400 \<le> status" "status < 600"
    and "check_kernel_id True (wh_load_session h) (wh_delete_sessions h) start known kid m k = (r, m', k')"
  shows "(\<exists>e. r = Inl e) \<and> k' = k \<and> dget (sessions m') kid = None
    \<and> wh_world m' = snd (wh_delete h [kid] (wh_world m))"
proof -
  have world: "wh_world (drop_sessions ks m) = wh_world m" "enable_persistence (drop_sessions ks m) = enable_persistence m"
    "wh_auth_attr (drop_sessions ks m) = wh_auth_attr m" for ks and m :: "'c wh_ksm"
    by (induction ks m rule: drop_sessions.induct) (auto split: option.splits)
  have gone: "dget (sessions (drop_sessions [kid] m)) kid = None"
    by (auto split: option.splits)
  have "wh_load_session h kid m = (Inl OtherError, m)"
    using assms(1,2,4-6) by (simp add: wh_load_session_def raise_for_status_def)
  with assms(1,3,7) have "(case wh_delete_sessions h [kid] (drop_sessions [kid] m) of
        (Inl e, m2) \<Rightarrow> (Inl e, m2, k) | (Inr _, m2) \<Rightarrow> (Inl (HTTPError 404), m2, k)) = (r, m', k')"
    by (simp add: check_kernel_id_def refresh_kernel_def ksm_delete_session_def ksm_delete_sessions_def
        del: drop_sessions.simps)
  moreover obtain st v where d: "wh_delete h [kid] (wh_world m) = (st, v)" by fastforce
  then have "wh_delete_sessions h [kid] (drop_sessions [kid] m)
      = (check_no_content st, drop_sessions [kid] m\<lparr>wh_world := v\<rparr>)"
    using assms(1,2) by (simp add: wh_delete_sessions_def world del: drop_sessions.simps)
  ultimately show ?thesis
    using gone d by (auto simp del: drop_sessions.simps split: sum.splits intro: sym)
qed

definition flaky_webhook :: "string list webhook" where
  "flaky_webhook =
     \<lparr>wh_post = \<lambda>k d w. (204, k # w), wh_delete = \<lambda>ks w. (204, [k \<leftarrow> w. k \<notin> set ks]),
      wh_get_all = \<lambda>w. (503, None), wh_get = \<lambda>k w. (503, None)\<rparr>"

lemma failed_load_deletes_session_witness:
  "wh_world (fst (snd (check_kernel_id True (wh_load_session flaky_webhook) (wh_delete_sessions flaky_webhook)
     (\<lambda>s k. (Inr True, k)) (\<lambda>k kid. False) ''k1''
     \<lparr>enable_persistence = True, sessions = [], sessions_by_user = [], wh_auth_attr = Some NoAuth,
       wh_world = [''k1'', ''k2'']\<rparr> ())))
   = [''k2'']"
proof -
  let ?m = "\<lparr>enable_persistence = True, sessions = [], sessions_by_user = [], wh_auth_attr = Some NoAuth,
       wh_world = [''k1'', ''k2'']\<rparr>"
  obtain r m' where ck: "check_kernel_id True (wh_load_session flaky_webhook) (wh_delete_sessions flaky_webhook)
     (\<lambda>s k. (Inr True, k)) (\<lambda>k kid. False) ''k1'' ?m () = (r, m', ())"
    by (metis (full_types) prod_cases3 unit.exhaust)
  have get: "wh_get flaky_webhook ''k1'' (wh_world ?m) = (503, None)" by (simp add: flaky_webhook_def)
  show ?thesis
    using failed_load_deletes_session [OF _ _ _ get _ _ ck] ck by (simp add: flaky_webhook_def)
qed

end
