(* ===== verification/ApiSessions.thy ===== *)
theory ApiSessions
  imports PyBase
begin

text \<open>
  The sessions of the REST API: \<open>SessionManager\<close> (services/sessions/sessionmanager.py), a list
  of rows that associate a client's path with a kernel.  The kernel manager is given by its
  membership test, its models and its start and shutdown; \<open>remove\<close> on a list takes the first
  equal row out.
\<close>

section \<open>Rows and lookup\<close>

record row =
  row_session_id :: string
  row_path :: "string option"
  row_kernel_id :: "string option"

text \<open>A model as the API returns it: the id, the path and the kernel's model.\<close>

type_synonym 'v model = "string \<times> string option \<times> 'v"



definition session_exists :: "string \<Rightarrow> row list \<Rightarrow> bool" where
  "session_exists path rows \<longleftrightarrow> [r \<leftarrow> rows. row_path r = Some path] \<noteq> []"



section \<open>Operations\<close>

text \<open>A row whose kernel is gone is dropped and the lookup raises.\<close>

definition row_to_model ::
  "(string option \<Rightarrow> bool) \<Rightarrow> (string option \<Rightarrow> 'v) \<Rightarrow> row \<Rightarrow> row list \<Rightarrow> 'v model res \<times> row list" where
  "row_to_model known kernel_model r rows =
     (if \<not> known (row_kernel_id r) then (Inl KeyError, remove1 r rows)
      else (Inr (row_session_id r, row_path r, kernel_model (row_kernel_id r)), rows))"





fun models_of ::
  "(string option \<Rightarrow> bool) \<Rightarrow> (string option \<Rightarrow> 'v) \<Rightarrow> row list \<Rightarrow> row list \<Rightarrow> 'v model list res \<times> row list" where
  "models_of known kernel_model [] rows = (Inr [], rows)"
| "models_of known kernel_model (r # rs) rows =
     bindE (row_to_model known kernel_model r rows) (\<lambda>m rows1.
       bindE (models_of known kernel_model rs rows1) (\<lambda>ms rows2. (Inr (m # ms), rows2)))"

definition list_sessions ::
  "(string option \<Rightarrow> bool) \<Rightarrow> (string option \<Rightarrow> 'v) \<Rightarrow> row list \<Rightarrow> 'v model list res \<times> row list" where
  "list_sessions known kernel_model rows = models_of known kernel_model rows rows"


definition session_root_get :: "bool \<Rightarrow> 'a res \<Rightarrow> 'a res" where
  "session_root_get eg_list_kernels listing =
     (if \<not> eg_list_kernels then Inl (HTTPError 403) else listing)"

section \<open>The table as a map\<close>











section \<open>The abstract operations\<close>



















section \<open>Refinement\<close>

lemma models_of_live:
  "list_all (\<lambda>r. known (row_kernel_id r)) rs \<Longrightarrow>
   models_of known km rs rows = (Inr (map (\<lambda>r. (row_session_id r, row_path r, km (row_kernel_id r))) rs), rows)"
  by (induction rs) (simp_all add: row_to_model_def)

lemma models_of_dead:
  "list_all (\<lambda>r. known (row_kernel_id r)) pre \<Longrightarrow> \<not> known (row_kernel_id d) \<Longrightarrow>
   models_of known km (pre @ d # post) rows = (Inl KeyError, remove1 d rows)"
  by (induction pre) (simp_all add: row_to_model_def)














definition demo_rows :: "row list" where
  "demo_rows = [\<lparr>row_session_id = ''s1'', row_path = Some ''a.ipynb'', row_kernel_id = Some ''k1''\<rparr>]"



section \<open>Listing\<close>

abbreviation list_again :: "(string option \<Rightarrow> bool) \<Rightarrow> (string option \<Rightarrow> 'v) \<Rightarrow> row list \<Rightarrow> row list" where
  "list_again known km rows \<equiv> snd (list_sessions known km rows)"

lemma list_sessions_dead:
  assumes "list_all (\<lambda>r. known (row_kernel_id r)) pre" "\<not> known (row_kernel_id d)"
  shows "list_sessions known km (pre @ d # post) = (Inl KeyError, pre @ post)"
proof -
  have "d \<notin> set pre" using assms by (auto simp: list_all_iff)
  then show ?thesis using models_of_dead [OF assms, of km post] by (simp add: list_sessions_def remove1_append)
qed

text \<open>
  A session whose kernel has died makes the listing of all sessions raise, once for each
  such session: with \<open>n\<close> of them the first \<open>n\<close> listings raise \<open>KeyError\<close>, each dropping one, and
  the next one returns the models of exactly the sessions whose kernels are alive.
\<close>

lemma list_sessions_recovers:
  assumes "n = length [r \<leftarrow> rows. \<not> known (row_kernel_id r)]"
  shows "(\<forall>i<n. fst (list_sessions known km ((list_again known km ^^ i) rows)) = Inl KeyError)
    \<and> list_sessions known km ((list_again known km ^^ n) rows)
      = (let live = [r \<leftarrow> rows. known (row_kernel_id r)] in
         (Inr (map (\<lambda>r. (row_session_id r, row_path r, km (row_kernel_id r))) live), live))"
  using assms
proof (induction n arbitrary: rows)
  case 0
  then have all: "\<forall>r\<in>set rows. known (row_kernel_id r)" by (auto simp: filter_empty_conv)
  then have "list_all (\<lambda>r. known (row_kernel_id r)) rows" by (simp add: list_all_iff)
  with all show ?case by (simp add: list_sessions_def models_of_live filter_True)
next
  case (Suc n)
  then have "\<exists>r\<in>set rows. \<not> known (row_kernel_id r)" by (metis filter_False length_0_conv nat.simps(3))
  then obtain pre d post where rows: "rows = pre @ d # post" and d: "\<not> known (row_kernel_id d)"
    and pre: "\<forall>r\<in>set pre. known (row_kernel_id r)"
    using split_list_first_prop [of rows "\<lambda>r. \<not> known (row_kernel_id r)"] by auto
  have step: "list_sessions known km rows = (Inl KeyError, pre @ post)"
    unfolding rows using pre d by (intro list_sessions_dead) (simp_all add: list_all_iff)
  have "n = length [r \<leftarrow> pre @ post. \<not> known (row_kernel_id r)]" using Suc.prems d rows by simp
  note IH = Suc.IH [OF this]
  have live: "[r \<leftarrow> rows. known (row_kernel_id r)] = [r \<leftarrow> pre @ post. known (row_kernel_id r)]"
    using d rows by simp
  have again: "(list_again known km ^^ Suc j) rows = (list_again known km ^^ j) (pre @ post)" for j
    using step by (simp add: funpow_Suc_right del: funpow.simps)
  have "fst (list_sessions known km ((list_again known km ^^ i) rows)) = Inl KeyError" if "i < Suc n" for i
    using that IH step again by (cases i) (simp_all del: funpow.simps(2))
  then show ?case using IH again live by (simp del: funpow.simps(2))
qed

lemma list_sessions_recovers_witness:
  "fst (list_sessions (\<lambda>k. False) (\<lambda>k. PNone) demo_rows) = Inl KeyError
   \<and> list_sessions (\<lambda>k. False) (\<lambda>k. PNone) (list_again (\<lambda>k. False) (\<lambda>k. PNone) demo_rows) = (Inr [], [])"
  using list_sessions_recovers [where n = 1 and rows = demo_rows and known = "\<lambda>k. False" and km = "\<lambda>k. PNone"] by (simp add: demo_rows_def)

end
