(* ===== verification/SpecCache.thy ===== *)
theory SpecCache
  imports KernelManager
begin

text \<open>
  The cache of kernel specifications (services/kernelspecs/kernelspec_cache.py): the cache in
  front of a \<open>KernelSpecManager\<close>, and the handler of file system events that keeps it up to
  date.  The manager reads the disk, a state \<open>'w\<close>; a specification is its \<open>spec\<close> dict with
  its resource directory.
\<close>

section \<open>The cache\<close>

record spec_item =
  si_spec :: "(string, pyval) dict"
  si_resource_dir :: string

record cache =
  cache_enabled :: bool
  cache_items :: "(string, spec_item) dict"
  observed_dirs :: "string list"
  cache_misses :: nat

definition cache_enabled_default :: "string option \<Rightarrow> bool" where
  "cache_enabled_default v = (lower (case v of None \<Rightarrow> ''false'' | Some s \<Rightarrow> s) \<in> set [''true'', ''1''])"

definition dirname :: "string \<Rightarrow> string" where
  "dirname f =
     (let head = rev (dropWhile (\<lambda>c. c \<noteq> CHR ''/'') (rev f)) in
      if list_all (\<lambda>c. c = CHR ''/'') head then head
      else rev (dropWhile (\<lambda>c. c = CHR ''/'') (rev head)))"

text \<open>
  \<open>readable\<close> says whether building a \<open>KernelSpec\<close> from an item works; where it does not, it raises
  \<open>FileNotFoundError\<close>, which counts as a miss.
\<close>

definition get_item :: "(spec_item \<Rightarrow> bool) \<Rightarrow> string \<Rightarrow> cache \<Rightarrow> spec_item option \<times> cache" where
  "get_item readable kernel_name c =
     (if cache_enabled c
      then (let kernelspec = (case dget (cache_items c) (lower kernel_name) of
                None \<Rightarrow> None
              | Some item \<Rightarrow> if readable item then Some item else None) in
            (kernelspec, if kernelspec = None then c\<lparr>cache_misses := cache_misses c + 1\<rparr> else c))
      else (None, c))"

definition get_all_items :: "cache \<Rightarrow> (string, spec_item) dict \<times> cache" where
  "get_all_items c =
     (if cache_enabled c
      then (cache_items c, if cache_items c = [] then c\<lparr>cache_misses := cache_misses c + 1\<rparr> else c)
      else ([], c))"

definition put_item :: "string \<Rightarrow> spec_item \<Rightarrow> cache \<Rightarrow> cache" where
  "put_item kernel_name item c =
     (if cache_enabled c
      then (let observed_dir = dirname (si_resource_dir item) in
            c\<lparr>cache_items := dset (lower kernel_name) item (cache_items c),
              observed_dirs := (if observed_dir \<in> set (observed_dirs c) then observed_dirs c
                                else observed_dirs c @ [observed_dir])\<rparr>)
      else c)"

fun put_all_items :: "(string, spec_item) dict \<Rightarrow> cache \<Rightarrow> cache" where
  "put_all_items [] c = c"
| "put_all_items ((kernel_name, item) # items) c = put_all_items items (put_item kernel_name item c)"

definition remove_item :: "string \<Rightarrow> cache \<Rightarrow> spec_item option \<times> cache" where
  "remove_item kernel_name c =
     (if cache_enabled c \<and> dhas (cache_items c) (lower kernel_name)
      then (dget (cache_items c) (lower kernel_name), c\<lparr>cache_items := ddel (lower kernel_name) (cache_items c)\<rparr>)
      else (None, c))"

text \<open>The manager's two lookups; \<open>get_kernel_spec\<close> raises for an unknown name.\<close>

record 'w spec_manager =
  sm_get :: "string \<Rightarrow> 'w \<Rightarrow> spec_item res"
  sm_get_all :: "'w \<Rightarrow> (string, spec_item) dict"
  sm_kernel_dirs :: "'w \<Rightarrow> string list"
  sm_dir_exists :: "string \<Rightarrow> 'w \<Rightarrow> bool"

definition get_kernel_spec ::
  "'w spec_manager \<Rightarrow> (spec_item \<Rightarrow> bool) \<Rightarrow> string \<Rightarrow> cache \<Rightarrow> 'w \<Rightarrow> spec_item res \<times> cache" where
  "get_kernel_spec mgr readable kernel_name c w =
     (case get_item readable kernel_name c of
        (Some item, c1) \<Rightarrow> (Inr item, c1)
      | (None, c1) \<Rightarrow>
          (case sm_get mgr kernel_name w of
             Inl e \<Rightarrow> (Inl e, c1)
           | Inr item \<Rightarrow> (Inr item, put_item kernel_name item c1)))"

definition get_all_specs :: "'w spec_manager \<Rightarrow> cache \<Rightarrow> 'w \<Rightarrow> (string, spec_item) dict \<times> cache" where
  "get_all_specs mgr c w =
     (case get_all_items c of
        (items, c1) \<Rightarrow>
          if items \<noteq> [] then (items, c1)
          else (let kernelspecs = sm_get_all mgr w in
                (kernelspecs, if kernelspecs \<noteq> [] then put_all_items kernelspecs c1 else c1)))"

fun observe_dirs :: "'w spec_manager \<Rightarrow> 'w \<Rightarrow> string list \<Rightarrow> cache \<Rightarrow> cache" where
  "observe_dirs mgr w [] c = c"
| "observe_dirs mgr w (d # ds) c =
     observe_dirs mgr w ds
       (if d \<notin> set (observed_dirs c) \<and> sm_dir_exists mgr d w
        then c\<lparr>observed_dirs := observed_dirs c @ [d]\<rparr> else c)"

definition cache_initialize :: "'w spec_manager \<Rightarrow> bool \<Rightarrow> 'w \<Rightarrow> cache" where
  "cache_initialize mgr enabled w =
     (let c = \<lparr>cache_enabled = enabled, cache_items = [], observed_dirs = [], cache_misses = 0\<rparr> in
      if enabled then observe_dirs mgr w (sm_kernel_dirs mgr w) (put_all_items (sm_get_all mgr w) c) else c)"

section \<open>File system events\<close>

datatype fs_event = Created string | Deleted string | Modified string | Moved string string

fun src_path :: "fs_event \<Rightarrow> string" where
  "src_path (Created f) = f"
| "src_path (Deleted f) = f"
| "src_path (Modified f) = f"
| "src_path (Moved f g) = f"

definition watched_files :: "string list" where
  "watched_files = [''kernel.json'']"

definition resource_dir_of :: "string \<Rightarrow> string" where
  "resource_dir_of path = dirname path"

definition kernel_name_of :: "string \<Rightarrow> string" where
  "kernel_name_of path = basename (dirname path)"

text \<open>Creation and modification do the same: what the manager returns replaces the item.\<close>

definition on_written :: "'w spec_manager \<Rightarrow> string \<Rightarrow> cache \<Rightarrow> 'w \<Rightarrow> cache" where
  "on_written mgr kernel_name c w =
     (case sm_get mgr kernel_name w of Inl e \<Rightarrow> c | Inr item \<Rightarrow> put_item kernel_name item c)"

text \<open>An item that is not cached is \<open>None\<close>, whose item assignment raises.\<close>

definition on_moved :: "string \<Rightarrow> string \<Rightarrow> string \<Rightarrow> cache \<Rightarrow> unit res \<times> cache" where
  "on_moved src_kernel_name dest_kernel_name dest_resource_dir c =
     (case remove_item src_kernel_name c of
        (None, c1) \<Rightarrow> (Inl TypeError, c1)
      | (Some item, c1) \<Rightarrow> (Inr (), put_item dest_kernel_name (item\<lparr>si_resource_dir := dest_resource_dir\<rparr>) c1))"

definition dispatch :: "'w spec_manager \<Rightarrow> fs_event \<Rightarrow> cache \<Rightarrow> 'w \<Rightarrow> unit res \<times> cache" where
  "dispatch mgr event c w =
     (if basename (src_path event) \<in> set watched_files
      then (case event of
         Created f \<Rightarrow> (Inr (), on_written mgr (kernel_name_of f) c w)
       | Modified f \<Rightarrow> (Inr (), on_written mgr (kernel_name_of f) c w)
       | Deleted f \<Rightarrow> (Inr (), snd (remove_item (kernel_name_of f) c))
       | Moved f g \<Rightarrow> on_moved (kernel_name_of f) (kernel_name_of g) (resource_dir_of g) c)
      else (Inr (), c))"

section \<open>Transparency\<close>

text \<open>
  What \<open>KernelSpecManager\<close> documents: \<open>get_kernel_spec\<close> reads the kernel's directory, whose name
  is taken in lower case, and \<open>get_all_specs\<close> lists all of them under lower case names.
\<close>

definition manager_reads :: "'w spec_manager \<Rightarrow> ('w \<Rightarrow> string \<Rightarrow> spec_item option) \<Rightarrow> exn \<Rightarrow> bool" where
  "manager_reads mgr disk no_such_kernel \<longleftrightarrow>
     (\<forall>n w. sm_get mgr n w = of_option no_such_kernel (disk w (lower n)))
     \<and> (\<forall>w. dict_ok (sm_get_all mgr w) \<and> (\<forall>k. dget (sm_get_all mgr w) k = disk w k)
          \<and> (\<forall>k\<in>set (dkeys (sm_get_all mgr w)). lower k = k))"

text \<open>
  Histories in which every change of a kernel.json is followed by its event: a file is written,
  removed, or moved with its directory.  Lookups happen in between.
\<close>

inductive cache_history ::
  "'w spec_manager \<Rightarrow> ('w \<Rightarrow> string \<Rightarrow> spec_item option) \<Rightarrow> (spec_item \<Rightarrow> bool) \<Rightarrow> cache \<Rightarrow> 'w \<Rightarrow> bool"
  for mgr :: "'w spec_manager" and disk :: "'w \<Rightarrow> string \<Rightarrow> spec_item option" and readable :: "spec_item \<Rightarrow> bool" where
  ch_start: "cache_history mgr disk readable (cache_initialize mgr True w) w"
| ch_write: "cache_history mgr disk readable c w \<Longrightarrow> basename f = ''kernel.json'' \<Longrightarrow>
    disk w' = (disk w)(lower (kernel_name_of f) \<mapsto> item) \<Longrightarrow>
    event = Created f \<or> event = Modified f \<Longrightarrow>
    dispatch mgr event c w' = (r, c') \<Longrightarrow> cache_history mgr disk readable c' w'"
| ch_delete: "cache_history mgr disk readable c w \<Longrightarrow> basename f = ''kernel.json'' \<Longrightarrow>
    disk w' = (disk w)(lower (kernel_name_of f) := None) \<Longrightarrow>
    dispatch mgr (Deleted f) c w' = (r, c') \<Longrightarrow> cache_history mgr disk readable c' w'"
| ch_move: "cache_history mgr disk readable c w \<Longrightarrow> basename f = ''kernel.json'' \<Longrightarrow>
    disk w (lower (kernel_name_of f)) = Some item \<Longrightarrow>
    disk w' = (disk w)(lower (kernel_name_of f) := None,
      lower (kernel_name_of g) \<mapsto> item\<lparr>si_resource_dir := resource_dir_of g\<rparr>) \<Longrightarrow>
    dispatch mgr (Moved f g) c w' = (r, c') \<Longrightarrow> cache_history mgr disk readable c' w'"
| ch_lookup: "cache_history mgr disk readable c w \<Longrightarrow>
    get_kernel_spec mgr readable n c w = (r, c') \<Longrightarrow> cache_history mgr disk readable c' w"
| ch_list: "cache_history mgr disk readable c w \<Longrightarrow>
    get_all_specs mgr c w = (d, c') \<Longrightarrow> cache_history mgr disk readable c' w"

definition cache_exact :: "(string \<Rightarrow> spec_item option) \<Rightarrow> cache \<Rightarrow> bool" where
  "cache_exact d c \<longleftrightarrow> cache_enabled c \<and> (\<forall>n. dget (cache_items c) (lower n) = d (lower n))"

lemma put_item_items [simp]:
  "cache_enabled (put_item n i c) = cache_enabled c"
  "cache_enabled c \<Longrightarrow> cache_items (put_item n i c) = dset (lower n) i (cache_items c)"
  by (simp_all add: put_item_def Let_def)

lemma observe_dirs_items [simp]:
  "cache_items (observe_dirs mgr w ds c) = cache_items c" "cache_enabled (observe_dirs mgr w ds c) = cache_enabled c"
  by (induction mgr w ds c rule: observe_dirs.induct) auto

lemma put_all_items_dget:
  "dict_ok items \<Longrightarrow> (\<forall>k\<in>set (dkeys items). lower k = k) \<Longrightarrow> cache_enabled c \<Longrightarrow>
   cache_enabled (put_all_items items c) \<and>
   dget (cache_items (put_all_items items c)) k
   = (case dget items k of None \<Rightarrow> dget (cache_items c) k | Some i \<Rightarrow> Some i)"
proof (induction items c rule: put_all_items.induct)
  case (2 n i items c)
  have n: "dget items n = None" using 2(2) by (simp add: dict_ok_def map_of_eq_None_iff)
  have "dict_ok items" "\<forall>k\<in>set (dkeys items). lower k = k" "lower n = n"
    using 2(2,3) by (simp_all add: dict_ok_def dkeys_def)
  with "2.IH" 2(4) n show ?case by (auto split: option.splits)
qed simp

lemma initialize_exact: "manager_reads mgr disk e \<Longrightarrow> cache_exact (disk w) (cache_initialize mgr True w)"
  by (auto simp: manager_reads_def cache_exact_def cache_initialize_def Let_def put_all_items_dget split: option.splits)

lemma put_exact: "cache_exact d c \<Longrightarrow> cache_exact (d(lower n \<mapsto> i)) (put_item n i c)"
  by (auto simp: cache_exact_def)

lemma get_item_exact:
  "cache_exact d c \<Longrightarrow> get_item readable n c = (x, c') \<Longrightarrow> cache_exact d c' \<and> (x = None \<or> x = d (lower n))"
  by (auto simp: cache_exact_def get_item_def Let_def split: option.splits if_splits)

lemma lookup_exact:
  assumes "manager_reads mgr disk e" "cache_exact (disk w) c" "get_kernel_spec mgr readable n c w = (r, c')"
  shows "cache_exact (disk w) c' \<and> r = sm_get mgr n w"
proof -
  obtain x c1 where g: "get_item readable n c = (x, c1)" by fastforce
  note i = get_item_exact [OF assms(2) g]
  have m: "sm_get mgr n w = of_option e (disk w (lower n))" using assms(1) by (simp add: manager_reads_def)
  show ?thesis
  proof (cases x)
    case (Some item)
    then have d: "disk w (lower n) = Some item" using i by auto
    from Some i assms(3) g m show ?thesis unfolding get_kernel_spec_def d by simp
  next
    case None
    show ?thesis
    proof (cases "disk w (lower n)")
      case (Some item)
      then have "(disk w)(lower n \<mapsto> item) = disk w" by (simp add: fun_upd_idem)
      with put_exact [of "disk w" c1 n item] i Some None assms(3) g m show ?thesis
        by (auto simp: get_kernel_spec_def)
    qed (use None i assms(3) g m in \<open>auto simp: get_kernel_spec_def\<close>)
  qed
qed

lemma listing_exact:
  assumes "manager_reads mgr disk e" "cache_exact (disk w) c" "get_all_specs mgr c w = (d, c')"
  shows "cache_exact (disk w) c'"
proof -
  have m: "dict_ok (sm_get_all mgr w)" "\<forall>k\<in>set (dkeys (sm_get_all mgr w)). lower k = k"
    "dget (sm_get_all mgr w) k = disk w k" for k
    using assms(1) by (simp_all add: manager_reads_def)
  have "cache_exact (disk w) (put_all_items (sm_get_all mgr w) c1)" if "cache_exact (disk w) c1" for c1
    using that put_all_items_dget [OF m(1,2), of c1] m(3) by (auto simp: cache_exact_def split: option.splits)
  moreover have "cache_exact (disk w) (c\<lparr>cache_misses := cache_misses c + 1\<rparr>)"
    using assms(2) by (simp add: cache_exact_def)
  ultimately show ?thesis
    using assms(2,3) by (auto simp: get_all_specs_def get_all_items_def cache_exact_def Let_def split: if_splits)
qed

lemma written_exact:
  assumes "manager_reads mgr disk e" "cache_exact (disk w) c" "disk w' = (disk w)(lower n \<mapsto> item)"
  shows "cache_exact (disk w') (on_written mgr n c w')"
proof -
  have "sm_get mgr n w' = Inr item" using assms(1,3) by (simp add: manager_reads_def)
  with put_exact [OF assms(2)] assms(3) show ?thesis by (simp add: on_written_def)
qed

lemma moved_exact:
  assumes "cache_exact d c" "d (lower m) = Some item"
  shows "on_moved m n dir c =
    (Inr (), put_item n (item\<lparr>si_resource_dir := dir\<rparr>) (c\<lparr>cache_items := ddel (lower m) (cache_items c)\<rparr>))"
  using assms by (auto simp: cache_exact_def on_moved_def remove_item_def dhas_iff)

lemma history_exact:
  assumes "manager_reads mgr disk e"
  shows "cache_history mgr disk readable c w \<Longrightarrow> cache_exact (disk w) c"
proof (induction rule: cache_history.induct)
  case (ch_start w)
  show ?case using assms by (rule initialize_exact)
next
  case (ch_write c w f w' item event r c')
  then have "c' = on_written mgr (kernel_name_of f) c w'"
    by (auto simp: dispatch_def watched_files_def)
  with written_exact [OF assms ch_write(6,3)] show ?case by simp
next
  case (ch_delete c w f w' r c')
  then have "c' = snd (remove_item (kernel_name_of f) c)" by (simp add: dispatch_def watched_files_def)
  with ch_delete(3,5) show ?case by (auto simp: cache_exact_def remove_item_def dhas_iff)
next
  case (ch_move c w f item w' g r c')
  then have "c' = snd (on_moved (kernel_name_of f) (kernel_name_of g) (resource_dir_of g) c)"
    by (simp add: dispatch_def watched_files_def)
  with moved_exact [OF ch_move(6,3)] ch_move(4,6) show ?case by (auto simp: cache_exact_def)
next
  case (ch_lookup c w n r c')
  then show ?case using lookup_exact [OF assms] by blast
next
  case (ch_list c w d c')
  then show ?case using listing_exact [OF assms] by blast
qed

text \<open>
  C21: The cache of kernel specifications is transparent: when every change of a kernel.json is
  followed by its event, a lookup through the cache gives what the manager reads from the disk
  at that moment, unknown kernels included, for every spelling of the name.
\<close>

theorem spec_cache_is_transparent:
  assumes "manager_reads mgr disk e" "cache_history mgr disk readable c w"
  shows "fst (get_kernel_spec mgr readable n c w) = sm_get mgr n w"
  using lookup_exact [OF assms(1) history_exact [OF assms]] by (metis prod.collapse)

text \<open>A disk with at most one kernel, named py.\<close>

definition demo_disk :: "spec_item option \<Rightarrow> string \<Rightarrow> spec_item option" where
  "demo_disk w k = (if k = ''py'' then w else None)"

definition demo_manager :: "spec_item option spec_manager" where
  "demo_manager =
     \<lparr>sm_get = \<lambda>n w. of_option KeyError (demo_disk w (lower n)),
      sm_get_all = \<lambda>w. (case w of None \<Rightarrow> [] | Some i \<Rightarrow> [(''py'', i)]),
      sm_kernel_dirs = \<lambda>w. [], sm_dir_exists = \<lambda>d w. True\<rparr>"

definition demo_item :: spec_item where
  "demo_item = \<lparr>si_spec = [(''language'', PStr ''python'')], si_resource_dir = ''/k/py''\<rparr>"

lemma demo_manager_reads: "manager_reads demo_manager demo_disk KeyError"
proof -
  have "lower ''py'' = ''py''" by code_simp
  then show ?thesis
    by (auto simp: manager_reads_def demo_manager_def demo_disk_def dict_ok_def dkeys_def split: option.splits)
qed

lemma spec_cache_is_transparent_witness:
  "fst (get_kernel_spec demo_manager (\<lambda>_. True) ''PY''
     (snd (dispatch demo_manager (Created ''/k/py/kernel.json'') (cache_initialize demo_manager True None) (Some demo_item)))
     (Some demo_item)) = Inr demo_item"
proof -
  have py: "lower ''py'' = ''py''" "lower ''PY'' = ''py''" "basename ''/k/py/kernel.json'' = ''kernel.json''"
    "lower (kernel_name_of ''/k/py/kernel.json'') = ''py''" by code_simp+
  note laws = demo_manager_reads
  have disk: "demo_disk (Some demo_item) = (demo_disk None)(lower (kernel_name_of ''/k/py/kernel.json'') \<mapsto> demo_item)"
    unfolding py by (simp add: fun_eq_iff demo_disk_def)
  have "cache_history demo_manager demo_disk (\<lambda>_. True) (snd (dispatch demo_manager (Created ''/k/py/kernel.json'')
      (cache_initialize demo_manager True None) (Some demo_item))) (Some demo_item)"
    by (rule ch_write [OF ch_start py(3) disk disjI1 [OF refl]]) (rule surjective_pairing)
  from spec_cache_is_transparent [OF laws this, of "''PY''"] show ?thesis
    by (simp add: demo_manager_def demo_disk_def py)
qed

text \<open>An editor that writes a new file and renames it over kernel.json goes unnoticed.\<close>

lemma rename_over_is_ignored:
  "basename f \<noteq> ''kernel.json'' \<Longrightarrow> dispatch mgr (Moved f g) c w = (Inr (), c)"
  by (simp add: dispatch_def watched_files_def)

text \<open>Moving a kernel that is not cached raises in the observer's thread.\<close>

lemma move_uncached_raises:
  "cache_enabled c \<Longrightarrow> dget (cache_items c) (lower m) = None \<Longrightarrow> on_moved m n d c = (Inl TypeError, c)"
  by (simp add: on_moved_def remove_item_def dhas_iff)

end
