(* ===== verification/GatewayConfig.thy ===== *)
theory GatewayConfig
  imports KernelRequest Authorization KernelLimits
begin

text \<open>
  The mixins of mixins.py: CORS headers, token authorization and JSON error bodies of the
  handlers, and the defaults of the options, which come from environment variables.  The
  environment is a dict of strings; an option whose conversion fails raises.
\<close>

section \<open>Handlers\<close>

definition SETTINGS_TO_HEADERS :: "(string \<times> string) list" where
  "SETTINGS_TO_HEADERS =
     [(''eg_allow_credentials'', ''Access-Control-Allow-Credentials''),
      (''eg_allow_headers'', ''Access-Control-Allow-Headers''),
      (''eg_allow_methods'', ''Access-Control-Allow-Methods''),
      (''eg_allow_origin'', ''Access-Control-Allow-Origin''),
      (''eg_expose_headers'', ''Access-Control-Expose-Headers''),
      (''eg_max_age'', ''Access-Control-Max-Age'')]"

text \<open>\<open>headers\<close> are those the base class has set.\<close>

definition set_default_headers :: "(string, string) dict \<Rightarrow> (string, string) dict \<Rightarrow> (string, string) dict" where
  "set_default_headers settings headers =
     ddel ''Content-Security-Policy''
       (foldl (\<lambda>h (settings_name, header_name).
          (case dget settings settings_name of
             None \<Rightarrow> h | Some v \<Rightarrow> if v \<noteq> [] then dset header_name v h else h)) headers SETTINGS_TO_HEADERS)"

definition header_prefix :: string where
  "header_prefix = ''token ''"

text \<open>\<open>argument\<close> is the query parameter, \<open>authorization\<close> the header; \<open>super\<close> goes on with the request.\<close>

definition token_prepare ::
  "string option \<Rightarrow> string \<Rightarrow> string option \<Rightarrow> string option \<Rightarrow> 'a res \<Rightarrow> 'a res" where
  "token_prepare server_token request_method argument authorization super =
     (case server_token of
        None \<Rightarrow> super
      | Some t \<Rightarrow>
          if t \<noteq> [] \<and> request_method \<noteq> ''OPTIONS''
          then (let client_token =
                  (case argument of
                     Some a \<Rightarrow> Some a
                   | None \<Rightarrow>
                       (case authorization of
                          None \<Rightarrow> None
                        | Some h \<Rightarrow>
                            if h \<noteq> [] \<and> startswith h header_prefix then Some (drop (length header_prefix) h)
                            else None)) in
                if client_token \<noteq> Some t then Inl (HTTPError 401) else super)
          else super)"

text \<open>
  An exception as \<open>write_error\<close> sees it: an HTTP error has a log message and a reason, others a
  trace; \<open>responses\<close> is the standard table of reasons.
\<close>

datatype error_info = Http_Error "string option" "string option" | Server_Error string "string option"

record error_reply =
  er_reason :: string
  er_message :: string
  er_traceback :: "string option"

definition write_error :: "(nat \<Rightarrow> string option) \<Rightarrow> nat \<Rightarrow> error_info option \<Rightarrow> error_reply" where
  "write_error responses status_code exc_info =
     (let reason = (case responses status_code of None \<Rightarrow> ''Unknown HTTP Error'' | Some r \<Rightarrow> r);
          custom = (\<lambda>r. case r of None \<Rightarrow> reason | Some c \<Rightarrow> if c \<noteq> [] then c else reason) in
      case exc_info of
        None \<Rightarrow> \<lparr>er_reason = reason, er_message = [], er_traceback = None\<rparr>
      | Some (Http_Error log_message r) \<Rightarrow>
          \<lparr>er_reason = custom r, er_message = (case log_message of None \<Rightarrow> [] | Some m \<Rightarrow> m), er_traceback = None\<rparr>
      | Some (Server_Error trace r) \<Rightarrow>
          \<lparr>er_reason = custom r, er_message = ''Unknown server error'', er_traceback = Some trace\<rparr>)"

section \<open>Defaults of the options\<close>

fun getenv_chain :: "env \<Rightarrow> string list \<Rightarrow> string option" where
  "getenv_chain e [] = None"
| "getenv_chain e (k # ks) = (case dget e k of Some v \<Rightarrow> Some v | None \<Rightarrow> getenv_chain e ks)"

definition getenv :: "env \<Rightarrow> string list \<Rightarrow> string \<Rightarrow> string" where
  "getenv e ks dflt = (case getenv_chain e ks of None \<Rightarrow> dflt | Some v \<Rightarrow> v)"

definition getenv_int :: "env \<Rightarrow> string list \<Rightarrow> int \<Rightarrow> int res" where
  "getenv_int e ks dflt =
     (case getenv_chain e ks of None \<Rightarrow> Inr dflt | Some v \<Rightarrow> of_option ValueError (py_int v))"

definition getenv_int_opt :: "env \<Rightarrow> string list \<Rightarrow> int option res" where
  "getenv_int_opt e ks =
     (case getenv_chain e ks of
        None \<Rightarrow> Inr None | Some v \<Rightarrow> rbind (of_option ValueError (py_int v)) (\<lambda>i. Inr (Some i)))"

definition port_default :: "env \<Rightarrow> int res" where
  "port_default e = getenv_int e [''EG_PORT'', ''KG_PORT''] 8888"

definition port_retries_default :: "env \<Rightarrow> int res" where
  "port_retries_default e = getenv_int e [''EG_PORT_RETRIES'', ''KG_PORT_RETRIES''] 50"

definition ip_default :: "env \<Rightarrow> string" where
  "ip_default e = getenv e [''EG_IP'', ''KG_IP''] ''127.0.0.1''"

definition base_url_default :: "env \<Rightarrow> string" where
  "base_url_default e = getenv e [''EG_BASE_URL'', ''KG_BASE_URL''] ''/''"

definition auth_token_default :: "env \<Rightarrow> string" where
  "auth_token_default e = getenv e [''EG_AUTH_TOKEN'', ''KG_AUTH_TOKEN''] []"

text \<open>The settings the CORS headers are made of; each option falls back to the empty string.\<close>

definition cors_defaults :: "env \<Rightarrow> (string, string) dict" where
  "cors_defaults e =
     [(''eg_allow_credentials'', getenv e [''EG_ALLOW_CREDENTIALS'', ''KG_ALLOW_CREDENTIALS''] []),
      (''eg_allow_headers'', getenv e [''EG_ALLOW_HEADERS'', ''KG_ALLOW_HEADERS''] []),
      (''eg_allow_methods'', getenv e [''EG_ALLOW_METHODS'', ''KG_ALLOW_METHODS''] []),
      (''eg_allow_origin'', getenv e [''EG_ALLOW_ORIGIN'', ''KG_ALLOW_ORIGIN''] []),
      (''eg_expose_headers'', getenv e [''EG_EXPOSE_HEADERS'', ''KG_EXPOSE_HEADERS''] []),
      (''eg_max_age'', getenv e [''EG_MAX_AGE'', ''KG_MAX_AGE''] [])]"

text \<open>\<open>distutils.util.strtobool\<close>\<close>

definition strtobool :: "string \<Rightarrow> bool res" where
  "strtobool v =
     (if lower v \<in> set [''y'', ''yes'', ''t'', ''true'', ''on'', ''1''] then Inr True
      else if lower v \<in> set [''n'', ''no'', ''f'', ''false'', ''off'', ''0''] then Inr False
      else Inl ValueError)"

definition trust_xheaders_default :: "env \<Rightarrow> bool res" where
  "trust_xheaders_default e = strtobool (getenv e [''EG_TRUST_XHEADERS'', ''KG_TRUST_XHEADERS''] ''False'')"

definition certfile_default :: "env \<Rightarrow> string option" where
  "certfile_default e = getenv_chain e [''EG_CERTFILE'', ''KG_CERTFILE'']"

definition keyfile_default :: "env \<Rightarrow> string option" where
  "keyfile_default e = getenv_chain e [''EG_KEYFILE'', ''KG_KEYFILE'']"

definition client_ca_default :: "env \<Rightarrow> string option" where
  "client_ca_default e = getenv_chain e [''EG_CLIENT_CA'', ''KG_CLIENT_CA'']"

definition ssl_version_default :: "env \<Rightarrow> int option res" where
  "ssl_version_default e = getenv_int_opt e [''EG_SSL_VERSION'', ''KG_SSL_VERSION'']"

definition max_kernels_default :: "env \<Rightarrow> int option res" where
  "max_kernels_default e = getenv_int_opt e [''EG_MAX_KERNELS'', ''KG_MAX_KERNELS'']"

definition default_kernel_name_default :: "env \<Rightarrow> string" where
  "default_kernel_name_default e = getenv e [''EG_DEFAULT_KERNEL_NAME'', ''KG_DEFAULT_KERNEL_NAME''] []"

definition list_kernels_default :: "env \<Rightarrow> bool" where
  "list_kernels_default e = (lower (getenv e [''EG_LIST_KERNELS'', ''KG_LIST_KERNELS''] ''False'') = ''true'')"

definition client_envs_default :: "env \<Rightarrow> string list" where
  "client_envs_default e = split_on '','' (getenv e [''EG_CLIENT_ENVS'', ''EG_ENV_WHITELIST''] [])"

definition inherited_envs_default :: "env \<Rightarrow> string list" where
  "inherited_envs_default e = split_on '','' (getenv e [''EG_INHERITED_ENVS'', ''EG_ENV_PROCESS_WHITELIST''] [])"

definition kernel_headers_default :: "env \<Rightarrow> string list" where
  "kernel_headers_default e =
     (case dget e ''EG_KERNEL_HEADERS'' of
        None \<Rightarrow> [] | Some v \<Rightarrow> if v \<noteq> [] then split_on '','' v else [])"

definition remote_hosts_default :: "env \<Rightarrow> string list" where
  "remote_hosts_default e = split_on '','' (getenv e [''EG_REMOTE_HOSTS''] ''localhost'')"

definition load_balancing_algorithm_default :: "env \<Rightarrow> string" where
  "load_balancing_algorithm_default e = getenv e [''EG_LOAD_BALANCING_ALGORITHM''] ''round-robin''"

text \<open>The handler only expects a \<open>ValueError\<close>, so the assertion error escapes.\<close>

definition validate_load_balancing_algorithm :: "string \<Rightarrow> string res" where
  "validate_load_balancing_algorithm v =
     (if v \<notin> set [''round-robin'', ''least-connection''] then Inl OtherError else Inr v)"

definition yarn_endpoint_default :: "env \<Rightarrow> string option" where
  "yarn_endpoint_default e = getenv_chain e [''EG_YARN_ENDPOINT'']"

definition alt_yarn_endpoint_default :: "env \<Rightarrow> string option" where
  "alt_yarn_endpoint_default e = getenv_chain e [''EG_ALT_YARN_ENDPOINT'']"

text \<open>The truth value of a string: everything but the empty one.\<close>

definition yarn_endpoint_security_enabled_default :: "env \<Rightarrow> bool" where
  "yarn_endpoint_security_enabled_default e =
     (case dget e ''EG_YARN_ENDPOINT_SECURITY_ENABLED'' of None \<Rightarrow> False | Some v \<Rightarrow> v \<noteq> [])"

definition conductor_endpoint_default :: "env \<Rightarrow> string option" where
  "conductor_endpoint_default e = getenv_chain e [''EG_CONDUCTOR_ENDPOINT'']"

definition impersonation_enabled_default :: "env \<Rightarrow> bool" where
  "impersonation_enabled_default e = (lower (getenv e [''EG_IMPERSONATION_ENABLED''] ''false'') = ''true'')"

definition unauthorized_users_default :: "env \<Rightarrow> string list" where
  "unauthorized_users_default e = split_on '','' (getenv e [''EG_UNAUTHORIZED_USERS''] ''root'')"

definition authorized_users_default :: "env \<Rightarrow> string list" where
  "authorized_users_default e =
     (case dget e ''EG_AUTHORIZED_USERS'' of None \<Rightarrow> [] | Some v \<Rightarrow> split_on '','' v)"

definition port_range_default :: "env \<Rightarrow> string" where
  "port_range_default e = getenv e [''EG_PORT_RANGE''] ''0..0''"

definition max_kernels_per_user_default :: "env \<Rightarrow> int res" where
  "max_kernels_per_user_default e = getenv_int e [''EG_MAX_KERNELS_PER_USER''] (- 1)"

definition ws_ping_interval_default :: "env \<Rightarrow> int res" where
  "ws_ping_interval_default e = getenv_int e [''EG_WS_PING_INTERVAL_SECS''] 30"

definition dynamic_config_interval_default :: "env \<Rightarrow> int res" where
  "dynamic_config_interval_default e = getenv_int e [''EG_DYNAMIC_CONFIG_INTERVAL''] 0"

definition availability_mode_default :: "env \<Rightarrow> string option" where
  "availability_mode_default e = getenv_chain e [''EG_AVAILABILITY_MODE'']"

definition authorizer_class_default :: "env \<Rightarrow> string" where
  "authorizer_class_default e = getenv e [''EG_AUTHORIZER_CLASS''] ''jupyter_server.auth.authorizer.AllowAllAuthorizer''"

section \<open>Dynamic configuration\<close>

text \<open>
  The observer of \<open>dynamic_config_interval\<close>: the poller is stopped on a change, and started again
  when both values are positive and the class can (\<open>init\<close> is the interval it is started with).
\<close>

record config_poller =
  cp_interval :: int
  cp_poller :: "int option"

definition dynamic_config_interval_changed :: "bool \<Rightarrow> int \<Rightarrow> int \<Rightarrow> config_poller \<Rightarrow> config_poller" where
  "dynamic_config_interval_changed can_init old_val new_val p =
     (let p1 = p\<lparr>cp_interval := new_val\<rparr> in
      if new_val \<noteq> old_val
      then (let p2 = p1\<lparr>cp_poller := None\<rparr> in
            if new_val \<le> 0 then p2
            else if old_val > 0 \<and> can_init then p2\<lparr>cp_poller := Some new_val\<rparr> else p2)
      else p1)"

section \<open>Properties\<close>

text \<open>
  C15: With a token configured, a request other than \<open>OPTIONS\<close> goes on exactly when it carries the
  token as its query parameter, or has no such parameter and carries it in the header; every
  other request is answered with 401.
\<close>

theorem token_required:
  "token_prepare (Some (c # t)) m argument authorization super =
     (if m = ''OPTIONS'' \<or> argument = Some (c # t)
        \<or> argument = None \<and> authorization = Some (header_prefix @ c # t)
      then super else Inl (HTTPError 401))"
proof -
  have h: "startswith h header_prefix \<and> drop (length header_prefix) h = c # t \<longleftrightarrow> h = header_prefix @ c # t" for h
    by (auto simp: startswith_iff)
  have p: "header_prefix @ s \<noteq> []" for s by (simp add: header_prefix_def)
  show ?thesis
  proof (cases argument)
    case None
    show ?thesis
    proof (cases authorization)
      case (Some a)
      have "(if a \<noteq> [] \<and> startswith a header_prefix then Some (drop (length header_prefix) a) else None) = Some (c # t)
          \<longleftrightarrow> a = header_prefix @ c # t"
        using h [of a] p by auto
      then show ?thesis using None Some by (simp add: token_prepare_def Let_def header_prefix_def [symmetric])
    qed (simp add: None token_prepare_def)
  qed (simp add: token_prepare_def)
qed

lemma yarn_security_false_enables:
  "yarn_endpoint_security_enabled_default [(''EG_YARN_ENDPOINT_SECURITY_ENABLED'', ''False'')]"
  by (simp add: yarn_endpoint_security_enabled_default_def)

lemma empty_authorized_users_locks_out:
  "authorized_users_default [(''EG_AUTHORIZED_USERS'', [])] = [[]]"
  by (simp add: authorized_users_default_def split_on_def)

end
