(* ===== verification/Application.thy ===== *)
theory Application
  imports GatewayConfig SessionStores
begin

text \<open>
  \<open>EnterpriseGatewayApp\<close> (enterprisegatewayapp.py): what starting a gateway sets up (the
  availability mode with the session manager, the routes and their check of the client's
  certificate, the settings of the handlers, the port), its shutdown, and the dynamic updates
  of the configuration.
\<close>

section \<open>Availability and persistence\<close>

definition AVAILABILITY_STANDALONE :: string where
  "AVAILABILITY_STANDALONE = ''standalone''"

definition AVAILABILITY_REPLICATION :: string where
  "AVAILABILITY_REPLICATION = ''replication''"

definition resolve_availability :: "string option \<Rightarrow> bool \<Rightarrow> string option \<times> bool" where
  "resolve_availability availability_mode persistence =
     (if persistence
      then (case availability_mode of
              None \<Rightarrow> (Some AVAILABILITY_REPLICATION, True)
            | Some m \<Rightarrow> (Some m, True))
      else (availability_mode, availability_mode \<noteq> None))"

text \<open>
  The part of \<open>init_configurables\<close> after the session manager \<open>m\<close> has been constructed:
  \<open>start_sessions\<close> is its method.
\<close>

definition init_availability ::
  "('a ksm_scheme \<Rightarrow> 'k \<Rightarrow> unit res \<times> 'a ksm_scheme \<times> 'k) \<Rightarrow> string option \<Rightarrow> 'a ksm_scheme \<Rightarrow> 'k \<Rightarrow>
   unit res \<times> string option \<times> 'a ksm_scheme \<times> 'k" where
  "init_availability start_sessions availability_mode m k =
     (case resolve_availability availability_mode (enable_persistence m) of
        (mode, persistence) \<Rightarrow>
          (let m1 = m\<lparr>enable_persistence := persistence\<rparr> in
           if mode = Some AVAILABILITY_STANDALONE
           then (case start_sessions m1 k of (r, m2, k2) \<Rightarrow> (r, mode, m2, k2))
           else (Inr (), mode, m1, k)))"

section \<open>Routes\<close>

text \<open>
  \<open>prepare\<close> of a handler class answers an awaitable or nothing; the server awaits what it gets.
  Route classes do not derive from one another, so replacing the method of one leaves the
  others' alone.
\<close>

type_synonym ('r, 'w) prepare = "'r \<Rightarrow> 'w \<Rightarrow> ('w \<Rightarrow> unit res \<times> 'w) option res \<times> 'w"

definition serve_prepare :: "('r, 'w) prepare \<Rightarrow> 'r \<Rightarrow> 'w \<Rightarrow> unit res \<times> 'w" where
  "serve_prepare prepare r w =
     bindE (prepare r w) (\<lambda>awaitable w1.
       case awaitable of None \<Rightarrow> (Inr (), w1) | Some f \<Rightarrow> f w1)"

text \<open>What \<open>ssl.match_hostname\<close> says of the request's certificate.\<close>

datatype cert_check = Cert_Matches | Cert_Mismatch | Cert_Raises exn

definition wrapped_prepare ::
  "(string \<Rightarrow> 'r \<Rightarrow> cert_check) \<Rightarrow> string \<Rightarrow> ('r, 'w) prepare \<Rightarrow> ('r, 'w) prepare" where
  "wrapped_prepare match_hostname authorized_hostname base_prepare r w =
     (case match_hostname authorized_hostname r of
        Cert_Mismatch \<Rightarrow> (Inl (HTTPError 403), w)
      | Cert_Raises e \<Rightarrow> (Inl e, w)
      | Cert_Matches \<Rightarrow> (case base_prepare r w of (r', w1) \<Rightarrow> (rbind r' (\<lambda>_. Inr None), w1)))"

fun create_request_handlers ::
  "(string \<Rightarrow> 'r \<Rightarrow> cert_check) \<Rightarrow> (string \<Rightarrow> string) \<Rightarrow> string \<Rightarrow> (string \<times> 'c) list \<Rightarrow>
   ('c \<Rightarrow> ('r, 'w) prepare) \<Rightarrow> (string \<times> 'c) list \<times> ('c \<Rightarrow> ('r, 'w) prepare)" where
  "create_request_handlers match_hostname rooted authorized_origin [] prepare_of = ([], prepare_of)"
| "create_request_handlers match_hostname rooted authorized_origin ((pattern, c) # rest) prepare_of =
     (let prepare_of1 =
            (if authorized_origin \<noteq> []
             then prepare_of(c := wrapped_prepare match_hostname authorized_origin (prepare_of c))
             else prepare_of) in
      case create_request_handlers match_hostname rooted authorized_origin rest prepare_of1 of
        (handlers, prepare_of2) \<Rightarrow> ((rooted pattern, c) # handlers, prepare_of2))"

section \<open>Settings and certificates\<close>

record app_options =
  ao_auth_token :: string
  ao_cors :: "(string, string) dict"
  ao_max_kernels :: "int option"
  ao_inherited_envs :: "string list"
  ao_client_envs :: "string list"
  ao_kernel_headers :: "string list"
  ao_list_kernels :: bool
  ao_authorized_users :: "string list"
  ao_unauthorized_users :: "string list"
  ao_base_url :: string
  ao_ws_ping_interval :: int

text \<open>
  The settings of the web application that are plain data; the managers and the authorizer are
  objects.  The CORS options are those of \<^const>\<open>cors_defaults\<close>.
\<close>

definition web_settings :: "app_options \<Rightarrow> (string, pyval) dict" where
  "web_settings o' =
     (''eg_auth_token'', PStr (ao_auth_token o')) # map (\<lambda>(k, v). (k, PStr v)) (ao_cors o') @
     [(''eg_max_kernels'', (case ao_max_kernels o' of None \<Rightarrow> PNone | Some n \<Rightarrow> PInt n)),
      (''eg_inherited_envs'', PList (map PStr (ao_inherited_envs o'))),
      (''eg_client_envs'', PList (map PStr (ao_client_envs o'))),
      (''eg_kernel_headers'', PList (map PStr (ao_kernel_headers o'))),
      (''eg_list_kernels'', PBool (ao_list_kernels o')),
      (''eg_authorized_users'', PList (map PStr (ao_authorized_users o'))),
      (''eg_unauthorized_users'', PList (map PStr (ao_unauthorized_users o'))),
      (''allow_origin'', PStr (dget_or (ao_cors o') ''eg_allow_origin'' [])),
      (''base_url'', PStr (ao_base_url o')),
      (''allow_remote_access'', PBool True),
      (''ws_ping_interval'', PInt (ao_ws_ping_interval o' * 1000))]"

record ssl_files =
  sf_certfile :: "string option"
  sf_keyfile :: "string option"
  sf_client_ca :: "string option"
  sf_version :: "int option"

record ssl_context =
  sc_protocol :: int
  sc_chain :: "(string \<times> string option) option"
  sc_client_ca :: "string option"
  sc_cert_required :: bool

text \<open>A file name counts when it is there and not empty; \<open>load\<close> reads the files into the context.\<close>

definition named :: "string option \<Rightarrow> string option" where
  "named x = (case x of Some s \<Rightarrow> if s \<noteq> [] then Some s else None | None \<Rightarrow> None)"

definition build_ssl_options ::
  "(string \<Rightarrow> string option \<Rightarrow> unit res) \<Rightarrow> (string \<Rightarrow> unit res) \<Rightarrow> int \<Rightarrow> ssl_files \<Rightarrow> ssl_context option res" where
  "build_ssl_options load_cert_chain load_verify_locations ssl_version_default_value f =
     (if named (sf_certfile f) = None \<and> named (sf_keyfile f) = None \<and> named (sf_client_ca f) = None
      then Inr None
      else (let protocol = (case sf_version f of Some v \<Rightarrow> if v \<noteq> 0 then v else ssl_version_default_value
                            | None \<Rightarrow> ssl_version_default_value) in
            rbind (case named (sf_certfile f) of
                     None \<Rightarrow> Inr None
                   | Some c \<Rightarrow> rbind (load_cert_chain c (sf_keyfile f)) (\<lambda>_. Inr (Some (c, sf_keyfile f)))) (\<lambda>chain.
            rbind (case named (sf_client_ca f) of
                     None \<Rightarrow> Inr None
                   | Some ca \<Rightarrow> rbind (load_verify_locations ca) (\<lambda>_. Inr (Some ca))) (\<lambda>client_ca.
              Inr (Some \<lparr>sc_protocol = protocol, sc_chain = chain, sc_client_ca = client_ca,
                         sc_cert_required = (client_ca \<noteq> None)\<rparr>)))))"

section \<open>The port\<close>

text \<open>The loop over the candidate ports; without one \<open>self.exit(1)\<close>.\<close>

fun listen_on :: "(int \<Rightarrow> 'w \<Rightarrow> unit res \<times> 'w) \<Rightarrow> int list \<Rightarrow> 'w \<Rightarrow> int res \<times> 'w" where
  "listen_on listen [] w = (Inl SystemExit, w)"
| "listen_on listen (port # ports) w =
     (case listen port w of
        (Inr _, w1) \<Rightarrow> (Inr port, w1)
      | (Inl e, w1) \<Rightarrow>
          if e = OSError EADDRINUSE \<or> e = OSError EACCES then listen_on listen ports w1 else (Inl e, w1))"

definition init_http_server ::
  "(int \<Rightarrow> nat \<Rightarrow> int list) \<Rightarrow> (int \<Rightarrow> 'w \<Rightarrow> unit res \<times> 'w) \<Rightarrow> int \<Rightarrow> nat \<Rightarrow> 'w \<Rightarrow> int res \<times> 'w" where
  "init_http_server random_ports listen port port_retries w =
     listen_on listen (random_ports port (port_retries + 1)) w"

section \<open>Running and shutting down\<close>

text \<open>
  \<open>except Exception\<close> catches everything but an exit; the kernel ids are listed once, when the
  loop has ended.
\<close>

fun shutdown_each :: "(string \<Rightarrow> 'w \<Rightarrow> unit res \<times> 'w) \<Rightarrow> string list \<Rightarrow> 'w \<Rightarrow> unit res \<times> 'w" where
  "shutdown_each shutdown_kernel [] w = (Inr (), w)"
| "shutdown_each shutdown_kernel (kid # kids) w =
     (case shutdown_kernel kid w of
        (Inl SystemExit, w1) \<Rightarrow> (Inl SystemExit, w1)
      | (_, w1) \<Rightarrow> shutdown_each shutdown_kernel kids w1)"

definition app_shutdown ::
  "('w \<Rightarrow> string list) \<Rightarrow> (string \<Rightarrow> 'w \<Rightarrow> unit res \<times> 'w) \<Rightarrow> 'w \<Rightarrow> unit res \<times> 'w" where
  "app_shutdown list_kernel_ids shutdown_kernel w = shutdown_each shutdown_kernel (list_kernel_ids w) w"

text \<open>How the loop ends: stopped, by an interrupt from the keyboard, or by another exception.\<close>

datatype loop_end = Stopped | Interrupted | Loop_Raised exn

text \<open>
  \<open>start\<close>: the base class, the signal handlers, the loop; the shutdown is in \<open>finally\<close>.  An
  exception of the shutdown replaces the one that ended the loop.
\<close>

definition app_start ::
  "('w \<Rightarrow> unit res \<times> 'w) \<Rightarrow> ('w \<Rightarrow> 'w) \<Rightarrow> ('w \<Rightarrow> loop_end \<times> 'w) \<Rightarrow> ('w \<Rightarrow> 'w) \<Rightarrow>
   ('w \<Rightarrow> string list) \<Rightarrow> (string \<Rightarrow> 'w \<Rightarrow> unit res \<times> 'w) \<Rightarrow> 'w \<Rightarrow> unit res \<times> 'w" where
  "app_start super_start install_handlers run_loop ignore_interrupts list_kernel_ids shutdown_kernel w =
     bindE (super_start w) (\<lambda>_ w1.
       case run_loop (install_handlers w1) of
         (ended, w2) \<Rightarrow>
           (case app_shutdown list_kernel_ids shutdown_kernel
                   (if ended = Interrupted then ignore_interrupts w2 else w2) of
              (Inl e, w3) \<Rightarrow> (Inl e, w3)
            | (Inr _, w3) \<Rightarrow> (case ended of Loop_Raised e \<Rightarrow> Inl e | _ \<Rightarrow> Inr (), w3)))"

text \<open>The warning about the gateway's own user.\<close>

definition warns_about_user :: "bool \<Rightarrow> string \<Rightarrow> string list \<Rightarrow> bool" where
  "warns_about_user impersonation_enabled gateway_user users \<longleftrightarrow>
     impersonation_enabled \<and> lower gateway_user \<notin> set users"

section \<open>Dynamic configuration\<close>

text \<open>
  The registry holds weak proxies, which are objects of their own: none of them \<open>is\<close> the
  application.  \<open>getmtime\<close> answers whole seconds.
\<close>

datatype 'c config_ref = Direct 'c | Weak_Proxy 'c

fun referent :: "'c config_ref \<Rightarrow> 'c" where
  "referent (Direct c) = c"
| "referent (Weak_Proxy c) = c"

definition is_self :: "'c \<Rightarrow> 'c config_ref \<Rightarrow> bool" where
  "is_self self r \<longleftrightarrow> (case r of Direct c \<Rightarrow> c = self | Weak_Proxy _ \<Rightarrow> False)"

definition add_dynamic_configurable ::
  "('c \<Rightarrow> bool) \<Rightarrow> string \<Rightarrow> 'c \<Rightarrow> (string, 'c config_ref) dict \<Rightarrow> unit res \<times> (string, 'c config_ref) dict" where
  "add_dynamic_configurable is_configurable config_name c registry =
     (if \<not> is_configurable c then (Inl RuntimeError, registry)
      else (Inr (), dset config_name (Weak_Proxy c) registry))"

fun add_dynamic_configurables ::
  "('c \<Rightarrow> bool) \<Rightarrow> (string \<times> 'c) list \<Rightarrow> (string, 'c config_ref) dict \<Rightarrow>
   unit res \<times> (string, 'c config_ref) dict" where
  "add_dynamic_configurables is_configurable [] registry = (Inr (), registry)"
| "add_dynamic_configurables is_configurable ((n, c) # rest) registry =
     bindE (add_dynamic_configurable is_configurable n c registry)
       (\<lambda>_. add_dynamic_configurables is_configurable rest)"

definition init_dynamic_configs ::
  "('c \<Rightarrow> bool) \<Rightarrow> 'c \<Rightarrow> 'c \<Rightarrow> 'c \<Rightarrow> 'c \<Rightarrow> config_poller \<Rightarrow> (string, 'c config_ref) dict \<Rightarrow>
   unit res \<times> config_poller \<times> (string, 'c config_ref) dict" where
  "init_dynamic_configs is_configurable app kernel_manager kernel_spec_manager session_manager p registry =
     (if cp_interval p > 0
      then (case add_dynamic_configurables is_configurable
                   [(''EnterpriseGatewayApp'', app), (''MappingKernelManager'', kernel_manager),
                    (''KernelSpecManager'', kernel_spec_manager), (''KernelSessionManager'', session_manager)] registry of
              (Inl e, registry') \<Rightarrow> (Inl e, p, registry')
            | (Inr _, registry') \<Rightarrow>
                (Inr (), p\<lparr>cp_poller := (case cp_poller p of None \<Rightarrow> Some (cp_interval p) | Some i \<Rightarrow> Some i)\<rparr>,
                 registry'))
      else (Inr (), p, registry))"

fun check_files :: "(string \<Rightarrow> int res) \<Rightarrow> string list \<Rightarrow> int \<Rightarrow> bool \<Rightarrow> bool res \<times> int" where
  "check_files getmtime [] last_update updated = (Inr updated, last_update)"
| "check_files getmtime (f # fs) last_update updated =
     (case getmtime f of
        Inl e \<Rightarrow> (Inl e, last_update)
      | Inr mod_time \<Rightarrow>
          if mod_time > last_update then check_files getmtime fs mod_time True
          else check_files getmtime fs last_update updated)"

fun update_each ::
  "'c \<Rightarrow> ('c \<Rightarrow> 'w \<Rightarrow> unit res \<times> 'w) \<Rightarrow> (string, 'c config_ref) dict \<Rightarrow> 'w \<Rightarrow> unit res \<times> 'w" where
  "update_each self update_config [] w = (Inr (), w)"
| "update_each self update_config ((n, r) # rest) w =
     bindE (if is_self self r then (Inr (), w) else update_config (referent r) w)
       (\<lambda>_. update_each self update_config rest)"

text \<open>\<open>load_config_file\<close> reads the files into the application's configuration and updates it.\<close>

definition update_dynamic_configurables ::
  "(string \<Rightarrow> int res) \<Rightarrow> string list \<Rightarrow> ('w \<Rightarrow> unit res \<times> 'w) \<Rightarrow> 'c \<Rightarrow>
   ('c \<Rightarrow> 'w \<Rightarrow> unit res \<times> 'w) \<Rightarrow> (string, 'c config_ref) dict \<Rightarrow> int \<times> 'w \<Rightarrow> bool res \<times> int \<times> 'w" where
  "update_dynamic_configurables getmtime loaded_config_files load_config_file self update_config registry s =
     (case s of (last_update, w) \<Rightarrow>
        (case check_files getmtime loaded_config_files last_update False of
           (Inl e, last') \<Rightarrow> (Inl e, last', w)
         | (Inr False, last') \<Rightarrow> (Inr False, last', w)
         | (Inr True, last') \<Rightarrow>
             (case bindE (load_config_file w) (\<lambda>_. update_each self update_config registry) of
                (r, w') \<Rightarrow> (rbind r (\<lambda>_. Inr True), last', w'))))"

section \<open>Properties: availability\<close>

lemma persistence_iff_mode: "snd (resolve_availability mode p) \<longleftrightarrow> fst (resolve_availability mode p) \<noteq> None"
  by (auto simp: resolve_availability_def split: option.splits)

lemma standalone_only_when_asked:
  "fst (resolve_availability mode p) = Some AVAILABILITY_STANDALONE \<longleftrightarrow> mode = Some AVAILABILITY_STANDALONE"
  by (auto simp: resolve_availability_def AVAILABILITY_STANDALONE_def AVAILABILITY_REPLICATION_def split: option.splits)

lemma drop_sessions_webhook [simp]:
  "wh_auth_attr (drop_sessions ks m) = wh_auth_attr m" "wh_world (drop_sessions ks m) = wh_world m"
  by (induction ks m rule: drop_sessions.induct) (auto split: option.splits)

lemma wh_save_without_auth:
  assumes "enable_persistence m" "wh_auth_attr m = None"
  shows "\<exists>e m'. wh_save_session h kid m = (Inl e, m') \<and> wh_world m' = wh_world m"
  using assms by (auto simp: wh_save_session_def Let_def split: option.splits sum.splits)

text \<open>
  A gateway whose availability mode is configured enables persistence itself, after the
  webhook manager has been constructed without its credentials.  From then on nothing can be
  persisted: no request ever reaches the service, every save and delete of a session raises,
  and in the standalone mode so does the start of the gateway.
\<close>

lemma webhook_unusable_when_auto_enabled:
  "let m = (wh_init False auth_type username password w)\<lparr>enable_persistence := True\<rparr> in
   init_availability (ksm_start_sessions (wh_load_sessions h) (wh_delete_sessions h) start) (Some mode)
      (wh_init False auth_type username password w) k =
     (if mode = AVAILABILITY_STANDALONE then Inl AttributeError else Inr (), Some mode, m, k) \<and>
   (\<exists>e m'. ksm_save_session (wh_save_session h) kid s m = (Inl e, m') \<and> wh_world m' = w) \<and>
   (\<exists>m'. ksm_delete_sessions (wh_delete_sessions h) kids m = (Inl AttributeError, m') \<and> wh_world m' = w)"
proof -
  define m where "m = (wh_init False auth_type username password w)\<lparr>enable_persistence := True\<rparr>"
  have m: "enable_persistence m" "wh_auth_attr m = None" "wh_world m = w"
    by (simp_all add: m_def wh_init_def ksm.extend_def ksm_init_def)
  have off: "\<not> enable_persistence (wh_init False auth_type username password w)"
    by (simp add: wh_init_def ksm.extend_def ksm_init_def)
  have "init_availability (ksm_start_sessions (wh_load_sessions h) (wh_delete_sessions h) start) (Some mode)
      (wh_init False auth_type username password w) k =
     (if mode = AVAILABILITY_STANDALONE then Inl AttributeError else Inr (), Some mode, m, k)"
    using m off
    by (simp add: init_availability_def resolve_availability_def ksm_start_sessions_def wh_load_sessions_def
        m_def [symmetric])
  moreover have "\<exists>e m'. ksm_save_session (wh_save_session h) kid s m = (Inl e, m') \<and> wh_world m' = w"
    using wh_save_without_auth [of "m\<lparr>sessions := dset kid s (sessions m),
        sessions_by_user := index_session (ses_username s) kid (sessions_by_user m)\<rparr>" h kid] m
    by (simp add: ksm_save_session_def)
  moreover have "ksm_delete_sessions (wh_delete_sessions h) kids m = (Inl AttributeError, drop_sessions kids m)"
    using m by (simp add: ksm_delete_sessions_def wh_delete_sessions_def)
  ultimately show ?thesis using m(3) by (simp add: m_def [symmetric])
qed

section \<open>Properties: the check of the certificate\<close>

lemma wrapped_twice: "wrapped_prepare mh a (wrapped_prepare mh a f) = wrapped_prepare mh a f"
  by (intro ext) (auto simp: wrapped_prepare_def rbind_def split: cert_check.splits prod.splits sum.splits)

lemma create_request_handlers_spec:
  "create_request_handlers mh rooted a hs prepare_of =
    (map (\<lambda>(p, c). (rooted p, c)) hs,
     \<lambda>c. if a \<noteq> [] \<and> c \<in> snd ` set hs then wrapped_prepare mh a (prepare_of c) else prepare_of c)"
proof (induction hs arbitrary: prepare_of)
  case (Cons x hs)
  obtain p d where x: "x = (p, d)" by fastforce
  show ?case
    by (cases "d \<in> snd ` set hs") (auto simp: x Cons.IH Let_def wrapped_twice fun_eq_iff)
qed simp

text \<open>
  C17: With an authorized origin configured, a request to any route goes on only when its
  certificate matches: a mismatch is answered with 403 and a failing check with its exception,
  before any other check of the handler; without one the handlers are untouched.
\<close>

theorem authorized_origin_guards_routes:
  assumes "create_request_handlers match_hostname rooted origin handlers prepare_of = (routes, prepare_of')"
    and "(pattern, c) \<in> set handlers"
  shows "(rooted pattern, c) \<in> set routes \<and>
    (if origin = [] then prepare_of' c = prepare_of c
     else serve_prepare (prepare_of' c) r w =
       (case match_hostname origin r of
          Cert_Mismatch \<Rightarrow> (Inl (HTTPError 403), w)
        | Cert_Raises e \<Rightarrow> (Inl e, w)
        | Cert_Matches \<Rightarrow> (case prepare_of c r w of (r', w1) \<Rightarrow> (rbind r' (\<lambda>_. Inr ()), w1))))"
proof -
  have c: "c \<in> snd ` set handlers" using assms(2) by force
  note created = trans [OF assms(1) [symmetric] create_request_handlers_spec]
  have routes: "routes = map (\<lambda>(p, c). (rooted p, c)) handlers" by (rule Pair_inject [OF created])
  have "prepare_of' = (\<lambda>c. if origin \<noteq> [] \<and> c \<in> snd ` set handlers
      then wrapped_prepare match_hostname origin (prepare_of c) else prepare_of c)"
    by (rule Pair_inject [OF created])
  with c have prep: "prepare_of' c = (if origin \<noteq> []
      then wrapped_prepare match_hostname origin (prepare_of c) else prepare_of c)" by simp
  have "(rooted pattern, c) \<in> set routes" using assms(2) routes by force
  moreover have "serve_prepare (wrapped_prepare match_hostname origin f) r w =
      (case match_hostname origin r of
         Cert_Mismatch \<Rightarrow> (Inl (HTTPError 403), w)
       | Cert_Raises e \<Rightarrow> (Inl e, w)
       | Cert_Matches \<Rightarrow> (case f r w of (r', w1) \<Rightarrow> (rbind r' (\<lambda>_. Inr ()), w1)))" for f
  proof (cases "match_hostname origin r")
    case Cert_Matches
    then show ?thesis by (cases "f r w"; cases "fst (f r w)") (simp_all add: serve_prepare_def wrapped_prepare_def)
  qed (simp_all add: serve_prepare_def wrapped_prepare_def)
  ultimately show ?thesis by (simp add: prep)
qed

lemma authorized_origin_guards_routes_witness:
  "fst (serve_prepare (snd (create_request_handlers (\<lambda>h r. if r = h then Cert_Matches else Cert_Mismatch) (\<lambda>p. p)
     ''hub'' [(''/api'', ''APIVersionHandler'')] (\<lambda>c r w. (Inr None, w + 1))) ''APIVersionHandler'') ''other'' (0::nat))
   = Inl (HTTPError 403)"
proof -
  obtain routes prep where c: "create_request_handlers (\<lambda>h r. if r = h then Cert_Matches else Cert_Mismatch) (\<lambda>p. p)
     ''hub'' [(''/api'', ''APIVersionHandler'')] (\<lambda>c r w. (Inr None, w + (1::nat))) = (routes, prep)" by fastforce
  show ?thesis
    unfolding c using authorized_origin_guards_routes [OF c, of "''/api''" "''APIVersionHandler''" "''other''" 0] by simp
qed

text \<open>What the wrapped method returns is lost: an awaitable of it is never awaited.\<close>

lemma awaitable_dropped:
  "serve_prepare (wrapped_prepare (\<lambda>_ _. Cert_Matches) a (\<lambda>r w. (Inr (Some f), w))) r w = (Inr (), w)"
  by (simp add: serve_prepare_def wrapped_prepare_def)

section \<open>Properties: settings and port\<close>

lemma settings_carry_token:
  "dget (web_settings o') ''eg_auth_token'' = Some (PStr (ao_auth_token o'))"
  by (simp add: web_settings_def)

text \<open>A key without a certificate makes the server speak TLS without any certificate.\<close>

lemma key_alone_gives_empty_context:
  "build_ssl_options lc lv d \<lparr>sf_certfile = None, sf_keyfile = Some (k # ks), sf_client_ca = None, sf_version = None\<rparr> =
     Inr (Some \<lparr>sc_protocol = d, sc_chain = None, sc_client_ca = None, sc_cert_required = False\<rparr>)"
  by (simp add: build_ssl_options_def named_def)

definition in_use :: "unit res \<Rightarrow> bool" where
  "in_use r \<longleftrightarrow> r \<in> {Inl (OSError EADDRINUSE), Inl (OSError EACCES)}"

lemma listen_on_first_free:
  assumes "\<And>p v. listen p v = (answer p, tried p v)" "\<forall>p\<in>set ps. in_use (answer p)" "answer q = Inr ()"
  shows "listen_on listen (ps @ q # rest) w = (Inr q, tried q (fold tried ps w))"
    and "listen_on listen ps w = (Inl SystemExit, fold tried ps w)"
  using assms(2) by (induction ps arbitrary: w) (auto simp: assms(1,3) in_use_def)

section \<open>Properties: shutdown\<close>

lemma shutdown_each_all:
  assumes "\<And>k v. fst (shutdown_kernel k v) \<noteq> Inl SystemExit"
  shows "shutdown_each shutdown_kernel kids w = (Inr (), fold (\<lambda>k v. snd (shutdown_kernel k v)) kids w)"
proof (induction kids arbitrary: w)
  case (Cons k kids)
  obtain r w1 where s: "shutdown_kernel k w = (r, w1)" by fastforce
  then have "r \<noteq> Inl SystemExit" using assms [of k w] by simp
  with s Cons show ?case by (cases r) (auto split: exn.splits)
qed simp

text \<open>
  However the loop of a gateway ends, by a stop, an interrupt or an exception, every kernel
  it then lists is shut down, in order, and the failure of one does not keep the others from
  it; the exception that ended the loop is raised again afterwards.
\<close>

lemma shutdown_reaches_every_kernel:
  assumes "\<And>k v. fst (shutdown_kernel k v) \<noteq> Inl SystemExit"
    and "super_start w = (Inr (), w1)" "run_loop (install_handlers w1) = (ended, w2)"
    and "w3 = (if ended = Interrupted then ignore_interrupts w2 else w2)"
  shows "app_start super_start install_handlers run_loop ignore_interrupts list_kernel_ids shutdown_kernel w =
    (case ended of Loop_Raised e \<Rightarrow> Inl e | _ \<Rightarrow> Inr (),
     fold (\<lambda>k v. snd (shutdown_kernel k v)) (list_kernel_ids w3) w3)"
  using assms(2,3) shutdown_each_all [OF assms(1)]
  by (simp add: app_start_def app_shutdown_def assms(4) [symmetric])

lemma shutdown_reaches_every_kernel_witness:
  "app_start (\<lambda>w. (Inr (), w)) (\<lambda>w. w) (\<lambda>w. (Interrupted, w)) (\<lambda>w. w) (\<lambda>w. w)
     (\<lambda>k w. if k = ''k1'' then (Inl RuntimeError, w) else (Inr (), remove1 k w)) [''k1'', ''k2'', ''k3''] =
   (Inr (), [''k1''])"
  using shutdown_reaches_every_kernel
    [of "\<lambda>k w. if k = ''k1'' then (Inl RuntimeError, w) else (Inr (), remove1 k w)" "\<lambda>w. (Inr (), w)"
      "[''k1'', ''k2'', ''k3'']" "[''k1'', ''k2'', ''k3'']" "\<lambda>w. (Interrupted, w)" "\<lambda>w. w" Interrupted
      "[''k1'', ''k2'', ''k3'']" "[''k1'', ''k2'', ''k3'']" "\<lambda>w. w" "\<lambda>w. w"]
  by simp

section \<open>Properties: dynamic configuration\<close>

lemma Max_step:
  "finite S \<Longrightarrow> Max (insert a (insert b S)) = (if b > a then Max (insert b S) else Max (insert a S))" for a b :: int
  by (cases "S = {}") (auto simp: max_def)

lemma check_files_spec:
  assumes "\<forall>f\<in>set fs. getmtime f = Inr (t f)"
  shows "check_files getmtime fs prev u =
    (Inr (u \<or> (\<exists>f\<in>set fs. t f > prev)), Max (insert prev (t ` set fs)))"
  using assms
proof (induction fs arbitrary: prev u)
  case (Cons f fs)
  show ?case
    using Cons by (auto simp: Max_step simp del: Max_insert)
qed simp

lemma init_dynamic_configs_registry:
  assumes "cp_interval p > 0" "is_configurable app" "is_configurable km" "is_configurable ksm" "is_configurable ses"
  shows "init_dynamic_configs is_configurable app km ksm ses p [] =
    (Inr (), p\<lparr>cp_poller := (case cp_poller p of None \<Rightarrow> Some (cp_interval p) | Some i \<Rightarrow> Some i)\<rparr>,
     [(''EnterpriseGatewayApp'', Weak_Proxy app), (''MappingKernelManager'', Weak_Proxy km),
      (''KernelSpecManager'', Weak_Proxy ksm), (''KernelSessionManager'', Weak_Proxy ses)])"
  using assms by (simp add: init_dynamic_configs_def add_dynamic_configurable_def)

lemma update_each_proxies:
  assumes "\<And>c v. update_config c v = (Inr (), upd c v)"
  shows "update_each self update_config (map (\<lambda>(n, c). (n, Weak_Proxy c)) cs) w = (Inr (), fold upd (map snd cs) w)"
  by (induction cs arbitrary: w) (auto simp: assms is_self_def)

text \<open>
  The application is updated by the load, and then again through the registry, although it is
  meant to be skipped.
\<close>

lemma config_change_updates:
  assumes "\<forall>f\<in>set files. getmtime f = Inr (t f)" "load_config_file w = (Inr (), w1)"
    and "\<And>c v. update_config c v = (Inr (), upd c v)"
    and "cp_interval p > 0" "is_configurable app" "is_configurable km" "is_configurable ksm" "is_configurable ses"
    and "init_dynamic_configs is_configurable app km ksm ses p [] = (Inr (), p', registry)"
  shows "update_dynamic_configurables getmtime files load_config_file app update_config registry (seen, w) =
    (if \<exists>f\<in>set files. t f > seen
     then (Inr True, Max (t ` set files), upd ses (upd ksm (upd km (upd app w1))))
     else (Inr False, seen, w))"
proof -
  have registry: "registry = map (\<lambda>(n, c). (n, Weak_Proxy c))
      [(''EnterpriseGatewayApp'', app), (''MappingKernelManager'', km),
       (''KernelSpecManager'', ksm), (''KernelSessionManager'', ses)]"
    using assms(9) init_dynamic_configs_registry [of p is_configurable, OF assms(4-8)] by simp
  have updates: "update_each app update_config registry w1 = (Inr (), upd ses (upd ksm (upd km (upd app w1))))"
    unfolding registry update_each_proxies [of update_config upd, OF assms(3)] by simp
  have newest: "Max (insert seen (t ` set files)) = Max (t ` set files)" if "f \<in> set files" "t f > seen" for f
  proof -
    have "t f \<le> Max (t ` set files)" using that(1) by (intro Max_ge) auto
    moreover have "t ` set files \<noteq> {}" using that(1) by auto
    ultimately show ?thesis using that(2) by simp
  qed
  have none: "Max (insert seen (t ` set files)) = seen" if "\<forall>f\<in>set files. \<not> t f > seen"
    using that by (intro Max_eqI) (auto simp: not_less)
  show ?thesis
    using newest none updates assms(2)
    by (auto simp: update_dynamic_configurables_def check_files_spec [OF assms(1)] simp del: Max_insert)
qed

text \<open>
  C18: The periodic check notices a change exactly when a configuration file is newer than the
  newest one seen before, and does nothing otherwise.  On a change the files are loaded once and
  the two managers and the session manager, the configurables the application registered beside
  itself, are updated once each, in this order: whatever an update of the application neither
  changes nor has an influence on is as after these three updates.
\<close>

theorem config_change_updates_all:
  assumes "\<forall>f\<in>set files. getmtime f = Inr (t f)" "load_config_file w = (Inr (), w1)"
    and "\<And>c v. update_config c v = (Inr (), upd c v)"
    and "cp_interval p > 0" "is_configurable app" "is_configurable km" "is_configurable ksm" "is_configurable ses"
    and "init_dynamic_configs is_configurable app km ksm ses p [] = (Inr (), p', registry)"
    and "\<And>v. obs (upd app v) = obs v"
    and "\<And>c v v'. obs v = obs v' \<Longrightarrow> obs (upd c v) = obs (upd c v')"
    and "update_dynamic_configurables getmtime files load_config_file app update_config registry (seen, w) = (r, seen', w')"
  shows "if \<exists>f\<in>set files. t f > seen
    then r = Inr True \<and> seen' = Max (t ` set files) \<and> obs w' = obs (upd ses (upd ksm (upd km w1)))
    else r = Inr False \<and> seen' = seen \<and> w' = w"
proof -
  have "obs (upd ses (upd ksm (upd km (upd app w1)))) = obs (upd ses (upd ksm (upd km w1)))"
    by (intro assms(11) assms(10))
  with config_change_updates [of files getmtime t load_config_file w w1 update_config upd, OF assms(1-9), of seen] assms(12)
  show ?thesis by (auto split: if_splits)
qed

lemma config_change_updates_all_witness:
  "case update_dynamic_configurables (\<lambda>f. Inr (if f = ''a.py'' then 5 else 9)) [''a.py'', ''b.py''] (\<lambda>w. (Inr (), ''app'' # w)) ''app''
     (\<lambda>c w. (Inr (), c # w)) (snd (snd (init_dynamic_configs (\<lambda>_. True) ''app'' ''km'' ''specs'' ''sessions''
        \<lparr>cp_interval = 10, cp_poller = None\<rparr> []))) (7, []) of
     (r, seen, w) \<Rightarrow> r = Inr True \<and> seen = 9 \<and> [c \<leftarrow> w. c \<noteq> ''app''] = [''sessions'', ''specs'', ''km'']"
proof -
  obtain p' reg where i: "init_dynamic_configs (\<lambda>_. True) ''app'' ''km'' ''specs'' ''sessions''
        \<lparr>cp_interval = 10, cp_poller = None\<rparr> [] = (Inr (), p', reg)"
    by (simp add: init_dynamic_configs_registry)
  obtain r seen w' where u: "update_dynamic_configurables (\<lambda>f. Inr (if f = ''a.py'' then 5 else 9)) [''a.py'', ''b.py'']
      (\<lambda>w. (Inr (), ''app'' # w)) ''app'' (\<lambda>c w. (Inr (), c # w)) reg (7, []) = (r, seen, w')"
    by (metis prod_cases3)
  show ?thesis
    unfolding i using config_change_updates_all [of "[''a.py'', ''b.py'']" "\<lambda>f. Inr (if f = ''a.py'' then 5 else 9)"
      "\<lambda>f. if f = ''a.py'' then 5 else 9" "\<lambda>w. (Inr (), ''app'' # w)" "[]" "[''app'']" "\<lambda>c w. (Inr (), c # w)" "(#)",
      OF _ _ _ _ _ _ _ _ i, where obs = "filter (\<lambda>c. c \<noteq> ''app'')", OF _ _ _ _ _ _ _ _ _ _ u] u by auto
qed

end
