(* ===== verification/ImagePuller.thy ===== *)
theory ImagePuller
  imports Authorization
begin

text \<open>
  The kernel image puller (etc/docker/kernel-image-puller: kernel_image_puller.py and
  image_fetcher.py), a program of its own that runs on every node: it asks for the image names
  of the kernels, from the gateway's kernelspecs, a list or a config map, and has a pool of
  workers pull them with the node's container runtime.
\<close>

section \<open>Settings\<close>

definition POLICY_IF_NOT_PRESENT :: string where "POLICY_IF_NOT_PRESENT = ''IfNotPresent''"
definition POLICY_ALWAYS :: string where "POLICY_ALWAYS = ''Always''"
definition DOCKER_CLIENT :: string where "DOCKER_CLIENT = ''docker''"
definition CONTAINERD_CLIENT :: string where "CONTAINERD_CLIENT = ''containerd''"

record image_puller =
  kip_num_pullers :: int
  kip_num_retries :: int
  kip_policy :: string
  kip_registry :: string
  kip_endpoint :: string
  kip_runtime :: string
  kip_interval :: int
  pulled_images :: "pyval list"

definition get_container_runtime :: "string \<Rightarrow> string" where
  "get_container_runtime runtime_endpoint =
     (if contains DOCKER_CLIENT runtime_endpoint then DOCKER_CLIENT else CONTAINERD_CLIENT)"

definition is_runtime_endpoint_recognized :: "string \<Rightarrow> bool" where
  "is_runtime_endpoint_recognized runtime_endpoint \<longleftrightarrow>
     contains DOCKER_CLIENT runtime_endpoint \<or> contains CONTAINERD_CLIENT runtime_endpoint"

definition env_number :: "(string, string) dict \<Rightarrow> string \<Rightarrow> string \<Rightarrow> int res" where
  "env_number env k dflt = of_option ValueError (py_int (dget_or env k dflt))"

definition load_static_env_values :: "(string, string) dict \<Rightarrow> image_puller res" where
  "load_static_env_values env =
     rbind (env_number env ''KIP_NUM_PULLERS'' ''2'') (\<lambda>num_pullers.
     rbind (env_number env ''KIP_NUM_RETRIES'' ''3'') (\<lambda>num_retries.
     rbind (env_number env ''KIP_INTERVAL'' ''300'') (\<lambda>interval.
       let policy = dget_or env ''KIP_PULL_POLICY'' POLICY_IF_NOT_PRESENT;
           endpoint = dget_or env ''KIP_CRI_ENDPOINT'' ''unix:///run/containerd/containerd.sock'' in
       Inr \<lparr>kip_num_pullers = num_pullers, kip_num_retries = num_retries,
            kip_policy = (if policy \<in> set [POLICY_IF_NOT_PRESENT, POLICY_ALWAYS] then policy else POLICY_IF_NOT_PRESENT),
            kip_registry = dget_or env ''KIP_DEFAULT_CONTAINER_REGISTRY'' [], kip_endpoint = endpoint,
            kip_runtime = get_container_runtime endpoint, kip_interval = interval, pulled_images = []\<rparr>)))"

section \<open>Fetching the names\<close>

text \<open>
  A set is the list of its elements in the order they were added; only hashable values can be
  added.  A fetcher answers such a list, or \<open>None\<close>.
\<close>

definition hashable :: "pyval \<Rightarrow> bool" where
  "hashable v \<longleftrightarrow> (case v of PList _ \<Rightarrow> False | PDict _ \<Rightarrow> False | _ \<Rightarrow> True)"

definition set_add :: "pyval \<Rightarrow> pyval list \<Rightarrow> pyval list res" where
  "set_add v xs = (if \<not> hashable v then Inl TypeError else Inr (if v \<in> set xs then xs else xs @ [v]))"

fun set_update :: "pyval list \<Rightarrow> pyval list \<Rightarrow> pyval list res" where
  "set_update xs [] = Inr xs"
| "set_update xs (v # vs) = rbind (set_add v xs) (\<lambda>xs'. set_update xs' vs)"

definition add_named :: "pyval \<Rightarrow> string \<Rightarrow> pyval list \<Rightarrow> pyval list res" where
  "add_named config key images =
     rbind (py_get config key) (\<lambda>v. if v = PNone then Inr images else set_add v images)"

text \<open>The images of one kernelspec.\<close>

definition add_spec_images :: "pyval \<Rightarrow> pyval list \<Rightarrow> pyval list res" where
  "add_spec_images k_spec images =
     rbind (py_get k_spec ''spec'') (\<lambda>spec.
     rbind (py_get spec ''metadata'') (\<lambda>metadata.
       if metadata = PNone then Inr images
       else rbind (py_get metadata ''process_proxy'') (\<lambda>proxy.
            rbind (if proxy = PNone then py_get metadata ''kernel_provisioner'' else Inr proxy) (\<lambda>config_parent.
              if config_parent = PNone then Inr images
              else rbind (py_get config_parent ''config'') (\<lambda>config.
                if config = PNone then Inr images
                else rbind (add_named config ''image_name'' images) (add_named config ''executor_image_name''))))))"

fun add_specs_images :: "pyval \<Rightarrow> pyval list \<Rightarrow> pyval list \<Rightarrow> pyval list res" where
  "add_specs_images k_specs [] images = Inr images"
| "add_specs_images k_specs (key # keys) images =
     rbind (case key of PStr k \<Rightarrow> py_get k_specs k | _ \<Rightarrow> Inl AttributeError) (\<lambda>k_spec.
     rbind (add_spec_images k_spec images) (add_specs_images k_specs keys))"

text \<open>The request to the gateway: its address and headers.\<close>

definition kernel_specs_request :: "string \<Rightarrow> string option \<Rightarrow> string \<times> (string, string) dict" where
  "kernel_specs_request gateway_host auth_token =
     (let end_point = gateway_host @ ''/api/kernelspecs'';
          headers = [(''Content-Type'', ''application/json'')] in
      case auth_token of
        Some t \<Rightarrow>
          if t \<noteq> [] then (end_point @ ''?token='' @ t, headers @ [(''Authorization'', ''token '' @ t)])
          else (end_point, headers)
      | None \<Rightarrow> (end_point, headers))"

text \<open>
  \<open>KernelSpecsFetcher.fetch_image_names\<close> on what \<open>get_kernel_specs\<close> gave; \<open>None\<close> when that failed
  or holds no kernelspecs.
\<close>

definition fetch_from_specs :: "pyval res \<Rightarrow> pyval res" where
  "fetch_from_specs response =
     (case rbind response (\<lambda>r. py_get r ''kernelspecs'') of
        Inl _ \<Rightarrow> Inr PNone
      | Inr k_specs \<Rightarrow>
          if k_specs = PNone then Inr PNone
          else rbind (py_iter k_specs) (\<lambda>keys. rbind (add_specs_images k_specs keys []) (\<lambda>images. Inr (PList images))))"

definition fetch_from_list :: "(string, string) dict \<Rightarrow> pyval res" where
  "fetch_from_list env =
     rbind (set_update [] (map PStr (split_on '','' (dget_or env ''KIP_IMAGES'' [])))) (\<lambda>xs. Inr (PList xs))"

text \<open>
  The config map: \<open>read\<close> answers its \<open>data\<close> (\<open>None\<close> when it has none), an API error is logged.
  The value is parsed as YAML; the handler of a parse error calls the logger, which is not a
  function.
\<close>

definition fetch_from_config_map ::
  "(string \<Rightarrow> string \<Rightarrow> 'w \<Rightarrow> pyval res \<times> 'w) \<Rightarrow> (string \<Rightarrow> pyval option) \<Rightarrow> (string, string) dict \<Rightarrow> 'w \<Rightarrow>
   pyval res \<times> 'w" where
  "fetch_from_config_map read safe_load env w =
     (let key_name = dget_or env ''KIP_CM_KEY_NAME'' ''image-names'' in
      case read (dget_or env ''KIP_CM_NAME'' ''kernel-images'')
             (dget_or env ''KIP_CM_NAMESPACE'' ''enterprise-gateway'') w of
        (Inl (ApiException st), w1) \<Rightarrow> (Inr (PList []), w1)
      | (Inl e, w1) \<Rightarrow> (Inl e, w1)
      | (Inr cm_data, w1) \<Rightarrow>
          (rbind (py_in key_name cm_data) (\<lambda>b.
             if \<not> b then Inr (PList [])
             else rbind (py_item cm_data key_name) (\<lambda>images.
                  rbind (case images of PStr s \<Rightarrow> Inr s | _ \<Rightarrow> Inl AttributeError) (\<lambda>s.
                    of_option TypeError (safe_load s)))), w1))"

text \<open>
  The combination of several fetchers, each of which answers what it would return; \<open>update\<close> of
  a set with \<open>None\<close> raises.
\<close>

fun fetch_combined :: "('w \<Rightarrow> pyval res \<times> 'w) list \<Rightarrow> pyval list \<Rightarrow> 'w \<Rightarrow> pyval res \<times> 'w" where
  "fetch_combined [] images w = (Inr (PList images), w)"
| "fetch_combined (fetch # rest) images w =
     (case fetch w of
        (r, w1) \<Rightarrow>
          (case rbind r (\<lambda>v. rbind (py_iter v) (set_update images)) of
             Inl e \<Rightarrow> (Inl e, w1)
           | Inr images' \<Rightarrow> fetch_combined rest images' w1))"

section \<open>Pulling an image\<close>

text \<open>
  \<open>io_get\<close> and \<open>io_pull\<close> are the calls of the docker client (an image that is not found is an
  API error 404), \<open>io_run\<close> runs a command and answers whether it succeeded.
\<close>

record 'w image_ops =
  io_get :: "string \<Rightarrow> 'w \<Rightarrow> unit res \<times> 'w"
  io_pull :: "string \<Rightarrow> 'w \<Rightarrow> unit res \<times> 'w"
  io_run :: "string list \<Rightarrow> 'w \<Rightarrow> bool \<times> 'w"

definition get_absolute_image_name :: "string \<Rightarrow> string \<Rightarrow> string" where
  "get_absolute_image_name default_container_registry image_name =
     (if length (split_on ''/'' image_name) < 3 \<and> default_container_registry \<noteq> []
      then default_container_registry @ ''/'' @ image_name else image_name)"

definition found :: "unit res \<Rightarrow> bool res" where
  "found r = (case r of Inr _ \<Rightarrow> Inr True | Inl e \<Rightarrow> if e = ApiException 404 then Inr False else Inl e)"

text \<open>Both calls have the same shape: one call of the docker client, or one command of \<open>crictl\<close>.\<close>

definition with_runtime ::
  "(string \<Rightarrow> 'w \<Rightarrow> unit res \<times> 'w) \<Rightarrow> (string list \<Rightarrow> 'w \<Rightarrow> bool \<times> 'w) \<Rightarrow> string list \<Rightarrow> image_puller \<Rightarrow>
   pyval \<Rightarrow> 'w \<Rightarrow> bool res \<times> 'w" where
  "with_runtime docker_call run verb k img w =
     (case img of
        PStr image_name \<Rightarrow>
          (let absolute = get_absolute_image_name (kip_registry k) image_name in
           if kip_runtime k = DOCKER_CLIENT
           then (case docker_call absolute w of (r, w1) \<Rightarrow> (found r, w1))
           else if kip_runtime k = CONTAINERD_CLIENT
           then (case run ([''crictl'', ''-r'', kip_endpoint k] @ verb @ [absolute]) w of (b, w1) \<Rightarrow> (Inr b, w1))
           else (Inr False, w))
      | _ \<Rightarrow> (Inl AttributeError, w))"

definition image_exists :: "'w image_ops \<Rightarrow> image_puller \<Rightarrow> pyval \<Rightarrow> 'w \<Rightarrow> bool res \<times> 'w" where
  "image_exists ops = with_runtime (io_get ops) (io_run ops) [''inspecti'', ''-q'']"

definition download_image :: "'w image_ops \<Rightarrow> image_puller \<Rightarrow> pyval \<Rightarrow> 'w \<Rightarrow> bool res \<times> 'w" where
  "download_image ops = with_runtime (io_pull ops) (io_run ops) [''pull'']"

definition note_pulled :: "pyval \<Rightarrow> image_puller \<Rightarrow> image_puller" where
  "note_pulled img k =
     k\<lparr>pulled_images := (if img \<in> set (pulled_images k) then pulled_images k else pulled_images k @ [img])\<rparr>"

definition do_pull :: "'w image_ops \<Rightarrow> pyval \<Rightarrow> image_puller \<Rightarrow> 'w \<Rightarrow> unit res \<times> image_puller \<times> 'w" where
  "do_pull ops img k w =
     (case download_image ops k img w of
        (Inl e, w1) \<Rightarrow> (Inl e, k, w1)
      | (Inr downloaded, w1) \<Rightarrow> (Inr (), if downloaded then note_pulled img k else k, w1))"

definition pull_image :: "'w image_ops \<Rightarrow> pyval \<Rightarrow> image_puller \<Rightarrow> 'w \<Rightarrow> unit res \<times> image_puller \<times> 'w" where
  "pull_image ops img k w =
     (if kip_policy k = POLICY_IF_NOT_PRESENT
      then (case image_exists ops k img w of
              (Inl e, w1) \<Rightarrow> (Inl e, k, w1)
            | (Inr True, w1) \<Rightarrow> (Inr (), note_pulled img k, w1)
            | (Inr False, w1) \<Rightarrow>
                do_pull ops img (k\<lparr>pulled_images := remove1 img (pulled_images k)\<rparr>) w1)
      else do_pull ops img k w)"

section \<open>Workers and cycles\<close>

text \<open>The attempts at one image: \<open>n\<close> are left.\<close>

fun pull_attempts :: "'w image_ops \<Rightarrow> pyval \<Rightarrow> nat \<Rightarrow> image_puller \<Rightarrow> 'w \<Rightarrow> image_puller \<times> 'w" where
  "pull_attempts ops img 0 k w = (k, w)"
| "pull_attempts ops img (Suc n) k w =
     (case pull_image ops img k w of
        (Inr _, k1, w1) \<Rightarrow> (k1, w1)
      | (Inl _, k1, w1) \<Rightarrow> pull_attempts ops img n k1 w1)"

text \<open>
  What the pool makes of the queue: \<open>alive\<close> workers take the tasks in order, a task as a whole.
  A worker that takes \<open>None\<close> ends without reporting the task as done.  The last component counts
  the tasks that are never reported; the queue's \<open>join\<close> returns when it is zero.
\<close>

fun drain_queue ::
  "'w image_ops \<Rightarrow> nat \<Rightarrow> pyval list \<Rightarrow> nat \<Rightarrow> image_puller \<Rightarrow> 'w \<Rightarrow> nat \<times> nat \<times> image_puller \<times> 'w" where
  "drain_queue ops alive [] unfinished k w = (alive, unfinished, k, w)"
| "drain_queue ops alive (img # queue) unfinished k w =
     (if alive = 0 then (0, unfinished + length (img # queue), k, w)
      else if img = PNone then drain_queue ops (alive - 1) queue (Suc unfinished) k w
      else (case pull_attempts ops img (nat (kip_num_retries k)) k w of
              (k1, w1) \<Rightarrow> drain_queue ops alive queue unfinished k1 w1))"

text \<open>
  One cycle of \<open>start\<close>: the names are fetched and queued, the queue is waited for, and the next
  wait is determined.  \<open>None\<close>: the cycle never ends, because \<open>join\<close> does not return.
\<close>

definition puller_cycle ::
  "'w image_ops \<Rightarrow> ('w \<Rightarrow> pyval res \<times> 'w) \<Rightarrow> nat \<times> int \<times> image_puller \<Rightarrow> 'w \<Rightarrow>
   ((nat \<times> int \<times> image_puller) res \<times> 'w) option" where
  "puller_cycle ops fetch s w =
     (case s of (alive, wait_interval, k) \<Rightarrow>
        (case fetch w of
           (r, w1) \<Rightarrow>
             (case rbind r (\<lambda>names. if truthy names then py_iter names else Inr []) of
                Inl e \<Rightarrow> Some (Inl e, w1)
              | Inr [] \<Rightarrow>
                  Some (Inr (alive, if is_runtime_endpoint_recognized (kip_endpoint k) then wait_interval
                             else kip_interval k, k), w1)
              | Inr queue \<Rightarrow>
                  (case drain_queue ops alive queue 0 k w1 of
                     (alive', unfinished, k1, w2) \<Rightarrow>
                       if unfinished = 0 then Some (Inr (alive', kip_interval k1, k1), w2) else None))))"

section \<open>Properties: the policy\<close>

lemma with_runtime_pulled [simp]:
  "with_runtime docker_call run verb (k\<lparr>pulled_images := xs\<rparr>) img w = with_runtime docker_call run verb k img w"
  by (cases img) (simp_all add: with_runtime_def Let_def cong: if_cong)

text \<open>
  An image is pulled exactly when the policy asks for it: always, or when the container
  runtime does not have it.  Afterwards it is among the pulled images if it was there or its
  download succeeded; an image that has vanished and cannot be downloaded is forgotten.
\<close>

lemma pull_policy_respected:
  assumes "distinct (pulled_images k)"
    and "image_exists ops k (PStr n) w = (Inr ex, w)" "download_image ops k (PStr n) w = (Inr ok, w1)"
    and "pull_attempts ops (PStr n) (Suc m) k w = (k', w')"
  shows "w' = (if kip_policy k = POLICY_IF_NOT_PRESENT \<and> ex then w else w1) \<and>
    distinct (pulled_images k') \<and>
    set (pulled_images k') =
      (if kip_policy k = POLICY_IF_NOT_PRESENT \<and> ex \<or> ok then insert (PStr n) (set (pulled_images k))
       else if kip_policy k = POLICY_IF_NOT_PRESENT then set (pulled_images k) - {PStr n}
       else set (pulled_images k))"
proof -
  have "image_exists ops (k\<lparr>pulled_images := xs\<rparr>) (PStr n) w = (Inr ex, w)"
    "download_image ops (k\<lparr>pulled_images := xs\<rparr>) (PStr n) w = (Inr ok, w1)" for xs
    using assms(2,3) by (simp_all add: image_exists_def download_image_def)
  then show ?thesis
    using assms by (auto simp: pull_image_def do_pull_def note_pulled_def set_remove1_eq split: if_splits)
qed

text \<open>
  A failing command of \<open>crictl\<close> is an answer, not an exception, so unlike a failure of the
  docker client it is never retried.
\<close>

lemma crictl_failure_not_retried:
  assumes "kip_runtime k = CONTAINERD_CLIENT" "kip_policy k = POLICY_ALWAYS"
    and "\<And>argv v. io_run ops argv v = (False, v1 v)"
  shows "pull_attempts ops (PStr n) (Suc m) k w = (k, v1 w)"
  using assms
  by (simp add: pull_image_def do_pull_def download_image_def with_runtime_def POLICY_ALWAYS_def
      POLICY_IF_NOT_PRESENT_def CONTAINERD_CLIENT_def DOCKER_CLIENT_def)

section \<open>Properties: the pool\<close>

definition attempt_all :: "'w image_ops \<Rightarrow> pyval list \<Rightarrow> image_puller \<times> 'w \<Rightarrow> image_puller \<times> 'w" where
  "attempt_all ops imgs kw =
     fold (\<lambda>i (k, w). pull_attempts ops i (nat (kip_num_retries k)) k w) imgs kw"

lemma drain_queue_all:
  assumes "PNone \<notin> set queue" "0 < alive"
  shows "drain_queue ops alive queue u k w =
    (case attempt_all ops queue (k, w) of (k', w') \<Rightarrow> (alive, u, k', w'))"
  using assms(1)
  by (induction queue arbitrary: k w) (auto simp: assms(2) attempt_all_def split: prod.splits)

lemma drain_queue_unfinished:
  "u \<le> fst (snd (drain_queue ops alive queue u k w)) \<and>
   (PNone \<in> set queue \<longrightarrow> u < fst (snd (drain_queue ops alive queue u k w)))"
proof (induction queue arbitrary: alive u k w)
  case (Cons i queue)
  show ?case
  proof (cases "alive = 0 \<or> i \<noteq> PNone")
    case True
    then show ?thesis using Cons.IH by (auto split: prod.splits)
  next
    case False
    with Cons.IH [of "Suc u" "alive - 1" k w] show ?thesis by auto
  qed
qed simp

lemma pull_attempts_settings:
  "kip_interval (fst (pull_attempts ops i n k w)) = kip_interval k"
proof (induction n arbitrary: k w)
  case (Suc n)
  have "kip_interval (fst (snd (pull_image ops i k w))) = kip_interval k"
    by (auto simp: pull_image_def do_pull_def note_pulled_def split: prod.splits sum.splits bool.splits)
  with Suc show ?case by (auto split: prod.splits sum.splits)
qed simp

lemma attempt_all_settings: "kip_interval (fst (attempt_all ops imgs (k, w))) = kip_interval k"
proof (induction imgs arbitrary: k w)
  case (Cons i imgs)
  obtain k1 w1 where p: "pull_attempts ops i (nat (kip_num_retries k)) k w = (k1, w1)" by fastforce
  then have "kip_interval k1 = kip_interval k" using pull_attempts_settings [of ops i _ k w] by (metis fst_conv)
  with Cons p show ?case by (simp add: attempt_all_def)
qed (simp add: attempt_all_def)

text \<open>
  A cycle of the puller ends exactly when no name it fetched is null.  Then every image has
  had its attempts, the pool is complete and the next wait is the configured interval; a null,
  as an empty entry of the config map's YAML list is, ends a worker without reporting its task,
  and the puller waits for ever.
\<close>

lemma pull_cycle_ends:
  assumes "fetch w = (Inr (PList names), w1)" "names \<noteq> []" "0 < alive"
  shows "puller_cycle ops fetch (alive, wait, k) w =
    (if PNone \<in> set names then None
     else (case attempt_all ops names (k, w1) of (k', w') \<Rightarrow> Some (Inr (alive, kip_interval k, k'), w')))"
proof (cases "PNone \<in> set names")
  case True
  obtain a u k' w' where d: "drain_queue ops alive names 0 k w1 = (a, u, k', w')" by (metis prod_cases4)
  then have "0 < u" using drain_queue_unfinished [of 0 ops alive names k w1] True by simp
  with True d assms show ?thesis by (auto simp: puller_cycle_def split: list.splits)
next
  case False
  obtain k' w' where a: "attempt_all ops names (k, w1) = (k', w')" by fastforce
  then have "kip_interval k' = kip_interval k" using attempt_all_settings [of ops names k w1] by simp
  with False a assms show ?thesis
    by (auto simp: puller_cycle_def drain_queue_all simp del: drain_queue.simps split: list.splits)
qed

section \<open>Properties: the names\<close>

definition opt_entry :: "string \<Rightarrow> string option \<Rightarrow> (string, pyval) dict" where
  "opt_entry k x = (case x of None \<Rightarrow> [] | Some s \<Rightarrow> [(k, PStr s)])"

text \<open>A kernelspec of the gateway whose process proxy names up to two images.\<close>

definition described :: "string option \<Rightarrow> string option \<Rightarrow> pyval" where
  "described img executor =
     PDict [(''spec'', PDict [(''metadata'', PDict [(''process_proxy'', PDict [(''config'',
       PDict (opt_entry ''image_name'' img @ opt_entry ''executor_image_name'' executor))])])])]"

definition images_of :: "string \<times> string option \<times> string option \<Rightarrow> pyval set" where
  "images_of c = PStr ` (set_option (fst (snd c)) \<union> set_option (snd (snd c)))"

lemma set_add_str: "\<exists>ys. set_add (PStr s) xs = Inr ys \<and> set ys = insert (PStr s) (set xs) \<and> (distinct xs \<longrightarrow> distinct ys)"
  by (auto simp: set_add_def hashable_def)

lemma add_described:
  "\<exists>ys. add_spec_images (described a b) xs = Inr ys \<and> set ys = set xs \<union> images_of (n, a, b) \<and>
     (distinct xs \<longrightarrow> distinct ys)"
proof -
  obtain ys where ys: "add_named (PDict (opt_entry ''image_name'' a @ opt_entry ''executor_image_name'' b)) ''image_name'' xs = Inr ys"
    "set ys = set xs \<union> PStr ` set_option a" "distinct xs \<longrightarrow> distinct ys"
    using set_add_str [of "the a" xs] by (cases a; cases b) (auto simp: add_named_def opt_entry_def)
  moreover obtain zs where "add_named (PDict (opt_entry ''image_name'' a @ opt_entry ''executor_image_name'' b))
      ''executor_image_name'' ys = Inr zs"
    "set zs = set ys \<union> PStr ` set_option b" "distinct ys \<longrightarrow> distinct zs"
    using set_add_str [of "the b" ys] by (cases a; cases b) (auto simp: add_named_def opt_entry_def)
  ultimately show ?thesis by (auto simp: add_spec_images_def described_def images_of_def)
qed

lemma spec_images_fetched:
  assumes "distinct (map fst cs)"
  shows "\<exists>xs. fetch_from_specs (Inr (PDict [(''kernelspecs'', PDict (map (\<lambda>c. (fst c, described (fst (snd c)) (snd (snd c)))) cs))])) =
      Inr (PList xs) \<and> distinct xs \<and> set xs = (\<Union>c\<in>set cs. images_of c)"
proof -
  let ?d = "map (\<lambda>c. (fst c, described (fst (snd c)) (snd (snd c)))) cs"
  have "\<exists>xs. add_specs_images (PDict ?d) (map (PStr \<circ> fst) ds) ys = Inr xs \<and> (distinct ys \<longrightarrow> distinct xs) \<and>
      set xs = set ys \<union> (\<Union>c\<in>set ds. images_of c)" if "set ds \<subseteq> set cs" for ds ys
    using that
  proof (induction ds arbitrary: ys)
    case (Cons c ds)
    have "dget ?d (fst c) = Some (described (fst (snd c)) (snd (snd c)))"
      using Cons.prems assms by (intro map_of_is_SomeI) (auto simp: comp_def)
    moreover obtain zs where "add_spec_images (described (fst (snd c)) (snd (snd c))) ys = Inr zs"
      "set zs = set ys \<union> images_of c" "distinct ys \<longrightarrow> distinct zs"
      using add_described [of "fst (snd c)" "snd (snd c)" ys "fst c"] by auto
    ultimately show ?case using Cons.IH [of zs] Cons.prems by auto
  qed simp
  from this [of cs "[]"] show ?thesis by (auto simp: fetch_from_specs_def comp_def)
qed

text \<open>An empty list of images is one image without a name.\<close>

lemma empty_list_is_one_name: "fetch_from_list [] = Inr (PList [PStr []])"
  by (simp add: fetch_from_list_def dget_or_def split_on_def set_add_def hashable_def)

text \<open>A gateway that does not answer ends a puller with combined fetchers.\<close>

lemma combined_needs_gateway:
  "fetch_combined [\<lambda>w. (fetch_from_specs (Inl TimeoutError), w)] [] w = (Inl TypeError, w)"
  by (simp add: fetch_from_specs_def)

section \<open>A node with docker\<close>

definition demo_image_ops :: "string list image_ops" where
  "demo_image_ops =
     \<lparr>io_get = (\<lambda>n w. (if n \<in> set w then Inr () else Inl (ApiException 404), w)),
      io_pull = (\<lambda>n w. (Inr (), n # w)), io_run = (\<lambda>argv w. (False, w))\<rparr>"

definition demo_puller :: image_puller where
  "demo_puller = \<lparr>kip_num_pullers = 2, kip_num_retries = 3, kip_policy = POLICY_IF_NOT_PRESENT,
     kip_registry = ''hub'', kip_endpoint = ''unix:///var/run/docker.sock'', kip_runtime = DOCKER_CLIENT,
     kip_interval = 300, pulled_images = []\<rparr>"

lemma demo_absolute: "get_absolute_image_name ''hub'' ''elyra/kernel'' = ''hub/elyra/kernel''"
  by code_simp

lemma demo_exists: "image_exists demo_image_ops demo_puller (PStr ''elyra/kernel'') w = (Inr (''hub/elyra/kernel'' \<in> set w), w)"
  by (simp add: image_exists_def with_runtime_def demo_puller_def demo_image_ops_def found_def demo_absolute)

lemma demo_download: "download_image demo_image_ops demo_puller (PStr ''elyra/kernel'') w = (Inr True, ''hub/elyra/kernel'' # w)"
  by (simp add: download_image_def with_runtime_def demo_puller_def demo_image_ops_def found_def demo_absolute)

lemma pull_policy_respected_witness:
  "snd (pull_attempts demo_image_ops (PStr ''elyra/kernel'') 3 demo_puller []) = [''hub/elyra/kernel'']"
proof -
  obtain k' w' where p: "pull_attempts demo_image_ops (PStr ''elyra/kernel'') (Suc 2) demo_puller [] = (k', w')"
    by fastforce
  have "distinct (pulled_images demo_puller)" by (simp add: demo_puller_def)
  from pull_policy_respected [OF this demo_exists demo_download p] p show ?thesis
    by (simp add: numeral_3_eq_3 numeral_2_eq_2)
qed

lemma pull_cycle_ends_witness:
  "puller_cycle demo_image_ops (\<lambda>w. (Inr (PList [PStr ''elyra/kernel'', PNone]), w)) (2, 5, demo_puller) [] = None"
  using pull_cycle_ends [of "\<lambda>w. (Inr (PList [PStr ''elyra/kernel'', PNone]), w)" "[]" "[PStr ''elyra/kernel'', PNone]"
      "[]" 2 demo_image_ops 5 demo_puller]
  by simp

end
