(* ===== verification/PyLauncher.thy ===== *)
theory PyLauncher
  imports ResponseManager PortRange RemoteProxy
begin

text \<open>
  The Python kernel launcher (etc/kernel-launchers/python/scripts/launch_ipykernel.py) beyond
  what \<open>PortRange\<close> (its ports) and \<open>ResponseManager\<close> (its response) hold: the settings it
  derives from its arguments, the listener that carries out the gateway's signals, the
  namespace it hands to the kernel and the order of its start-up.
\<close>

section \<open>Arguments\<close>

record launcher_args =
  arg_connection_file :: "string option"
  arg_response_address :: "string option"
  arg_kernel_id :: "string option"
  arg_public_key :: "string option"
  arg_port_range :: "string option"
  arg_init_mode :: "string option"
  arg_cluster_type :: "string option"
  arg_kernel_class_name :: "string option"

text \<open>
  The deprecated options are a second record of arguments; their defaults for the
  initialization mode and the cluster type are \<open>none\<close> and \<open>spark\<close>.
\<close>

definition deprecated_args :: launcher_args where
  "deprecated_args = \<lparr>arg_connection_file = None, arg_response_address = None, arg_kernel_id = None,
     arg_public_key = None, arg_port_range = None, arg_init_mode = Some ''none'',
     arg_cluster_type = Some ''spark'', arg_kernel_class_name = None\<rparr>"

record launcher_settings =
  ls_connection_file :: "string option"
  ls_response_addr :: "string option"
  ls_kernel_id :: string
  ls_public_key :: string
  ls_ports :: "int \<times> int"
  ls_cluster_type :: "string option"
  ls_kernel_class_name :: "string option"

definition launcher_settings :: "int \<Rightarrow> launcher_args \<Rightarrow> launcher_args \<Rightarrow> launcher_settings res" where
  "launcher_settings min_port_range_size a rpp =
     rbind (launcher_validate_port_range min_port_range_size (or_arg (arg_port_range a) (arg_port_range rpp))) (\<lambda>ports.
       let kernel_id = or_arg (arg_kernel_id a) (arg_kernel_id rpp);
           public_key = or_arg (arg_public_key a) (arg_public_key rpp);
           init_mode = or_arg (arg_init_mode a) (arg_init_mode rpp);
           cluster_type = or_arg (arg_cluster_type a) (arg_cluster_type rpp) in
       case kernel_id of
         None \<Rightarrow> Inl RuntimeError
       | Some kid \<Rightarrow>
           (case public_key of
              None \<Rightarrow> Inl RuntimeError
            | Some key \<Rightarrow>
                Inr \<lparr>ls_connection_file = arg_connection_file a,
                     ls_response_addr = or_arg (arg_response_address a) (arg_response_address rpp),
                     ls_kernel_id = kid, ls_public_key = key, ls_ports = ports,
                     ls_cluster_type = (if cluster_type = Some ''spark'' \<and> init_mode = Some ''none''
                       then Some ''none'' else cluster_type),
                     ls_kernel_class_name = arg_kernel_class_name a\<rparr>))"

section \<open>The connection file\<close>

text \<open>\<open>dir_exists\<close> is \<open>os.path.exists(os.path.dirname(f))\<close>, \<open>mkstemp\<close> answers a fresh name with a prefix and suffix.\<close>

definition determine_connection_file ::
  "(string \<Rightarrow> bool) \<Rightarrow> (string \<Rightarrow> string) \<Rightarrow> (string \<Rightarrow> string \<Rightarrow> string) \<Rightarrow> string option \<Rightarrow> string option \<Rightarrow> string res" where
  "determine_connection_file dir_exists stem mkstemp conn_file kid =
     (case conn_file of
        Some f \<Rightarrow>
          if dir_exists f then Inr f
          else Inr (mkstemp (case kid of Some k \<Rightarrow> ''kernel-'' @ k @ ''_'' | None \<Rightarrow> stem f @ ''_'') ''.json'')
      | None \<Rightarrow> (case kid of Some k \<Rightarrow> Inr (mkstemp (''kernel-'' @ k @ ''_'') ''.json'') | None \<Rightarrow> Inl TypeError))"

section \<open>The listener\<close>

text \<open>
  One accepted connection: the exception of \<open>accept\<close> (a timeout is silent), or the buffers
  received until the peer has closed.
\<close>

definition get_server_request :: "string list res \<Rightarrow> pyval res" where
  "get_server_request accepted =
     (case (case accepted of Inl e \<Rightarrow> Inl e | Inr chunks \<Rightarrow> rbind (receive_all [] chunks) json_loads) of
        Inr v \<Rightarrow> Inr v
      | Inl e \<Rightarrow> if e = TimeoutError then Inr PNone else Inl e)"

definition SIGUSR2 :: int where "SIGUSR2 = 12"

text \<open>\<open>request.get(k) is not None\<close>\<close>

definition wanted :: "pyval \<Rightarrow> string \<Rightarrow> pyval option res" where
  "wanted request k = rbind (py_get request k) (\<lambda>v. Inr (if v = PNone then None else Some v))"

text \<open>Carrying out a request; the answer tells whether the listener is to stop.\<close>

definition handle_request ::
  "(int \<Rightarrow> 'w \<Rightarrow> unit res \<times> 'w) \<Rightarrow> string option \<Rightarrow> pyval \<Rightarrow> 'w \<Rightarrow> bool res \<times> 'w" where
  "handle_request kill_parent cluster_type request w =
     (if \<not> truthy request then (Inr False, w)
      else bindE
        (case wanted request ''signum'' of
           Inl e \<Rightarrow> (Inl e, w)
         | Inr None \<Rightarrow> (Inr (), w)
         | Inr (Some v) \<Rightarrow>
             (case py_int_of v of
                Inl e \<Rightarrow> (Inl e, w)
              | Inr signum \<Rightarrow>
                  bindE (kill_parent signum w) (\<lambda>_ w1.
                    if signum = 2 \<and> cluster_type = Some ''spark'' then kill_parent SIGUSR2 w1 else (Inr (), w1))))
        (\<lambda>_ w1. (rbind (wanted request ''shutdown'') (\<lambda>v. Inr (case v of None \<Rightarrow> False | Some s \<Rightarrow> truthy s)), w1)))"

datatype listener_state = Listening | Stopped | Died exn

text \<open>The loop over the connections it accepts, in order, until a shutdown or an exception ends it.\<close>

fun server_listener ::
  "(int \<Rightarrow> 'w \<Rightarrow> unit res \<times> 'w) \<Rightarrow> string option \<Rightarrow> string list res list \<Rightarrow> 'w \<Rightarrow> listener_state \<times> 'w" where
  "server_listener kill_parent cluster_type [] w = (Listening, w)"
| "server_listener kill_parent cluster_type (accepted # rest) w =
     (case get_server_request accepted of
        Inl e \<Rightarrow> (Died e, w)
      | Inr request \<Rightarrow>
          (case handle_request kill_parent cluster_type request w of
             (Inl e, w1) \<Rightarrow> (Died e, w1)
           | (Inr True, w1) \<Rightarrow> (Stopped, w1)
           | (Inr False, w1) \<Rightarrow> server_listener kill_parent cluster_type rest w1))"

text \<open>\<open>cancel_spark_jobs\<close>: \<open>cancel\<close> answers whether it raised, and whether that was a \<open>Py4JError\<close>.\<close>

definition cancel_spark_jobs :: "('w \<Rightarrow> bool option \<times> 'w) option \<Rightarrow> 'w \<Rightarrow> 'w" where
  "cancel_spark_jobs spark_context w =
     (case spark_context of
        None \<Rightarrow> w
      | Some cancel \<Rightarrow>
          (case cancel w of
             (Some True, w1) \<Rightarrow> snd (cancel w1)
           | (_, w1) \<Rightarrow> w1))"

section \<open>The kernel's namespace\<close>

text \<open>
  What a name is bound to: something of the launcher's own, a placeholder that waits for the
  Spark session and forwards to the named variable, the placeholder function \<open>sql\<close>, or an
  object of the cluster.
\<close>

datatype binding = Launcher_Object | Waiting string | Waiting_Sql | Cluster_Object string

definition spark_placeholders :: "(string, binding) dict" where
  "spark_placeholders = [(''spark'', Waiting ''spark''), (''sc'', Waiting ''sc''), (''sql'', Waiting_Sql),
     (''sqlContext'', Waiting ''sqlContext''), (''sqlCtx'', Waiting ''sqlContext'')]"

text \<open>What the background thread replaces the placeholders by when the session is there.\<close>

definition spark_session :: "(string, binding) dict" where
  "spark_session = [(''spark'', Cluster_Object ''spark''), (''sc'', Cluster_Object ''sparkContext''),
     (''sql'', Cluster_Object ''sql''), (''sqlContext'', Cluster_Object ''_wrapped''),
     (''sqlCtx'', Cluster_Object ''_wrapped'')]"

definition initialize_namespace ::
  "bool \<Rightarrow> bool \<Rightarrow> string option \<Rightarrow> (string, binding) dict \<Rightarrow> (string, binding) dict res" where
  "initialize_namespace has_pyspark has_dask cluster_type namespace =
     (if cluster_type = Some ''spark''
      then Inr (if has_pyspark then dupdate namespace spark_placeholders else namespace)
      else if cluster_type = Some ''dask''
      then (if has_dask then Inr (dset ''cluster'' (Cluster_Object ''cluster'') namespace) else Inl ImportError)
      else if cluster_type \<noteq> Some ''none'' then Inl RuntimeError
      else Inr namespace)"

fun delete_all :: "string list \<Rightarrow> (string, 'v) dict \<Rightarrow> (string, 'v) dict res" where
  "delete_all [] d = Inr d"
| "delete_all (k # ks) d = (if dhas d k then delete_all ks (ddel k d) else Inl KeyError)"

text \<open>The namespace the kernel is started with: the launcher's names are collected before and deleted after.\<close>

definition kernel_namespace_of ::
  "bool \<Rightarrow> bool \<Rightarrow> string option \<Rightarrow> (string, binding) dict \<Rightarrow> (string, binding) dict res" where
  "kernel_namespace_of has_pyspark has_dask cluster_type namespace =
     (let to_delete = [k \<leftarrow> dkeys namespace. \<not> startswith k ''__''] in
      rbind (initialize_namespace has_pyspark has_dask cluster_type namespace) (delete_all to_delete))"

text \<open>
  Attribute access on a placeholder: meta names are answered at once with \<open>None\<close>, everything
  else waits for the thread (\<open>outcome\<close> is its exception) and goes to the real object.
\<close>

definition waiting_getattr :: "bool \<Rightarrow> (string \<Rightarrow> 'v res) \<Rightarrow> string \<Rightarrow> 'v option res" where
  "waiting_getattr failed session_attr name =
     (if startswith name ''__'' \<or> startswith name ''_ipython_'' \<or> startswith name ''_repr_'' then Inr None
      else if failed then Inl RuntimeError
      else rbind (session_attr name) (\<lambda>v. Inr (Some v)))"

section \<open>Start-up\<close>

datatype launcher_event =
    Write_Connection_File string "int list"
  | Start_Listener "string option"
  | Handle_SIGUSR2
  | Start_Kernel "string option" "string option"

text \<open>
  The main program: \<open>respond\<close> is \<open>return_connection_info\<close> and answers whether it has opened a
  communication socket; there always is a kernel id, so a connection file is always written.
\<close>

definition launcher_main ::
  "(string option \<Rightarrow> string option \<Rightarrow> string res) \<Rightarrow> int list res \<Rightarrow> (string \<Rightarrow> bool res) \<Rightarrow> launcher_settings \<Rightarrow>
   launcher_event list res" where
  "launcher_main connection_file ports respond s =
     rbind (connection_file (ls_connection_file s) (Some (ls_kernel_id s))) (\<lambda>file.
     rbind ports (\<lambda>ps.
     rbind (case ls_response_addr s of None \<Rightarrow> Inr False | Some [] \<Rightarrow> Inr False | Some a \<Rightarrow> respond a) (\<lambda>listening.
       Inr (Write_Connection_File file ps #
            (if listening then [Start_Listener (ls_cluster_type s)] else []) @
            (if ls_cluster_type s = Some ''spark'' then [Handle_SIGUSR2] else []) @
            [Start_Kernel (ls_cluster_type s) (ls_kernel_class_name s)]))))"

section \<open>Properties: requests of the gateway\<close>

lemma json_escape_ascii: "b \<in> set (json_escape c) \<Longrightarrow> code b < 128"
proof -
  have "code c div 16 < 16" using code_less [of c] by (simp add: div_less_iff_less_mult)
  moreover have "code (hex_char n) < 128" if "n < 16" for n using that by (simp add: hex_char_def)
  ultimately have h: "code (hex_char (code c div 16)) < 128" "code (hex_char (code c mod 16)) < 128"
    by simp_all
  assume "b \<in> set (json_escape c)"
  then consider "b = hex_char (code c div 16)" | "b = hex_char (code c mod 16)" | "b = c" "code c \<le> 126"
    | "b \<in> set [CHR 0x22, CHR 0x5C, CHR ''n'', CHR ''r'', CHR ''t'', CHR ''b'', CHR ''f'', CHR ''u'', CHR ''0'']"
    by (auto simp: json_escape_def split: if_splits)
  then show ?thesis using h by cases (auto simp: code_def)
qed

lemma json_string_ascii: "b \<in> set (json_string s) \<Longrightarrow> code b < 128"
  by (auto simp: json_string_def code_def dest: json_escape_ascii)

lemma int_str_ascii: "b \<in> set (int_str i) \<Longrightarrow> code b < 128"
  using nat_str_digits [of b "nat i"] nat_str_digits [of b "nat (- i)"]
  by (auto simp: int_str_def is_digit_def code_def split: if_splits)

text \<open>What the gateway's \<open>_send_listener_request\<close> puts on the wire, and the two requests it makes.\<close>

definition request_text :: "(string, pyval) dict \<Rightarrow> string" where
  "request_text request = utf8_encode (json_dumps (PDict request))"

definition signal_request :: "int \<Rightarrow> (string, pyval) dict" where
  "signal_request signum = [(''signum'', PInt signum)]"

definition shutdown_request :: "(string, pyval) dict" where
  "shutdown_request = [(''shutdown'', PInt 1)]"

lemma request_ascii:
  assumes "b \<in> set (json_dumps (PDict [(k, PInt i)]))"
  shows "code b < 128"
proof -
  have "b \<in> set (json_string k) \<or> b \<in> set (int_str i) \<or> b \<in> set ''{: }''"
    using assms by auto
  then show ?thesis by (auto simp: code_def dest: json_string_ascii int_str_ascii)
qed

lemma request_received:
  assumes "concat chunks = request_text [(k, PInt i)]"
  shows "get_server_request (Inr chunks) = Inr (PDict [(k, PInt i)])"
proof -
  have t: "request_text [(k, PInt i)] = json_dumps (PDict [(k, PInt i)])"
    unfolding request_text_def using utf8_ascii request_ascii by blast
  then have "receive_all [] chunks = Inr (json_dumps (PDict [(k, PInt i)]))"
    using receive_all_ascii [of chunks "[]"] assms request_ascii by (metis append_Nil)
  then show ?thesis
    using json_loads_dumps [of "PDict [(k, PInt i)]"] by (simp add: get_server_request_def)
qed

text \<open>The signals a request for \<open>signum\<close> stands for, in a kernel of the given cluster type.\<close>

definition signals_of :: "string option \<Rightarrow> int \<Rightarrow> int list" where
  "signals_of cluster_type signum =
     (if signum = 2 \<and> cluster_type = Some ''spark'' then [signum, SIGUSR2] else [signum])"

text \<open>A connection that brings a text, in whatever pieces.\<close>

definition brings :: "string \<Rightarrow> string list res \<Rightarrow> bool" where
  "brings t accepted \<longleftrightarrow> (\<exists>chunks. accepted = Inr chunks \<and> concat chunks = t)"

lemma listener_signal:
  assumes "brings (request_text (signal_request signum)) accepted"
  shows "server_listener (\<lambda>n w. (Inr (), deliver n w)) cluster_type (accepted # rest) w =
    server_listener (\<lambda>n w. (Inr (), deliver n w)) cluster_type rest (fold deliver (signals_of cluster_type signum) w)"
proof -
  have "get_server_request accepted = Inr (PDict (signal_request signum))"
    using assms request_received unfolding brings_def signal_request_def by blast
  then show ?thesis by (simp add: handle_request_def wanted_def signal_request_def signals_of_def)
qed

lemma listener_shutdown:
  assumes "brings (request_text shutdown_request) accepted"
  shows "server_listener kill cluster_type (accepted # rest) w = (Stopped, w)"
proof -
  have "get_server_request accepted = Inr (PDict shutdown_request)"
    using assms request_received unfolding brings_def shutdown_request_def by blast
  then show ?thesis by (simp add: handle_request_def wanted_def shutdown_request_def)
qed

lemma listener_timeout:
  "server_listener kill cluster_type (Inl TimeoutError # rest) w = server_listener kill cluster_type rest w"
  by (simp add: get_server_request_def handle_request_def)

text \<open>
  C25: Every signal the gateway sends over the communication port reaches the kernel's process,
  in order and once, however the network cuts the requests into pieces and however often the
  listener's wait times out in between; an interrupt of a Spark kernel is followed by SIGUSR2,
  which cancels its jobs; the shutdown request ends the listener.
\<close>

theorem gateway_requests_carried_out:
  assumes "list_all2 (\<lambda>n a. brings (request_text (signal_request n)) a) signums
      [a \<leftarrow> connections. a \<noteq> Inl TimeoutError]"
    and "brings (request_text shutdown_request) last_connection"
  shows "server_listener (\<lambda>n w. (Inr (), deliver n w)) cluster_type (connections @ last_connection # rest) w =
    (Stopped, fold deliver (concat (map (signals_of cluster_type) signums)) w)"
  using assms(1)
proof (induction connections arbitrary: signums w)
  case Nil
  then show ?case using listener_shutdown [OF assms(2)] by simp
next
  case (Cons a as)
  show ?case
  proof (cases "a = Inl TimeoutError")
    case True
    then show ?thesis using Cons by (simp only: append_Cons listener_timeout) simp
  next
    case False
    then obtain n ns where n: "signums = n # ns" "brings (request_text (signal_request n)) a"
      "list_all2 (\<lambda>n a. brings (request_text (signal_request n)) a) ns [a \<leftarrow> as. a \<noteq> Inl TimeoutError]"
      using Cons.prems by (auto simp: list_all2_Cons2)
    show ?thesis
      unfolding append_Cons listener_signal [OF n(2)] Cons.IH [OF n(3)] n(1) by simp
  qed
qed

lemma gateway_requests_carried_out_witness:
  "server_listener (\<lambda>n w. (Inr (), w @ [n])) (Some ''spark'')
     ([Inl TimeoutError, Inr [''{'' @ [CHR 0x22] @ ''sig'', ''num'' @ [CHR 0x22] @ '': 2}'']] @
      Inr [''{'' @ [CHR 0x22] @ ''shutdown'' @ [CHR 0x22] @ '': 1}''] # []) [] = (Stopped, [2, 12])"
proof -
  have t: "request_text (signal_request 2) = ''{'' @ [CHR 0x22] @ ''signum'' @ [CHR 0x22] @ '': 2}''"
    "request_text shutdown_request = ''{'' @ [CHR 0x22] @ ''shutdown'' @ [CHR 0x22] @ '': 1}''"
    by code_simp+
  show ?thesis
    using gateway_requests_carried_out [of "[2]"
        "[Inl TimeoutError, Inr [''{'' @ [CHR 0x22] @ ''sig'', ''num'' @ [CHR 0x22] @ '': 2}'']]"
        "Inr [''{'' @ [CHR 0x22] @ ''shutdown'' @ [CHR 0x22] @ '': 1}'']" "\<lambda>n w. w @ [n]" "Some ''spark''" "[]" "[]"]
    by (simp add: brings_def t signals_of_def SIGUSR2_def)
qed

text \<open>
  The listener does not survive a peer that connects and sends nothing: the empty text is no
  JSON, and the exception leaves the loop.
\<close>

lemma empty_connection_ends_listener:
  "server_listener kill cluster_type (Inr [] # rest) w = (Died ValueError, w)"
proof -
  have "json_loads [] = Inl ValueError" by (simp add: json_loads_def)
  then show ?thesis by (simp add: get_server_request_def)
qed

text \<open>These are the requests the remote proxy makes.\<close>

lemma proxy_sends_signal_request:
  "comm_port p > 0 \<Longrightarrow> ro_send ops (comm_ip p) (comm_port p) (signal_request signum) False w = (Inr (), w') \<Longrightarrow>
   remote_send_signal ops p signum w = (PNone, w')"
  by (simp add: remote_send_signal_def send_listener_request_def signal_request_def)

section \<open>Properties: the kernel's namespace\<close>

lemma delete_all_Inr:
  "distinct ks \<Longrightarrow> \<forall>k\<in>set ks. dhas d k \<Longrightarrow>
   \<exists>d'. delete_all ks d = Inr d' \<and> (\<forall>k. dget d' k = (if k \<in> set ks then None else dget d k))"
proof (induction ks arbitrary: d)
  case (Cons k ks)
  have "\<forall>x\<in>set ks. dhas (ddel k d) x" using Cons.prems by (auto simp: dhas_iff)
  then obtain d' where "delete_all ks (ddel k d) = Inr d'"
    "\<forall>x. dget d' x = (if x \<in> set ks then None else dget (ddel k d) x)"
    using Cons.IH [of "ddel k d"] Cons.prems(1) by auto
  with Cons.prems show ?case by auto
qed simp

text \<open>The variables of a cluster type.\<close>

definition cluster_variables :: "bool \<Rightarrow> string option \<Rightarrow> (string, binding) dict" where
  "cluster_variables has_pyspark cluster_type =
     (if cluster_type = Some ''spark'' \<and> has_pyspark then spark_placeholders
      else if cluster_type = Some ''dask'' then [(''cluster'', Cluster_Object ''cluster'')] else [])"

text \<open>
  The kernel's users find none of the launcher's variables in their namespace: the launcher's
  own names are all deleted, apart from the module's double-underscore names, and what is added
  are the variables of the cluster type that do not bear a launcher's name; the deletion never
  fails, and only an unknown cluster type or a missing Dask makes the start fail.
\<close>

lemma user_namespace_exact:
  assumes "dict_ok namespace"
  shows "case kernel_namespace_of has_pyspark has_dask cluster_type namespace of
      Inr ns \<Rightarrow> \<forall>k. dget ns k =
        (if \<not> startswith k ''__'' then (if dhas namespace k then None else dget (cluster_variables has_pyspark cluster_type) k)
         else dget namespace k)
    | Inl e \<Rightarrow> e = ImportError \<and> cluster_type = Some ''dask'' \<and> \<not> has_dask \<or>
        e = RuntimeError \<and> cluster_type \<notin> {Some ''spark'', Some ''dask'', Some ''none''}"
proof -
  define del where "del = [k \<leftarrow> dkeys namespace. \<not> startswith k ''__'']"
  have "dict_ok (cluster_variables has_pyspark cluster_type)"
    by (auto simp: dict_ok_def cluster_variables_def spark_placeholders_def)
  then have vars: "dget (dupdate namespace (cluster_variables has_pyspark cluster_type)) k =
      (case dget (cluster_variables has_pyspark cluster_type) k of None \<Rightarrow> dget namespace k | Some v \<Rightarrow> Some v)" for k
    by (rule dget_dupdate)
  have "\<forall>n\<in>set (map fst (cluster_variables has_pyspark cluster_type)). \<not> startswith n ''__''"
    by (simp add: cluster_variables_def spark_placeholders_def)
  then have dunder: "startswith k ''__'' \<Longrightarrow> dget (cluster_variables has_pyspark cluster_type) k = None" for k
    unfolding map_of_eq_None_iff by auto
  show ?thesis
  proof (cases "initialize_namespace has_pyspark has_dask cluster_type namespace")
    case (Inl e)
    then show ?thesis
      by (auto simp: kernel_namespace_of_def initialize_namespace_def split: if_splits)
  next
    case (Inr m)
    have m: "m = dupdate namespace (cluster_variables has_pyspark cluster_type)"
      using Inr by (auto simp: initialize_namespace_def cluster_variables_def split: if_splits)
    have "distinct del" using assms by (simp add: del_def dkeys_def dict_ok_def)
    moreover have "\<forall>k\<in>set del. dhas m k"
      by (auto simp: del_def m dhas_iff vars dkeys_def weak_map_of_SomeI split: option.splits)
    ultimately obtain d where d: "delete_all del m = Inr d" "\<forall>k. dget d k = (if k \<in> set del then None else dget m k)"
      using delete_all_Inr by blast
    have del: "k \<in> set del \<longleftrightarrow> dhas namespace k \<and> \<not> startswith k ''__''" for k
      by (auto simp: del_def dkeys_def dhas_def)
    have "dget d k = (if \<not> startswith k ''__''
        then (if dhas namespace k then None else dget (cluster_variables has_pyspark cluster_type) k)
        else dget namespace k)" for k
    proof (cases "startswith k ''__''")
      case True
      then show ?thesis using dunder [OF True] by (simp add: d(2) del m vars)
    next
      case False
      then show ?thesis by (cases "dhas namespace k") (simp_all add: d(2) del m vars dhas_iff split: option.split)
    qed
    then show ?thesis
      using Inr d(1) unfolding kernel_namespace_of_def del_def [symmetric] Let_def by simp
  qed
qed

lemma user_namespace_exact_witness:
  "kernel_namespace_of True True (Some ''spark'') [(''__name__'', Launcher_Object), (''public_key'', Launcher_Object)] =
     Inr ([(''__name__'', Launcher_Object)] @ spark_placeholders) \<and>
   dget ([(''__name__'', Launcher_Object)] @ spark_placeholders) ''public_key'' = None"
proof -
  let ?ns = "[(''__name__'', Launcher_Object), (''public_key'', Launcher_Object)]"
  have k: "kernel_namespace_of True True (Some ''spark'') ?ns = Inr ([(''__name__'', Launcher_Object)] @ spark_placeholders)"
    by code_simp
  have ok: "dict_ok ?ns" by (simp add: dict_ok_def)
  have p: "\<not> startswith ''public_key'' ''__''" "dhas ?ns ''public_key''" by code_simp+
  have "dget ([(''__name__'', Launcher_Object)] @ spark_placeholders) ''public_key'' = None"
    using user_namespace_exact [OF ok, where has_pyspark = True and has_dask = True and cluster_type = "Some ''spark''"] p
    unfolding k sum.case by presburger
  with k show ?thesis by blast
qed

text \<open>
  The handler for SIGUSR2 is installed after the listener has been started: an interrupt that
  arrives in between meets the default action of the signal.
\<close>

lemma listener_before_handler:
  assumes "launcher_main connection_file ports respond s = Inr events"
    and "Start_Listener c \<in> set events" "Handle_SIGUSR2 \<in> set events"
  shows "\<exists>w k. events = [w, Start_Listener c, Handle_SIGUSR2, k]"
  using assms by (auto simp: launcher_main_def rbind_Inr_iff split: if_splits)

end
