(* ===== verification/ClusterLaunchers.thy ===== *)
theory ClusterLaunchers
  imports PyBase "HOL-Library.Sublist"
begin

text \<open>
  The launchers that create a kernel's objects in a cluster:
  etc/kernel-launchers/kubernetes/scripts/launch_kubernetes.py,
  etc/kernel-launchers/operators/scripts/launch_custom_resource.py and
  etc/kernel-launchers/docker/scripts/launch_docker.py.  YAML, the template engine and the
  clients of the clusters are parameters; what they read or render is a \<^typ>\<open>pyval\<close>.
\<close>

section \<open>Environment and template variables\<close>

definition ALLOWED_K8S_KINDS :: "string list" where
  "ALLOWED_K8S_KINDS = [''Pod'', ''Secret'', ''PersistentVolumeClaim'', ''PersistentVolume'', ''Service'', ''ConfigMap'']"

definition MAX_DOCUMENTS_PER_KIND :: nat where
  "MAX_DOCUMENTS_PER_KIND = 1"

definition YAML_PARSED_KERNEL_VARS :: "string list" where
  "YAML_PARSED_KERNEL_VARS = [''KERNEL_VOLUME_MOUNTS'', ''KERNEL_VOLUMES'']"

record kl_args =
  kl_kernel_id :: "string option"
  kl_port_range :: "string option"
  kl_response_addr :: "string option"
  kl_public_key :: "string option"
  kl_spark_context_init_mode :: "string option"
  kl_pod_template_file :: "string option"
  kl_kernel_class_name :: "string option"

definition set_if :: "string \<Rightarrow> string option \<Rightarrow> (string, string) dict \<Rightarrow> (string, string) dict" where
  "set_if k v env = (case v of None \<Rightarrow> env | Some s \<Rightarrow> if s \<noteq> [] then dset k s env else env)"

definition k8s_launcher_env :: "string \<Rightarrow> kl_args \<Rightarrow> (string, string) dict \<Rightarrow> (string, string) dict" where
  "k8s_launcher_env kernel_name a env =
     dset ''KERNEL_NAME'' kernel_name
       (set_if ''KERNEL_CLASS_NAME'' (kl_kernel_class_name a)
         (set_if ''KERNEL_SPARK_CONTEXT_INIT_MODE'' (kl_spark_context_init_mode a)
           (set_if ''KERNEL_ID'' (kl_kernel_id a)
             (set_if ''RESPONSE_ADDRESS'' (kl_response_addr a)
               (set_if ''PUBLIC_KEY'' (kl_public_key a)
                 (set_if ''PORT_RANGE'' (kl_port_range a) env))))))"

text \<open>A list of mappings, the only structured value a variable may have.\<close>

definition list_of_mappings :: "pyval \<Rightarrow> bool" where
  "list_of_mappings v =
     (case v of PList xs \<Rightarrow> list_all (\<lambda>x. case x of PDict _ \<Rightarrow> True | _ \<Rightarrow> False) xs | _ \<Rightarrow> False)"

fun kernel_keywords ::
  "(string \<Rightarrow> pyval res) \<Rightarrow> (string, string) dict \<Rightarrow> (string, pyval) dict \<Rightarrow> (string, pyval) dict res" where
  "kernel_keywords safe_load [] kw = Inr kw"
| "kernel_keywords safe_load ((name, val) # rest) kw =
     (if startswith name ''KERNEL_''
      then if name \<in> set YAML_PARSED_KERNEL_VARS
           then rbind (safe_load val) (\<lambda>parsed.
                  if list_of_mappings parsed then kernel_keywords safe_load rest (dset (lower name) parsed kw)
                  else Inl SystemExit)
           else kernel_keywords safe_load rest (dset (lower name) (PStr val) kw)
      else kernel_keywords safe_load rest kw)"

section \<open>The manifest is checked before anything is created\<close>

fun count_kinds :: "pyval list \<Rightarrow> (string, nat) dict \<Rightarrow> (string, nat) dict res" where
  "count_kinds [] counts = Inr counts"
| "count_kinds (obj # objs) counts =
     (if \<not> truthy obj then count_kinds objs counts
      else rbind (py_get obj ''kind'') (\<lambda>kind.
        case kind of
          PStr k \<Rightarrow>
            if k \<in> set ALLOWED_K8S_KINDS then count_kinds objs (dset k (dget_or counts k 0 + 1) counts)
            else Inl SystemExit
        | PList _ \<Rightarrow> Inl TypeError
        | PDict _ \<Rightarrow> Inl TypeError
        | _ \<Rightarrow> Inl SystemExit))"

definition check_manifest :: "pyval list \<Rightarrow> unit res" where
  "check_manifest objs =
     rbind (count_kinds objs []) (\<lambda>counts.
       if list_ex (\<lambda>p. snd p > MAX_DOCUMENTS_PER_KIND) counts then Inl SystemExit else Inr ())"

section \<open>The container's environment\<close>

text \<open>Entries of the template that the environment has get its value; their names are collected.\<close>

fun extend_entries :: "(string, string) dict \<Rightarrow> pyval list \<Rightarrow> (pyval list \<times> string list) res" where
  "extend_entries env [] = Inr ([], [])"
| "extend_entries env (item # items) =
     (case item of
        PDict d \<Rightarrow>
          (case dget_or d ''name'' PNone of
             PStr n \<Rightarrow>
               rbind (extend_entries env items) (\<lambda>(xs, ns).
                 Inr (case dget env n of
                        None \<Rightarrow> (item # xs, ns)
                      | Some v \<Rightarrow> (PDict (dset ''value'' (PStr v) d) # xs, n # ns)))
           | _ \<Rightarrow> Inl TypeError)
      | _ \<Rightarrow> Inl AttributeError)"

definition env_entry :: "string \<times> string \<Rightarrow> pyval" where
  "env_entry p = PDict [(''name'', PStr (fst p)), (''value'', PStr (snd p))]"

definition extend_stanza :: "(string, string) dict \<Rightarrow> pyval \<Rightarrow> pyval res" where
  "extend_stanza env stanza =
     (case (if truthy stanza then stanza else PList []) of
        PList items \<Rightarrow>
          rbind (extend_entries env items) (\<lambda>(xs, processed_entries).
            Inr (PList (xs @ map env_entry [p \<leftarrow> env. fst p \<notin> set processed_entries])))
      | PInt _ \<Rightarrow> Inl TypeError
      | PBool _ \<Rightarrow> Inl TypeError
      | PNone \<Rightarrow> Inl TypeError
      | _ \<Rightarrow> Inl AttributeError)"

text \<open>\<open>o["spec"]["containers"][0]["env"]\<close> is replaced in place.\<close>

definition as_dict :: "pyval \<Rightarrow> (string, pyval) dict res" where
  "as_dict v = (case v of PDict d \<Rightarrow> Inr d | _ \<Rightarrow> Inl TypeError)"

definition extend_pod_env :: "(string, string) dict \<Rightarrow> pyval \<Rightarrow> pyval res" where
  "extend_pod_env env pod_def =
     rbind (as_dict pod_def) (\<lambda>pod.
     rbind (rbind (of_option KeyError (dget pod ''spec'')) as_dict) (\<lambda>spec.
     rbind (of_option KeyError (dget spec ''containers'')) (\<lambda>containers.
       case containers of
         PList [] \<Rightarrow> Inl IndexError
       | PList (PDict c # cs) \<Rightarrow>
           rbind (extend_stanza env (dget_or c ''env'' PNone)) (\<lambda>stanza.
             Inr (PDict (dset ''spec'' (PDict (dset ''containers''
                    (PList (PDict (dset ''env'' stanza c) # cs)) spec)) pod)))
       | PList _ \<Rightarrow> Inl AttributeError
       | PDict _ \<Rightarrow> Inl KeyError
       | _ \<Rightarrow> Inl TypeError)))"

section \<open>Creating the objects\<close>

record api_error =
  ae_status :: nat
  ae_reason :: string
  ae_body :: string

record created_pod =
  cp_name :: string
  cp_uid :: string

text \<open>\<open>ku_create\<close> is the method of the kind: a persistent volume is created without a namespace.\<close>

record 'w kube_api =
  ku_create :: "string \<Rightarrow> pyval \<Rightarrow> pyval option \<Rightarrow> 'w \<Rightarrow> (api_error + created_pod) \<times> 'w"
  ku_list_pods :: "pyval \<Rightarrow> string \<Rightarrow> 'w \<Rightarrow> (api_error + created_pod list) \<times> 'w"

definition K8S_ALREADY_EXIST_REASON :: string where
  "K8S_ALREADY_EXIST_REASON = ''AlreadyExists''"

definition parse_k8s_exception :: "api_error \<Rightarrow> string" where
  "parse_k8s_exception e =
     (if ae_status e = 409 \<and> ae_reason e = ''Conflict'' \<and>
         contains ([CHR 0x22] @ ''reason'' @ [CHR 0x22] @ '':'' @ K8S_ALREADY_EXIST_REASON) (ae_body e)
      then K8S_ALREADY_EXIST_REASON else [])"

text \<open>What the loop carries along: the pod template and the pod that was created.\<close>

type_synonym created = "pyval option \<times> created_pod option"

definition api_res :: "(api_error + 'x) \<Rightarrow> 'x res" where
  "api_res r = (case r of Inl e \<Rightarrow> Inl (ApiException (ae_status e)) | Inr x \<Rightarrow> Inr x)"

definition create_pod ::
  "'w kube_api \<Rightarrow> pyval \<Rightarrow> string \<Rightarrow> pyval \<Rightarrow> 'w \<Rightarrow> created_pod res \<times> 'w" where
  "create_pod api namespace kernel_id body w =
     (case ku_create api ''Pod'' body (Some namespace) w of
        (Inr p, w1) \<Rightarrow> (Inr p, w1)
      | (Inl e, w1) \<Rightarrow>
          if parse_k8s_exception e = K8S_ALREADY_EXIST_REASON
          then (case ku_list_pods api namespace (''kernel_id='' @ kernel_id) w1 of
                  (r, w2) \<Rightarrow>
                    (rbind (api_res r) (\<lambda>pods. case pods of [] \<Rightarrow> Inl IndexError | p # _ \<Rightarrow> Inr p), w2))
          else (Inl (ApiException (ae_status e)), w1))"

definition with_owner :: "created_pod \<Rightarrow> pyval \<Rightarrow> pyval res" where
  "with_owner pod obj =
     rbind (as_dict obj) (\<lambda>d.
     rbind (rbind (of_option KeyError (dget d ''metadata'')) as_dict) (\<lambda>m.
       Inr (PDict (dset ''metadata'' (PDict (dset ''ownerReferences''
         (PList [PDict [(''apiVersion'', PStr ''v1''), (''kind'', PStr ''pod''),
           (''name'', PStr (cp_name pod)), (''uid'', PStr (cp_uid pod))]]) m)) d))))"

definition create_plain ::
  "'w kube_api \<Rightarrow> string \<Rightarrow> pyval \<Rightarrow> pyval option \<Rightarrow> 'w \<Rightarrow> unit res \<times> 'w" where
  "create_plain api kind body namespace w =
     (case ku_create api kind body namespace w of (r, w1) \<Rightarrow> (rbind (api_res r) (\<lambda>_. Inr ()), w1))"

text \<open>Services and config maps are tied to the pod and are left out when there is none.\<close>

definition create_owned ::
  "'w kube_api \<Rightarrow> string \<Rightarrow> pyval \<Rightarrow> pyval \<Rightarrow> created_pod option \<Rightarrow> 'w \<Rightarrow> unit res \<times> 'w" where
  "create_owned api kind body namespace pod_created w =
     (case pod_created of
        None \<Rightarrow> (Inr (), w)
      | Some pod \<Rightarrow>
          (case with_owner pod body of
             Inl e \<Rightarrow> (Inl e, w) | Inr obj \<Rightarrow> create_plain api kind obj (Some namespace) w))"

definition create_claim :: "'w kube_api \<Rightarrow> pyval \<Rightarrow> pyval \<Rightarrow> 'w \<Rightarrow> unit res \<times> 'w" where
  "create_claim api body namespace w =
     (case ku_create api ''PersistentVolumeClaim'' body (Some namespace) w of
        (Inr _, w1) \<Rightarrow> (Inr (), w1)
      | (Inl e, w1) \<Rightarrow>
          (if parse_k8s_exception e = K8S_ALREADY_EXIST_REASON then Inr ()
           else Inl (ApiException (ae_status e)), w1))"

definition create_object ::
  "'w kube_api \<Rightarrow> (string, string) dict \<Rightarrow> bool \<Rightarrow> pyval \<Rightarrow> string \<Rightarrow> pyval \<Rightarrow> created \<Rightarrow> 'w \<Rightarrow> created res \<times> 'w" where
  "create_object api env templating namespace kernel_id obj st w =
     (case st of (pod_template, pod_created) \<Rightarrow>
      (case py_get obj ''kind'' of
         Inl e \<Rightarrow> (Inl e, w)
       | Inr kind \<Rightarrow>
           if kind = PStr ''Pod'' then
             (case extend_pod_env env obj of
                Inl e \<Rightarrow> (Inl e, w)
              | Inr body \<Rightarrow>
                  if templating then (Inr (Some body, pod_created), w)
                  else bindE (create_pod api namespace kernel_id body w)
                         (\<lambda>p w1. (Inr (Some body, Some p), w1)))
           else if kind = PStr ''Secret'' then
             (if templating then (Inr st, w)
              else bindE (create_plain api ''Secret'' obj (Some namespace) w) (\<lambda>_ w1. (Inr st, w1)))
           else if kind = PStr ''PersistentVolumeClaim'' then
             (if templating then (Inr st, w)
              else bindE (create_claim api obj namespace w) (\<lambda>_ w1. (Inr st, w1)))
           else if kind = PStr ''PersistentVolume'' then
             (if templating then (Inr st, w)
              else bindE (create_plain api ''PersistentVolume'' obj None w) (\<lambda>_ w1. (Inr st, w1)))
           else if kind = PStr ''Service'' then
             (if templating then (Inr st, w)
              else bindE (create_owned api ''Service'' obj namespace pod_created w) (\<lambda>_ w1. (Inr st, w1)))
           else if kind = PStr ''ConfigMap'' then
             (if templating then (Inr st, w)
              else bindE (create_owned api ''ConfigMap'' obj namespace pod_created w) (\<lambda>_ w1. (Inr st, w1)))
           else (Inl SystemExit, w)))"

fun create_objects ::
  "'w kube_api \<Rightarrow> (string, string) dict \<Rightarrow> bool \<Rightarrow> pyval \<Rightarrow> string \<Rightarrow> pyval list \<Rightarrow> created \<Rightarrow> 'w \<Rightarrow> created res \<times> 'w" where
  "create_objects api env templating namespace kernel_id [] st w = (Inr st, w)"
| "create_objects api env templating namespace kernel_id (obj # objs) st w =
     bindE (create_object api env templating namespace kernel_id obj st w)
       (create_objects api env templating namespace kernel_id objs)"

section \<open>Spark options\<close>

text \<open>\<open>show\<close> is the formatting of a value in an f-string.\<close>

definition conf :: "(pyval \<Rightarrow> string) \<Rightarrow> pyval \<Rightarrow> string list \<Rightarrow> string" where
  "conf show_val v names =
     (if truthy v then concat (map (\<lambda>n. ''--conf spark.'' @ n @ ''='' @ show_val v @ '' '') names) else [])"

definition resource_options ::
  "(pyval \<Rightarrow> string) \<Rightarrow> pyval \<Rightarrow> string list \<Rightarrow> string \<Rightarrow> string res" where
  "resource_options show_val part cpu_names mem =
     (if truthy part
      then rbind (py_get part ''cpu'') (\<lambda>cpu. rbind (py_get part ''memory'') (\<lambda>memory.
             Inr (conf show_val cpu cpu_names @
                  conf show_val memory [''driver.'' @ mem, ''executor.'' @ mem])))
      else Inr [])"

definition first_container :: "pyval \<Rightarrow> pyval option res" where
  "first_container v =
     (if truthy v
      then (case v of PList (x # _) \<Rightarrow> Inr (Some x) | PStr (c # _) \<Rightarrow> Inr (Some (PStr [c]))
            | PBytes (c # _) \<Rightarrow> Inr (Some (PInt (int (code c)))) | PDict _ \<Rightarrow> Inl KeyError | _ \<Rightarrow> Inl TypeError)
      else Inr None)"

definition get_spark_resources :: "(pyval \<Rightarrow> string) \<Rightarrow> pyval option \<Rightarrow> string res" where
  "get_spark_resources show_val pod_template =
     (case pod_template of
        None \<Rightarrow> Inl AttributeError
      | Some t \<Rightarrow>
          rbind (py_get_or t ''spec'' (PDict [])) (\<lambda>spec.
          rbind (py_get_or spec ''containers'' (PList [])) (\<lambda>containers.
          rbind (first_container containers) (\<lambda>c.
            case c of
              None \<Rightarrow> Inr []
            | Some container \<Rightarrow>
                rbind (py_get_or container ''resources'' (PDict [])) (\<lambda>resources.
                  if truthy resources
                  then rbind (py_get_or resources ''requests'' (PDict [])) (\<lambda>requests.
                       rbind (resource_options show_val requests [''driver.cores'', ''executor.cores''] ''memory'') (\<lambda>a.
                       rbind (py_get_or resources ''limits'' (PDict [])) (\<lambda>limits.
                       rbind (resource_options show_val limits
                         [''kubernetes.driver.limit.cores'', ''kubernetes.executor.limit.cores''] ''memory'') (\<lambda>b.
                         Inr (a @ b)))))
                  else Inr [])))))"

definition pod_template_options :: "(pyval \<Rightarrow> string) \<Rightarrow> string \<Rightarrow> pyval option \<Rightarrow> string res" where
  "pod_template_options show_val file pod_template =
     rbind (get_spark_resources show_val pod_template) (\<lambda>r.
       Inr (''--conf spark.kubernetes.driver.podTemplateFile='' @ file @
            '' --conf spark.kubernetes.executor.podTemplateFile='' @ file @ '' '' @ r))"

section \<open>The launch\<close>

record yaml_tools =
  safe_load :: "string \<Rightarrow> pyval res"
  safe_load_all :: "string \<Rightarrow> pyval list res"
  render :: "string \<Rightarrow> (string, pyval) dict \<Rightarrow> string res"

text \<open>
  What \<open>launch_kubernetes_kernel\<close> answers is the text of the additional options, written to a
  file or printed, when it was called for a pod template.
\<close>

definition manifest_of ::
  "yaml_tools \<Rightarrow> (string, string) dict \<Rightarrow> (pyval \<times> pyval list) res" where
  "manifest_of y env =
     rbind (kernel_keywords (safe_load y) env []) (\<lambda>keywords.
     rbind (render y ''/kernel-pod.yaml.j2'' keywords) (\<lambda>k8s_yaml.
     rbind (of_option KeyError (dget keywords ''kernel_namespace'')) (\<lambda>namespace.
     rbind (safe_load_all y k8s_yaml) (\<lambda>objs.
     rbind (check_manifest objs) (\<lambda>_. Inr (namespace, objs))))))"

definition launch_kubernetes_kernel ::
  "'w kube_api \<Rightarrow> yaml_tools \<Rightarrow> (pyval \<Rightarrow> string) \<Rightarrow> string \<Rightarrow> kl_args \<Rightarrow> (string, string) dict \<Rightarrow> 'w \<Rightarrow>
   string option res \<times> 'w" where
  "launch_kubernetes_kernel api y show_val kernel_name a environ w =
     (let env = k8s_launcher_env kernel_name a environ;
          templating = (kl_pod_template_file a \<noteq> None);
          kernel_id = (case kl_kernel_id a of None \<Rightarrow> ''None'' | Some k \<Rightarrow> k) in
      case manifest_of y env of
        Inl e \<Rightarrow> (Inl e, w)
      | Inr (namespace, objs) \<Rightarrow>
          bindE (create_objects api env templating namespace kernel_id objs (None, None) w) (\<lambda>(pod_template, _) w1.
            case kl_pod_template_file a of
              None \<Rightarrow> (Inr None, w1)
            | Some [] \<Rightarrow> (Inr None, w1)
            | Some file \<Rightarrow> (rbind (pod_template_options show_val file pod_template) (\<lambda>t. Inr (Some t)), w1)))"

section \<open>Properties: what is created\<close>

definition kind_of :: "pyval \<Rightarrow> string option" where
  "kind_of obj =
     (case obj of PDict d \<Rightarrow> (case dget d ''kind'' of Some (PStr k) \<Rightarrow> Some k | _ \<Rightarrow> None) | _ \<Rightarrow> None)"

fun kinds_of :: "pyval list \<Rightarrow> string list" where
  "kinds_of [] = []"
| "kinds_of (obj # objs) = (case kind_of obj of None \<Rightarrow> kinds_of objs | Some k \<Rightarrow> k # kinds_of objs)"

lemma kind_of_py_get: "py_get obj ''kind'' = Inr (PStr k) \<longleftrightarrow> kind_of obj = Some k"
  by (cases obj) (auto simp: kind_of_def split: option.splits pyval.splits)

lemma kind_of_truthy: "kind_of obj = Some k \<Longrightarrow> truthy obj"
  by (cases obj) (auto simp: kind_of_def)

lemma count_kinds_exact:
  "count_kinds objs counts = Inr counts' \<Longrightarrow> dict_ok counts \<Longrightarrow>
   dict_ok counts' \<and> set (kinds_of objs) \<subseteq> set ALLOWED_K8S_KINDS \<and>
   (\<forall>k. dget_or counts' k 0 = dget_or counts k 0 + count_list (kinds_of objs) k)"
proof (induction objs arbitrary: counts)
  case (Cons obj objs)
  show ?case
  proof (cases "truthy obj")
    case False
    then have "kind_of obj = None" using kind_of_truthy by (cases "kind_of obj") auto
    then show ?thesis using Cons False by simp
  next
    case True
    then obtain kind where g: "py_get obj ''kind'' = Inr kind" using Cons.prems(1) by (auto simp: rbind_Inr_iff)
    with Cons.prems(1) True obtain k where k: "kind = PStr k" "k \<in> set ALLOWED_K8S_KINDS"
      "count_kinds objs (dset k (dget_or counts k 0 + 1) counts) = Inr counts'"
      by (auto split: pyval.splits if_splits)
    have "kind_of obj = Some k" using g k(1) kind_of_py_get by simp
    then show ?thesis using Cons.IH [OF k(3)] k(2) Cons.prems(2) by auto
  qed
qed simp

lemma distinct_count_list: "(\<And>k. count_list xs k \<le> 1) \<Longrightarrow> distinct xs"
proof (induction xs)
  case (Cons x xs)
  have "count_list xs k \<le> 1" for k using Cons.prems [of k] by (simp split: if_splits)
  moreover have "x \<notin> set xs" using Cons.prems [of x] by (simp add: count_list_0_iff)
  ultimately show ?case using Cons.IH by simp
qed simp

lemma checked_manifest:
  assumes "check_manifest objs = Inr ()"
  shows "distinct (kinds_of objs) \<and> set (kinds_of objs) \<subseteq> set ALLOWED_K8S_KINDS"
proof -
  obtain counts where c: "count_kinds objs [] = Inr counts" "\<forall>p\<in>set counts. snd p \<le> 1"
    using assms by (auto simp: check_manifest_def rbind_Inr_iff list_ex_iff MAX_DOCUMENTS_PER_KIND_def not_less
        split: if_splits)
  note e = count_kinds_exact [OF c(1) dict_ok_Nil]
  have "count_list (kinds_of objs) k \<le> 1" for k
  proof -
    have "dget_or counts k 0 = count_list (kinds_of objs) k" using e by (simp add: dget_or_def)
    moreover have "dget_or counts k 0 \<le> 1"
      using c(2) map_of_SomeD [of counts k] by (cases "dget counts k") (fastforce simp: dget_or_def)+
    ultimately show ?thesis by simp
  qed
  then show ?thesis using e distinct_count_list by blast
qed

text \<open>The kinds of the objects the cluster has been asked to create, in order, and what a call may add.\<close>

definition records_kinds :: "'w kube_api \<Rightarrow> ('w \<Rightarrow> string list) \<Rightarrow> bool" where
  "records_kinds api created_kinds \<longleftrightarrow>
     (\<forall>k b ns w. created_kinds (snd (ku_create api k b ns w)) \<in> {created_kinds w, created_kinds w @ [k]}) \<and>
     (\<forall>ns l w. created_kinds (snd (ku_list_pods api ns l w)) = created_kinds w)"

lemma records_kindsD:
  assumes "records_kinds api ck"
  shows "ku_create api k b ns w = (r, w') \<Longrightarrow> ck w' = ck w \<or> ck w' = ck w @ [k]"
    and "ku_list_pods api n l w = (r', w') \<Longrightarrow> ck w' = ck w"
  using assms unfolding records_kinds_def by (metis empty_iff insert_iff snd_conv)+

lemma create_object_kind:
  assumes rec: "records_kinds api ck"
    and c: "create_object api env templating namespace kernel_id obj st w = (r, w')"
  shows "ck w' = ck w \<or> \<not> templating \<and> (\<exists>k. kind_of obj = Some k \<and> ck w' = ck w @ [k])"
proof (cases "py_get obj ''kind''")
  case (Inr kind)
  have k: "kind_of obj = Some k" if "kind = PStr k" for k using Inr that kind_of_py_get by simp
  note d = records_kindsD [OF rec]
  show ?thesis
    using c Inr k
    by (auto simp: create_object_def create_pod_def create_plain_def create_claim_def create_owned_def bindE_def
        split: prod.splits sum.splits if_splits option.splits dest!: d)
qed (use c in \<open>auto simp: create_object_def split: prod.splits\<close>)

lemma subseq_parts: "subseq xs ys \<Longrightarrow> set xs \<subseteq> set ys \<and> (distinct ys \<longrightarrow> distinct xs)"
  by (induction rule: list_emb.induct) auto

lemma create_objects_kinds:
  assumes rec: "records_kinds api ck"
  shows "create_objects api env templating namespace kernel_id objs st w = (r, w') \<Longrightarrow>
    \<exists>ks. ck w' = ck w @ ks \<and> subseq ks (kinds_of objs) \<and> (templating \<longrightarrow> ks = [])"
proof (induction objs arbitrary: st w)
  case (Cons obj objs)
  obtain r1 w1 where c: "create_object api env templating namespace kernel_id obj st w = (r1, w1)" by fastforce
  from create_object_kind [OF rec c] obtain ks1 where k1: "ck w1 = ck w @ ks1"
    "ks1 = [] \<or> \<not> templating \<and> (\<exists>k. kind_of obj = Some k \<and> ks1 = [k])" by auto
  show ?case
  proof (cases r1)
    case (Inl e)
    then show ?thesis using Cons.prems c k1 by (intro exI [of _ ks1]) (auto split: option.splits)
  next
    case (Inr st1)
    then have "create_objects api env templating namespace kernel_id objs st1 w1 = (r, w')"
      using Cons.prems c by simp
    from Cons.IH [OF this] obtain ks where "ck w' = ck w1 @ ks" "subseq ks (kinds_of objs)" "templating \<longrightarrow> ks = []"
      by blast
    with k1 show ?thesis by (intro exI [of _ "ks1 @ ks"]) (auto split: option.splits)
  qed
qed simp

text \<open>
  C24: Whatever a client has put into the template's variables, a launch only asks the cluster to
  create objects of the allowed kinds, at most one of each: the rendered manifest is checked as a
  whole first, a manifest that fails the check creates nothing, and a launch for a Spark pod
  template creates nothing at all.
\<close>

theorem only_allowed_objects_created:
  assumes "records_kinds api ck"
    and "launch_kubernetes_kernel api y show_val kernel_name a environ w = (r, w')"
  shows "\<exists>ks. ck w' = ck w @ ks \<and> distinct ks \<and> set ks \<subseteq> set ALLOWED_K8S_KINDS \<and>
    (kl_pod_template_file a \<noteq> None \<longrightarrow> ks = []) \<and>
    (\<forall>namespace objs. manifest_of y (k8s_launcher_env kernel_name a environ) = Inr (namespace, objs) \<longrightarrow>
       subseq ks (kinds_of objs)) \<and>
    ((\<exists>e. manifest_of y (k8s_launcher_env kernel_name a environ) = Inl e) \<longrightarrow> w' = w)"
proof (cases "manifest_of y (k8s_launcher_env kernel_name a environ)")
  case (Inl e)
  then show ?thesis using assms(2) by (intro exI [of _ "[]"]) (simp add: launch_kubernetes_kernel_def)
next
  case (Inr m)
  obtain namespace objs where m: "m = (namespace, objs)" by fastforce
  have checked: "check_manifest objs = Inr ()"
    using Inr by (auto simp: m manifest_of_def rbind_Inr_iff)
  obtain st w1 where c: "create_objects api (k8s_launcher_env kernel_name a environ) (kl_pod_template_file a \<noteq> None)
      namespace (case kl_kernel_id a of None \<Rightarrow> ''None'' | Some k \<Rightarrow> k) objs (None, None) w = (st, w1)" by fastforce
  have "w' = w1"
    using assms(2) Inr c
    by (cases st) (auto simp: launch_kubernetes_kernel_def m split: option.splits list.splits prod.splits)
  with create_objects_kinds [OF assms(1) c] obtain ks where ks: "ck w' = ck w @ ks" "subseq ks (kinds_of objs)"
    "kl_pod_template_file a \<noteq> None \<longrightarrow> ks = []" by blast
  have "distinct ks" "set ks \<subseteq> set ALLOWED_K8S_KINDS"
    using checked_manifest [OF checked] subseq_parts [OF ks(2)] by auto
  with ks Inr show ?thesis by (auto simp: m)
qed

text \<open>
  An empty document passes the check of the manifest but stops the creation: the objects before
  it have been created then.
\<close>

lemma empty_document_stops_creation:
  "count_kinds (PNone # objs) counts = count_kinds objs counts \<and>
   create_objects api env templating namespace kernel_id (PNone # objs) st w = (Inl AttributeError, w)"
  by (cases st) (simp add: create_object_def)

text \<open>
  The message looked for in the API server's error lacks the quotes around the reason, so an
  object that already exists is not recognized.
\<close>

lemma already_exists_not_recognized:
  assumes "Q = [CHR 0x22]"
    and "body = ''{'' @ Q @ ''status'' @ Q @ '':'' @ Q @ ''Failure'' @ Q @ '','' @ Q @ ''reason'' @ Q @ '':'' @ Q @
      ''AlreadyExists'' @ Q @ '','' @ Q @ ''code'' @ Q @ '':409}''"
  shows "parse_k8s_exception \<lparr>ae_status = 409, ae_reason = ''Conflict'', ae_body = body\<rparr> = []"
  unfolding assms by code_simp

text \<open>Every value a client gives reaches the template as the string it is, apart from the two variables
  that hold volumes, whose value is a list of mappings.\<close>

lemma keywords_raw:
  "kernel_keywords load env kw = Inr kw' \<Longrightarrow>
   (\<forall>k v. dget kw k = Some v \<longrightarrow> (\<exists>t. v = PStr t) \<or> k \<in> lower ` set YAML_PARSED_KERNEL_VARS \<and> list_of_mappings v) \<Longrightarrow>
   dget kw' k = Some v \<Longrightarrow> (\<exists>t. v = PStr t) \<or> k \<in> lower ` set YAML_PARSED_KERNEL_VARS \<and> list_of_mappings v"
proof (induction load env kw rule: kernel_keywords.induct)
  case (2 load name val rest kw)
  show ?case
  proof (cases "startswith name ''KERNEL_''")
    case True
    show ?thesis
    proof (cases "name \<in> set YAML_PARSED_KERNEL_VARS")
      case y: True
      then obtain parsed where p: "load val = Inr parsed" "list_of_mappings parsed"
        "kernel_keywords load rest (dset (lower name) parsed kw) = Inr kw'"
        using "2.prems"(1) True by (auto simp: rbind_Inr_iff split: if_splits)
      show ?thesis using "2.IH"(1) [OF True y p(2) p(3)] "2.prems" p(2) y by auto
    next
      case n: False
      then show ?thesis using "2.IH"(2) [OF True n] "2.prems" True by auto
    qed
  qed (use 2 in auto)
qed simp

definition demo_kube :: "string list kube_api" where
  "demo_kube = \<lparr>ku_create = (\<lambda>k b ns w. (Inr \<lparr>cp_name = ''p'', cp_uid = ''u''\<rparr>, w @ [k])),
     ku_list_pods = (\<lambda>ns l w. (Inr [], w))\<rparr>"

definition demo_pod :: pyval where
  "demo_pod = PDict [(''kind'', PStr ''Pod''), (''spec'', PDict [(''containers'', PList [PDict []])])]"

definition demo_yaml :: yaml_tools where
  "demo_yaml = \<lparr>safe_load = (\<lambda>s. Inr (PList [])),
     safe_load_all = (\<lambda>s. Inr [PDict [(''kind'', PStr ''Secret'')], demo_pod]),
     render = (\<lambda>t k. Inr [])\<rparr>"

definition demo_kl_args :: kl_args where
  "demo_kl_args = \<lparr>kl_kernel_id = Some ''k1'', kl_port_range = None, kl_response_addr = None, kl_public_key = None,
     kl_spark_context_init_mode = None, kl_pod_template_file = None, kl_kernel_class_name = None\<rparr>"

lemma only_allowed_objects_created_witness:
  "\<exists>r ks. launch_kubernetes_kernel demo_kube demo_yaml (\<lambda>v. []) ''python'' demo_kl_args [(''KERNEL_NAMESPACE'', ''ns1'')] [] =
     (r, ks) \<and> distinct ks \<and> set ks \<subseteq> set ALLOWED_K8S_KINDS"
proof -
  have rec: "records_kinds demo_kube (\<lambda>w. w)"
    by (simp add: records_kinds_def demo_kube_def)
  obtain r w' where l: "launch_kubernetes_kernel demo_kube demo_yaml (\<lambda>v. []) ''python'' demo_kl_args
      [(''KERNEL_NAMESPACE'', ''ns1'')] [] = (r, w')" by fastforce
  then show ?thesis using only_allowed_objects_created [OF rec l] by auto
qed

section \<open>Properties: the container's environment\<close>

definition entry_named :: "string \<Rightarrow> pyval \<Rightarrow> bool" where
  "entry_named n item = (case item of PDict d \<Rightarrow> dget_or d ''name'' PNone = PStr n | _ \<Rightarrow> False)"

definition entry_value :: "pyval \<Rightarrow> pyval" where
  "entry_value item = (case item of PDict d \<Rightarrow> dget_or d ''value'' PNone | _ \<Rightarrow> PNone)"

lemma extend_entries_spec:
  "extend_entries env items = Inr (xs, ns) \<Longrightarrow>
   set ns = {n. dget env n \<noteq> None \<and> (\<exists>i\<in>set items. entry_named n i)} \<and>
   (\<forall>n. dget env n = None \<longrightarrow> [x \<leftarrow> xs. entry_named n x] = [i \<leftarrow> items. entry_named n i]) \<and>
   (\<forall>n v. dget env n = Some v \<longrightarrow> (\<forall>x\<in>set xs. entry_named n x \<longrightarrow> entry_value x = PStr v)) \<and>
   (\<forall>n. (\<exists>x\<in>set xs. entry_named n x) \<longleftrightarrow> (\<exists>i\<in>set items. entry_named n i))"
proof (induction items arbitrary: xs ns)
  case (Cons item items)
  obtain d n where item: "item = PDict d" "dget_or d ''name'' PNone = PStr n"
    using Cons.prems by (auto split: pyval.splits)
  with Cons.prems obtain ys ms where ys: "extend_entries env items = Inr (ys, ms)"
    "(xs, ns) = (case dget env n of None \<Rightarrow> (item # ys, ms) | Some v \<Rightarrow> (PDict (dset ''value'' (PStr v) d) # ys, n # ms))"
    by (auto simp: rbind_Inr_iff)
  define item' where "item' = (case dget env n of None \<Rightarrow> item | Some v \<Rightarrow> PDict (dset ''value'' (PStr v) d))"
  have named: "entry_named m item \<longleftrightarrow> m = n" "entry_named m item' \<longleftrightarrow> m = n" for m
    using item(2) by (auto simp: item(1) item'_def entry_named_def split: option.split)
  have x: "xs = item' # ys" "set ns = (if dget env n = None then set ms else insert n (set ms))"
    and val: "dget env n = Some v \<Longrightarrow> entry_value item' = PStr v" "dget env n = None \<Longrightarrow> item' = item" for v
    using ys(2) by (auto simp: item'_def entry_value_def split: option.splits)
  note IH = Cons.IH [OF ys(1)]
  have "set ns = {m. dget env m \<noteq> None \<and> (\<exists>i\<in>set (item # items). entry_named m i)}"
    unfolding x(2) IH [THEN conjunct1] by (auto simp: named)
  moreover have "dget env m = None \<Longrightarrow> [x \<leftarrow> xs. entry_named m x] = [i \<leftarrow> item # items. entry_named m i]" for m
    using IH val(2) by (cases "m = n") (simp_all add: x(1) named)
  moreover have "dget env m = Some v \<Longrightarrow> \<forall>x\<in>set xs. entry_named m x \<longrightarrow> entry_value x = PStr v" for m v
    using IH val(1) by (cases "m = n") (simp_all add: x(1) named)
  moreover have "(\<exists>x\<in>set xs. entry_named m x) \<longleftrightarrow> (\<exists>i\<in>set (item # items). entry_named m i)" for m
    using IH by (simp add: x(1) named)
  ultimately show ?case by blast
qed simp

text \<open>
  A kernel's container gets the launcher's whole environment: every variable is an entry with
  its value, also where the template had given it another, no other value for it is left, and the
  template's remaining entries are as they were.
\<close>

lemma container_env_complete:
  assumes "extend_stanza env (PList items) = Inr stanza" "dict_ok env"
  shows "\<exists>xs. stanza = PList xs \<and>
    (\<forall>n. case dget env n of
       Some v \<Rightarrow> (\<exists>x\<in>set xs. entry_named n x) \<and> (\<forall>x\<in>set xs. entry_named n x \<longrightarrow> entry_value x = PStr v)
     | None \<Rightarrow> [x \<leftarrow> xs. entry_named n x] = [i \<leftarrow> items. entry_named n i])"
proof -
  obtain ys ns where e: "extend_entries env items = Inr (ys, ns)"
    "stanza = PList (ys @ map env_entry [p \<leftarrow> env. fst p \<notin> set ns])"
    using assms(1) by (cases items) (auto simp: extend_stanza_def rbind_Inr_iff)
  note spec = extend_entries_spec [OF e(1)]
  have new: "entry_named n (env_entry p) \<longleftrightarrow> fst p = n" "entry_value (env_entry p) = PStr (snd p)" for n p
    by (auto simp: env_entry_def entry_named_def entry_value_def dget_or_def)
  have uniq: "(n, u) \<in> set env \<Longrightarrow> dget env n = Some u" for n u
    using assms(2) by (simp add: dict_ok_def)
  have "case dget env n of
      Some v \<Rightarrow> (\<exists>x\<in>set (ys @ map env_entry [p \<leftarrow> env. fst p \<notin> set ns]). entry_named n x) \<and>
        (\<forall>x\<in>set (ys @ map env_entry [p \<leftarrow> env. fst p \<notin> set ns]). entry_named n x \<longrightarrow> entry_value x = PStr v)
    | None \<Rightarrow> [x \<leftarrow> ys @ map env_entry [p \<leftarrow> env. fst p \<notin> set ns]. entry_named n x] = [i \<leftarrow> items. entry_named n i]" for n
  proof (cases "dget env n")
    case None
    then have "[x \<leftarrow> map env_entry [p \<leftarrow> env. fst p \<notin> set ns]. entry_named n x] = []"
      using uniq by (auto simp: filter_empty_conv new)
    then show ?thesis using None spec by simp
  next
    case (Some v)
    have "(\<exists>x\<in>set ys. entry_named n x) \<or> n \<notin> set ns" using spec by auto
    moreover have "(n, v) \<in> set env" using Some by (rule map_of_SomeD)
    moreover have "(n, v) \<in> set env \<Longrightarrow> n \<notin> set ns \<Longrightarrow>
        env_entry (n, v) \<in> set (map env_entry [p \<leftarrow> env. fst p \<notin> set ns])" by simp
    moreover have "entry_named n (env_entry (n, v))" by (simp add: new)
    ultimately have "\<exists>x\<in>set (ys @ map env_entry [p \<leftarrow> env. fst p \<notin> set ns]). entry_named n x"
      unfolding set_append by blast
    moreover have "\<forall>x\<in>set ys. entry_named n x \<longrightarrow> entry_value x = PStr v"
      using spec Some by blast
    moreover have "\<forall>x\<in>set (map env_entry [p \<leftarrow> env. fst p \<notin> set ns]). entry_named n x \<longrightarrow> entry_value x = PStr v"
      using Some uniq by (auto simp: new)
    ultimately show ?thesis using Some unfolding set_append by auto
  qed
  with e(2) show ?thesis by blast
qed

lemma container_env_complete_witness:
  "\<exists>xs. extend_stanza [(''A'', ''1'')] (PList [PDict [(''name'', PStr ''A''), (''value'', PStr ''0'')]]) = Inr (PList xs) \<and>
     (\<forall>x\<in>set xs. entry_named ''A'' x \<longrightarrow> entry_value x = PStr ''1'')"
proof -
  have "extend_stanza [(''A'', ''1'')] (PList [PDict [(''name'', PStr ''A''), (''value'', PStr ''0'')]]) =
      Inr (PList [PDict [(''name'', PStr ''A''), (''value'', PStr ''1'')]])"
    by (simp add: extend_stanza_def dget_or_def)
  from container_env_complete [OF this] this show ?thesis
    by (auto simp: dict_ok_def dest: spec [of _ "''A''"])
qed

section \<open>Arguments\<close>

text \<open>The deprecated spellings of the options count where the others have no value.\<close>

definition merge_kl_args :: "kl_args \<Rightarrow> kl_args \<Rightarrow> kl_args" where
  "merge_kl_args a rpp =
     a\<lparr>kl_kernel_id := or_arg (kl_kernel_id a) (kl_kernel_id rpp),
       kl_port_range := or_arg (kl_port_range a) (kl_port_range rpp),
       kl_response_addr := or_arg (kl_response_addr a) (kl_response_addr rpp),
       kl_public_key := or_arg (kl_public_key a) (kl_public_key rpp),
       kl_spark_context_init_mode := or_arg (kl_spark_context_init_mode a) (kl_spark_context_init_mode rpp)\<rparr>"

section \<open>Custom resources\<close>

text \<open>
  \<open>re.match(r'^[a-z0-9][a-z0-9.\-]*-v[a-z0-9]+$', s)\<close>; the dollar also matches before a final
  newline.  The split is found by trying every place for the \<open>-v\<close>.
\<close>

definition low_alnum :: "char \<Rightarrow> bool" where
  "low_alnum c \<longleftrightarrow> 97 \<le> code c \<and> code c \<le> 122 \<or> 48 \<le> code c \<and> code c \<le> 57"

definition without_newline :: "string \<Rightarrow> string" where
  "without_newline s = (if s \<noteq> [] \<and> last s = CHR 0x0A then butlast s else s)"

definition crd_name_split :: "string \<Rightarrow> nat \<Rightarrow> bool" where
  "crd_name_split t i \<longleftrightarrow>
     0 < i \<and> low_alnum (hd t) \<and>
     list_all (\<lambda>c. low_alnum c \<or> c = CHR ''.'' \<or> c = CHR ''-'') (take i t) \<and>
     startswith (drop i t) ''-v'' \<and> drop (i + 2) t \<noteq> [] \<and> list_all low_alnum (drop (i + 2) t)"

definition crd_template_ok :: "string \<Rightarrow> bool" where
  "crd_template_ok s = (let t = without_newline s in list_ex (crd_name_split t) [0..<length t])"

text \<open>The keywords of the arguments come first; the environment's replace those of the same name.\<close>

definition opt_val :: "string option \<Rightarrow> pyval" where
  "opt_val x = (case x of None \<Rightarrow> PNone | Some s \<Rightarrow> PStr s)"

definition crd_keywords :: "kl_args \<Rightarrow> string \<Rightarrow> (string, pyval) dict" where
  "crd_keywords a kernel_name =
     [(''eg_port_range'', opt_val (kl_port_range a)), (''eg_public_key'', opt_val (kl_public_key a)),
      (''eg_response_address'', opt_val (kl_response_addr a)), (''kernel_id'', opt_val (kl_kernel_id a)),
      (''kernel_name'', PStr kernel_name),
      (''spark_context_initialization_mode'', opt_val (kl_spark_context_init_mode a))]"

definition keyword_str :: "(string, pyval) dict \<Rightarrow> string \<Rightarrow> string res" where
  "keyword_str kw k =
     rbind (of_option KeyError (dget kw k)) (\<lambda>v. case v of PStr s \<Rightarrow> Inr s | _ \<Rightarrow> Inl TypeError)"

definition extend_operator_env :: "(string, string) dict \<Rightarrow> string \<Rightarrow> pyval \<Rightarrow> pyval res" where
  "extend_operator_env env sub_spec op_def =
     rbind (as_dict op_def) (\<lambda>op.
     rbind (rbind (of_option KeyError (dget op ''spec'')) as_dict) (\<lambda>spec.
     rbind (of_option KeyError (dget spec sub_spec)) (\<lambda>part.
     rbind (py_get_or part ''env'' PNone) (\<lambda>stanza.
     rbind (extend_stanza env stanza) (\<lambda>stanza'.
     rbind (as_dict part) (\<lambda>d.
       Inr (PDict (dset ''spec'' (PDict (dset sub_spec (PDict (dset ''env'' stanza' d)) spec)) op))))))))"

text \<open>What is asked of the cluster: group, version, namespace, plural and the object.\<close>

definition crd_request ::
  "yaml_tools \<Rightarrow> string \<Rightarrow> kl_args \<Rightarrow> (string, string) dict \<Rightarrow>
   (string \<times> string \<times> pyval \<times> string \<times> pyval) res" where
  "crd_request y kernel_name a env =
     rbind (kernel_keywords (safe_load y) env (crd_keywords a kernel_name)) (\<lambda>kw.
     rbind (keyword_str kw ''kernel_crd_group'') (\<lambda>group_name.
     rbind (keyword_str kw ''kernel_crd_version'') (\<lambda>version.
       let template = group_name @ ''-'' @ version in
       if \<not> crd_template_ok template then Inl SystemExit
       else rbind (render y (''/'' @ template @ ''.yaml.j2'') kw) (\<lambda>text.
            rbind (of_option KeyError (dget kw ''kernel_namespace'')) (\<lambda>namespace.
            rbind (keyword_str kw ''kernel_crd_plural'') (\<lambda>plural.
            rbind (safe_load y text) (\<lambda>obj.
            rbind (case obj of PDict d \<Rightarrow> if dhas d ''kind'' then Inr obj else Inl SystemExit | _ \<Rightarrow> Inl SystemExit) (\<lambda>obj.
            rbind (if group_name = ''sparkoperator.k8s.io''
                   then rbind (extend_operator_env env ''driver'' obj) (extend_operator_env env ''executor'')
                   else Inr obj) (\<lambda>body.
              Inr (group_name, version, namespace, plural, body)))))))))) "

definition launch_custom_resource_kernel ::
  "(string \<Rightarrow> string \<Rightarrow> pyval \<Rightarrow> string \<Rightarrow> pyval \<Rightarrow> 'w \<Rightarrow> (api_error + unit) \<times> 'w) \<Rightarrow>
   yaml_tools \<Rightarrow> string \<Rightarrow> kl_args \<Rightarrow> (string, string) dict \<Rightarrow> 'w \<Rightarrow> unit res \<times> 'w" where
  "launch_custom_resource_kernel create y kernel_name a env w =
     (case crd_request y kernel_name a env of
        Inl e \<Rightarrow> (Inl e, w)
      | Inr (group_name, version, namespace, plural, body) \<Rightarrow>
          (case create group_name version namespace plural body w of
             (Inr _, w1) \<Rightarrow> (Inr (), w1)
           | (Inl e, w1) \<Rightarrow>
               (Inl (if ae_status e = 404 then SystemExit else ApiException (ae_status e)), w1)))"

section \<open>Docker\<close>

text \<open>
  The pattern of an image: a name, a tag and a digest.  A tag's colon and a digest's at sign are in
  none of the character classes before them, so the longest parts are the only ones.
\<close>

definition image_char :: "char \<Rightarrow> bool" where
  "image_char c \<longleftrightarrow> low_alnum c \<or> 65 \<le> code c \<and> code c \<le> 90 \<or> c \<in> set ''._-''"

definition hex_low :: "char \<Rightarrow> bool" where
  "hex_low c \<longleftrightarrow> 97 \<le> code c \<and> code c \<le> 102 \<or> 48 \<le> code c \<and> code c \<le> 57"

definition digest_ok :: "string \<Rightarrow> bool" where
  "digest_ok s \<longleftrightarrow> s = [] \<or>
     startswith s ''@sha256:'' \<and> drop 8 s \<noteq> [] \<and> list_all hex_low (drop 8 s)"

definition image_ok :: "string \<Rightarrow> bool" where
  "image_ok s =
     (let t = without_newline s;
          rest = dropWhile (\<lambda>c. image_char c \<or> c = CHR ''/'') t in
      t \<noteq> [] \<and> image_char (hd t) \<and> hd t \<notin> set ''._-'' \<and>
      (case rest of
         [] \<Rightarrow> True
       | c # cs \<Rightarrow>
           if c = CHR '':'' then cs \<noteq> [] \<and> image_char (hd cs) \<and> digest_ok (dropWhile image_char cs)
           else digest_ok rest))"

record docker_call =
  dc_service :: bool
  dc_image :: string
  dc_name :: string
  dc_user :: "string option"
  dc_groups :: "string option list"
  dc_env :: "(string, string option) dict"
  dc_labels :: "(string, string) dict"
  dc_network :: string
  dc_working_dir :: "string option"
  dc_remove :: bool

definition docker_param_env :: "kl_args \<Rightarrow> (string, string) dict \<Rightarrow> (string, string option) dict res" where
  "docker_param_env a environ =
     (let env1 = [(''PORT_RANGE'', kl_port_range a), (''PUBLIC_KEY'', kl_public_key a),
                  (''RESPONSE_ADDRESS'', kl_response_addr a),
                  (''KERNEL_SPARK_CONTEXT_INIT_MODE'', kl_spark_context_init_mode a)];
          env2 = (case kl_kernel_class_name a of
                    None \<Rightarrow> env1 | Some c \<Rightarrow> if c \<noteq> [] then dset ''KERNEL_CLASS_NAME'' (Some c) env1 else env1);
          env3 = dupdate env2 (map (\<lambda>(k, v). (k, Some v)) environ) in
      if dhas env3 ''PATH'' then Inr (ddel ''PATH'' env3) else Inl KeyError)"

definition opt_get :: "(string, string option) dict \<Rightarrow> string \<Rightarrow> string option" where
  "opt_get d k = (case dget d k of None \<Rightarrow> None | Some v \<Rightarrow> v)"

definition launch_docker_kernel ::
  "bool \<Rightarrow> bool \<Rightarrow> kl_args \<Rightarrow> (string, string) dict \<Rightarrow> docker_call res" where
  "launch_docker_kernel swarm_mode remove_container a environ =
     (case dget environ ''KERNEL_IMAGE'' of
        None \<Rightarrow> Inl SystemExit
      | Some image_name \<Rightarrow>
          if \<not> image_ok image_name then Inl SystemExit
          else rbind (of_option TypeError (kl_kernel_id a)) (\<lambda>kernel_id.
               rbind (docker_param_env a environ) (\<lambda>env.
                 Inr \<lparr>dc_service = swarm_mode, dc_image = image_name,
                      dc_name = dget_or environ ''KERNEL_USERNAME'' [] @ ''-'' @ kernel_id,
                      dc_user = opt_get env ''KERNEL_UID'',
                      dc_groups = [opt_get env ''KERNEL_GID'', Some ''100''], dc_env = env,
                      dc_labels = [(''kernel_id'', kernel_id), (''component'', ''kernel''), (''app'', ''enterprise-gateway'')],
                      dc_network = dget_or environ ''DOCKER_NETWORK'' (dget_or environ ''EG_DOCKER_NETWORK'' ''bridge''),
                      dc_working_dir = (case opt_get env ''KERNEL_WORKING_DIR'' of
                        Some d \<Rightarrow> if d \<noteq> [] then Some d else None | None \<Rightarrow> None),
                      dc_remove = (\<not> swarm_mode \<and> remove_container)\<rparr>)))"

section \<open>Properties: names from the environment\<close>

lemma low_alnum_not: "low_alnum c \<Longrightarrow> c \<noteq> CHR ''/'' \<and> c \<noteq> CHR ''.'' \<and> c \<noteq> CHR 0x0A"
  by (auto simp: low_alnum_def code_def)

text \<open>
  The group and the version of a custom resource come from the environment and name the template
  that is loaded; an accepted name is one path component that does not start with a dot, so the
  template is one of the launcher's directory.
\<close>

lemma crd_template_confined:
  assumes "crd_template_ok s"
  shows "CHR ''/'' \<notin> set s \<and> s \<noteq> [] \<and> hd s \<noteq> CHR ''.''"
proof -
  define t where "t = without_newline s"
  obtain i where i: "crd_name_split t i"
    using assms by (auto simp: crd_template_ok_def t_def list_ex_iff Let_def)
  have "take 2 (drop i t) = ''-v''" using i by (simp add: crd_name_split_def startswith_def numeral_2_eq_2)
  then have "drop i t = ''-v'' @ drop 2 (drop i t)" by (metis append_take_drop_id)
  then have "t = take i t @ ''-v'' @ drop (i + 2) t" by (metis append_take_drop_id drop_drop add.commute)
  then have "set t = set (take i t) \<union> set ''-v'' \<union> set (drop (i + 2) t)" by (metis set_append sup_assoc)
  moreover have "\<forall>c\<in>set (take i t). c \<noteq> CHR ''/''" "\<forall>c\<in>set (drop (i + 2) t). c \<noteq> CHR ''/''"
    using i low_alnum_not by (auto simp: crd_name_split_def list_all_iff)
  ultimately have "CHR ''/'' \<notin> set t" by auto
  moreover have "t \<noteq> []" "low_alnum (hd t)" using i by (auto simp: crd_name_split_def)
  moreover have "s = t \<or> s = t @ [CHR 0x0A]"
    unfolding t_def without_newline_def by (metis append_butlast_last_id)
  ultimately show ?thesis using low_alnum_not by (auto simp: hd_append)
qed

lemma crd_template_examples:
  "crd_template_ok ''sparkoperator.k8s.io-v1beta2'' \<and> \<not> crd_template_ok ''../../etc-v1'' \<and> \<not> crd_template_ok ''a-vX''"
  by code_simp

lemma image_examples:
  "image_ok ''elyra/kernel-py:3.2.3'' \<and> image_ok ''r@sha256:ab12'' \<and> \<not> image_ok ''a b'' \<and> \<not> image_ok ''img:'' \<and> \<not> image_ok ''-x''"
  by code_simp

text \<open>A container's environment is the launcher's, whose values win over the arguments', without PATH.\<close>

lemma docker_param_env_spec:
  assumes "docker_param_env a environ = Inr env" "dict_ok environ"
  shows "dget env ''PATH'' = None \<and>
    (\<forall>k. k \<noteq> ''PATH'' \<longrightarrow> dget environ k \<noteq> None \<longrightarrow> dget env k = Some (dget environ k))"
proof -
  have ok: "dict_ok (map (\<lambda>(k, v). (k, Some v)) environ)"
    using assms(2) by (simp add: dict_ok_def comp_def case_prod_unfold)
  have m: "dget (map (\<lambda>(k, v). (k, Some v)) environ) k = map_option Some (dget environ k)" for k
    by (induction environ) auto
  have "dget (dupdate d (map (\<lambda>(k, v). (k, Some v)) environ)) k =
      (case dget environ k of None \<Rightarrow> dget d k | Some v \<Rightarrow> Some (Some v))" for d k
    unfolding dget_dupdate [OF ok] m by (cases "dget environ k") simp_all
  then show ?thesis
    using assms(1) by (auto simp: docker_param_env_def Let_def split: if_splits)
qed

end
