(* ===== verification/RListener.thy ===== *)
theory RListener
  imports PyLauncher
begin

text \<open>
  The listener of the R launcher (etc/kernel-launchers/R/scripts/server_listener.py): a Python
  program the R script starts beside the kernel.  It repeats parts of the Python launcher, as
  its comments say; the operations are translated on their own and shown equal to the Python
  launcher's where they are meant to be.
\<close>

section \<open>Ports\<close>

text \<open>The variables that set the retries: the launcher's own, then the gateway's.\<close>

definition r_max_port_range_retries :: "(string, string) dict \<Rightarrow> int res" where
  "r_max_port_range_retries env =
     of_option ValueError (py_int (dget_or env ''MAX_PORT_RANGE_RETRIES''
       (dget_or env ''EG_MAX_PORT_RANGE_RETRIES'' ''5'')))"

definition r_get_candidate_port :: "'w os \<Rightarrow> int \<Rightarrow> int \<Rightarrow> 'w \<Rightarrow> int res \<times> 'w" where
  "r_get_candidate_port os lower_port upper_port w =
     (if upper_port - lower_port = 0 then (Inr 0, w) else randint os lower_port upper_port w)"

text \<open>The loop of \<open>_select_socket\<close>: \<open>left\<close> further retries are allowed.\<close>

fun r_select_loop :: "'w os \<Rightarrow> int \<Rightarrow> int \<Rightarrow> nat \<Rightarrow> 'w \<Rightarrow> int res \<times> 'w" where
  "r_select_loop os lower_port upper_port left w =
     (case r_get_candidate_port os lower_port upper_port w of
        (r, w1) \<Rightarrow>
          (case (case r of Inl _ \<Rightarrow> (None, w1) | Inr p \<Rightarrow> os_bind os ''0.0.0.0'' p w1) of
             (Some p, w2) \<Rightarrow> (Inr p, w2)
           | (None, w2) \<Rightarrow>
               (case left of
                  0 \<Rightarrow> (Inl RuntimeError, w2)
                | Suc n \<Rightarrow> r_select_loop os lower_port upper_port n w2)))"

definition r_select_socket :: "int \<Rightarrow> 'w os \<Rightarrow> int \<Rightarrow> int \<Rightarrow> 'w \<Rightarrow> int res \<times> 'w" where
  "r_select_socket max_port_range_retries os lower_port upper_port w =
     r_select_loop os lower_port upper_port (nat max_port_range_retries) w"

definition r_select_ports :: "int \<Rightarrow> 'w os \<Rightarrow> nat \<Rightarrow> int \<Rightarrow> int \<Rightarrow> 'w \<Rightarrow> int list res \<times> 'w" where
  "r_select_ports max_port_range_retries os count lower_port upper_port w =
     (case open_sockets count (r_select_socket max_port_range_retries os lower_port upper_port) w of
        (Inl e, w1) \<Rightarrow> (Inl e, w1)
      | (Inr ports, w1) \<Rightarrow> (Inr ports, close_all os ports w1))"

section \<open>The response\<close>

definition r_encrypt :: "crypto \<Rightarrow> string \<Rightarrow> string \<Rightarrow> string \<Rightarrow> string res" where
  "r_encrypt c aes_key connection_info_str pub =
     rbind (aes_encrypt c aes_key (block_pad c connection_info_str)) (\<lambda>encrypted_connection_info.
     rbind (b64decode (utf8_encode pub)) (\<lambda>imported_public_key.
     rbind (rsa_encrypt c imported_public_key aes_key) (\<lambda>encrypted.
     rbind (decode_text (b64encode encrypted)) (\<lambda>key.
     rbind (decode_text (b64encode encrypted_connection_info)) (\<lambda>conn_info.
     rbind (dumps (PDict [(''version'', PInt 1), (''key'', PStr key), (''conn_info'', PStr conn_info)])) (\<lambda>payload.
       Inr (b64encode (utf8_encode payload))))))))"

text \<open>
  The process ids are those of the R process.  \<open>open_comm\<close> opens the communication socket and
  answers its port, \<open>send\<close> connects to the gateway and sends; the result is the port of the
  socket, \<open>None\<close> in the pull mode.
\<close>

definition r_return_connection_info ::
  "crypto \<Rightarrow> string \<Rightarrow> ('w \<Rightarrow> int res \<times> 'w) \<Rightarrow> (string \<Rightarrow> int \<Rightarrow> string \<Rightarrow> 'w \<Rightarrow> unit res \<times> 'w) \<Rightarrow>
   (int \<Rightarrow> int) \<Rightarrow> (string, pyval) dict \<Rightarrow> string \<Rightarrow> string \<Rightarrow> string \<Rightarrow> int \<Rightarrow> 'w \<Rightarrow> int option res \<times> 'w" where
  "r_return_connection_info c aes_key open_comm send getpgid connection_file response_addr kernel_id pub
     parent_pid w =
     (case split_on '':'' response_addr of
        [rip, ptext] \<Rightarrow>
          (case py_int ptext of
             None \<Rightarrow> (Inr None, w)
           | Some rport \<Rightarrow>
               bindE (open_comm w) (\<lambda>comm_port w1.
                 let cf_json = dset ''kernel_id'' (PStr kernel_id) (dset ''comm_port'' (PInt comm_port)
                       (dset ''pgid'' (PInt (getpgid parent_pid)) (dset ''pid'' (PInt parent_pid) connection_file))) in
                 case rbind (dumps (PDict cf_json)) (\<lambda>json_content.
                        r_encrypt c aes_key (utf8_encode json_content) pub) of
                   Inl e \<Rightarrow> (Inl e, w1)
                 | Inr payload \<Rightarrow>
                     bindE (send rip rport payload w1) (\<lambda>_ w2. (Inr (Some comm_port), w2))))
      | _ \<Rightarrow> (Inr None, w))"

section \<open>The listener\<close>

text \<open>
  The receiving loop of \<open>get_server_request\<close>: every buffer is decoded and appended to the data,
  and the empty one (the end of the list) has the data parsed.
\<close>

fun r_receive_request :: "string \<Rightarrow> string list \<Rightarrow> pyval res" where
  "r_receive_request data [] = json_loads data"
| "r_receive_request data (raw # rest) =
     (case decode_text raw of
        Inl e \<Rightarrow> Inl e
      | Inr buffer \<Rightarrow> r_receive_request (data @ buffer) rest)"

definition r_get_server_request :: "string list res \<Rightarrow> pyval res" where
  "r_get_server_request accepted =
     (case accepted of
        Inl e \<Rightarrow> if e = TimeoutError then Inr PNone else Inl e
      | Inr buffers \<Rightarrow>
          (case r_receive_request [] buffers of
             Inl e \<Rightarrow> if e = TimeoutError then Inr PNone else Inl e
           | Inr request_info \<Rightarrow> Inr request_info))"

definition r_handle_request ::
  "(int \<Rightarrow> 'w \<Rightarrow> unit res \<times> 'w) \<Rightarrow> pyval \<Rightarrow> 'w \<Rightarrow> bool res \<times> 'w" where
  "r_handle_request kill_parent request w =
     (if \<not> truthy request then (Inr False, w)
      else (case wanted request ''signum'' of
              Inl e \<Rightarrow> (Inl e, w)
            | Inr v \<Rightarrow>
                bindE (case v of None \<Rightarrow> (Inr (), w)
                       | Some s \<Rightarrow> (case py_int_of s of Inl e \<Rightarrow> (Inl e, w) | Inr signum \<Rightarrow> kill_parent signum w))
                  (\<lambda>_ w1. (rbind (wanted request ''shutdown'')
                             (\<lambda>s. Inr (case s of None \<Rightarrow> False | Some b \<Rightarrow> truthy b)), w1))))"

fun r_server_listener ::
  "(int \<Rightarrow> 'w \<Rightarrow> unit res \<times> 'w) \<Rightarrow> string list res list \<Rightarrow> 'w \<Rightarrow> listener_state \<times> 'w" where
  "r_server_listener kill_parent [] w = (Listening, w)"
| "r_server_listener kill_parent (accepted # rest) w =
     (case r_get_server_request accepted of
        Inl e \<Rightarrow> (Died e, w)
      | Inr request \<Rightarrow>
          (case r_handle_request kill_parent request w of
             (Inl e, w1) \<Rightarrow> (Died e, w1)
           | (Inr stop, w1) \<Rightarrow> if stop then (Stopped, w1) else r_server_listener kill_parent rest w1))"

section \<open>Set-up\<close>

text \<open>
  \<open>setup_server_listener\<close>: the connection file is written with five free ports before anything
  is sent; \<open>respond\<close> is \<open>return_connection_info\<close> on that file.  The result tells the port the
  listener thread serves, if it is started.
\<close>

definition setup_server_listener ::
  "int \<Rightarrow> 'w os \<Rightarrow> (string \<Rightarrow> int list \<Rightarrow> 'w \<Rightarrow> 'w) \<Rightarrow> (string \<Rightarrow> int \<Rightarrow> 'w \<Rightarrow> int option res \<times> 'w) \<Rightarrow>
   string \<Rightarrow> int \<Rightarrow> int \<Rightarrow> string \<Rightarrow> 'w \<Rightarrow> int option res \<times> 'w" where
  "setup_server_listener max_port_range_retries os write_connection_file respond parent_pid lower_port upper_port
     response_addr w =
     bindE (r_select_ports max_port_range_retries os 5 lower_port upper_port w) (\<lambda>ports w1.
       let w2 = write_connection_file ''0.0.0.0'' ports w1 in
       if response_addr = [] then (Inr None, w2)
       else (case py_int parent_pid of
               None \<Rightarrow> (Inl ValueError, w2)
             | Some pid \<Rightarrow> respond response_addr pid w2))"

section \<open>Properties\<close>

declare r_select_loop.simps [simp del]

lemma r_select_loop_step:
  "r_select_loop os lo hi left w =
    (case try_bind os ''0.0.0.0'' lo hi w of
       (Some p, w2) \<Rightarrow> (Inr p, w2)
     | (None, w2) \<Rightarrow> (case left of 0 \<Rightarrow> (Inl RuntimeError, w2) | Suc n \<Rightarrow> r_select_loop os lo hi n w2))"
proof -
  have c: "r_get_candidate_port os lo hi w = get_candidate_port os lo hi w"
    by (simp add: r_get_candidate_port_def get_candidate_port_def Let_def)
  show ?thesis
    by (subst r_select_loop.simps, unfold c try_bind_def)
      (cases "get_candidate_port os lo hi w"; cases "fst (get_candidate_port os lo hi w)"; simp)
qed

lemma r_select_loop_agrees:
  "r_select_loop os lo hi left w = select_loop RuntimeError (int left + retries) os ''0.0.0.0'' lo hi retries w"
proof (induction left arbitrary: retries w)
  case 0
  show ?case
    by (subst r_select_loop_step, subst select_loop.simps) (simp split: prod.splits option.splits)
next
  case (Suc n)
  have "int (Suc n) + retries = int n + (retries + 1)" by simp
  then show ?case
    by (subst r_select_loop_step, subst select_loop.simps)
      (simp add: Suc.IH [of _ "retries + 1"] algebra_simps split: prod.splits option.splits)
qed

lemma select_loop_no_retries:
  assumes "max_retries \<le> 0"
  shows "select_loop e max_retries os ip lo hi 0 w = select_loop e 0 os ip lo hi 0 w"
  using assms by (subst (1 2) select_loop.simps) (auto split: prod.splits option.splits)

lemma r_select_socket_agrees: "r_select_socket m os lo hi = launcher_select_socket m os lo hi"
proof
  fix w
  show "r_select_socket m os lo hi w = launcher_select_socket m os lo hi w"
    using select_loop_no_retries [of m RuntimeError os "''0.0.0.0''" lo hi w]
    by (cases "0 \<le> m") (simp_all add: r_select_socket_def launcher_select_socket_def
        r_select_loop_agrees [where retries = 0])
qed

lemma r_handle_request_agrees: "r_handle_request kill_parent r w = handle_request kill_parent None r w"
  by (auto simp: r_handle_request_def handle_request_def bindE_def split: sum.splits option.splits prod.splits)

lemma r_receive_agrees: "r_receive_request data bs = rbind (receive_all data bs) json_loads"
  by (induction bs arbitrary: data) (simp_all split: sum.splits)

lemma r_get_server_request_agrees: "r_get_server_request accepted = get_server_request accepted"
  by (cases accepted) (simp_all add: r_get_server_request_def get_server_request_def r_receive_agrees split: sum.splits)

lemma r_server_listener_agrees: "r_server_listener kill_parent reqs w = server_listener kill_parent None reqs w"
  by (induction reqs arbitrary: w)
    (auto simp: r_handle_request_agrees r_get_server_request_agrees split: sum.splits prod.splits)

text \<open>What it sends is what the Python launcher sends for the R process, and to the same address.\<close>

lemma r_response_agrees:
  assumes "open_comm w = (listen, w1)"
  shows "r_return_connection_info c aes_key open_comm send getpgid cf addr kernel_id pub pid w =
    (case return_connection_info c aes_key cf addr listen kernel_id pub pid (getpgid pid) of
       Inr None \<Rightarrow> (Inr None, w)
     | Inr (Some (ip, port, payload)) \<Rightarrow>
         bindE (send ip port payload w1) (\<lambda>_ w2. (rbind listen (\<lambda>p. Inr (Some p)), w2))
     | Inl e \<Rightarrow> (Inl e, w1))"
proof -
  have e: "r_encrypt c k s p = launcher_encrypt c k s p" for k s p
    by (simp add: r_encrypt_def launcher_encrypt_def Let_def)
  show ?thesis
  proof (cases "length (split_on '':'' addr) = 2")
    case True
    then obtain a b where ab: "split_on '':'' addr = [a, b]"
      by (cases "split_on '':'' addr"; cases "tl (split_on '':'' addr)") auto
    show ?thesis
    proof (cases "py_int b")
      case (Some port)
      show ?thesis
      proof (cases listen)
        case (Inr comm)
        let ?cf = "PDict (dset ''kernel_id'' (PStr kernel_id) (dset ''comm_port'' (PInt comm)
          (dset ''pgid'' (PInt (getpgid pid)) (dset ''pid'' (PInt pid) cf))))"
        let ?sent = "rbind (dumps ?cf) (\<lambda>json. launcher_encrypt c aes_key (utf8_encode json) pub)"
        have "r_return_connection_info c aes_key open_comm send getpgid cf addr kernel_id pub pid w =
            (case ?sent of Inl e \<Rightarrow> (Inl e, w1)
             | Inr payload \<Rightarrow> bindE (send a port payload w1) (\<lambda>_ w2. (Inr (Some comm), w2)))"
          using assms ab Some Inr by (simp add: r_return_connection_info_def e Let_def)
        moreover have "return_connection_info c aes_key cf addr listen kernel_id pub pid (getpgid pid) =
            rbind ?sent (\<lambda>payload. Inr (Some (a, port, payload)))"
          using ab Some Inr by (cases "dumps ?cf") (simp_all add: return_connection_info_def Let_def)
        ultimately show ?thesis using Inr by (cases ?sent) simp_all
      qed (use assms ab Some in \<open>simp add: r_return_connection_info_def return_connection_info_def\<close>)
    qed (use ab in \<open>simp add: r_return_connection_info_def return_connection_info_def\<close>)
  next
    case False
    then show ?thesis
      by (auto simp: r_return_connection_info_def return_connection_info_def split: list.splits)
  qed
qed

text \<open>
  C37: The R launcher's listener is the Python launcher's for a kernel without a Spark cluster:
  it selects its ports, encrypts its response, sends it to the same address with the ids of the
  R process, reads the gateway's requests and carries them out in the same way,
  state by state.
\<close>

theorem r_listener_is_python_listener:
  "r_select_ports m os count lo hi w = launcher_select_ports m os count lo hi w \<and>
   r_encrypt c aes_key info pub = launcher_encrypt c aes_key info pub \<and>
   r_return_connection_info c aes_key open_comm send getpgid cf addr kernel_id pub pid u =
     (case return_connection_info c aes_key cf addr (fst (open_comm u)) kernel_id pub pid (getpgid pid) of
        Inr None \<Rightarrow> (Inr None, u)
      | Inr (Some (ip, port, payload)) \<Rightarrow>
          bindE (send ip port payload (snd (open_comm u)))
            (\<lambda>_ u'. (rbind (fst (open_comm u)) (\<lambda>p. Inr (Some p)), u'))
      | Inl e \<Rightarrow> (Inl e, snd (open_comm u))) \<and>
   r_get_server_request accepted = get_server_request accepted \<and>
   r_server_listener kill_parent requests v = server_listener kill_parent None requests v"
proof (intro conjI)
  show "r_select_ports m os count lo hi w = launcher_select_ports m os count lo hi w"
    by (simp add: r_select_ports_def launcher_select_ports_def r_select_socket_agrees bindE_def)
  show "r_encrypt c aes_key info pub = launcher_encrypt c aes_key info pub"
    by (simp add: r_encrypt_def launcher_encrypt_def Let_def)
qed (rule r_response_agrees, simp, rule r_get_server_request_agrees, rule r_server_listener_agrees)

end
