(* ===== verification/ProxySetup.thy ===== *)
theory ProxySetup
  imports RemoteProxy Authorization PortRange ResponseManager
begin

text \<open>
  The rest of services/processproxies/processproxy.py: the address the gateway gives to its
  launchers, what constructing a process proxy sets up, the ssh client and the remote commands
  (\<open>rsh\<close>) the signals of the base class go through, and the preparation of a remote launch.
\<close>

section \<open>The gateway's address\<close>

text \<open>\<open>matches\<close> is \<open>re.match(pattern, ip)\<close>; \<open>ips\<close> are the machine's public addresses.\<close>

fun first_allowed_ip :: "(string \<Rightarrow> string \<Rightarrow> bool) \<Rightarrow> string list \<Rightarrow> string list \<Rightarrow> string option" where
  "first_allowed_ip matches prohibited [] = None"
| "first_allowed_ip matches prohibited (ip # ips) =
     (if list_ex (\<lambda>p. matches p ip) prohibited then first_allowed_ip matches prohibited ips else Some ip)"

definition get_local_ip :: "(string \<Rightarrow> string \<Rightarrow> bool) \<Rightarrow> (string, string) dict \<Rightarrow> string list \<Rightarrow> string res" where
  "get_local_ip matches env ips =
     (case first_allowed_ip matches (split_on '','' (dget_or env ''EG_PROHIBITED_LOCAL_IPS'' [])) ips of
        Some ip \<Rightarrow> Inr ip
      | None \<Rightarrow> (case ips of [] \<Rightarrow> Inl IndexError | ip # _ \<Rightarrow> Inr ip))"

section \<open>Constructing a proxy\<close>

record ssh_settings =
  ss_use_gss :: bool
  ss_remote_user :: "string option"
  ss_remote_pwd :: "string option"

definition read_ssh_settings :: "(string, string) dict \<Rightarrow> string \<Rightarrow> ssh_settings res" where
  "read_ssh_settings env getuser =
     rbind (gss_setting (dget_or env ''EG_REMOTE_GSS_SSH'' ''False'')) (\<lambda>use_gss.
       Inr \<lparr>ss_use_gss = use_gss,
            ss_remote_user = remote_user_of use_gss (dget env ''EG_REMOTE_USER'') getuser,
            ss_remote_pwd = dget env ''EG_REMOTE_PWD''\<rparr>)"

record proxy_setup =
  ps_kernel_id :: string
  ps_manager_ip :: string
  ps_ports :: "int \<times> int"
  ps_port_range :: string
  ps_auth :: auth_sets
  ps_ssh :: ssh_settings
  ps_proxy :: base_proxy

text \<open>
  \<open>BaseProcessProxyABC.__init__\<close>: the kernel id is the manager's, else it is read off the name
  of the connection file; the port range, the user sets and the ssh settings may each be
  refused.
\<close>

definition base_init ::
  "int \<Rightarrow> string \<Rightarrow> auth_sets \<Rightarrow> (string, string) dict \<Rightarrow> string \<Rightarrow> string option \<Rightarrow> string \<Rightarrow>
   (string, string) dict \<Rightarrow> proxy_setup res" where
  "base_init min_port_range_size global_port_range global_sets env getuser km_kernel_id connection_file proxy_config =
     rbind (validate_port_range min_port_range_size global_port_range (dget proxy_config ''port_range''))
       (\<lambda>(lower_port, upper_port, port_range).
     rbind (read_ssh_settings env getuser) (\<lambda>ssh.
       Inr \<lparr>ps_kernel_id = (case km_kernel_id of
              None \<Rightarrow> replace ''.json'' [] (replace ''kernel-'' [] (basename connection_file))
            | Some k \<Rightarrow> k),
            ps_manager_ip = ''0.0.0.0'', ps_ports = (lower_port, upper_port), ps_port_range = port_range,
            ps_auth = init_authorization global_sets proxy_config, ps_ssh = ssh,
            ps_proxy = \<lparr>local_proc = False, proxy_ip = None, proxy_pid = 0, proxy_pgid = 0\<rparr>\<rparr>))"

text \<open>The local proxy only runs on this machine; a remote one registers for its launcher's response.\<close>

definition local_init :: "proxy_setup \<Rightarrow> proxy_setup" where
  "local_init s = s\<lparr>ps_manager_ip := ''127.0.0.1''\<rparr>"

definition remote_init :: "proxy_setup \<Rightarrow> response_manager \<Rightarrow> remote_proxy \<times> string \<times> string \<times> response_manager" where
  "remote_init s m =
     (base_proxy.extend (ps_proxy s)
        \<lparr>assigned_ip = None, assigned_host = [], comm_ip = None, comm_port = 0, tunneled_connect_info = None,
         tunnel_processes = [], km_connection = None, connection_file_written = False\<rparr>,
      response_address m, public_key m, register_event (ps_kernel_id s) m)"

section \<open>Launching\<close>

text \<open>The arguments \<open>Popen\<close> does not know are removed.\<close>

definition popen_kwargs :: "(string, 'v) dict \<Rightarrow> (string, 'v) dict" where
  "popen_kwargs kwargs = ddel ''kernel_headers'' kwargs"

text \<open>
  \<open>RemoteProcessProxy.launch_process\<close>: the port settings go along in the environment,
  \<open>base_launch\<close> is the superclass's method, and the connection file is removed when it is done.
\<close>

definition remote_launch_process ::
  "int \<Rightarrow> int \<Rightarrow> (env \<Rightarrow> 'w \<Rightarrow> env res \<times> 'w) \<Rightarrow> ('w \<Rightarrow> 'w) \<Rightarrow> env \<Rightarrow> 'w \<Rightarrow> env res \<times> 'w" where
  "remote_launch_process min_port_range_size max_port_range_retries base_launch cleanup_connection_file env w =
     bindE (base_launch (dset ''EG_MAX_PORT_RANGE_RETRIES'' (int_str max_port_range_retries)
                          (dset ''EG_MIN_PORT_RANGE_SIZE'' (int_str min_port_range_size) env)) w)
       (\<lambda>env' w1. (Inr env', cleanup_connection_file w1))"

text \<open>\<open>log_and_raise\<close>\<close>

definition log_and_raise :: "nat option \<Rightarrow> exn" where
  "log_and_raise http_status_code =
     (case http_status_code of None \<Rightarrow> RuntimeError | Some c \<Rightarrow> if c \<noteq> 0 then HTTPError c else RuntimeError)"

text \<open>
  The override of the remote proxies closes the response socket first; that tolerates an
  \<open>OSError\<close> and forgets the socket in any case.
\<close>

definition close_response_socket :: "('h \<Rightarrow> 'w \<Rightarrow> unit res \<times> 'w) \<Rightarrow> 'h option \<Rightarrow> 'w \<Rightarrow> unit res \<times> 'h option \<times> 'w" where
  "close_response_socket shutdown_and_close sock w =
     (case sock of
        None \<Rightarrow> (Inr (), None, w)
      | Some h \<Rightarrow>
          (case shutdown_and_close h w of
             (Inr _, w1) \<Rightarrow> (Inr (), None, w1)
           | (Inl (OSError _), w1) \<Rightarrow> (Inr (), None, w1)
           | (Inl e, w1) \<Rightarrow> (Inl e, sock, w1)))"

definition remote_log_and_raise ::
  "('h \<Rightarrow> 'w \<Rightarrow> unit res \<times> 'w) \<Rightarrow> nat option \<Rightarrow> 'h option \<Rightarrow> 'w \<Rightarrow> exn \<times> 'h option \<times> 'w" where
  "remote_log_and_raise shutdown_and_close http_status_code sock w =
     (case close_response_socket shutdown_and_close sock w of
        (Inl e, h, w1) \<Rightarrow> (e, h, w1)
      | (Inr _, h, w1) \<Rightarrow> (log_and_raise http_status_code, h, w1))"

text \<open>Seconds since the epoch in milliseconds; an address of this machine, public or not.\<close>

definition get_current_time :: "('w \<Rightarrow> int) \<Rightarrow> 'w \<Rightarrow> int" where
  "get_current_time timegm w = timegm w * 1000"

definition ip_is_local :: "string list \<Rightarrow> string list \<Rightarrow> string \<Rightarrow> bool" where
  "ip_is_local public_ips local_ips ip \<longleftrightarrow> ip \<in> set public_ips \<or> ip \<in> set local_ips"

section \<open>The ssh client\<close>

datatype ssh_login = Gss_Login | Password_Login "string option" string | Key_Login "string option"

datatype host_key_policy = Auto_Add | Reject_Unknown

definition ssh_login_of :: "ssh_settings \<Rightarrow> ssh_login \<times> host_key_policy" where
  "ssh_login_of s =
     (if ss_use_gss s then (Gss_Login, Auto_Add)
      else (case ss_remote_pwd s of
              Some pwd \<Rightarrow> if pwd \<noteq> [] then Password_Login (ss_remote_user s) pwd else Key_Login (ss_remote_user s)
            | None \<Rightarrow> Key_Login (ss_remote_user s), Reject_Unknown))"

text \<open>
  A client with the system's host keys, its connection to an address and port, name
  resolution (of a host and of the gateway's own), the start of a command with its two output
  streams, and closing.
\<close>

record 'w ssh_ops =
  so_new :: "'w \<Rightarrow> nat res \<times> 'w"
  so_resolve :: "string \<Rightarrow> 'w \<Rightarrow> string res \<times> 'w"
  so_own_address :: "'w \<Rightarrow> string res \<times> 'w"
  so_connect :: "nat \<Rightarrow> host_key_policy \<Rightarrow> string \<Rightarrow> int \<Rightarrow> ssh_login \<Rightarrow> 'w \<Rightarrow> unit res \<times> 'w"
  so_exec :: "nat \<Rightarrow> string \<Rightarrow> 'w \<Rightarrow> unit res \<times> 'w"
  so_stdout :: "nat \<Rightarrow> 'w \<Rightarrow> string list res \<times> 'w"
  so_stderr :: "nat \<Rightarrow> 'w \<Rightarrow> string list res \<times> 'w"
  so_close :: "nat \<Rightarrow> 'w \<Rightarrow> 'w"

text \<open>
  The handler of every failure: the test on the exception's class is true for all of them, so
  the status is always 403, unless the gateway's own name cannot be resolved.
\<close>

definition ssh_failure :: "'w ssh_ops \<Rightarrow> 'w \<Rightarrow> exn \<times> 'w" where
  "ssh_failure ops w =
     (case so_own_address ops w of
        (Inl e, w1) \<Rightarrow> (e, w1)
      | (Inr _, w1) \<Rightarrow> (log_and_raise (Some 403), w1))"

definition get_ssh_client :: "'w ssh_ops \<Rightarrow> int \<Rightarrow> ssh_settings \<Rightarrow> string \<Rightarrow> 'w \<Rightarrow> nat res \<times> 'w" where
  "get_ssh_client ops ssh_port s host w =
     (case bindE (so_new ops w) (\<lambda>c w1.
           bindE (so_resolve ops host w1) (\<lambda>host_ip w2.
             case ssh_login_of s of (login, policy) \<Rightarrow>
               bindE (so_connect ops c policy host_ip ssh_port login w2) (\<lambda>_ w3. (Inr c, w3)))) of
        (Inr c, w') \<Rightarrow> (Inr c, w')
      | (Inl _, w') \<Rightarrow> (case ssh_failure ops w' of (e, w'') \<Rightarrow> (Inl e, w'')))"

definition rsh_lines :: "'w ssh_ops \<Rightarrow> nat \<Rightarrow> string \<Rightarrow> 'w \<Rightarrow> string list res \<times> 'w" where
  "rsh_lines ops c command w =
     bindE (so_exec ops c command w) (\<lambda>_ w1.
     bindE (so_stdout ops c w1) (\<lambda>out w2.
       if length out = 0 then so_stderr ops c w2 else (Inr out, w2)))"

text \<open>\<open>rsh\<close>: the client is closed in \<open>finally\<close>, once there is one.\<close>

definition rsh :: "'w ssh_ops \<Rightarrow> int \<Rightarrow> ssh_settings \<Rightarrow> string \<Rightarrow> string \<Rightarrow> 'w \<Rightarrow> string list res \<times> 'w" where
  "rsh ops ssh_port s host command w =
     bindE (get_ssh_client ops ssh_port s host w) (\<lambda>c w1.
       case rsh_lines ops c command w1 of (r, w2) \<Rightarrow> (r, so_close ops c w2))"

section \<open>Properties: the address\<close>

lemma first_allowed_ip_spec:
  "(first_allowed_ip matches prohibited ips = Some ip \<longrightarrow>
     ip \<in> set ips \<and> (\<forall>p\<in>set prohibited. \<not> matches p ip)) \<and>
   (first_allowed_ip matches prohibited ips = None \<longleftrightarrow> (\<forall>i\<in>set ips. \<exists>p\<in>set prohibited. matches p i))"
  by (induction ips) (auto simp: list_ex_iff)

text \<open>
  An empty pattern matches every address.  A trailing comma in EG_PROHIBITED_LOCAL_IPS, like
  leaving it unset, thus prohibits all addresses, and the first one is taken even where a
  pattern names it.
\<close>

lemma empty_pattern_prohibits_all:
  assumes "\<And>ip. matches [] ip" "[] \<in> set (split_on '','' (dget_or env ''EG_PROHIBITED_LOCAL_IPS'' []))"
  shows "get_local_ip matches env (ip # ips) = Inr ip"
proof -
  have "first_allowed_ip matches (split_on '','' (dget_or env ''EG_PROHIBITED_LOCAL_IPS'' [])) (ip # ips) = None"
    using assms first_allowed_ip_spec by metis
  then show ?thesis by (simp add: get_local_ip_def del: first_allowed_ip.simps)
qed

section \<open>Properties: construction\<close>

text \<open>A remote proxy waits for its launcher from its construction on.\<close>

lemma remote_init_registers:
  "case remote_init s m of (p, addr, pub, m') \<Rightarrow> dget (response_registry m') (ps_kernel_id s) = Some None"
  by (simp add: remote_init_def register_event_def)

lemma base_init_refuses:
  "gss_setting (dget_or env ''EG_REMOTE_GSS_SSH'' ''False'') = Inl e \<Longrightarrow>
   \<exists>e'. base_init m r g env u kid f cfg = Inl e'"
  by (cases "validate_port_range m r (dget cfg ''port_range'')")
    (auto simp: base_init_def read_ssh_settings_def split: prod.splits)

section \<open>Properties: remote commands\<close>

text \<open>Without GSS unknown hosts are refused; the password, when there is one, goes before the keys.\<close>

lemma unknown_hosts_refused: "snd (ssh_login_of s) = Reject_Unknown \<longleftrightarrow> \<not> ss_use_gss s"
  by (auto simp: ssh_login_of_def)

text \<open>No failure to reach a host is reported as 500.\<close>

lemma ssh_failure_status:
  assumes "\<And>w. \<exists>a w'. so_own_address ops w = (Inr a, w')" "get_ssh_client ops port s host w = (Inl e, w')"
  shows "e = HTTPError 403"
proof -
  have "fst (ssh_failure ops v) = HTTPError 403" for v
    using assms(1) [of v] by (auto simp: ssh_failure_def log_and_raise_def)
  then show ?thesis
    using assms(2) by (auto simp: get_ssh_client_def split: prod.splits sum.splits) (metis fst_conv)
qed

text \<open>The clients that are open, as the operations change them.\<close>

definition tracks_clients :: "'w ssh_ops \<Rightarrow> ('w \<Rightarrow> nat set) \<Rightarrow> bool" where
  "tracks_clients ops clients \<longleftrightarrow>
     (\<forall>w. (case so_new ops w of (Inr c, w') \<Rightarrow> c \<notin> clients w \<and> clients w' = insert c (clients w)
           | (Inl _, w') \<Rightarrow> clients w' = clients w)) \<and>
     (\<forall>h w. clients (snd (so_resolve ops h w)) = clients w) \<and>
     (\<forall>w. clients (snd (so_own_address ops w)) = clients w) \<and>
     (\<forall>c pol ip port l w. clients (snd (so_connect ops c pol ip port l w)) = clients w) \<and>
     (\<forall>c cmd w. clients (snd (so_exec ops c cmd w)) = clients w) \<and>
     (\<forall>c w. clients (snd (so_stdout ops c w)) = clients w) \<and>
     (\<forall>c w. clients (snd (so_stderr ops c w)) = clients w) \<and>
     (\<forall>c w. clients (so_close ops c w) = clients w - {c})"

lemma tracks_simps:
  assumes "tracks_clients ops clients"
  shows "clients (snd (so_resolve ops h w)) = clients w" "clients (snd (so_own_address ops w)) = clients w"
    "clients (snd (so_connect ops c pol ip port l w)) = clients w"
    "clients (snd (so_exec ops c cmd w)) = clients w" "clients (snd (so_stdout ops c w)) = clients w"
    "clients (snd (so_stderr ops c w)) = clients w" "clients (so_close ops c w) = clients w - {c}"
  using assms by (simp_all add: tracks_clients_def)

lemma bindE_keeps:
  assumes "clients (snd m) = A" "\<And>x w. clients w = A \<Longrightarrow> clients (snd (f x w)) = A"
  shows "clients (snd (bindE m f)) = A"
proof (cases m)
  case (Pair r w)
  then show ?thesis using assms(1) assms(2) [of w] by (cases r) (simp_all add: bindE_def)
qed

lemma ssh_failure_clients:
  assumes "tracks_clients ops clients"
  shows "clients (snd (ssh_failure ops w)) = clients w"
proof (cases "so_own_address ops w")
  case (Pair r w1)
  then have "clients w1 = clients w" using tracks_simps(2) [OF assms, of w] by simp
  then show ?thesis using Pair by (cases r) (simp_all add: ssh_failure_def)
qed

lemma rsh_lines_clients:
  assumes "tracks_clients ops clients"
  shows "clients (snd (rsh_lines ops c command w)) = clients w"
  unfolding rsh_lines_def
  apply (rule bindE_keeps, simp only: tracks_simps [OF assms])
  apply (rule bindE_keeps, simp only: tracks_simps [OF assms])
  apply (simp add: tracks_simps [OF assms])
  done

lemma get_ssh_client_clients:
  assumes "tracks_clients ops clients" "get_ssh_client ops port s host w = (r, w1)"
  shows "(case so_new ops w of (Inl e, _) \<Rightarrow> clients w1 = clients w
     | (Inr c, _) \<Rightarrow> clients w1 = insert c (clients w) \<and> c \<notin> clients w \<and> (\<forall>d. r = Inr d \<longrightarrow> d = c))"
proof -
  define body where "body = (\<lambda>c w1. bindE (so_resolve ops host w1) (\<lambda>host_ip w2.
             case ssh_login_of s of (login, policy) \<Rightarrow>
               bindE (so_connect ops c policy host_ip port login w2) (\<lambda>_ w3. (Inr c, w3))))"
  have body: "clients (snd (body c v)) = clients v" for c v
    unfolding body_def
    apply (rule bindE_keeps, simp only: tracks_simps [OF assms(1)])
    apply (simp split: prod.split, intro allI impI)
    apply (rule bindE_keeps, simp_all add: tracks_simps [OF assms(1)])
    done
  have same: "fst (body c v) = Inr d \<Longrightarrow> d = c" for c v d
    by (auto simp: body_def bindE_def split: prod.splits sum.splits)
  have client: "get_ssh_client ops port s host w =
      (case bindE (so_new ops w) body of
        (Inr c, w') \<Rightarrow> (Inr c, w')
      | (Inl _, w') \<Rightarrow> (case ssh_failure ops w' of (e, w'') \<Rightarrow> (Inl e, w'')))"
    by (simp add: get_ssh_client_def body_def)
  have fail: "ssh_failure ops v = (e, v') \<Longrightarrow> clients v' = clients v" for v e v'
    using ssh_failure_clients [OF assms(1), of v] by simp
  have new: "case so_new ops w of (Inr c, w') \<Rightarrow> c \<notin> clients w \<and> clients w' = insert c (clients w)
      | (Inl _, w') \<Rightarrow> clients w' = clients w"
    using assms(1) by (simp add: tracks_clients_def)
  show ?thesis
  proof (cases "so_new ops w")
    case (Pair q v)
    show ?thesis
    proof (cases q)
      case (Inl e)
      then show ?thesis using Pair new assms(2) fail by (auto simp: client bindE_def split: prod.splits)
    next
      case (Inr c)
      obtain b u where b: "body c v = (b, u)" by (cases "body c v")
      then have "clients u = clients v" "\<And>d. b = Inr d \<Longrightarrow> d = c"
        using body [of c v] same [of c v] by simp_all
      moreover have "bindE (so_new ops w) body = (b, u)" using Pair Inr b by (simp add: bindE_def)
      ultimately show ?thesis using Pair Inr new assms(2) fail
        by (cases b) (auto simp: client split: prod.splits)
    qed
  qed
qed

text \<open>
  A remote command that reaches its host leaves no ssh client open, however the command
  itself ends.  One whose host cannot be resolved or refuses the connection leaves the client it
  had made open.
\<close>

lemma rsh_closes_its_client:
  assumes "tracks_clients ops clients"
  shows "case (so_new ops w, get_ssh_client ops port s host w) of
      ((Inl _, _), _) \<Rightarrow> clients (snd (rsh ops port s host command w)) = clients w
    | ((Inr c, _), (Inr _, _)) \<Rightarrow> clients (snd (rsh ops port s host command w)) = clients w
    | ((Inr c, _), (Inl _, _)) \<Rightarrow>
        c \<notin> clients w \<and> clients (snd (rsh ops port s host command w)) = insert c (clients w)"
proof -
  obtain r w1 where g: "get_ssh_client ops port s host w = (r, w1)" by (metis surj_pair)
  obtain q v where n: "so_new ops w = (q, v)" by (metis surj_pair)
  note c = get_ssh_client_clients [OF assms g]
  show ?thesis
  proof (cases r)
    case (Inl e)
    then show ?thesis using c g n by (cases q) (simp_all add: rsh_def bindE_def)
  next
    case (Inr d)
    obtain x u where l: "rsh_lines ops d command w1 = (x, u)" by (metis surj_pair)
    then have "clients u = clients w1" using rsh_lines_clients [OF assms, of d command w1] by simp
    moreover have "clients (snd (rsh ops port s host command w)) = clients u - {d}"
      using g Inr l tracks_simps(7) [OF assms] by (simp add: rsh_def bindE_def)
    moreover obtain e where "q = Inl e \<or> q = Inr d" using c n Inr by (cases q) auto
    moreover have "\<not> (\<exists>e. q = Inl e)"
      using g n Inr by (auto simp: get_ssh_client_def bindE_def split: prod.splits)
    ultimately show ?thesis using c g n Inr by auto
  qed
qed

text \<open>Clients are numbered past those that are open; only the address \<open>10.0.0.1\<close> accepts them.\<close>

definition demo_ssh :: "nat list ssh_ops" where
  "demo_ssh = \<lparr>so_new = \<lambda>w. (Inr (Suc (sum_list w)), Suc (sum_list w) # w),
     so_resolve = \<lambda>h w. (Inr h, w), so_own_address = \<lambda>w. (Inr ''10.0.0.9'', w),
     so_connect = \<lambda>c pol ip port l w. (if ip = ''10.0.0.1'' then Inr () else Inl (OSError 111), w),
     so_exec = \<lambda>c cmd w. (Inr (), w), so_stdout = \<lambda>c w. (Inr [''42''], w), so_stderr = \<lambda>c w. (Inr [], w),
     so_close = \<lambda>c w. filter (\<lambda>x. x \<noteq> c) w\<rparr>"

lemma demo_tracks: "tracks_clients demo_ssh set"
proof -
  have "Suc (sum_list w) \<notin> set w" for w :: "nat list" using member_le_sum_list not_less_eq_eq by blast
  then show ?thesis by (auto simp: tracks_clients_def demo_ssh_def)
qed

theorem rsh_closes_its_client_witness:
  "set (snd (rsh demo_ssh 22 \<lparr>ss_use_gss = True, ss_remote_user = None, ss_remote_pwd = None\<rparr>
       ''10.0.0.1'' ''kill -0 42'' [3])) = {3} \<and>
   set (snd (rsh demo_ssh 22 \<lparr>ss_use_gss = True, ss_remote_user = None, ss_remote_pwd = None\<rparr>
       ''10.0.0.2'' ''kill -0 42'' [3])) = {3, 4}"
  using rsh_closes_its_client [OF demo_tracks, where w = "[3]" and port = 22 and host = "''10.0.0.1''"
      and s = "\<lparr>ss_use_gss = True, ss_remote_user = None, ss_remote_pwd = None\<rparr>" and command = "''kill -0 42''"]
    rsh_closes_its_client [OF demo_tracks, where w = "[3]" and port = 22 and host = "''10.0.0.2''"
      and s = "\<lparr>ss_use_gss = True, ss_remote_user = None, ss_remote_pwd = None\<rparr>" and command = "''kill -0 42''"]
  by (simp add: demo_ssh_def get_ssh_client_def ssh_failure_def ssh_login_of_def bindE_def numeral_eq_Suc insert_commute)

end
