(* ===== verification/Launching.thy ===== *)
theory Launching
  imports KernelRequest ProxySetup CustomResource Yarn Docker Distributed Conductor KernelManager
begin

text \<open>
  How a launch goes through the classes: \<open>RemoteKernelManager.start_kernel\<close> and
  \<open>_launch_kernel\<close> (services/kernels/remotemanager.py), the \<open>launch_process\<close> of the base
  class and of every process proxy with its calls of \<open>super()\<close>, and what follows for a launch
  that is refused.  \<open>popen\<close> is \<open>launch_kernel\<close>, which starts the process and answers its
  pid; \<open>confirm\<close> is \<open>confirm_remote_startup\<close>, with the launch timeout it compares with.
\<close>

section \<open>The base class\<close>

text \<open>What the manager, the module settings and the constructors fix before a launch.\<close>

record launch_setup =
  ls_environ :: env
  ls_kernel_id :: string
  ls_language :: string
  ls_getuser :: string
  ls_impersonation :: bool
  ls_auth :: auth_sets
  ls_min_port_range_size :: int
  ls_max_port_range_retries :: int
  ls_local_ip :: string

text \<open>
  \<open>BaseProcessProxyABC.launch_process\<close>.  The environment is a dict that every level writes
  to; a number in KERNEL_LAUNCH_TIMEOUT replaces the timeout.
\<close>

definition base_launch_process ::
  "(string \<Rightarrow> rat option) \<Rightarrow> launch_setup \<Rightarrow> env option \<Rightarrow> rat \<times> 'w \<Rightarrow> env res \<times> rat \<times> 'w" where
  "base_launch_process to_float c env tw =
     (let (timeout, w) = tw;
          env_dict = (case env of None \<Rightarrow> ls_environ c | Some e \<Rightarrow> e);
          wanted = dget_or env_dict ''KERNEL_LAUNCH_TIMEOUT'' [] in
      case (if wanted \<noteq> [] then of_option ValueError (to_float wanted) else Inr timeout) of
        Inl e \<Rightarrow> (Inl e, timeout, w)
      | Inr t \<Rightarrow>
          (case enforce_authorization (ls_impersonation c) (ls_getuser c) (ls_auth c)
                  (base_launch_env (ls_kernel_id c) (ls_language c) env_dict) of
             (Inl e, _) \<Rightarrow> (Inl e, t, w)
           | (Inr _, env') \<Rightarrow> (Inr env', t, w)))"

text \<open>\<open>RemoteProcessProxy.launch_process\<close> over it.\<close>

definition remote_base_launch ::
  "(string \<Rightarrow> rat option) \<Rightarrow> launch_setup \<Rightarrow> ('w \<Rightarrow> 'w) \<Rightarrow> env \<Rightarrow> rat \<times> 'w \<Rightarrow> env res \<times> rat \<times> 'w" where
  "remote_base_launch to_float c cleanup_connection_file env tw =
     remote_launch_process (ls_min_port_range_size c) (ls_max_port_range_retries c)
       (\<lambda>env tw. base_launch_process to_float c (Some env) tw) (\<lambda>(t, w). (t, cleanup_connection_file w)) env tw"

type_synonym 'w starter = "string list \<Rightarrow> env \<Rightarrow> 'w \<Rightarrow> int res \<times> 'w"
type_synonym ('p, 'w) confirmer = "rat \<Rightarrow> 'p \<Rightarrow> 'w \<Rightarrow> unit res \<times> 'p \<times> 'w"

section \<open>Local and distributed launches\<close>

definition local_launch_process ::
  "(string \<Rightarrow> rat option) \<Rightarrow> launch_setup \<Rightarrow> (int \<Rightarrow> 'w \<Rightarrow> int option) \<Rightarrow> 'w starter \<Rightarrow> string list \<Rightarrow>
   env option \<Rightarrow> 'a base_proxy_scheme \<Rightarrow> rat \<times> 'w \<Rightarrow> ('a base_proxy_scheme) res \<times> 'w" where
  "local_launch_process to_float c getpgid popen cmd env p tw =
     (case base_launch_process to_float c env tw of
        (Inl e, _, w) \<Rightarrow> (Inl e, w)
      | (Inr env', _, w) \<Rightarrow> local_launch (popen cmd env') getpgid (ls_local_ip c) p w)"

text \<open>
  A distributed launch uses \<open>popen\<close> with the log file where the chosen host is this machine,
  and the system's \<open>rsh\<close> otherwise.
\<close>

definition dist_launch_process ::
  "(string \<Rightarrow> rat option) \<Rightarrow> launch_setup \<Rightarrow> ('w \<Rightarrow> 'w) \<Rightarrow> (string \<Rightarrow> string res) \<Rightarrow> dist_config \<Rightarrow> string \<Rightarrow> env \<Rightarrow>
   ('a remote_proxy_scheme, 'w) confirmer \<Rightarrow>
   'w remote_ops \<times> (env \<Rightarrow> string list \<Rightarrow> string \<Rightarrow> 'w \<Rightarrow> int res \<times> 'w) \<Rightarrow> string list \<Rightarrow> env \<Rightarrow>
   'a remote_proxy_scheme \<Rightarrow> dist_class \<Rightarrow> rat \<times> 'w \<Rightarrow>
   unit res \<times> 'a remote_proxy_scheme \<times> dist_class \<times> 'w" where
  "dist_launch_process to_float c cleanup gethostbyname cfg kernel_log_dir spec_env confirm start cmd env p d tw =
     (case remote_base_launch to_float c cleanup env tw of
        (Inl e, _, w) \<Rightarrow> (Inl e, p, d, w)
      | (Inr env', t, w) \<Rightarrow>
          (case dist_launch (fst start) (snd start env') gethostbyname cfg kernel_log_dir (ls_kernel_id c) env'
                  spec_env cmd p d w of
             (Inl e, p1, d1, w1) \<Rightarrow> (Inl e, p1, d1, w1)
           | (Inr _, p1, d1, w1) \<Rightarrow> (case confirm t p1 w1 of (r, p2, w2) \<Rightarrow> (r, p2, d1, w2))))"

section \<open>Container launches\<close>

record container_setup =
  cs_proxy_config :: "(string, string) dict"
  cs_kernel_image :: "string option"
  cs_executor_image :: "string option"
  cs_mirror_working_dirs :: bool
  cs_prohibited_uids :: "int list"
  cs_prohibited_gids :: "int list"

definition container_launch_process ::
  "(string \<Rightarrow> rat option) \<Rightarrow> launch_setup \<Rightarrow> container_setup \<Rightarrow> ('w \<Rightarrow> 'w) \<Rightarrow> ('a container_proxy_scheme, 'w) confirmer \<Rightarrow>
   'w starter \<Rightarrow> string list \<Rightarrow> env \<Rightarrow> 'a container_proxy_scheme \<Rightarrow> rat \<times> 'w \<Rightarrow>
   unit res \<times> 'a container_proxy_scheme \<times> 'w" where
  "container_launch_process to_float c cc cleanup confirm popen cmd env p tw =
     (case container_env (cs_proxy_config cc) (cs_kernel_image cc) (cs_executor_image cc) (cs_mirror_working_dirs cc)
             (enforce_prohibited_ids (cs_prohibited_uids cc) (cs_prohibited_gids cc) ''1000'' ''100'') env of
        (Inl e, _) \<Rightarrow> (Inl e, p, snd tw)
      | (Inr _, env1) \<Rightarrow>
          (case remote_base_launch to_float c cleanup env1 tw of
             (Inl e, _, w) \<Rightarrow> (Inl e, p, w)
           | (Inr env2, t, w) \<Rightarrow>
               (case popen cmd env2 w of
                  (Inl e, w1) \<Rightarrow> (Inl e, p, w1)
                | (Inr pid, w1) \<Rightarrow>
                    confirm t (p\<lparr>local_proc := True, proxy_pid := pid, proxy_ip := Some (ls_local_ip c)\<rparr>) w1)))"

text \<open>The Docker proxies only pass their network and mode along.\<close>

definition swarm_launch_process ::
  "(string \<Rightarrow> rat option) \<Rightarrow> launch_setup \<Rightarrow> container_setup \<Rightarrow> ('w \<Rightarrow> 'w) \<Rightarrow> ('a container_proxy_scheme, 'w) confirmer \<Rightarrow>
   string \<Rightarrow> 'w starter \<Rightarrow> string list \<Rightarrow> env \<Rightarrow> 'a container_proxy_scheme \<Rightarrow> rat \<times> 'w \<Rightarrow>
   unit res \<times> 'a container_proxy_scheme \<times> 'w" where
  "swarm_launch_process to_float c cc cleanup confirm docker_network popen cmd env p tw =
     container_launch_process to_float c cc cleanup confirm popen cmd (swarm_launch_env docker_network env) p tw"

definition docker_launch_process ::
  "(string \<Rightarrow> rat option) \<Rightarrow> launch_setup \<Rightarrow> container_setup \<Rightarrow> ('w \<Rightarrow> 'w) \<Rightarrow> ('a container_proxy_scheme, 'w) confirmer \<Rightarrow>
   string \<Rightarrow> 'w starter \<Rightarrow> string list \<Rightarrow> env \<Rightarrow> 'a container_proxy_scheme \<Rightarrow> rat \<times> 'w \<Rightarrow>
   unit res \<times> 'a container_proxy_scheme \<times> 'w" where
  "docker_launch_process to_float c cc cleanup confirm docker_network popen cmd env p tw =
     container_launch_process to_float c cc cleanup confirm popen cmd (docker_launch_env docker_network env) p tw"

record k8s_setup =
  kc_cluster_role :: string
  kc_default_account :: string
  kc_share_gateway_namespace :: bool
  kc_gateway_namespace :: string
  kc_restarting :: bool

text \<open>
  \<open>KubernetesProcessProxy.launch_process\<close>: pod name and namespace (created if necessary) come
  before the superclass's checks.
\<close>

definition k8s_launch_process ::
  "(string \<Rightarrow> rat option) \<Rightarrow> launch_setup \<Rightarrow> container_setup \<Rightarrow> k8s_setup \<Rightarrow> 'w k8s_api \<Rightarrow> ('w \<Rightarrow> 'w) \<Rightarrow>
   ('a k8s_proxy_scheme, 'w) confirmer \<Rightarrow> 'w starter \<Rightarrow> string list \<Rightarrow> env \<Rightarrow> 'a k8s_proxy_scheme \<Rightarrow> rat \<times> 'w \<Rightarrow>
   unit res \<times> 'a k8s_proxy_scheme \<times> 'w" where
  "k8s_launch_process to_float c cc kc api cleanup confirm popen cmd env p tw =
     (let (pod_name, env1) = determine_kernel_pod_name (ls_getuser c) (ls_kernel_id c) (k8s_launch_env (ls_environ c) env) in
      case determine_kernel_namespace api (kc_cluster_role kc) (kc_default_account kc) (kc_share_gateway_namespace kc)
             (kc_gateway_namespace kc) (kc_restarting kc) env1 (p\<lparr>kernel_pod_name := pod_name\<rparr>) (snd tw) of
        (Inl e, pw) \<Rightarrow> (Inl e, pw)
      | (Inr env2, p1, w1) \<Rightarrow>
          container_launch_process to_float c cc cleanup confirm popen cmd env2 p1 (fst tw, w1))"

text \<open>
  \<open>CustomResourceProcessProxy.launch_process\<close>, which the Spark operator's proxy inherits.  An
  environment that holds None (no group, version or plural was configured) cannot start a process.
\<close>

definition crd_launch_process ::
  "(string \<Rightarrow> rat option) \<Rightarrow> launch_setup \<Rightarrow> container_setup \<Rightarrow> k8s_setup \<Rightarrow> 'w k8s_api \<Rightarrow> ('w \<Rightarrow> 'w) \<Rightarrow>
   ('a crd_proxy_scheme, 'w) confirmer \<Rightarrow> 'w starter \<Rightarrow> string list \<Rightarrow> env \<Rightarrow> 'a crd_proxy_scheme \<Rightarrow> rat \<times> 'w \<Rightarrow>
   unit res \<times> 'a crd_proxy_scheme \<times> 'w" where
  "crd_launch_process to_float c cc kc api cleanup confirm popen cmd env p tw =
     (let (values, p1) = crd_launch_env (ls_getuser c) (ls_kernel_id c) env p in
      k8s_launch_process to_float c cc kc api cleanup confirm
        (if None \<in> snd ` set values then (\<lambda>_ _ w. (Inl TypeError, w)) else popen)
        cmd (map (\<lambda>(k, v). (k, case v of None \<Rightarrow> [] | Some s \<Rightarrow> s)) values) p1 tw)"

section \<open>Launches on a cluster manager\<close>

text \<open>
  YARN: \<open>launch_process\<close> of the superclasses is the \<open>prepare\<close> of \<open>yarn_launch\<close>; the process
  gets the environment they leave.
\<close>

definition yarn_launch_process ::
  "(string \<Rightarrow> rat option) \<Rightarrow> launch_setup \<Rightarrow> nat \<Rightarrow> 'w yarn_ops \<Rightarrow> ('w \<Rightarrow> 'w) \<Rightarrow>
   ('a yarn_proxy_scheme \<Rightarrow> 'w \<Rightarrow> bool res \<times> 'a yarn_proxy_scheme \<times> 'w) \<Rightarrow> nat \<Rightarrow> 'w starter \<Rightarrow> string list \<Rightarrow> env \<Rightarrow>
   'a yarn_proxy_scheme \<times> 'w \<Rightarrow> (unit res \<times> 'a yarn_proxy_scheme \<times> 'w) option" where
  "yarn_launch_process to_float c max_poll_attempts ops cleanup receive fuel popen cmd env pw =
     (let launched = (case fst (remote_base_launch to_float c cleanup env (0, snd pw)) of Inl _ \<Rightarrow> env | Inr e \<Rightarrow> e) in
      yarn_launch to_float max_poll_attempts ops
        (\<lambda>p w. case remote_base_launch to_float c cleanup env (yarn_launch_timeout p, w) of
           (r, t, w') \<Rightarrow> (rbind r (\<lambda>_. Inr ()), p\<lparr>yarn_launch_timeout := t\<rparr>, w'))
        (popen cmd launched) receive (ls_local_ip c) env fuel (fst pw) (snd pw))"

definition conductor_launch_process ::
  "(string \<Rightarrow> rat option) \<Rightarrow> launch_setup \<Rightarrow> nat \<Rightarrow> 'w conductor_ops \<Rightarrow> (string \<Rightarrow> string) \<Rightarrow> ('w \<Rightarrow> int \<times> 'w) \<Rightarrow> ('w \<Rightarrow> 'w) \<Rightarrow>
   ('a conductor_proxy_scheme \<Rightarrow> 'w \<Rightarrow> bool res \<times> 'a conductor_proxy_scheme \<times> 'w) \<Rightarrow>
   (string, string) dict option \<Rightarrow> string option \<Rightarrow> nat \<Rightarrow>
   (string list \<Rightarrow> (string, pyval) dict option \<Rightarrow> 'w \<Rightarrow> int res \<times> 'w) \<Rightarrow> string list \<Rightarrow> env \<Rightarrow>
   'a conductor_proxy_scheme \<times> 'w \<Rightarrow> (unit res \<times> 'a conductor_proxy_scheme \<times> 'w) option" where
  "conductor_launch_process to_float c max_poll_attempts ops url_unescape draw cleanup receive kernel_headers kernel_dir
     fuel popen cmd env pw =
     cd_launch max_poll_attempts ops url_unescape draw
       (\<lambda>_ p w. case remote_base_launch to_float c cleanup env (cd_launch_timeout p, w) of
          (r, t, w') \<Rightarrow> (rbind r (\<lambda>e. Inr (map (\<lambda>(k, v). (k, PStr v)) e)), p\<lparr>cd_launch_timeout := t\<rparr>, w'))
       popen receive (ls_local_ip c) (ls_environ c) kernel_headers kernel_dir cmd
       (map (\<lambda>(k, v). (k, PStr v)) env) fuel (fst pw) (snd pw)"

section \<open>The kernel manager\<close>

text \<open>
  \<open>_launch_kernel\<close> applies the overrides of the user and hands over to the proxy;
  \<open>start_kernel\<close> builds the proxy, remembers the overrides (they accumulate over restarts) and
  leaves the rest to the parent class, which calls \<open>_launch_kernel\<close> with a command and an
  environment of its making.
\<close>

definition rkm_launch_kernel ::
  "(string list \<Rightarrow> env \<Rightarrow> 's \<Rightarrow> 'o) \<Rightarrow> (string, string) dict \<Rightarrow> string list \<Rightarrow> env \<Rightarrow> 's \<Rightarrow> 'o" where
  "rkm_launch_kernel launch_process user_overrides kernel_cmd env s =
     launch_process kernel_cmd (launch_env user_overrides env) s"

definition rkm_start_kernel ::
  "('s \<Rightarrow> unit res \<times> 's) \<Rightarrow> (string \<Rightarrow> rat option) \<Rightarrow> rat \<Rightarrow> string list \<Rightarrow> string list \<Rightarrow>
   ((string list \<Rightarrow> env \<Rightarrow> 's \<Rightarrow> 'o) \<Rightarrow> 's \<Rightarrow> 'o) \<Rightarrow> (string list \<Rightarrow> env \<Rightarrow> 's \<Rightarrow> 'o) \<Rightarrow> env option \<Rightarrow>
   (string, string) dict \<Rightarrow> 's \<Rightarrow> (exn \<times> 's + rat \<times> 'o) \<times> (string, string) dict" where
  "rkm_start_kernel get_process_proxy to_float default_kernel_launch_timeout inherited_envs client_envs
     super_start_kernel launch_process env user_overrides s =
     (case get_process_proxy s of
        (Inl e, s1) \<Rightarrow> (Inl (e, s1), user_overrides)
      | (Inr _, s1) \<Rightarrow>
          let env_dict = (case env of None \<Rightarrow> [] | Some e \<Rightarrow> e) in
          (case launch_timeout to_float default_kernel_launch_timeout env_dict of
             Inl e \<Rightarrow> (Inl (e, s1), user_overrides)
           | Inr t \<Rightarrow>
               let overrides = capture_user_overrides inherited_envs client_envs env_dict user_overrides in
               (Inr (t, super_start_kernel (rkm_launch_kernel launch_process overrides) s1), overrides)))"

section \<open>What reaches the process\<close>

lemma dget_dupdate_notin: "k \<notin> fst ` set es \<Longrightarrow> dget (dupdate d es) k = dget d k"
  by (induction d es rule: dupdate.induct) auto

lemma dget_or_eq: "dget d k = dget d' k \<Longrightarrow> dget_or d k x = dget_or d' k x"
  by (simp add: dget_or_def)

lemma username_base_launch_env [simp]:
  "dget_or (base_launch_env kid lang env) ''KERNEL_USERNAME'' u = dget_or env ''KERNEL_USERNAME'' u"
  by (simp add: base_launch_env_def env_pop_list_def Let_def dget_or_def dget_pop_all)

text \<open>The environment a launch passes on was checked: its user is allowed, its id the kernel's.\<close>

definition checked_env :: "launch_setup \<Rightarrow> env \<Rightarrow> bool" where
  "checked_env c e \<longleftrightarrow>
     (case dget e ''KERNEL_USERNAME'' of None \<Rightarrow> False | Some u \<Rightarrow> user_allowed (ls_auth c) u)
     \<and> dget e ''KERNEL_ID'' = Some (ls_kernel_id c) \<and> dget e ''EG_REMOTE_PWD'' = None
     \<and> dget e ''EG_IMPERSONATION_ENABLED'' = Some (py_bool_str (ls_impersonation c))"

lemma enforce_authorization_env:
  "enforce_authorization imp getuser a env = (Inr x, e) \<Longrightarrow>
     dget e k = (if k = ''EG_IMPERSONATION_ENABLED'' then Some (py_bool_str imp)
       else if k = ''KERNEL_USERNAME'' then Some (dget_or env k getuser) else dget env k)"
  by (auto simp: enforce_authorization_def get_kernel_username_def Let_def dget_or_def raise_authorization_error_def
      split: option.splits if_splits)

lemma base_launch_checked:
  assumes "base_launch_process to_float c (Some env) tw = (Inr e, tw')"
  shows "checked_env c e"
    and "k \<notin> {''EG_IMPERSONATION_ENABLED'', ''KERNEL_USERNAME'', ''KERNEL_ID'', ''KERNEL_LANGUAGE'', ''EG_REMOTE_PWD'', ''LS_COLORS''}
      \<Longrightarrow> dget e k = dget env k"
proof -
  obtain x where a: "enforce_authorization (ls_impersonation c) (ls_getuser c) (ls_auth c)
      (base_launch_env (ls_kernel_id c) (ls_language c) env) = (Inr x, e)"
    using assms by (auto simp: base_launch_process_def Let_def split: prod.splits sum.splits if_splits)
  have u: "user_allowed (ls_auth c) (dget_or env ''KERNEL_USERNAME'' (ls_getuser c))"
    using enforce_authorization_outcome [of "ls_impersonation c" "ls_getuser c" "ls_auth c"
        "base_launch_env (ls_kernel_id c) (ls_language c) env"] a by (simp split: if_splits)
  note env = enforce_authorization_env [OF a]
  show "checked_env c e"
    using u by (simp add: checked_env_def env)
      (simp add: base_launch_env_def env_pop_list_def Let_def dget_or_def dget_pop_all)
  show "k \<notin> {''EG_IMPERSONATION_ENABLED'', ''KERNEL_USERNAME'', ''KERNEL_ID'', ''KERNEL_LANGUAGE'', ''EG_REMOTE_PWD'', ''LS_COLORS''}
      \<Longrightarrow> dget e k = dget env k"
    by (simp add: env) (simp add: base_launch_env_def env_pop_list_def Let_def dget_or_def dget_pop_all)
qed

lemma base_launch_refused:
  assumes "\<not> user_allowed (ls_auth c) (dget_or env ''KERNEL_USERNAME'' (ls_getuser c))"
  shows "isl (fst (base_launch_process to_float c (Some env) tw))"
  using assms enforce_authorization_outcome [of "ls_impersonation c" "ls_getuser c" "ls_auth c"
      "base_launch_env (ls_kernel_id c) (ls_language c) env"]
  by (auto simp: base_launch_process_def Let_def split: prod.splits sum.splits)

lemma base_launch_world: "snd (snd (base_launch_process to_float c env tw)) = snd tw"
  by (auto simp: base_launch_process_def Let_def split: prod.splits sum.splits)

lemma remote_base_launch_checked:
  assumes "remote_base_launch to_float c cleanup env tw = (Inr e, tw')"
  shows "checked_env c e" and "k \<in> {''KERNEL_UID'', ''KERNEL_GID'', ''KERNEL_IMAGE''} \<Longrightarrow> dget e k = dget env k"
proof -
  let ?env = "dset ''EG_MAX_PORT_RANGE_RETRIES'' (int_str (ls_max_port_range_retries c))
    (dset ''EG_MIN_PORT_RANGE_SIZE'' (int_str (ls_min_port_range_size c)) env)"
  obtain tw1 where b: "base_launch_process to_float c (Some ?env) tw = (Inr e, tw1)"
    using assms by (auto simp: remote_base_launch_def remote_launch_process_def bindE_Inr_iff)
  show "checked_env c e" by (rule base_launch_checked (1) [OF b])
  show "k \<in> {''KERNEL_UID'', ''KERNEL_GID'', ''KERNEL_IMAGE''} \<Longrightarrow> dget e k = dget env k"
    using base_launch_checked (2) [OF b, of k] by auto
qed

lemma remote_base_launch_refused:
  assumes "\<not> user_allowed (ls_auth c) (dget_or env ''KERNEL_USERNAME'' (ls_getuser c))"
  shows "\<exists>e t. remote_base_launch to_float c cleanup env tw = (Inl e, t, snd tw)"
proof -
  let ?env = "dset ''EG_MAX_PORT_RANGE_RETRIES'' (int_str (ls_max_port_range_retries c))
    (dset ''EG_MIN_PORT_RANGE_SIZE'' (int_str (ls_min_port_range_size c)) env)"
  have "isl (fst (base_launch_process to_float c (Some ?env) tw))"
    using assms by (intro base_launch_refused) simp
  then show ?thesis
    using base_launch_world [of to_float c "Some ?env" tw]
    by (cases "base_launch_process to_float c (Some ?env) tw")
      (auto simp: remote_base_launch_def remote_launch_process_def bindE_def isl_def)
qed

section \<open>Container launches hand on checked ids only\<close>

definition id_allowed :: "int list \<Rightarrow> string option \<Rightarrow> bool" where
  "id_allowed prohibited v =
     (case v of None \<Rightarrow> False | Some s \<Rightarrow>
        (case py_int s of None \<Rightarrow> False | Some i \<Rightarrow> 0 \<le> i \<and> i \<le> max_id \<and> i \<notin> set prohibited))"

definition container_checked :: "launch_setup \<Rightarrow> container_setup \<Rightarrow> env \<Rightarrow> bool" where
  "container_checked c cc e \<longleftrightarrow> checked_env c e
     \<and> id_allowed (cs_prohibited_uids cc) (dget e ''KERNEL_UID'')
     \<and> id_allowed (cs_prohibited_gids cc) (dget e ''KERNEL_GID'')
     \<and> dget e ''KERNEL_IMAGE'' \<noteq> None"

lemma enforce_prohibited_ids_checked:
  assumes "enforce_prohibited_ids uids gids du dg env = (Inr x, e)"
  shows "id_allowed uids (dget e ''KERNEL_UID'')" "id_allowed gids (dget e ''KERNEL_GID'')"
    and "k \<notin> {''KERNEL_UID'', ''KERNEL_GID''} \<Longrightarrow> dget e k = dget env k"
  using assms by (auto simp: enforce_prohibited_ids_def id_allowed_def split: option.splits if_splits)

lemma container_env_checked:
  assumes "container_env cfg img eimg mirror (enforce_prohibited_ids uids gids du dg) env = (Inr x, e)"
  shows "id_allowed uids (dget e ''KERNEL_UID'')" "id_allowed gids (dget e ''KERNEL_GID'')"
    and "dget e ''KERNEL_IMAGE'' \<noteq> None"
    and "k \<notin> {''KERNEL_UID'', ''KERNEL_GID'', ''KERNEL_IMAGE'', ''KERNEL_EXECUTOR_IMAGE'', ''KERNEL_WORKING_DIR''}
      \<Longrightarrow> dget e k = dget env k"
proof -
  obtain i x' where i: "determine_kernel_images cfg img eimg env = Inr (i, x')"
    using assms by (auto simp: container_env_def split: sum.splits)
  define env1 where "env1 = dset ''KERNEL_EXECUTOR_IMAGE'' x' (dset ''KERNEL_IMAGE'' i env)"
  have e: "enforce_prohibited_ids uids gids du dg (if \<not> mirror then ddel ''KERNEL_WORKING_DIR'' env1 else env1) = (Inr x, e)"
    using assms i by (simp add: container_env_def env1_def Let_def split: if_splits)
  note ids = enforce_prohibited_ids_checked [OF e]
  show "id_allowed uids (dget e ''KERNEL_UID'')" "id_allowed gids (dget e ''KERNEL_GID'')"
    using ids(1,2) .
  show "dget e ''KERNEL_IMAGE'' \<noteq> None"
    by (simp add: ids(3) env1_def)
  show "k \<notin> {''KERNEL_UID'', ''KERNEL_GID'', ''KERNEL_IMAGE'', ''KERNEL_EXECUTOR_IMAGE'', ''KERNEL_WORKING_DIR''}
      \<Longrightarrow> dget e k = dget env k"
    by (simp add: ids(3) env1_def)
qed

lemma container_launch_process_cong:
  assumes agree: "\<And>cmd e w. container_checked c cc e \<Longrightarrow> popen cmd e w = popen' cmd e w"
  shows "container_launch_process to_float c cc cleanup confirm popen =
    container_launch_process to_float c cc cleanup confirm popen'"
proof (intro ext)
  fix cmd env p tw
  obtain r env1 where e: "container_env (cs_proxy_config cc) (cs_kernel_image cc) (cs_executor_image cc)
      (cs_mirror_working_dirs cc) (enforce_prohibited_ids (cs_prohibited_uids cc) (cs_prohibited_gids cc) ''1000'' ''100'')
      env = (r, env1)" by fastforce
  obtain b t w where b: "remote_base_launch to_float c cleanup env1 tw = (b, t, w)" by (metis prod_cases3)
  have "popen cmd e w = popen' cmd e w" if "r = Inr x" "b = Inr e" for x e
    using container_env_checked [OF e [unfolded that]] remote_base_launch_checked [OF b [unfolded that]]
    by (intro agree) (simp add: container_checked_def)
  then show "container_launch_process to_float c cc cleanup confirm popen cmd env p tw =
      container_launch_process to_float c cc cleanup confirm popen' cmd env p tw"
    by (cases r; cases b) (simp_all add: container_launch_process_def e b)
qed

text \<open>
  C5: Whatever a client, a kernelspec or a namespace decision puts into the environment, the
  container proxies start a process only with an environment whose user the authorization sets
  allow, whose user and group id are 32-bit numbers on neither prohibited list, that names an
  image and the gateway's kernel id and does not hold the gateway's remote password.  (Two ways of starting
  a process that agree on such environments give the same launch.)
\<close>

theorem only_checked_envs_launched:
  fixes k8s_confirm :: "('b k8s_proxy_scheme, 'w) confirmer" and confirm :: "('a container_proxy_scheme, 'w) confirmer"
    and crd_confirm :: "('d crd_proxy_scheme, 'w) confirmer"
  assumes "\<forall>cmd e w. container_checked c cc e \<longrightarrow> popen cmd e w = popen' cmd e w"
  shows "docker_launch_process to_float c cc cleanup confirm network popen =
      docker_launch_process to_float c cc cleanup confirm network popen'
    \<and> swarm_launch_process to_float c cc cleanup confirm network popen =
      swarm_launch_process to_float c cc cleanup confirm network popen'
    \<and> k8s_launch_process to_float c cc kc api cleanup k8s_confirm popen =
      k8s_launch_process to_float c cc kc api cleanup k8s_confirm popen'
    \<and> crd_launch_process to_float c cc kc api cleanup crd_confirm popen =
      crd_launch_process to_float c cc kc api cleanup crd_confirm popen'"
proof -
  have "container_launch_process to_float c cc cleanup confirm popen =
      container_launch_process to_float c cc cleanup confirm popen'"
    "container_launch_process to_float c cc cleanup k8s_confirm popen =
      container_launch_process to_float c cc cleanup k8s_confirm popen'"
    "container_launch_process to_float c cc cleanup crd_confirm popen =
      container_launch_process to_float c cc cleanup crd_confirm popen'"
    using assms by (auto intro!: container_launch_process_cong)
  then show ?thesis
    by (intro conjI ext) (simp_all add: docker_launch_process_def swarm_launch_process_def k8s_launch_process_def
        crd_launch_process_def split: prod.splits sum.splits)
qed

text \<open>One way counts on the checks, the other one makes them again.\<close>

definition demo_setup :: launch_setup where
  "demo_setup =
     \<lparr>ls_environ = [], ls_kernel_id = ''k1'', ls_language = ''python'', ls_getuser = ''root'', ls_impersonation = False,
      ls_auth = \<lparr>unauthorized_users = [''root''], authorized_users = []\<rparr>, ls_min_port_range_size = 1000,
      ls_max_port_range_retries = 5, ls_local_ip = ''10.0.0.1''\<rparr>"

definition demo_containers :: container_setup where
  "demo_containers =
     \<lparr>cs_proxy_config = [], cs_kernel_image = Some ''img'', cs_executor_image = None, cs_mirror_working_dirs = False,
      cs_prohibited_uids = [0], cs_prohibited_gids = [0]\<rparr>"

definition counting_popen :: "env list starter" where
  "counting_popen cmd e w = (Inr 7, w @ [e])"

definition careful_popen :: "env list starter" where
  "careful_popen cmd e w =
     (if container_checked demo_setup demo_containers e then (Inr 7, w @ [e]) else (Inl (HTTPError 403), w))"

definition demo_docker_launch :: "env list starter \<Rightarrow> string \<Rightarrow> unit res \<times> container_proxy \<times> env list" where
  "demo_docker_launch popen user =
     docker_launch_process (\<lambda>_. None) demo_setup demo_containers (\<lambda>w. w) (\<lambda>_ p w. (Inr (), p, w)) ''bridge''
       popen [''run''] [(''KERNEL_USERNAME'', user)] demo_container (30, [])"

lemma only_checked_envs_launched_witness:
  "demo_docker_launch counting_popen = demo_docker_launch careful_popen
   \<and> length (snd (snd (demo_docker_launch counting_popen ''bob''))) = 1
   \<and> fst (demo_docker_launch counting_popen ''root'') = Inl (HTTPError 403)"
proof -
  have agree: "\<forall>cmd e w. container_checked demo_setup demo_containers e \<longrightarrow> counting_popen cmd e w = careful_popen cmd e w"
    by (simp add: counting_popen_def careful_popen_def)
  have "demo_docker_launch counting_popen = demo_docker_launch careful_popen"
    unfolding demo_docker_launch_def by (subst conjunct1 [OF only_checked_envs_launched [OF agree]]) (rule refl)
  moreover have "length (snd (snd (demo_docker_launch counting_popen ''bob''))) = 1" by code_simp
  moreover have "fst (demo_docker_launch counting_popen ''root'') = Inl (HTTPError 403)" by code_simp
  ultimately show ?thesis by blast
qed

section \<open>A refused user starts nothing\<close>

text \<open>
  What the manager relies on: a launch for a user the proxy's lists refuse neither depends on how
  processes are started (\<open>q\<close>) nor comes back as launched.
\<close>

locale guarded_launch =
  fixes launch :: "'q \<Rightarrow> string list \<Rightarrow> env \<Rightarrow> 's \<Rightarrow> 'o"
    and getuser :: string and allowed :: "string \<Rightarrow> bool" and launched :: "'o \<Rightarrow> bool"
  assumes blind: "\<not> allowed (dget_or env ''KERNEL_USERNAME'' getuser) \<Longrightarrow> launch q cmd env s = launch q' cmd env s"
    and refused: "\<not> allowed (dget_or env ''KERNEL_USERNAME'' getuser) \<Longrightarrow> \<not> launched (launch q cmd env s)"
begin

lemma overridden_user:
  assumes "dict_ok overrides" "dget overrides ''KERNEL_USERNAME'' = Some u"
  shows "dget_or (launch_env overrides env) ''KERNEL_USERNAME'' getuser = u"
  using assms by (simp add: launch_env_def dget_or_def dget_dupdate)

lemma manager_refuses:
  assumes "dict_ok overrides" "dget overrides ''KERNEL_USERNAME'' = Some u" "\<not> allowed u"
  shows "rkm_launch_kernel (launch q) overrides = rkm_launch_kernel (launch q') overrides"
    and "\<not> launched (rkm_launch_kernel (launch q) overrides cmd env s)"
  using blind refused overridden_user [OF assms(1,2)] assms(3)
  by (auto simp: rkm_launch_kernel_def fun_eq_iff)

text \<open>The user the request names is an override, so it is the one the proxy checks.\<close>

lemma captured_user:
  assumes "dict_ok env" "dget env ''KERNEL_USERNAME'' = Some u"
  shows "dget (capture_user_overrides inherited client env overrides) ''KERNEL_USERNAME'' = Some u"
proof -
  let ?es = "[(k, v) \<leftarrow> env. startswith k ''KERNEL_'' \<or> k \<in> set inherited \<or> k \<in> set client]"
  have d: "dict_ok ?es" using assms(1) by (auto simp: dict_ok_def intro: distinct_map_filter)
  have "(''KERNEL_USERNAME'', u) \<in> set ?es"
    using map_of_SomeD [OF assms(2)] by (simp add: startswith_def)
  then have "dget ?es ''KERNEL_USERNAME'' = Some u"
    using d by (simp add: dict_ok_def del: set_filter)
  then show ?thesis using d by (simp add: capture_user_overrides_def dget_dupdate)
qed

lemma start_refused:
  assumes "dict_ok env" "dict_ok overrides" "dget env ''KERNEL_USERNAME'' = Some u" "\<not> allowed u"
  shows "rkm_start_kernel get to_float dflt inherited client parent (launch q) (Some env) overrides s =
    rkm_start_kernel get to_float dflt inherited client parent (launch q') (Some env) overrides s"
proof -
  have "rkm_launch_kernel (launch q) (capture_user_overrides inherited client env overrides) =
      rkm_launch_kernel (launch q') (capture_user_overrides inherited client env overrides)"
    by (rule manager_refuses [OF _ captured_user [OF assms(1,3)] assms(4)])
      (simp add: capture_user_overrides_def assms)
  then show ?thesis
    by (simp add: rkm_start_kernel_def split: prod.splits sum.splits)
qed

end

lemma base_launch_refusedE:
  assumes "\<not> user_allowed (ls_auth c) (dget_or env ''KERNEL_USERNAME'' (ls_getuser c))"
  obtains e tw' where "base_launch_process to_float c (Some env) tw = (Inl e, tw')"
  using base_launch_refused [OF assms, of to_float tw]
  by (cases "base_launch_process to_float c (Some env) tw") (auto simp: isl_def)

lemma remote_base_launch_refusedE:
  assumes "\<not> user_allowed (ls_auth c) (dget_or env ''KERNEL_USERNAME'' (ls_getuser c))"
  obtains e t where "remote_base_launch to_float c cleanup env tw = (Inl e, t, snd tw)"
  using remote_base_launch_refused [OF assms] by (metis prod.exhaust)

lemma local_launch_refused:
  assumes "\<not> user_allowed (ls_auth c) (dget_or env ''KERNEL_USERNAME'' (ls_getuser c))"
  shows "\<exists>e w. \<forall>popen. local_launch_process to_float c getpgid popen cmd (Some env) p tw = (Inl e, w)"
  using base_launch_refusedE [OF assms, of to_float tw]
  by (fastforce simp: local_launch_process_def)

lemma dist_launch_refused:
  assumes "\<not> user_allowed (ls_auth c) (dget_or env ''KERNEL_USERNAME'' (ls_getuser c))"
  shows "\<exists>e w. \<forall>start. dist_launch_process to_float c cleanup resolve cfg dir spec_env confirm start cmd env p d tw
    = (Inl e, p, d, w)"
  using remote_base_launch_refusedE [OF assms, of to_float cleanup tw]
  by (fastforce simp: dist_launch_process_def)

lemma container_env_username:
  assumes "container_env cfg img eimg mirror (enforce_prohibited_ids uids gids du dg) env = (Inr x, e)"
  shows "dget_or e ''KERNEL_USERNAME'' g = dget_or env ''KERNEL_USERNAME'' g"
  by (rule dget_or_eq) (simp add: container_env_checked(4) [OF assms])

lemma container_launch_refused:
  assumes "\<not> user_allowed (ls_auth c) (dget_or env ''KERNEL_USERNAME'' (ls_getuser c))"
  shows "\<exists>e. \<forall>popen. container_launch_process to_float c cc cleanup confirm popen cmd env p tw = (Inl e, p, snd tw)"
proof -
  obtain r env1 where e: "container_env (cs_proxy_config cc) (cs_kernel_image cc) (cs_executor_image cc)
      (cs_mirror_working_dirs cc) (enforce_prohibited_ids (cs_prohibited_uids cc) (cs_prohibited_gids cc) ''1000'' ''100'')
      env = (r, env1)" by fastforce
  show ?thesis
  proof (cases r)
    case (Inl x)
    with e show ?thesis by (simp add: container_launch_process_def)
  next
    case (Inr x)
    have "\<not> user_allowed (ls_auth c) (dget_or env1 ''KERNEL_USERNAME'' (ls_getuser c))"
      using assms container_env_username [OF e [unfolded Inr]] by simp
    from remote_base_launch_refusedE [OF this, of to_float cleanup tw]
    show ?thesis using e Inr by (fastforce simp: container_launch_process_def)
  qed
qed

lemma docker_env_username [simp]:
  "dget_or (docker_launch_env n env) ''KERNEL_USERNAME'' u = dget_or env ''KERNEL_USERNAME'' u"
  "dget_or (swarm_launch_env n env) ''KERNEL_USERNAME'' u = dget_or env ''KERNEL_USERNAME'' u"
  by (simp_all add: docker_launch_env_def swarm_launch_env_def docker_env_def)

lemma k8s_env_username [simp]:
  "dget_or (k8s_launch_env os env) ''KERNEL_USERNAME'' u = dget_or env ''KERNEL_USERNAME'' u"
proof -
  have "''KERNEL_USERNAME'' \<notin> fst ` set [(k, v) \<leftarrow> os. startswith k ''KUBECONFIG'' \<or> startswith k ''KUBERNETES_SERVICE'']"
    by (auto simp: startswith_def)
  from dget_dupdate_notin [OF this] show ?thesis
    by (intro dget_or_eq) (simp only: k8s_launch_env_def)
qed

lemma pod_name_env_username [simp]:
  "dget_or (snd (determine_kernel_pod_name g k env)) ''KERNEL_USERNAME'' g = dget_or env ''KERNEL_USERNAME'' g"
proof -
  have "dget_or (snd (default_pod_name g k env)) ''KERNEL_USERNAME'' g = dget_or env ''KERNEL_USERNAME'' g"
    by (simp add: default_pod_name_def get_kernel_username_def dget_or_def split: option.splits)
  then show ?thesis
    by (cases "default_pod_name g k env") (simp add: determine_kernel_pod_name_def Let_def split: option.splits)
qed

lemma namespace_env_username:
  assumes "determine_kernel_namespace api role account share gns restarting env p w = (Inr env', pw)"
  shows "dget_or env' ''KERNEL_USERNAME'' u = dget_or env ''KERNEL_USERNAME'' u"
  using assms by (auto simp: determine_kernel_namespace_def determine_service_account_def Let_def
      split: option.splits if_splits prod.splits sum.splits)

lemma k8s_launch_refused:
  assumes "\<not> user_allowed (ls_auth c) (dget_or env ''KERNEL_USERNAME'' (ls_getuser c))"
  shows "\<exists>e pw. \<forall>popen. k8s_launch_process to_float c cc kc api cleanup confirm popen cmd env p tw = (Inl e, pw)"
proof -
  obtain n env1 where n: "determine_kernel_pod_name (ls_getuser c) (ls_kernel_id c) (k8s_launch_env (ls_environ c) env)
      = (n, env1)" by fastforce
  have u1: "dget_or env1 ''KERNEL_USERNAME'' (ls_getuser c) = dget_or env ''KERNEL_USERNAME'' (ls_getuser c)"
    using pod_name_env_username [of "ls_getuser c" "ls_kernel_id c" "k8s_launch_env (ls_environ c) env"] n by simp
  obtain r p1 w1 where d: "determine_kernel_namespace api (kc_cluster_role kc) (kc_default_account kc)
      (kc_share_gateway_namespace kc) (kc_gateway_namespace kc) (kc_restarting kc) env1 (p\<lparr>kernel_pod_name := n\<rparr>) (snd tw)
      = (r, p1, w1)" by (metis prod_cases3)
  show ?thesis
  proof (cases r)
    case (Inl x)
    then show ?thesis by (simp add: k8s_launch_process_def n d)
  next
    case (Inr env2)
    have "\<not> user_allowed (ls_auth c) (dget_or env2 ''KERNEL_USERNAME'' (ls_getuser c))"
      using assms u1 namespace_env_username [OF d [unfolded Inr]] by simp
    from container_launch_refused [OF this, of to_float cc cleanup confirm cmd p1 "(fst tw, w1)"]
    show ?thesis by (auto simp: k8s_launch_process_def n d Inr)
  qed
qed

text \<open>The values a CRD launch adds do not touch the user.\<close>

lemma dget_string_values:
  "dget (map (\<lambda>(k, v). (k, case v of None \<Rightarrow> [] | Some s \<Rightarrow> s)) d) k = map_option (case_option [] (\<lambda>s. s)) (dget d k)"
  by (induction d) auto

lemma dget_some_values: "dget (map (\<lambda>(k, v). (k, Some v)) d) k = map_option Some (dget d k)"
  by (induction d) auto

lemma crd_env_username:
  assumes "crd_launch_env g kid env p = (values, p')"
  shows "dget_or (map (\<lambda>(k, v). (k, case v of None \<Rightarrow> [] | Some s \<Rightarrow> s)) values) ''KERNEL_USERNAME'' g =
    dget_or env ''KERNEL_USERNAME'' g"
proof -
  obtain n env1 where n: "determine_kernel_pod_name g kid env = (n, env1)" by fastforce
  have "dget_or env1 ''KERNEL_USERNAME'' g = dget_or env ''KERNEL_USERNAME'' g"
    using pod_name_env_username [of g kid env] by (simp add: n)
  moreover have "dget values ''KERNEL_USERNAME'' = map_option Some (dget env1 ''KERNEL_USERNAME'')"
    using assms by (auto simp: crd_launch_env_def n dget_some_values)
  ultimately show ?thesis
    by (simp add: dget_or_def dget_string_values split: option.splits)
qed

lemma crd_launch_refused:
  assumes "\<not> user_allowed (ls_auth c) (dget_or env ''KERNEL_USERNAME'' (ls_getuser c))"
  shows "\<exists>e pw. \<forall>popen. crd_launch_process to_float c cc kc api cleanup confirm popen cmd env p tw = (Inl e, pw)"
proof -
  obtain v p' where v: "crd_launch_env (ls_getuser c) (ls_kernel_id c) env p = (v, p')" by fastforce
  have "\<not> user_allowed (ls_auth c) (dget_or (map (\<lambda>(k, v). (k, case v of None \<Rightarrow> [] | Some s \<Rightarrow> s)) v)
      ''KERNEL_USERNAME'' (ls_getuser c))"
    using assms crd_env_username [OF v] by simp
  from k8s_launch_refused [OF this, of to_float cc kc api cleanup confirm cmd p' tw]
  show ?thesis by (auto simp: crd_launch_process_def v)
qed

lemma yarn_launch_refused:
  assumes "\<not> user_allowed (ls_auth c) (dget_or env ''KERNEL_USERNAME'' (ls_getuser c))"
  shows "yarn_launch_process to_float c mpa ops cleanup receive fuel popen cmd env pw =
      yarn_launch_process to_float c mpa ops cleanup receive fuel popen' cmd env pw"
    and "yarn_launch_process to_float c mpa ops cleanup receive fuel popen cmd env pw \<noteq> Some (Inr x, pw')"
proof -
  have "\<exists>r. \<forall>popen. yarn_launch_process to_float c mpa ops cleanup receive fuel popen cmd env pw = r
      \<and> (\<forall>x pw'. r \<noteq> Some (Inr x, pw'))"
  proof (cases "confirm_yarn_queue_availability to_float ops env fuel (fst pw) (snd pw)")
    case (Some r)
    obtain e t where "remote_base_launch to_float c cleanup env (yarn_launch_timeout (fst (snd r)), snd (snd r)) = (Inl e, t, snd (snd r))"
      using remote_base_launch_refusedE [OF assms] by (metis snd_conv)
    with Some show ?thesis
      by (cases r; cases "fst r") (auto simp: yarn_launch_process_def yarn_launch_def Let_def)
  qed (auto simp: yarn_launch_process_def yarn_launch_def Let_def)
  then show "yarn_launch_process to_float c mpa ops cleanup receive fuel popen cmd env pw =
      yarn_launch_process to_float c mpa ops cleanup receive fuel popen' cmd env pw"
    and "yarn_launch_process to_float c mpa ops cleanup receive fuel popen cmd env pw \<noteq> Some (Inr x, pw')"
    by metis+
qed

lemma conductor_launch_refused:
  assumes "\<not> user_allowed (ls_auth c) (dget_or env ''KERNEL_USERNAME'' (ls_getuser c))"
  shows "\<exists>e pw'. \<forall>popen. conductor_launch_process to_float c mpa ops unescape draw cleanup receive headers dir fuel popen cmd env pw
    = Some (Inl e, pw')"
proof -
  obtain e t where "remote_base_launch to_float c cleanup env (cd_launch_timeout (fst pw), snd pw) = (Inl e, t, snd pw)"
    using remote_base_launch_refusedE [OF assms] by (metis snd_conv)
  then show ?thesis by (simp add: conductor_launch_process_def cd_launch_def)
qed

interpretation local_guard: guarded_launch
  "\<lambda>popen cmd env s. local_launch_process to_float c getpgid popen cmd (Some env) (fst s) (snd s)"
  "ls_getuser c" "user_allowed (ls_auth c)" "\<lambda>r. \<not> isl (fst r)"
  by unfold_locales (metis local_launch_refused, metis local_launch_refused fst_conv sum.disc(1))

interpretation dist_guard: guarded_launch
  "\<lambda>start cmd env s. dist_launch_process to_float c cleanup resolve cfg dir spec_env confirm start cmd env
     (fst s) (fst (snd s)) (snd (snd s))"
  "ls_getuser c" "user_allowed (ls_auth c)" "\<lambda>r. \<not> isl (fst r)"
  by unfold_locales (metis dist_launch_refused, metis dist_launch_refused fst_conv sum.disc(1))

interpretation docker_guard: guarded_launch
  "\<lambda>popen cmd env s. docker_launch_process to_float c cc cleanup confirm network popen cmd env (fst s) (snd s)"
  "ls_getuser c" "user_allowed (ls_auth c)" "\<lambda>r. \<not> isl (fst r)"
  by unfold_locales
    (metis docker_launch_process_def docker_env_username(1) container_launch_refused,
     metis docker_launch_process_def docker_env_username(1) container_launch_refused fst_conv sum.disc(1))

interpretation swarm_guard: guarded_launch
  "\<lambda>popen cmd env s. swarm_launch_process to_float c cc cleanup confirm network popen cmd env (fst s) (snd s)"
  "ls_getuser c" "user_allowed (ls_auth c)" "\<lambda>r. \<not> isl (fst r)"
  by unfold_locales
    (metis swarm_launch_process_def docker_env_username(2) container_launch_refused,
     metis swarm_launch_process_def docker_env_username(2) container_launch_refused fst_conv sum.disc(1))

interpretation k8s_guard: guarded_launch
  "\<lambda>popen cmd env s. k8s_launch_process to_float c cc kc api cleanup confirm popen cmd env (fst s) (snd s)"
  "ls_getuser c" "user_allowed (ls_auth c)" "\<lambda>r. \<not> isl (fst r)"
  by unfold_locales (metis k8s_launch_refused, metis k8s_launch_refused fst_conv sum.disc(1))

interpretation crd_guard: guarded_launch
  "\<lambda>popen cmd env s. crd_launch_process to_float c cc kc api cleanup confirm popen cmd env (fst s) (snd s)"
  "ls_getuser c" "user_allowed (ls_auth c)" "\<lambda>r. \<not> isl (fst r)"
  by unfold_locales (metis crd_launch_refused, metis crd_launch_refused fst_conv sum.disc(1))

interpretation yarn_guard: guarded_launch
  "yarn_launch_process to_float c mpa ops cleanup receive fuel"
  "ls_getuser c" "user_allowed (ls_auth c)" "\<lambda>r. \<exists>x pw. r = Some (Inr x, pw)"
  by unfold_locales (auto intro: yarn_launch_refused(1) dest: yarn_launch_refused(2))

interpretation conductor_guard: guarded_launch
  "conductor_launch_process to_float c mpa ops unescape draw cleanup receive headers dir fuel"
  "ls_getuser c" "user_allowed (ls_auth c)" "\<lambda>r. \<exists>x pw. r = Some (Inr x, pw)"
  by unfold_locales (metis conductor_launch_refused, metis conductor_launch_refused option.inject prod.inject sum.distinct(1))

text \<open>
  C4: A request for a user the proxy's lists refuse starts no process through any of the
  process proxies, whatever environment the kernelspec and the parent class add and whatever
  the parent class does around the launch: the outcome of \<open>start_kernel\<close> is the same for every
  way of starting a process.
\<close>

theorem refused_user_starts_nothing:
  assumes "dict_ok env" "dict_ok overrides" "dget env ''KERNEL_USERNAME'' = Some u" "\<not> user_allowed (ls_auth c) u"
  shows "rkm_start_kernel get1 tf dflt inherited client parent1
        (\<lambda>cmd env s. local_launch_process tf c getpgid popen cmd (Some env) (fst s) (snd s)) (Some env) overrides s1 =
      rkm_start_kernel get1 tf dflt inherited client parent1
        (\<lambda>cmd env s. local_launch_process tf c getpgid popen' cmd (Some env) (fst s) (snd s)) (Some env) overrides s1
    \<and> rkm_start_kernel get2 tf dflt inherited client parent2
        (\<lambda>cmd env s. dist_launch_process tf c cleanup resolve cfg dir spec_env confirm2 start cmd env
           (fst s) (fst (snd s)) (snd (snd s))) (Some env) overrides s2 =
      rkm_start_kernel get2 tf dflt inherited client parent2
        (\<lambda>cmd env s. dist_launch_process tf c cleanup resolve cfg dir spec_env confirm2 start' cmd env
           (fst s) (fst (snd s)) (snd (snd s))) (Some env) overrides s2
    \<and> rkm_start_kernel get3 tf dflt inherited client parent3
        (\<lambda>cmd env s. docker_launch_process tf c cc cleanup confirm3 network popen cmd env (fst s) (snd s)) (Some env) overrides s3 =
      rkm_start_kernel get3 tf dflt inherited client parent3
        (\<lambda>cmd env s. docker_launch_process tf c cc cleanup confirm3 network popen' cmd env (fst s) (snd s)) (Some env) overrides s3
    \<and> rkm_start_kernel get3 tf dflt inherited client parent3
        (\<lambda>cmd env s. swarm_launch_process tf c cc cleanup confirm3 network popen cmd env (fst s) (snd s)) (Some env) overrides s3 =
      rkm_start_kernel get3 tf dflt inherited client parent3
        (\<lambda>cmd env s. swarm_launch_process tf c cc cleanup confirm3 network popen' cmd env (fst s) (snd s)) (Some env) overrides s3
    \<and> rkm_start_kernel get4 tf dflt inherited client parent4
        (\<lambda>cmd env s. k8s_launch_process tf c cc kc api cleanup confirm4 popen cmd env (fst s) (snd s)) (Some env) overrides s4 =
      rkm_start_kernel get4 tf dflt inherited client parent4
        (\<lambda>cmd env s. k8s_launch_process tf c cc kc api cleanup confirm4 popen' cmd env (fst s) (snd s)) (Some env) overrides s4
    \<and> rkm_start_kernel get5 tf dflt inherited client parent5
        (yarn_launch_process tf c mpa yops cleanup receive5 fuel popen) (Some env) overrides s5 =
      rkm_start_kernel get5 tf dflt inherited client parent5
        (yarn_launch_process tf c mpa yops cleanup receive5 fuel popen') (Some env) overrides s5
    \<and> rkm_start_kernel get6 tf dflt inherited client parent6
        (conductor_launch_process tf c mpa cops unescape draw cleanup receive6 headers kdir fuel cpopen) (Some env) overrides s6 =
      rkm_start_kernel get6 tf dflt inherited client parent6
        (conductor_launch_process tf c mpa cops unescape draw cleanup receive6 headers kdir fuel cpopen') (Some env) overrides s6
    \<and> rkm_start_kernel get7 tf dflt inherited client parent7
        (\<lambda>cmd env s. crd_launch_process tf c cc kc api cleanup confirm7 popen cmd env (fst s) (snd s)) (Some env) overrides s7 =
      rkm_start_kernel get7 tf dflt inherited client parent7
        (\<lambda>cmd env s. crd_launch_process tf c cc kc api cleanup confirm7 popen' cmd env (fst s) (snd s)) (Some env) overrides s7"
  by (intro conjI local_guard.start_refused [OF assms] dist_guard.start_refused [OF assms]
      docker_guard.start_refused [OF assms] swarm_guard.start_refused [OF assms] k8s_guard.start_refused [OF assms]
      yarn_guard.start_refused [OF assms] conductor_guard.start_refused [OF assms] crd_guard.start_refused [OF assms])

text \<open>A parent class that runs the command of the kernelspec in the environment of the gateway.\<close>

definition demo_docker_start :: "env list starter \<Rightarrow> string \<Rightarrow>
   (exn \<times> container_proxy \<times> rat \<times> env list + rat \<times> unit res \<times> container_proxy \<times> env list) \<times> (string, string) dict" where
  "demo_docker_start popen user =
     rkm_start_kernel (\<lambda>s. (Inr (), s)) (\<lambda>_. None) 30 [] [] (\<lambda>launch s. launch [''run''] [(''PATH'', ''/bin'')] s)
       (\<lambda>cmd env s. docker_launch_process (\<lambda>_. None) demo_setup demo_containers (\<lambda>w. w) (\<lambda>_ p w. (Inr (), p, w))
          ''bridge'' popen cmd env (fst s) (snd s))
       (Some [(''KERNEL_USERNAME'', user)]) [] (demo_container, 30, [])"

lemma refused_user_starts_nothing_witness:
  "demo_docker_start counting_popen ''root'' = demo_docker_start careful_popen ''root''
   \<and> demo_docker_start counting_popen ''bob'' \<noteq> demo_docker_start (\<lambda>_ _ w. (Inr 8, w)) ''bob''"
proof -
  have root: "\<not> user_allowed (ls_auth demo_setup) ''root''"
    by (simp add: user_allowed_def demo_setup_def)
  have "dict_ok [(''KERNEL_USERNAME'', ''root'')]" "dict_ok ([] :: (string, string) dict)"
    "dget [(''KERNEL_USERNAME'', ''root'')] ''KERNEL_USERNAME'' = Some ''root''"
    by (simp_all add: dict_ok_def)
  note r = refused_user_starts_nothing [OF this root]
  have "demo_docker_start counting_popen ''root'' = demo_docker_start careful_popen ''root''"
    unfolding demo_docker_start_def by (rule r [THEN conjunct2, THEN conjunct2, THEN conjunct1])
  moreover have "demo_docker_start counting_popen ''bob'' \<noteq> demo_docker_start (\<lambda>_ _ w. (Inr 8, w)) ''bob''"
    by code_simp
  ultimately show ?thesis by blast
qed

section \<open>A refused launch keeps its namespace\<close>

lemma k8s_env_keeps:
  assumes "take 4 k \<noteq> ''KUBE''"
  shows "dget (k8s_launch_env os env) k = dget env k"
proof -
  have "take 4 x = ''KUBE''" if "startswith x ''KUBECONFIG'' \<or> startswith x ''KUBERNETES_SERVICE''" for x
    using that by (auto simp: startswith_iff)
  then have "k \<notin> fst ` set [(k, v) \<leftarrow> os. startswith k ''KUBECONFIG'' \<or> startswith k ''KUBERNETES_SERVICE'']"
    using assms by auto
  from dget_dupdate_notin [OF this] show ?thesis by (simp only: k8s_launch_env_def)
qed

lemma pod_name_env_keeps:
  assumes "k \<noteq> ''KERNEL_USERNAME''" "k \<noteq> ''KERNEL_POD_NAME''"
  shows "dget (snd (determine_kernel_pod_name g kid env)) k = dget env k"
proof -
  have "dget (snd (default_pod_name g kid env)) k = dget env k"
    using assms by (simp add: default_pod_name_def get_kernel_username_def split: option.splits)
  then show ?thesis
    using assms by (cases "default_pod_name g kid env") (simp add: determine_kernel_pod_name_def Let_def split: option.splits)
qed

text \<open>
  C28: The Kubernetes proxy creates a namespace and its role binding before anyone is authorized.
  A launch for a user the lists refuse raises, starts no process, and leaves the new namespace
  behind; the proxy that is marked to delete it belongs to a kernel that does not exist.
\<close>

theorem refused_launch_keeps_namespace:
  assumes laws: "namespace_laws api namespaces"
    and user: "\<not> user_allowed (ls_auth c) (dget_or env ''KERNEL_USERNAME'' (ls_getuser c))"
    and own: "dget env ''KERNEL_NAMESPACE'' = None" "\<not> kc_share_gateway_namespace kc"
    and name: "determine_kernel_pod_name (ls_getuser c) (ls_kernel_id c) (k8s_launch_env (ls_environ c) env) = (name, env1)"
    and create: "ka_create_namespace api name w = (Inr (), w1)"
    and bind: "\<And>account. ka_create_role_binding api name (kc_cluster_role kc) account w1 = (Inr (), w2)"
  shows "case k8s_launch_process to_float c cc kc api cleanup confirm popen cmd env p (timeout, w) of
    (r, p', w') \<Rightarrow> isl r \<and> delete_kernel_namespace p' \<and> kernel_namespace p' = name \<and> w' = w2
      \<and> name \<notin> namespaces w \<and> namespaces w' = insert name (namespaces w)"
proof -
  have ns: "name \<notin> namespaces w" "namespaces w2 = insert name (namespaces w)"
    using namespace_lawsD(2) [OF laws create] namespace_lawsD(3) [OF laws bind] by auto
  have e1: "env1 = snd (determine_kernel_pod_name (ls_getuser c) (ls_kernel_id c) (k8s_launch_env (ls_environ c) env))"
    by (simp add: name)
  have k1: "dget env1 ''KERNEL_NAMESPACE'' = None"
    using own(1) by (simp add: e1 pod_name_env_keeps k8s_env_keeps)
  obtain account env2 where d: "determine_kernel_namespace api (kc_cluster_role kc) (kc_default_account kc)
      (kc_share_gateway_namespace kc) (kc_gateway_namespace kc) (kc_restarting kc) env1 (p\<lparr>kernel_pod_name := name\<rparr>) w
      = (Inr env2, p\<lparr>kernel_pod_name := name, delete_kernel_namespace := True, kernel_namespace := name\<rparr>, w2)"
    using k1 own(2) create bind
    by (simp add: determine_kernel_namespace_def create_kernel_namespace_def determine_service_account_def Let_def)
  have "\<not> user_allowed (ls_auth c) (dget_or env2 ''KERNEL_USERNAME'' (ls_getuser c))"
    using user namespace_env_username [OF d] pod_name_env_username [of "ls_getuser c" "ls_kernel_id c" "k8s_launch_env (ls_environ c) env"]
    by (simp add: e1)
  then obtain e where e: "container_launch_process to_float c cc cleanup confirm popen cmd env2
      (p\<lparr>kernel_pod_name := name, delete_kernel_namespace := True, kernel_namespace := name\<rparr>) (timeout, w2)
      = (Inl e, p\<lparr>kernel_pod_name := name, delete_kernel_namespace := True, kernel_namespace := name\<rparr>, w2)"
    using container_launch_refused by (metis snd_conv)
  show ?thesis
    using ns by (simp add: k8s_launch_process_def name d e)
qed

text \<open>A cluster on which everything succeeds, and its one namespace.\<close>

definition open_cluster :: "string list k8s_api" where
  "open_cluster = sample_api\<lparr>ka_create_role_binding := \<lambda>ns role account w. (Inr (), w)\<rparr>"

definition demo_k8s :: k8s_setup where
  "demo_k8s = \<lparr>kc_cluster_role = ''cluster-admin'', kc_default_account = ''default'', kc_share_gateway_namespace = False,
     kc_gateway_namespace = ''eg'', kc_restarting = False\<rparr>"

lemma refused_launch_keeps_namespace_witness:
  "set (snd (snd (k8s_launch_process (\<lambda>_. None) demo_setup demo_containers demo_k8s open_cluster (\<lambda>w. w)
     (\<lambda>_ p w. (Inr (), p, w)) (\<lambda>cmd env w. (Inr 7, w)) [''run''] [(''KERNEL_USERNAME'', ''root'')] sample_proxy
     (30, [''eg''])))) = {''root-k1'', ''eg''}"
proof -
  have laws: "namespace_laws open_cluster set"
    by (auto simp: namespace_laws_def open_cluster_def sample_api_def)
  have user: "\<not> user_allowed (ls_auth demo_setup) (dget_or [(''KERNEL_USERNAME'', ''root'')] ''KERNEL_USERNAME'' (ls_getuser demo_setup))"
    by code_simp
  have own: "dget [(''KERNEL_USERNAME'', ''root'')] ''KERNEL_NAMESPACE'' = None" "\<not> kc_share_gateway_namespace demo_k8s"
    by (simp_all add: demo_k8s_def)
  have n: "determine_kernel_pod_name (ls_getuser demo_setup) (ls_kernel_id demo_setup)
      (k8s_launch_env (ls_environ demo_setup) [(''KERNEL_USERNAME'', ''root'')])
      = (''root-k1'', [(''KERNEL_USERNAME'', ''root''), (''KERNEL_POD_NAME'', ''root-k1'')])"
    by code_simp
  have create: "ka_create_namespace open_cluster ''root-k1'' [''eg''] = (Inr (), [''root-k1'', ''eg''])"
    by (simp add: open_cluster_def sample_api_def)
  have bind: "ka_create_role_binding open_cluster ''root-k1'' (kc_cluster_role demo_k8s) account [''root-k1'', ''eg'']
      = (Inr (), [''root-k1'', ''eg''])" for account
    by (simp add: open_cluster_def)
  show ?thesis
    using refused_launch_keeps_namespace [OF laws user own n create bind, of "\<lambda>_. None" demo_containers "\<lambda>w. w"
        "\<lambda>_ p w. (Inr (), p, w)" "\<lambda>cmd env w. (Inr 7, w)" "[''run'']" sample_proxy 30]
    by (auto split: prod.splits)
qed

end

