(* ===== verification/ManagerSetup.thy ===== *)
theory ManagerSetup
  imports Application KernelRequest ProxySetup Container
begin

text \<open>
  What is configured before the first request: the options of a kernel's manager that follow
  the application's (\<open>_link_dependent_props\<close>, services/kernels/remotemanager.py), the
  manager's way to its parents, the message context, the settings the process proxies read
  from the environment when they are imported, the options of the session stores, and the
  order in which the application builds its parts (enterprisegatewayapp.py).
\<close>

section \<open>Options that follow the application\<close>

type_synonym traits = "(string, pyval) dict"

definition dependent_props :: "string list" where
  "dependent_props =
     [''authorized_users'', ''unauthorized_users'', ''port_range'', ''impersonation_enabled'',
      ''max_kernels_per_user'', ''client_envs'', ''inherited_envs'', ''yarn_endpoint'', ''alt_yarn_endpoint'',
      ''yarn_endpoint_security_enabled'', ''conductor_endpoint'', ''remote_hosts'', ''load_balancing_algorithm'']"

text \<open>
  A \<open>directional_link\<close> of traitlets copies the option when it is made, and again whenever the
  source's value changes.
\<close>

fun link_all :: "string list \<Rightarrow> traits \<Rightarrow> traits \<Rightarrow> traits res" where
  "link_all [] app own = Inr own"
| "link_all (prop # props) app own =
     (case dget app prop of
        None \<Rightarrow> Inl AttributeError
      | Some v \<Rightarrow> link_all props app (dset prop v own))"

definition link_dependent_props :: "traits option \<Rightarrow> traits \<Rightarrow> traits res" where
  "link_dependent_props eg_instance own =
     (case eg_instance of None \<Rightarrow> Inr own | Some app \<Rightarrow> link_all dependent_props app own)"

record linked =
  ln_app :: traits
  ln_managers :: "traits list"

definition forward :: "string \<Rightarrow> pyval \<Rightarrow> traits \<Rightarrow> traits" where
  "forward prop v own = (if prop \<in> set dependent_props then dset prop v own else own)"

definition assign_option :: "string \<Rightarrow> pyval \<Rightarrow> linked \<Rightarrow> linked" where
  "assign_option prop v l =
     (if dget (ln_app l) prop = Some v then l
      else l\<lparr>ln_app := dset prop v (ln_app l), ln_managers := map (forward prop v) (ln_managers l)\<rparr>)"

text \<open>The two deprecated options pass a new value on to their successors.\<close>

definition update_env_whitelist :: "pyval \<Rightarrow> linked \<Rightarrow> linked" where
  "update_env_whitelist new l = assign_option ''client_envs'' new l"

definition update_env_process_whitelist :: "pyval \<Rightarrow> linked \<Rightarrow> linked" where
  "update_env_process_whitelist new l = assign_option ''inherited_envs'' new l"

definition set_option :: "string \<Rightarrow> pyval \<Rightarrow> linked \<Rightarrow> linked" where
  "set_option prop v l =
     (let l1 = assign_option prop v l; changed = (dget (ln_app l) prop \<noteq> Some v) in
      if changed \<and> prop = ''env_whitelist'' then update_env_whitelist v l1
      else if changed \<and> prop = ''env_process_whitelist'' then update_env_process_whitelist v l1
      else l1)"

definition new_manager :: "traits \<Rightarrow> linked \<Rightarrow> unit res \<times> linked" where
  "new_manager own l =
     (case link_dependent_props (Some (ln_app l)) own of
        Inl e \<Rightarrow> (Inl e, l)
      | Inr m \<Rightarrow> (Inr (), l\<lparr>ln_managers := ln_managers l @ [m]\<rparr>))"

datatype option_event = Set_Option string pyval | New_Manager traits

fun option_run :: "option_event list \<Rightarrow> linked \<Rightarrow> linked" where
  "option_run [] l = l"
| "option_run (Set_Option prop v # es) l = option_run es (set_option prop v l)"
| "option_run (New_Manager own # es) l = option_run es (snd (new_manager own l))"

section \<open>The manager's parents\<close>

text \<open>The mapping manager is the parent, the application the parent's; either may be missing.\<close>

record ('app, 'm) parent_view =
  pv_self :: 'm
  pv_parent :: "'app option"
  pv_cull_idle_timeout :: int

definition kernel_session_manager_of :: "('app \<Rightarrow> 'k option) \<Rightarrow> ('app, 'm) parent_view option \<Rightarrow> 'k option" where
  "kernel_session_manager_of session_manager parent =
     Option.bind parent (\<lambda>p. Option.bind (pv_parent p) session_manager)"

definition cull_idle_timeout_of :: "('app, 'm) parent_view option \<Rightarrow> int" where
  "cull_idle_timeout_of parent = (case parent of None \<Rightarrow> 0 | Some p \<Rightarrow> pv_cull_idle_timeout p)"

definition mapping_kernel_manager_of :: "('app, 'm) parent_view option \<Rightarrow> 'm option" where
  "mapping_kernel_manager_of parent = map_option pv_self parent"

text \<open>
  \<open>_context_default\<close>: limits of the message library from the environment, where they differ
  from the context's own; \<open>set_opt\<close> is the library's and may refuse a value.
\<close>

record zmq_context =
  zc_max_sockets :: int
  zc_io_threads :: int

definition context_default ::
  "(string \<Rightarrow> int \<Rightarrow> zmq_context \<Rightarrow> zmq_context res) \<Rightarrow> env \<Rightarrow> bool \<Rightarrow> zmq_context \<Rightarrow> zmq_context res" where
  "context_default set_opt environ shared_context ctx =
     (if shared_context
      then rbind (getenv_int environ [''EG_ZMQ_MAX_SOCKETS''] (zc_max_sockets ctx)) (\<lambda>desired.
           rbind (if desired \<noteq> zc_max_sockets ctx then set_opt ''MAX_SOCKETS'' desired ctx else Inr ctx) (\<lambda>ctx1.
           rbind (getenv_int environ [''EG_ZMQ_IO_THREADS''] (zc_io_threads ctx1)) (\<lambda>desired.
             if desired \<noteq> zc_io_threads ctx1 then set_opt ''IO_THREADS'' desired ctx1 else Inr ctx1)))
      else Inr ctx)"

definition kernel_manager_class_default :: string where
  "kernel_manager_class_default = ''enterprise_gateway.services.kernels.remotemanager.RemoteKernelManager''"

section \<open>Settings read on import\<close>

definition getenv_float :: "(string \<Rightarrow> rat option) \<Rightarrow> env \<Rightarrow> string \<Rightarrow> string \<Rightarrow> rat res" where
  "getenv_float to_float e k dflt = of_option ValueError (to_float (getenv e [k] dflt))"

definition getenv_true :: "env \<Rightarrow> string \<Rightarrow> string \<Rightarrow> bool" where
  "getenv_true e k dflt \<longleftrightarrow> lower (getenv e [k] dflt) = ''true''"

definition getenv_int_str :: "env \<Rightarrow> string \<Rightarrow> string \<Rightarrow> int res" where
  "getenv_int_str e k dflt = of_option ValueError (py_int (getenv e [k] dflt))"

record proxy_settings =
  pm_sensitive_env_keys :: "string list"
  pm_redaction_mask :: string
  pm_kernel_launch_timeout :: rat
  pm_max_poll_attempts :: int
  pm_poll_interval :: rat
  pm_socket_timeout :: rat
  pm_tunneling_enabled :: bool
  pm_ssh_port :: int
  pm_response_ip :: "string option"
  pm_desired_response_port :: int
  pm_response_port_retries :: int
  pm_response_addr_any :: bool
  pm_connection_interval :: rat
  pm_min_port_range_size :: int
  pm_max_port_range_retries :: int
  pm_prohibited_local_ips :: "string list"

text \<open>An unreadable number makes the import fail, the first in this order.\<close>

definition read_proxy_settings :: "(string \<Rightarrow> rat option) \<Rightarrow> env \<Rightarrow> proxy_settings res" where
  "read_proxy_settings to_float e =
     rbind (getenv_float to_float e ''EG_KERNEL_LAUNCH_TIMEOUT'' ''30'') (\<lambda>launch_timeout.
     rbind (getenv_int_str e ''EG_MAX_POLL_ATTEMPTS'' ''10'') (\<lambda>attempts.
     rbind (getenv_float to_float e ''EG_POLL_INTERVAL'' ''0.5'') (\<lambda>interval.
     rbind (getenv_float to_float e ''EG_SOCKET_TIMEOUT'' ''0.005'') (\<lambda>socket_timeout.
     rbind (getenv_int_str e ''EG_SSH_PORT'' ''22'') (\<lambda>ssh_port.
     rbind (getenv_int e [''EG_RESPONSE_PORT''] 8877) (\<lambda>response_port.
     rbind (getenv_int e [''EG_RESPONSE_PORT_RETRIES''] 10) (\<lambda>retries.
     rbind (getenv_int_str e ''EG_MIN_PORT_RANGE_SIZE'' ''1000'') (\<lambda>range_size.
     rbind (getenv_int_str e ''EG_MAX_PORT_RANGE_RETRIES'' ''5'') (\<lambda>range_retries.
       Inr \<lparr>pm_sensitive_env_keys = sensitive_keys (getenv e [''EG_SENSITIVE_ENV_KEYS''] []),
            pm_redaction_mask = getenv e [''EG_REDACTION_MASK''] ''********'',
            pm_kernel_launch_timeout = launch_timeout, pm_max_poll_attempts = attempts,
            pm_poll_interval = interval, pm_socket_timeout = socket_timeout,
            pm_tunneling_enabled = getenv_true e ''EG_ENABLE_TUNNELING'' ''False'', pm_ssh_port = ssh_port,
            pm_response_ip = getenv_chain e [''EG_RESPONSE_IP''], pm_desired_response_port = response_port,
            pm_response_port_retries = retries,
            pm_response_addr_any = getenv_true e ''EG_RESPONSE_ADDR_ANY'' ''False'',
            pm_connection_interval = interval / 100, pm_min_port_range_size = range_size,
            pm_max_port_range_retries = range_retries,
            pm_prohibited_local_ips = split_on '','' (getenv e [''EG_PROHIBITED_LOCAL_IPS''] [])\<rparr>)))))))))"

record container_settings =
  cm_prohibited_uids :: "int list"
  cm_prohibited_gids :: "int list"
  cm_mirror_working_dirs :: bool
  cm_kernel_image :: "string option"
  cm_executor_image :: "string option"

definition read_container_settings :: "env \<Rightarrow> container_settings res" where
  "read_container_settings e =
     rbind (parse_prohibited_ids (dget e ''EG_PROHIBITED_UIDS'') ''0'') (\<lambda>uids.
     rbind (parse_prohibited_ids (dget e ''EG_PROHIBITED_GIDS'') ''0'') (\<lambda>gids.
       Inr \<lparr>cm_prohibited_uids = uids, cm_prohibited_gids = gids,
            cm_mirror_working_dirs = getenv_true e ''EG_MIRROR_WORKING_DIRS'' ''false'',
            cm_kernel_image = getenv_chain e [''EG_KERNEL_IMAGE''],
            cm_executor_image = getenv_chain e [''EG_KERNEL_EXECUTOR_IMAGE'']\<rparr>))"

record k8s_settings =
  km_gateway_namespace :: string
  km_default_service_account :: string
  km_cluster_role :: string
  km_share_gateway_namespace :: bool
  km_kpt_dir :: string

definition read_k8s_settings :: "env \<Rightarrow> k8s_settings" where
  "read_k8s_settings e =
     \<lparr>km_gateway_namespace = getenv e [''EG_NAMESPACE''] ''default'',
      km_default_service_account = getenv e [''EG_DEFAULT_KERNEL_SERVICE_ACCOUNT_NAME''] ''default'',
      km_cluster_role = getenv e [''EG_KERNEL_CLUSTER_ROLE''] ''cluster-admin'',
      km_share_gateway_namespace = getenv_true e ''EG_SHARED_NAMESPACE'' ''False'',
      km_kpt_dir = getenv e [''EG_POD_TEMPLATE_DIR''] ''/tmp''\<rparr>"

definition docker_network_setting :: "env \<Rightarrow> string" where
  "docker_network_setting e = getenv e [''EG_DOCKER_NETWORK''] ''bridge''"

section \<open>The session stores' options\<close>

definition KERNEL_SESSIONS_DIR_NAME :: string where
  "KERNEL_SESSIONS_DIR_NAME = ''kernel_sessions''"

text \<open>The directory of the files, created with its parents where it is missing.\<close>

definition get_sessions_loc ::
  "(string \<Rightarrow> 'w \<Rightarrow> bool) \<Rightarrow> (string \<Rightarrow> nat \<Rightarrow> 'w \<Rightarrow> unit res \<times> 'w) \<Rightarrow> string \<Rightarrow> 'w \<Rightarrow> string res \<times> 'w" where
  "get_sessions_loc path_exists makedirs persistence_root w =
     (let path = path_join persistence_root KERNEL_SESSIONS_DIR_NAME in
      if \<not> path_exists path w
      then bindE (makedirs path 493 w) (\<lambda>_ w1. (Inr path, w1))
      else (Inr path, w))"

definition file_persistence_root_default :: "env \<Rightarrow> string \<Rightarrow> string" where
  "file_persistence_root_default e jupyter_data_dir = getenv e [''EG_PERSISTENCE_ROOT''] jupyter_data_dir"

text \<open>The base class has no store of its own.\<close>

definition base_load_sessions :: "'a ksm_scheme \<Rightarrow> unit res \<times> 'a ksm_scheme" where
  "base_load_sessions m = (Inl NotImplementedError, m)"

definition base_load_session :: "string \<Rightarrow> 'a ksm_scheme \<Rightarrow> unit res \<times> 'a ksm_scheme" where
  "base_load_session kernel_id m = (Inl NotImplementedError, m)"

definition base_delete_sessions :: "string list \<Rightarrow> 'a ksm_scheme \<Rightarrow> unit res \<times> 'a ksm_scheme" where
  "base_delete_sessions kernel_ids m = (Inl NotImplementedError, m)"

definition base_save_session :: "string \<Rightarrow> 'a ksm_scheme \<Rightarrow> unit res \<times> 'a ksm_scheme" where
  "base_save_session kernel_id m = (Inl NotImplementedError, m)"

definition webhook_url_default :: "env \<Rightarrow> string option" where
  "webhook_url_default e = getenv_chain e [''EG_WEBHOOK_URL'']"

definition webhook_username_default :: "env \<Rightarrow> string option" where
  "webhook_username_default e = getenv_chain e [''EG_WEBHOOK_USERNAME'']"

definition webhook_password_default :: "env \<Rightarrow> string option" where
  "webhook_password_default e = getenv_chain e [''EG_WEBHOOK_PASSWORD'']"

text \<open>A value of the enumeration is recognised whatever its case, and any other is refused.\<close>

definition auth_type_trait :: "string option \<Rightarrow> string option res" where
  "auth_type_trait v =
     (case v of
        None \<Rightarrow> Inr None
      | Some s \<Rightarrow> (case find (\<lambda>t. lower t = lower s) [''basic'', ''digest''] of
                     None \<Rightarrow> Inl OtherError
                   | Some t \<Rightarrow> Inr (Some t)))"

definition auth_type_default :: "env \<Rightarrow> string option res" where
  "auth_type_default e = auth_type_trait (getenv_chain e [''EG_AUTH_TYPE''])"

section \<open>Building the application\<close>

text \<open>
  The constructors of the configured classes, each with what it is given; the \<open>parent\<close> is the
  application for all of them.
\<close>

record ('s, 'c, 'k, 'ses, 'm, 'w) constructors =
  mk_default_spec_manager :: "'w \<Rightarrow> 's res \<times> 'w"
  mk_spec_manager :: "'w \<Rightarrow> 's res \<times> 'w"
  mk_spec_cache :: "'s \<Rightarrow> 'w \<Rightarrow> 'c res \<times> 'w"
  mk_kernel_manager :: "string option \<Rightarrow> 's \<Rightarrow> 'w \<Rightarrow> 'k res \<times> 'w"
  mk_session_manager :: "'k \<Rightarrow> 'w \<Rightarrow> 'ses res \<times> 'w"
  mk_kernel_session_manager :: "'k \<Rightarrow> 'w \<Rightarrow> 'm res \<times> 'w"

record ('s, 'c, 'k, 'ses, 'm) app_parts =
  ap_spec_manager :: 's
  ap_spec_cache :: 'c
  ap_kernel_manager :: 'k
  ap_session_manager :: 'ses
  ap_kernel_session_manager :: 'm

definition build_parts ::
  "('s, 'c, 'k, 'ses, 'm, 'w) constructors \<Rightarrow> string \<Rightarrow> 'w \<Rightarrow> ('s, 'c, 'k, 'ses, 'm) app_parts res \<times> 'w" where
  "build_parts mk default_kernel_name w =
     bindE (mk_default_spec_manager mk w) (\<lambda>_ w1.
     bindE (mk_spec_manager mk w1) (\<lambda>s w2.
     bindE (mk_spec_cache mk s w2) (\<lambda>c w3.
     bindE (mk_kernel_manager mk (if default_kernel_name \<noteq> [] then Some default_kernel_name else None) s w3) (\<lambda>k w4.
     bindE (mk_session_manager mk k w4) (\<lambda>ses w5.
     bindE (mk_kernel_session_manager mk k w5) (\<lambda>m w6.
       (Inr \<lparr>ap_spec_manager = s, ap_spec_cache = c, ap_kernel_manager = k, ap_session_manager = ses,
             ap_kernel_session_manager = m\<rparr>, w6)))))))"

text \<open>
  \<open>init_configurables\<close>: the parts, the availability mode (whose standalone case revives the
  persisted kernels), the dynamic configuration.
\<close>

definition init_configurables ::
  "('s, 'c, 'k, 'ses, 'a ksm_scheme, 'w) constructors \<Rightarrow> string \<Rightarrow>
   ('a ksm_scheme \<Rightarrow> 'w \<Rightarrow> unit res \<times> 'a ksm_scheme \<times> 'w) \<Rightarrow> string option \<Rightarrow>
   (('s, 'c, 'k, 'ses, 'a ksm_scheme) app_parts \<Rightarrow> 'w \<Rightarrow> unit res \<times> 'w) \<Rightarrow> 'w \<Rightarrow>
   (('s, 'c, 'k, 'ses, 'a ksm_scheme) app_parts \<times> string option) res \<times> 'w" where
  "init_configurables mk default_kernel_name start_sessions availability_mode init_dynamic w =
     bindE (build_parts mk default_kernel_name w) (\<lambda>parts w1.
       case init_availability start_sessions availability_mode (ap_kernel_session_manager parts) w1 of
         (Inl e, mode, m, w2) \<Rightarrow> (Inl e, w2)
       | (Inr _, mode, m, w2) \<Rightarrow>
           let parts' = parts\<lparr>ap_kernel_session_manager := m\<rparr> in
           bindE (init_dynamic parts' w2) (\<lambda>_ w3. (Inr (parts', mode), w3)))"

text \<open>\<open>initialize\<close> and \<open>stop\<close>, whose callback the event loop runs later.\<close>

definition app_initialize ::
  "('w \<Rightarrow> unit res \<times> 'w) \<Rightarrow> ('w \<Rightarrow> unit res \<times> 'w) \<Rightarrow> ('w \<Rightarrow> unit res \<times> 'w) \<Rightarrow> ('w \<Rightarrow> unit res \<times> 'w) \<Rightarrow> 'w \<Rightarrow> unit res \<times> 'w" where
  "app_initialize super_initialize configurables webapp http_server w =
     bindE (super_initialize w) (\<lambda>_ w1. bindE (configurables w1) (\<lambda>_ w2.
     bindE (webapp w2) (\<lambda>_ w3. http_server w3)))"

datatype loop_call = Stop_Server | Stop_Loop

definition app_stop :: "loop_call list list \<Rightarrow> loop_call list list" where
  "app_stop callbacks = callbacks @ [[Stop_Server, Stop_Loop]]"

definition signal_stop :: "loop_call list list \<Rightarrow> loop_call list list" where
  "signal_stop callbacks = callbacks @ [[Stop_Loop]]"

definition app_aliases :: "(string \<times> string) list \<Rightarrow> (string, string) dict" where
  "app_aliases base_aliases =
     dupdate base_aliases
       [(''ip'', ''EnterpriseGatewayApp.ip''), (''port'', ''EnterpriseGatewayApp.port''),
        (''port_retries'', ''EnterpriseGatewayApp.port_retries''), (''keyfile'', ''EnterpriseGatewayApp.keyfile''),
        (''certfile'', ''EnterpriseGatewayApp.certfile''), (''client-ca'', ''EnterpriseGatewayApp.client_ca''),
        (''ssl_version'', ''EnterpriseGatewayApp.ssl_version'')]"

section \<open>Properties\<close>

lemma forward_get: "dget (forward prop v own) k = (if prop \<in> set dependent_props \<and> k = prop then Some v else dget own k)"
  by (auto simp: forward_def)

lemma link_all_get:
  "link_all props app own = Inr m \<Longrightarrow> dget m k = (if k \<in> set props then dget app k else dget own k)"
  by (induction props app own rule: link_all.induct) (auto split: option.splits if_splits)

definition followers :: "linked \<Rightarrow> bool" where
  "followers l \<longleftrightarrow> (\<forall>m \<in> set (ln_managers l). \<forall>k \<in> set dependent_props. dget m k = dget (ln_app l) k)"

lemma assign_option_followers: "followers l \<Longrightarrow> followers (assign_option prop v l)"
  unfolding followers_def assign_option_def by (auto simp: forward_get)

lemma set_option_followers: "followers l \<Longrightarrow> followers (set_option prop v l)"
  by (simp add: set_option_def Let_def assign_option_followers update_env_whitelist_def update_env_process_whitelist_def)

lemma new_manager_followers: "followers l \<Longrightarrow> followers (snd (new_manager own l))"
  by (auto simp: followers_def new_manager_def link_dependent_props_def link_all_get split: sum.splits)

lemma option_run_followers: "followers l \<Longrightarrow> followers (option_run es l)"
  by (induction es l rule: option_run.induct) (simp_all add: set_option_followers new_manager_followers)

text \<open>The value an option was last given; a new value of a deprecated option counts for its successor.\<close>

lemma set_option_app:
  "dget (ln_app (set_option prop v l)) k =
     (if k = prop then Some v
      else if dget (ln_app l) prop \<noteq> Some v
        \<and> (prop = ''env_whitelist'' \<and> k = ''client_envs'' \<or> prop = ''env_process_whitelist'' \<and> k = ''inherited_envs'')
      then Some v else dget (ln_app l) k)"
  unfolding set_option_def Let_def update_env_whitelist_def update_env_process_whitelist_def assign_option_def
  by (cases "dget (ln_app l) prop = Some v"; cases "prop = ''env_whitelist''"; cases "prop = ''env_process_whitelist''") auto

lemma option_run_append: "option_run (es @ fs) l = option_run fs (option_run es l)"
  by (induction es l rule: option_run.induct) simp_all

text \<open>
  C19: However kernels are started and options change, the manager of every kernel has the
  application's value of each linked option: the one just set for that option (under its
  deprecated name too, when that brings a new value), and for every other option the one it had.
\<close>

theorem managers_follow_app:
  assumes "ln_managers l = []" "m \<in> set (ln_managers (option_run (es @ [Set_Option prop v]) l))"
    and "k \<in> set dependent_props"
  shows "dget m k =
    (if k = prop
        \<or> (prop, k) \<in> {(''env_whitelist'', ''client_envs''), (''env_process_whitelist'', ''inherited_envs'')}
          \<and> dget (ln_app (option_run es l)) prop \<noteq> Some v
     then Some v else dget (ln_app (option_run es l)) k)"
proof -
  have "followers (option_run (es @ [Set_Option prop v]) l)"
    using assms(1) by (intro option_run_followers) (simp add: followers_def)
  then have "dget m k = dget (ln_app (set_option prop v (option_run es l))) k"
    using assms(2,3) by (simp add: followers_def option_run_append)
  then show ?thesis by (simp only: set_option_app) auto
qed

text \<open>An application with a value for each linked option, and the manager of a kernel started before the change.\<close>

definition demo_app :: traits where
  "demo_app = map (\<lambda>k. (k, PNone)) dependent_props"

lemma managers_follow_app_witness:
  "map (\<lambda>m. dget m ''client_envs'')
     (ln_managers (option_run [New_Manager [], Set_Option ''env_whitelist'' (PStr ''A'')] \<lparr>ln_app = demo_app, ln_managers = []\<rparr>))
   = [Some (PStr ''A'')]"
proof -
  let ?l = "\<lparr>ln_app = demo_app, ln_managers = []\<rparr>"
  have one: "length (ln_managers (option_run ([New_Manager []] @ [Set_Option ''env_whitelist'' (PStr ''A'')]) ?l)) = 1"
    by code_simp
  then obtain m where m: "ln_managers (option_run ([New_Manager []] @ [Set_Option ''env_whitelist'' (PStr ''A'')]) ?l) = [m]"
    by (auto simp: length_Suc_conv)
  have "dget (ln_app (option_run [New_Manager []] ?l)) ''env_whitelist'' = None" by code_simp
  with managers_follow_app [of ?l m "[New_Manager []]" "''env_whitelist''" "PStr ''A''" "''client_envs''"] m
  show ?thesis by (simp add: dependent_props_def)
qed

text \<open>A manager outside an application keeps its own options and finds no parents.\<close>

lemma standalone_manager:
  "link_dependent_props None own = Inr own" "kernel_session_manager_of f None = None"
  "cull_idle_timeout_of None = 0" "mapping_kernel_manager_of None = None"
  by (simp_all add: link_dependent_props_def kernel_session_manager_of_def cull_idle_timeout_of_def mapping_kernel_manager_of_def)

text \<open>The message context is unchanged without the variables, and in every case ends with what was asked for.\<close>

lemma context_default_spec:
  assumes "\<And>v c. set_opt ''MAX_SOCKETS'' v c = Inr (c\<lparr>zc_max_sockets := v\<rparr>)"
    and "\<And>v c. set_opt ''IO_THREADS'' v c = Inr (c\<lparr>zc_io_threads := v\<rparr>)"
  shows "context_default set_opt environ True ctx =
    rbind (getenv_int environ [''EG_ZMQ_MAX_SOCKETS''] (zc_max_sockets ctx)) (\<lambda>s.
    rbind (getenv_int environ [''EG_ZMQ_IO_THREADS''] (zc_io_threads ctx)) (\<lambda>t.
      Inr (ctx\<lparr>zc_max_sockets := s, zc_io_threads := t\<rparr>)))"
  by (auto simp: context_default_def rbind_def assms split: sum.splits)

text \<open>Both session managers are built over the one kernel manager, the cache over the configured specs.\<close>

lemma build_parts_shares_kernel_manager:
  assumes "build_parts mk name w = (Inr p, w')"
  shows "\<exists>v1 v2 v3 v4. mk_spec_cache mk (ap_spec_manager p) v1 = (Inr (ap_spec_cache p), v2)
    \<and> mk_session_manager mk (ap_kernel_manager p) v3 = (Inr (ap_session_manager p), v4)
    \<and> mk_kernel_session_manager mk (ap_kernel_manager p) v4 = (Inr (ap_kernel_session_manager p), w')"
  using assms by (auto simp: build_parts_def bindE_Inr_iff) blast+

lemma auth_type_any_case: "auth_type_default [(''EG_AUTH_TYPE'', ''Basic'')] = Inr (Some ''basic'')"
  by code_simp

lemma unconfigured_proxy_settings:
  assumes "to_float ''30'' = Some 30" "to_float ''0.5'' = Some (1 / 2)" "to_float ''0.005'' = Some (1 / 200)"
  shows "\<exists>s. read_proxy_settings to_float [] = Inr s \<and> pm_kernel_launch_timeout s = 30 \<and> pm_max_poll_attempts s = 10
    \<and> pm_connection_interval s = 1 / 200 \<and> pm_desired_response_port s = 8877 \<and> \<not> pm_tunneling_enabled s
    \<and> pm_min_port_range_size s = 1000"
proof -
  have ints: "py_int ''10'' = Some 10" "py_int ''22'' = Some 22" "py_int ''1000'' = Some 1000" "py_int ''5'' = Some 5"
    "lower ''False'' = ''false''"
    by code_simp+
  show ?thesis
    by (simp add: read_proxy_settings_def getenv_float_def getenv_int_str_def getenv_int_def getenv_true_def getenv_def
        assms ints of_option_def)
qed

end
