(* ===== verification/LauncherRuntime.thy ===== *)
theory LauncherRuntime
  imports KernelManager PyLauncher ClusterLaunchers ImagePuller Launching ManagerSetup
begin

text \<open>
  What is left of the launchers and of the image puller: the Python launcher's settings from
  the environment the gateway gave it, its import of the kernel class, its background thread
  and its start of the kernel (etc/kernel-launchers/python/scripts/launch_ipykernel.py), the
  files the Kubernetes launchers write, and the constructors of the image fetchers
  (etc/docker/kernel-image-puller).
\<close>

section \<open>The launcher's environment\<close>

definition launcher_min_port_range_size :: "env \<Rightarrow> int res" where
  "launcher_min_port_range_size e =
     of_option ValueError (py_int (getenv e [''MIN_PORT_RANGE_SIZE'', ''EG_MIN_PORT_RANGE_SIZE''] ''1000''))"

definition launcher_max_port_range_retries :: "env \<Rightarrow> int res" where
  "launcher_max_port_range_retries e =
     of_option ValueError (py_int (getenv e [''MAX_PORT_RANGE_RETRIES'', ''EG_MAX_PORT_RANGE_RETRIES''] ''5''))"

text \<open>A level that is not all digits is taken as a name.\<close>

definition launcher_log_level :: "env \<Rightarrow> int res + string" where
  "launcher_log_level e =
     (let level = getenv e [''LOG_LEVEL'', ''EG_LOG_LEVEL''] ''10'' in
      if level \<noteq> [] \<and> list_all is_digit level then Inl (of_option ValueError (py_int level)) else Inr level)"

section \<open>The thread that builds the Spark session\<close>

text \<open>\<open>run\<close> of an \<open>ExceptionThread\<close> keeps the exception of its target.\<close>

definition exception_thread_run :: "('w \<Rightarrow> unit res \<times> 'w) \<Rightarrow> 'w \<Rightarrow> exn option \<times> 'w" where
  "exception_thread_run target w =
     (case target w of (Inl e, w1) \<Rightarrow> (Some e, w1) | (Inr _, w1) \<Rightarrow> (None, w1))"

text \<open>A placeholder: the variable it stands for; \<open>getattr\<close> joins the thread and reads the namespace.\<close>

record placeholder =
  ph_spark_session_variable :: string

definition placeholder_getattr ::
  "('w \<Rightarrow> unit res \<times> 'w) \<Rightarrow> ('w \<Rightarrow> string \<Rightarrow> string \<Rightarrow> 'v res) \<Rightarrow> placeholder \<Rightarrow> string \<Rightarrow> 'w \<Rightarrow> 'v option res \<times> 'w" where
  "placeholder_getattr target lookup p name w =
     (if startswith name ''__'' \<or> startswith name ''_ipython_'' \<or> startswith name ''_repr_'' then (Inr None, w)
      else (case exception_thread_run target w of
              (exc, w1) \<Rightarrow> (waiting_getattr (exc \<noteq> None) (lookup w1 (ph_spark_session_variable p)) name, w1)))"

section \<open>Starting the kernel\<close>

definition DEFAULT_KERNEL_CLASS_NAME :: string where
  "DEFAULT_KERNEL_CLASS_NAME = ''ipykernel.ipkernel.IPythonKernel''"

definition LAUNCHER_VERSION :: int where "LAUNCHER_VERSION = 1"

definition launcher_import_item ::
  "(string \<Rightarrow> 'm res) \<Rightarrow> ('m \<Rightarrow> string \<Rightarrow> 'o option) \<Rightarrow> string \<Rightarrow> ('m, 'o) imported res" where
  "launcher_import_item imp attr name =
     (let parts = rsplit1 CHR ''.'' name in
      if length parts = 2
      then rbind (imp (parts ! 0)) (\<lambda>module.
             case attr module (parts ! 1) of None \<Rightarrow> Inl ImportError | Some pak \<Rightarrow> Inr (Object pak))
      else rbind (imp (parts ! 0)) (\<lambda>module. Inr (Module module)))"

text \<open>
  \<open>start_ipython\<close>: the kernel class is imported first, then the namespace is prepared, the
  kernel runs until it ends, and its connection file is removed whatever that raises.
\<close>

definition start_ipython ::
  "(string \<Rightarrow> ('m, 'o) imported res) \<Rightarrow> bool \<Rightarrow> bool \<Rightarrow>
   (('m, 'o) imported \<Rightarrow> (string, binding) dict \<Rightarrow> 'w \<Rightarrow> unit res \<times> 'w) \<Rightarrow> (string \<Rightarrow> 'w \<Rightarrow> unit res \<times> 'w) \<Rightarrow>
   (string, binding) dict \<Rightarrow> string option \<Rightarrow> string \<Rightarrow> string \<Rightarrow> 'w \<Rightarrow> unit res \<times> 'w" where
  "start_ipython import_class has_pyspark has_dask run_app remove namespace cluster_type kernel_class_name
     connection_file w =
     (case rbind (import_class kernel_class_name) (\<lambda>c.
           rbind (kernel_namespace_of has_pyspark has_dask cluster_type namespace) (\<lambda>ns. Inr (c, ns))) of
        Inl e \<Rightarrow> (Inl e, w)
      | Inr (c, ns) \<Rightarrow> bindE (run_app c ns w) (\<lambda>_ w1. (Inr (), snd (remove connection_file w1))))"

text \<open>The socket for the gateway's requests: one pending connection, five seconds per accept.\<close>

definition prepare_comm_socket ::
  "int \<Rightarrow> 'w os \<Rightarrow> (int \<Rightarrow> nat \<Rightarrow> nat \<Rightarrow> 'w \<Rightarrow> 'w) \<Rightarrow> int \<Rightarrow> int \<Rightarrow> 'w \<Rightarrow> int res \<times> 'w" where
  "prepare_comm_socket max_port_range_retries os listen_with_timeout lower_port upper_port w =
     bindE (launcher_select_socket max_port_range_retries os lower_port upper_port w)
       (\<lambda>port w1. (Inr port, listen_with_timeout port 1 5 w1))"

section \<open>Files of the Kubernetes launchers\<close>

datatype yaml_style = Double_Quoted | Flow | Plain_Value

text \<open>
  The filter for template values: the style depends on the kind of value, what the printer
  gives is stripped, and a plain value loses the document's end mark.
\<close>

definition yaml_safe_str :: "(yaml_style \<Rightarrow> pyval \<Rightarrow> string) \<Rightarrow> pyval \<Rightarrow> string" where
  "yaml_safe_str dump v =
     (case v of
        PStr _ \<Rightarrow> strip (dump Double_Quoted v)
      | PList _ \<Rightarrow> strip (dump Flow v)
      | PDict _ \<Rightarrow> strip (dump Flow v)
      | _ \<Rightarrow> strip (replace ([CHR 0x0A] @ ''...'') [] (dump Plain_Value v)))"

definition write_pod_template ::
  "(string \<Rightarrow> pyval option \<Rightarrow> 'w \<Rightarrow> unit res \<times> 'w) \<Rightarrow> (string \<Rightarrow> string \<Rightarrow> 'w \<Rightarrow> unit res \<times> 'w) \<Rightarrow>
   (string \<Rightarrow> 'w \<Rightarrow> 'w) \<Rightarrow> (pyval \<Rightarrow> string) \<Rightarrow> string option \<Rightarrow> string option \<Rightarrow> pyval option \<Rightarrow> 'w \<Rightarrow>
   unit res \<times> 'w" where
  "write_pod_template write_yaml write_text print_line show_val pod_template_file spark_opts_out pod_template w =
     (case pod_template_file of
        None \<Rightarrow> (Inr (), w)
      | Some f \<Rightarrow>
          if f = [] then (Inr (), w)
          else bindE (write_yaml f pod_template w) (\<lambda>_ w1.
            (case pod_template_options show_val f pod_template of
               Inl e \<Rightarrow> (Inl e, w1)
             | Inr additional_spark_opts \<Rightarrow>
                 (case spark_opts_out of
                    Some out \<Rightarrow> if out \<noteq> [] then write_text out additional_spark_opts w1
                                else (Inr (), print_line additional_spark_opts w1)
                  | None \<Rightarrow> (Inr (), print_line additional_spark_opts w1)))))"

section \<open>Constructing the image fetchers\<close>

record specs_fetcher =
  sf_auth_token :: "string option"
  sf_gateway_host :: string
  sf_validate_cert :: bool

definition specs_fetcher_init :: "env \<Rightarrow> specs_fetcher" where
  "specs_fetcher_init e =
     \<lparr>sf_auth_token = getenv_chain e [''KIP_AUTH_TOKEN''],
      sf_gateway_host = getenv e [''KIP_GATEWAY_HOST''] ''http://localhost:18888'',
      sf_validate_cert = getenv_true e ''KIP_VALIDATE_CERT'' ''False''\<rparr>"

record config_map_fetcher =
  cf_namespace :: string
  cf_name :: string
  cf_key_name :: string

definition config_map_fetcher_init :: "env \<Rightarrow> config_map_fetcher" where
  "config_map_fetcher_init e =
     \<lparr>cf_namespace = getenv e [''KIP_CM_NAMESPACE''] ''enterprise-gateway'',
      cf_name = getenv e [''KIP_CM_NAME''] ''kernel-images'',
      cf_key_name = getenv e [''KIP_CM_KEY_NAME''] ''image-names''\<rparr>"

text \<open>
  The combination looks its fetchers up in the module by name and constructs each, itself
  included when it is named, until the recursion limit of the interpreter (\<open>n\<close> nested
  constructors) raises a \<open>RuntimeError\<close>.  Only the fetcher classes are looked up; the
  module's imports are not considered.
\<close>

datatype fetcher =
    Specs_Fetcher specs_fetcher
  | Static_List_Fetcher
  | Config_Map_Fetcher config_map_fetcher
  | Combined_Fetcher "fetcher list"

function make_fetcher :: "nat \<Rightarrow> env \<Rightarrow> string \<Rightarrow> fetcher res"
  and make_fetchers :: "nat \<Rightarrow> env \<Rightarrow> string list \<Rightarrow> fetcher list res" where
  "make_fetcher n e name =
     (if name = ''KernelSpecsFetcher'' then Inr (Specs_Fetcher (specs_fetcher_init e))
      else if name = ''StaticListFetcher'' then Inr Static_List_Fetcher
      else if name = ''ConfigMapImagesFetcher'' then Inr (Config_Map_Fetcher (config_map_fetcher_init e))
      else if name = ''CombinedImagesFetcher''
      then (case n of
              0 \<Rightarrow> Inl RuntimeError
            | Suc m \<Rightarrow>
                rbind (make_fetchers m e (split_on '','' (getenv e [''KIP_INTERNAL_FETCHERS''] ''KernelSpecsFetcher'')))
                  (\<lambda>fs. Inr (Combined_Fetcher fs)))
      else if name = ''ImageNameFetcher'' then Inl TypeError
      else Inl AttributeError)"
| "make_fetchers n e [] = Inr []"
| "make_fetchers n e (name # names) =
     rbind (make_fetcher n e name) (\<lambda>f. rbind (make_fetchers n e names) (\<lambda>fs. Inr (f # fs)))"
  by pat_completeness auto
termination
  by (relation "measures [case_sum (\<lambda>(n, e, s). n) (\<lambda>(n, e, ns). n),
    case_sum (\<lambda>(n, e, s). 0) (\<lambda>(n, e, ns). Suc (length ns))]") auto

declare make_fetcher.simps [simp del]

text \<open>The names of the workers, and what is queued for them.\<close>

definition initialize_workers :: "int \<Rightarrow> string list" where
  "initialize_workers num_pullers = map (\<lambda>i. ''t'' @ nat_str (i + 1)) [0..<nat num_pullers]"

definition queue_image_names :: "pyval res \<Rightarrow> pyval list \<Rightarrow> bool res \<times> pyval list" where
  "queue_image_names fetched queue =
     (case fetched of
        Inl e \<Rightarrow> (Inl e, queue)
      | Inr names \<Rightarrow>
          if \<not> truthy names then (Inr False, queue)
          else (case py_iter names of Inl e \<Rightarrow> (Inl e, queue) | Inr vs \<Rightarrow> (Inr True, queue @ vs)))"

section \<open>Properties\<close>

text \<open>The two programs import a class by name in the same way.\<close>

lemma rsplit1_length: "length (rsplit1 c s) \<in> {1, 2}"
  by (simp add: rsplit1_def)

lemma launcher_import_is_gateways: "launcher_import_item imp attr name = import_item imp attr name"
proof -
  have "length (rsplit1 CHR ''.'' name) \<in> {1, 2}" by (rule rsplit1_length)
  then consider a where "rsplit1 CHR ''.'' name = [a]" | a b where "rsplit1 CHR ''.'' name = [a, b]"
    by (auto simp: length_Suc_conv numeral_2_eq_2)
  then show ?thesis
    by cases (simp_all add: launcher_import_item_def import_item_def Let_def)
qed

text \<open>A combination that names itself is never constructed, whatever the recursion limit.\<close>

lemma combined_of_itself_raises:
  assumes "split_on '','' (getenv e [''KIP_INTERNAL_FETCHERS''] ''KernelSpecsFetcher'') = ''CombinedImagesFetcher'' # names"
  shows "make_fetcher n e ''CombinedImagesFetcher'' = Inl RuntimeError"
  using assms by (induction n) (simp_all add: make_fetcher.simps)

lemma unconfigured_fetcher:
  "make_fetcher (Suc n) [] ''CombinedImagesFetcher'' =
     Inr (Combined_Fetcher [Specs_Fetcher \<lparr>sf_auth_token = None, sf_gateway_host = ''http://localhost:18888'', sf_validate_cert = False\<rparr>])"
proof -
  have "split_on '','' (getenv [] [''KIP_INTERNAL_FETCHERS''] ''KernelSpecsFetcher'') = [''KernelSpecsFetcher'']"
    "specs_fetcher_init [] = \<lparr>sf_auth_token = None, sf_gateway_host = ''http://localhost:18888'', sf_validate_cert = False\<rparr>"
    by code_simp+
  then show ?thesis by (simp add: make_fetcher.simps)
qed

text \<open>
  The port settings of the gateway reach a launcher that runs in the environment of a remote
  launch, unless the kernelspec or the user has set the launcher's own variables.
\<close>

lemma port_settings_reach_launcher:
  assumes "remote_base_launch to_float c cleanup env tw = (Inr e, tw')"
    and "dget env ''MIN_PORT_RANGE_SIZE'' = None" "dget env ''MAX_PORT_RANGE_RETRIES'' = None"
  shows "launcher_min_port_range_size e = Inr (ls_min_port_range_size c)
    \<and> launcher_max_port_range_retries e = Inr (ls_max_port_range_retries c)"
proof -
  let ?env = "dset ''EG_MAX_PORT_RANGE_RETRIES'' (int_str (ls_max_port_range_retries c))
    (dset ''EG_MIN_PORT_RANGE_SIZE'' (int_str (ls_min_port_range_size c)) env)"
  obtain tw1 where b: "base_launch_process to_float c (Some ?env) tw = (Inr e, tw1)"
    using assms(1) by (auto simp: remote_base_launch_def remote_launch_process_def bindE_Inr_iff)
  note keeps = base_launch_checked (2) [OF b]
  have "dget e ''MIN_PORT_RANGE_SIZE'' = None" "dget e ''MAX_PORT_RANGE_RETRIES'' = None"
    "dget e ''EG_MIN_PORT_RANGE_SIZE'' = Some (int_str (ls_min_port_range_size c))"
    "dget e ''EG_MAX_PORT_RANGE_RETRIES'' = Some (int_str (ls_max_port_range_retries c))"
    by (subst keeps; simp add: assms(2,3))+
  then show ?thesis
    by (simp add: launcher_min_port_range_size_def launcher_max_port_range_retries_def getenv_def of_option_def)
qed

text \<open>
  C35: A port range that the gateway accepts when it constructs a remote proxy is accepted, with
  the same bounds, by a launcher that runs in the environment of that proxy's launch, whatever
  minimal size the gateway is configured with; the launcher also retries as often as the gateway
  would.  This is for launches whose environment sets neither of the launcher's own variables
  MIN_PORT_RANGE_SIZE and MAX_PORT_RANGE_RETRIES, which take precedence over what the gateway
  passes along.
\<close>

theorem accepted_port_range_is_used:
  assumes "validate_port_range (ls_min_port_range_size c) global_range config_range = Inr (lower_port, upper_port, port_range)"
    and "remote_base_launch to_float c cleanup env tw = (Inr e, tw')"
    and "dget env ''MIN_PORT_RANGE_SIZE'' = None" "dget env ''MAX_PORT_RANGE_RETRIES'' = None"
  shows "rbind (launcher_min_port_range_size e) (\<lambda>m. launcher_validate_port_range m (Some port_range))
      = Inr (lower_port, upper_port)
    \<and> launcher_max_port_range_retries e = Inr (ls_max_port_range_retries c)"
proof -
  have "parse_range [] = Inl ValueError" by code_simp
  then have "launcher_validate_port_range (ls_min_port_range_size c) (Some port_range) = Inr (lower_port, upper_port)"
    using assms(1)
    by (auto simp: validate_port_range_def launcher_validate_port_range_def Let_def split: sum.splits if_splits option.splits)
  with port_settings_reach_launcher [OF assms(2-4)] show ?thesis by simp
qed

lemma accepted_port_range_is_used_witness:
  "case remote_base_launch (\<lambda>_. None) (demo_setup\<lparr>ls_min_port_range_size := 50\<rparr>) (\<lambda>w. w)
      [(''KERNEL_USERNAME'', ''bob'')] (30, ()) of
    (r, _) \<Rightarrow> \<exists>e. r = Inr e \<and>
      rbind (launcher_min_port_range_size e) (\<lambda>m. launcher_validate_port_range m (Some ''40000..40050'')) = Inr (40000, 40050)"
proof -
  let ?c = "demo_setup\<lparr>ls_min_port_range_size := 50\<rparr>"
  have v: "validate_port_range (ls_min_port_range_size ?c) ''40000..40050'' None = Inr (40000, 40050, ''40000..40050'')"
    by code_simp
  have "\<not> isl (fst (remote_base_launch (\<lambda>_. None) ?c (\<lambda>w. w) [(''KERNEL_USERNAME'', ''bob'')] (30, ())))"
    by code_simp
  then obtain e tw' where l: "remote_base_launch (\<lambda>_. None) ?c (\<lambda>w. w) [(''KERNEL_USERNAME'', ''bob'')] (30, ()) = (Inr e, tw')"
    by (cases "remote_base_launch (\<lambda>_. None) ?c (\<lambda>w. w) [(''KERNEL_USERNAME'', ''bob'')] (30, ())";
        cases "fst (remote_base_launch (\<lambda>_. None) ?c (\<lambda>w. w) [(''KERNEL_USERNAME'', ''bob'')] (30, ()))") auto
  have "dget [(''KERNEL_USERNAME'', ''bob'')] ''MIN_PORT_RANGE_SIZE'' = None"
    "dget [(''KERNEL_USERNAME'', ''bob'')] ''MAX_PORT_RANGE_RETRIES'' = None" by simp_all
  from accepted_port_range_is_used [OF v l this] l show ?thesis by simp
qed

text \<open>
  A kernelspec or a client that sets the launcher's own variable can make it refuse a range that
  the gateway has accepted.
\<close>

lemma own_minimum_refuses_range:
  "validate_port_range 50 ''40000..40050'' None = Inr (40000, 40050, ''40000..40050'')
   \<and> rbind (launcher_min_port_range_size [(''MIN_PORT_RANGE_SIZE'', ''100''), (''EG_MIN_PORT_RANGE_SIZE'', ''50'')])
       (\<lambda>m. launcher_validate_port_range m (Some ''40000..40050'')) = Inl RuntimeError"
  by code_simp

text \<open>A kernel that cannot be imported is not run, and leaves its connection file.\<close>

lemma start_ipython_import_fails:
  assumes "import_class name = Inl e"
  shows "start_ipython import_class sp da run_app remove ns ct name f w = (Inl e, w)"
  using assms by (simp add: start_ipython_def)

text \<open>A placeholder answers \<open>None\<close> to meta names without waiting, and an error once the session failed.\<close>

lemma placeholder_after_failure:
  assumes "target w = (Inl e, w1)"
  shows "placeholder_getattr target lookup p name w =
    (if startswith name ''__'' \<or> startswith name ''_ipython_'' \<or> startswith name ''_repr_'' then (Inr None, w)
     else (Inl RuntimeError, w1))"
  using assms by (simp add: placeholder_getattr_def exception_thread_run_def waiting_getattr_def)

end
