(* ===== verification/EndToEnd.thy ===== *)
theory EndToEnd
  imports Launching ManagerSetup
begin

text \<open>
  Properties that follow a kernel request through all of its stations: the handler
  (services/kernels/handlers.py), the manager (services/kernels/remotemanager.py) and the
  process proxy (services/processproxies/processproxy.py).
\<close>

section \<open>The client's variables in the process\<close>

text \<open>The variables the gateway itself decides about on the way.\<close>

definition gateway_variables :: "string list" where
  "gateway_variables =
     [''KERNEL_ID'', ''KERNEL_GATEWAY'', ''KERNEL_LANGUAGE'', ''KERNEL_USERNAME'', ''EG_IMPERSONATION_ENABLED'',
      ''EG_MIN_PORT_RANGE_SIZE'', ''EG_MAX_PORT_RANGE_RETRIES'', ''EG_AUTH_TOKEN'', ''KG_AUTH_TOKEN'',
      ''EG_REMOTE_PWD'', ''LS_COLORS'']"

lemma dict_ok_filter: "dict_ok d \<Longrightarrow> dict_ok (filter P d)"
  by (simp add: dict_ok_def distinct_map_filter)


lemma captured_value:
  assumes "dict_ok env"
  shows "dget (capture_user_overrides inherited client env []) k =
    (if startswith k ''KERNEL_'' \<or> k \<in> set inherited \<or> k \<in> set client then dget env k else None)"
  using assms by (simp add: capture_user_overrides_def dget_dupdate dict_ok_filter dget_filter_keys split: option.splits)

text \<open>
  What a variable of a remote launch is in the environment the launcher is started with, when the
  manager hands it \<open>v\<close> for it: the gateway removes four variables, sets six and gives two a default.
\<close>

definition process_value :: "launch_setup \<Rightarrow> string \<Rightarrow> string option \<Rightarrow> string option" where
  "process_value c k v =
     (if k \<in> {''EG_AUTH_TOKEN'', ''KG_AUTH_TOKEN'', ''EG_REMOTE_PWD'', ''LS_COLORS''} then None
      else if k = ''KERNEL_ID'' then Some (ls_kernel_id c)
      else if k = ''KERNEL_GATEWAY'' then Some ''1''
      else if k = ''EG_IMPERSONATION_ENABLED'' then Some (py_bool_str (ls_impersonation c))
      else if k = ''EG_MIN_PORT_RANGE_SIZE'' then Some (int_str (ls_min_port_range_size c))
      else if k = ''EG_MAX_PORT_RANGE_RETRIES'' then Some (int_str (ls_max_port_range_retries c))
      else if k = ''KERNEL_USERNAME'' then Some (case v of None \<Rightarrow> ls_getuser c | Some u \<Rightarrow> u)
      else if k = ''KERNEL_LANGUAGE''
      then Some (case v of None \<Rightarrow> if ls_language c = [] then ''unknown-kernel-language'' else lower (ls_language c)
                         | Some l \<Rightarrow> l)
      else v)"

lemma process_value_other: "k \<notin> set gateway_variables \<Longrightarrow> process_value c k v = v"
  by (simp add: process_value_def gateway_variables_def)

lemma remote_launch_value:
  assumes "remote_base_launch to_float c cleanup (launch_env overrides env) tw = (Inr p, tw')" "dict_ok overrides"
  shows "dget p k = process_value c k (case dget overrides k of Some v \<Rightarrow> Some v | None \<Rightarrow> dget env k)"
proof -
  let ?env = "dset ''EG_MAX_PORT_RANGE_RETRIES'' (int_str (ls_max_port_range_retries c))
    (dset ''EG_MIN_PORT_RANGE_SIZE'' (int_str (ls_min_port_range_size c)) (launch_env overrides env))"
  obtain tw1 where b: "base_launch_process to_float c (Some ?env) tw = (Inr p, tw1)"
    using assms(1) by (auto simp: remote_base_launch_def remote_launch_process_def bindE_Inr_iff)
  then obtain x where "enforce_authorization (ls_impersonation c) (ls_getuser c) (ls_auth c)
      (base_launch_env (ls_kernel_id c) (ls_language c) ?env) = (Inr x, p)"
    by (auto simp: base_launch_process_def Let_def split: prod.splits sum.splits if_splits)
  note auth = enforce_authorization_env [OF this, of k]
  have base: "dget (base_launch_env (ls_kernel_id c) (ls_language c) ?env) k =
      (if k \<in> {''EG_REMOTE_PWD'', ''LS_COLORS''} then None
       else if k = ''KERNEL_ID'' then Some (ls_kernel_id c)
       else if k = ''KERNEL_LANGUAGE'' then Some (dget_or ?env k
         (if ls_language c = [] then ''unknown-kernel-language'' else lower (ls_language c)))
       else dget ?env k)"
    by (simp add: base_launch_env_def env_pop_list_def Let_def dget_or_def dget_pop_all)
  have env: "dget ?env k =
      (if k = ''EG_MAX_PORT_RANGE_RETRIES'' then Some (int_str (ls_max_port_range_retries c))
       else if k = ''EG_MIN_PORT_RANGE_SIZE'' then Some (int_str (ls_min_port_range_size c))
       else if k \<in> {''EG_AUTH_TOKEN'', ''KG_AUTH_TOKEN''} then None
       else if k = ''KERNEL_GATEWAY'' then Some ''1''
       else case dget overrides k of Some v \<Rightarrow> Some v | None \<Rightarrow> dget env k)"
    using assms(2) by (simp add: launch_env_def dget_dupdate)
  show ?thesis
    unfolding auth dget_or_def base env process_value_def by (simp split: option.splits)
qed

lemma remote_launch_keeps:
  assumes "remote_base_launch to_float c cleanup (launch_env overrides env) tw = (Inr p, tw')"
    and "dict_ok overrides" "k \<notin> set gateway_variables"
  shows "dget p k = (case dget overrides k of Some v \<Rightarrow> Some v | None \<Rightarrow> dget env k)"
  using remote_launch_value [OF assms(1,2)] assms(3) by (simp add: process_value_other)

lemma build_kernel_env_value:
  assumes "build_kernel_env os_environ inherited client e = Inr env" "dict_ok e"
  shows "map_option PStr (dget env k) =
    (case (if client_env_allowed client (dkeys e) k then dget e k else None) of
       Some v \<Rightarrow> Some v
     | None \<Rightarrow> map_option PStr (if k \<in> set inherited then dget os_environ k else None))"
proof -
  let ?allowed = "client_env_allowed client (dkeys e)"
  have c: "dget env k = (if ?allowed k
      then (case dget e k of
              None \<Rightarrow> dget [(k, v) \<leftarrow> os_environ. k \<in> set inherited] k
            | Some v \<Rightarrow> (case check_env_value v of Inl e \<Rightarrow> None | Inr s \<Rightarrow> Some s))
      else dget [(k, v) \<leftarrow> os_environ. k \<in> set inherited] k)"
    and all: "(k, v) \<in> set e \<Longrightarrow> ?allowed k \<Longrightarrow> \<exists>s. check_env_value v = Inr s" for v
    using collect_env_ok [OF assms(1) [unfolded build_kernel_env_def] assms(2)] by blast+
  show ?thesis
  proof (cases "?allowed k \<and> dget e k \<noteq> None")
    case True
    then obtain v where v: "dget e k = Some v" by blast
    moreover obtain s where "check_env_value v = Inr s"
      using all [OF map_of_SomeD [OF v]] True by blast
    ultimately have "dget e k = Some v" "check_env_value v = Inr s" by simp_all
    with True c show ?thesis by (simp add: check_env_value_cases(1))
  next
    case False
    with c show ?thesis by (auto simp: dget_filter_keys)
  qed
qed






text \<open>
  With \<open>*\<close> as the only allowed name the handler lets every variable of the client through, but
  the manager compares names literally: a variable of another name is no override, and the value
  of the kernelspec replaces the client's.
\<close>

lemma wildcard_is_no_override:
  assumes "dict_ok env" "\<not> startswith k ''KERNEL_''" "k \<notin> set inherited" "k \<noteq> ''*''" "k \<notin> set gateway_variables"
    and "remote_base_launch to_float c cleanup (launch_env (capture_user_overrides inherited [''*''] env []) spec_env) tw = (Inr p, tw')"
  shows "client_env_allowed [''*''] (k # ks) k \<and> dget p k = dget spec_env k"
  using remote_launch_keeps [OF assms(6) _ assms(5)] captured_value [OF assms(1), of inherited "[''*'']" k] assms(2-4)
  by (simp add: client_env_allowed_def capture_user_overrides_def)

section \<open>Configuration changes and the handlers\<close>

text \<open>
  The handlers read the settings the application made of its options when it was built; the
  managers follow the options.  After a change of the allowed variables the handler still filters
  by the old list: a variable that is newly allowed is dropped before a manager sees it.
\<close>

definition names_of :: "pyval option \<Rightarrow> string list" where
  "names_of v = (case v of Some (PList vs) \<Rightarrow> List.map_filter (\<lambda>x. case x of PStr s \<Rightarrow> Some s | _ \<Rightarrow> None) vs | _ \<Rightarrow> [])"

lemma stale_handler_drops_allowed:
  assumes "k \<notin> set (names_of (dget (web_settings opts) ''eg_client_envs''))" "\<not> startswith k ''KERNEL_''"
    and "names_of (dget (web_settings opts) ''eg_client_envs'') \<noteq> [''*'']"
    and "m \<in> set (ln_managers (set_option ''client_envs'' (PList (map PStr (k # ks))) l))" "followers l"
    and "build_kernel_env os_environ [] (names_of (dget (web_settings opts) ''eg_client_envs'')) e = Inr env" "dict_ok e"
  shows "k \<in> set (names_of (dget m ''client_envs'')) \<and> dget env k = None"
proof -
  have "dget m ''client_envs'' = Some (PList (map PStr (k # ks)))"
    using set_option_followers [OF assms(5)] assms(4) by (simp add: followers_def set_option_app dependent_props_def)
  moreover have "map_option PStr (dget env k) = None"
    using build_kernel_env_value [OF assms(6,7), of k] assms(1-3) by (simp add: client_env_allowed_def)
  ultimately show ?thesis by (simp add: names_of_def List.map_filter_simps)
qed

end
