(* ===== verification/Handlers.thy ===== *)
theory Handlers
  imports SpecCache Authorization ResponseManager
begin

text \<open>
  The request handlers of the REST API that are not in \<open>KernelRequest\<close>: kernel specifications
  (services/kernelspecs/handlers.py), kernels (services/kernels/handlers.py), versions
  (base/handlers.py) and the API's own description (services/api/handlers.py), and the tables of routes that make up the web application.
  The base handlers of jupyter_server and tornado are arguments; the switch of the session list is in \<open>ApiSessions\<close>.
\<close>

section \<open>Kernel specifications\<close>

text \<open>The query parameter \<open>user\<close>: its values as bytes, the first of which counts.\<close>

definition kernel_user_of :: "string list option \<Rightarrow> string option res" where
  "kernel_user_of user_arguments =
     (case user_arguments of
        Some (raw # _) \<Rightarrow> rbind (decode_text raw) (\<lambda>u. Inr (Some u))
      | _ \<Rightarrow> Inr None)"

text \<open>
  \<open>is_model\<close> and \<open>as_model\<close> recognize an item that already is a model, \<open>kernelspec_model\<close> makes
  one of a name, a specification and its directory.
\<close>

record model_ops =
  mo_is_model :: "spec_item \<Rightarrow> bool"
  mo_as_model :: "spec_item \<Rightarrow> pyval"
  mo_kernelspec_model :: "string \<Rightarrow> (string, pyval) dict \<Rightarrow> string \<Rightarrow> pyval res"

definition model_of :: "model_ops \<Rightarrow> string \<Rightarrow> spec_item \<Rightarrow> pyval res" where
  "model_of ops kernel_name info =
     (if mo_is_model ops info then Inr (mo_as_model ops info)
      else mo_kernelspec_model ops kernel_name (si_spec info) (si_resource_dir info))"

text \<open>A specification whose model or filter raises is left out of the list.\<close>

fun list_specs ::
  "model_ops \<Rightarrow> string list \<Rightarrow> string list \<Rightarrow> string option \<Rightarrow> (string, spec_item) dict \<Rightarrow>
   (string, pyval) dict \<Rightarrow> (string, pyval) dict" where
  "list_specs ops authorized unauthorized kernel_user [] specs = specs"
| "list_specs ops authorized unauthorized kernel_user ((kernel_name, info) # kspecs) specs =
     list_specs ops authorized unauthorized kernel_user kspecs
       (case rbind (model_of ops kernel_name info)
               (\<lambda>d. apply_user_filter d authorized unauthorized kernel_user) of
          Inr (Some d) \<Rightarrow> dset kernel_name d specs
        | Inr None \<Rightarrow> specs
        | Inl _ \<Rightarrow> specs)"

definition main_kernel_spec_get ::
  "model_ops \<Rightarrow> 'w spec_manager \<Rightarrow> string list \<Rightarrow> string list \<Rightarrow> string list option \<Rightarrow> cache \<Rightarrow> 'w \<Rightarrow>
   (string, pyval) dict res \<times> cache" where
  "main_kernel_spec_get ops mgr authorized unauthorized user_arguments c w =
     (case kernel_user_of user_arguments of
        Inl e \<Rightarrow> (Inl e, c)
      | Inr kernel_user \<Rightarrow>
          (case get_all_specs mgr c w of
             (kspecs, c1) \<Rightarrow> (Inr (list_specs ops authorized unauthorized kernel_user kspecs []), c1)))"

definition kernel_spec_get ::
  "model_ops \<Rightarrow> 'w spec_manager \<Rightarrow> (spec_item \<Rightarrow> bool) \<Rightarrow> (string \<Rightarrow> string) \<Rightarrow> string list \<Rightarrow> string list \<Rightarrow>
   string list option \<Rightarrow> string \<Rightarrow> cache \<Rightarrow> 'w \<Rightarrow> pyval res \<times> cache" where
  "kernel_spec_get ops mgr readable url_unescape authorized unauthorized user_arguments raw_name c w =
     (let kernel_name = url_unescape raw_name in
      case kernel_user_of user_arguments of
        Inl e \<Rightarrow> (Inl e, c)
      | Inr kernel_user \<Rightarrow>
          (case get_kernel_spec mgr readable kernel_name c w of
             (Inl KeyError, c1) \<Rightarrow> (Inl (HTTPError 404), c1)
           | (Inl e, c1) \<Rightarrow> (Inl e, c1)
           | (Inr spec, c1) \<Rightarrow>
               (rbind (model_of ops kernel_name spec) (\<lambda>model.
                rbind (apply_user_filter model authorized unauthorized kernel_user) (\<lambda>d.
                  case d of None \<Rightarrow> Inl (HTTPError 403) | Some _ \<Rightarrow> Inr model)), c1)))"

text \<open>
  A file of a specification's directory; \<open>serve root path include_body\<close> is tornado's handler of
  static files.
\<close>

definition kernel_spec_resource_get ::
  "'w spec_manager \<Rightarrow> (spec_item \<Rightarrow> bool) \<Rightarrow> (string \<Rightarrow> string \<Rightarrow> bool \<Rightarrow> 'w \<Rightarrow> 'r res) \<Rightarrow> string \<Rightarrow> string \<Rightarrow> bool \<Rightarrow>
   cache \<Rightarrow> 'w \<Rightarrow> 'r res \<times> cache" where
  "kernel_spec_resource_get mgr readable serve kernel_name path include_body c w =
     (case get_kernel_spec mgr readable kernel_name c w of
        (Inl KeyError, c1) \<Rightarrow> (Inl (HTTPError 404), c1)
      | (Inl e, c1) \<Rightarrow> (Inl e, c1)
      | (Inr spec, c1) \<Rightarrow> (serve (si_resource_dir spec) path include_body w, c1))"

definition kernel_spec_resource_head ::
  "'w spec_manager \<Rightarrow> (spec_item \<Rightarrow> bool) \<Rightarrow> (string \<Rightarrow> string \<Rightarrow> bool \<Rightarrow> 'w \<Rightarrow> 'r res) \<Rightarrow> string \<Rightarrow> string \<Rightarrow>
   cache \<Rightarrow> 'w \<Rightarrow> 'r res \<times> cache" where
  "kernel_spec_resource_head mgr readable serve kernel_name path c w =
     kernel_spec_resource_get mgr readable serve kernel_name path False c w"

section \<open>Kernels, versions, the description of the API\<close>

text \<open>\<open>check\<close> is \<open>check_kernel_id\<close> of the kernel manager.\<close>

definition kernel_get ::
  "(string \<Rightarrow> 's \<Rightarrow> unit res \<times> 's) \<Rightarrow> (string \<Rightarrow> 's \<Rightarrow> 'm res \<times> 's) \<Rightarrow> string \<Rightarrow> 's \<Rightarrow> 'm res \<times> 's" where
  "kernel_get check kernel_model kernel_id s = bindE (check kernel_id s) (\<lambda>_ s1. kernel_model kernel_id s1)"

definition kernel_delete ::
  "(string \<Rightarrow> 's \<Rightarrow> unit res \<times> 's) \<Rightarrow> (string \<Rightarrow> 's \<Rightarrow> unit res \<times> 's) \<Rightarrow> string \<Rightarrow> 's \<Rightarrow> unit res \<times> 's" where
  "kernel_delete check super_delete kernel_id s = bindE (check kernel_id s) (\<lambda>_ s1. super_delete kernel_id s1)"

definition channels_get ::
  "(string \<Rightarrow> 's \<Rightarrow> unit res \<times> 's) \<Rightarrow> (string \<Rightarrow> 's \<Rightarrow> unit res \<times> 's) \<Rightarrow> string \<Rightarrow> 's \<Rightarrow> unit res \<times> 's" where
  "channels_get check super_get kernel_id s = bindE (check kernel_id s) (\<lambda>_ s1. super_get kernel_id s1)"

definition api_version_get :: "string \<Rightarrow> string \<Rightarrow> (string, pyval) dict" where
  "api_version_get jupyter_server_version gateway_version =
     [(''version'', PStr jupyter_server_version), (''gateway_version'', PStr gateway_version)]"

definition not_found_prepare :: "unit res" where
  "not_found_prepare = Inl (HTTPError 404)"

text \<open>The description of the API: a file next to the module, with its type set before it is served.\<close>

type_synonym resource_metadata = "string \<times> string"

definition spec_json_metadata :: resource_metadata where
  "spec_json_metadata = (''swagger.json'', ''application/json'')"

definition api_yaml_metadata :: resource_metadata where
  "api_yaml_metadata = (''swagger.yaml'', ''text/x-yaml'')"

definition base_spec_get ::
  "(string \<Rightarrow> (string, string) dict \<Rightarrow> 'r res) \<Rightarrow> resource_metadata \<Rightarrow> (string, string) dict \<Rightarrow> 'r res" where
  "base_spec_get serve metadata headers =
     (case metadata of (resource_name, content_type) \<Rightarrow>
        serve resource_name (dset ''Content-Type'' content_type headers))"

section \<open>Handler classes\<close>

text \<open>
  A class lists the methods it defines and its bases in the order Python searches them; the
  mixins define the methods below, the classes of jupyter_server and tornado all others.
\<close>

datatype base_class = Token_Authorization | CORS | JSON_Errors | Base_Spec | Base_Class string

record handler_class =
  hc_name :: string
  hc_methods :: "string list"
  hc_bases :: "base_class list"

fun base_methods :: "base_class \<Rightarrow> string list" where
  "base_methods Token_Authorization = [''prepare'']"
| "base_methods CORS = [''set_default_headers'', ''options'']"
| "base_methods JSON_Errors = [''write_error'']"
| "base_methods Base_Spec = [''initialize'', ''get'', ''options'']"
| "base_methods (Base_Class c) = []"

datatype provider = Own | Inherited base_class | External

fun find_base :: "string \<Rightarrow> base_class list \<Rightarrow> provider" where
  "find_base m [] = External"
| "find_base m (b # bs) = (if m \<in> set (base_methods b) then Inherited b else find_base m bs)"

definition method_provider :: "handler_class \<Rightarrow> string \<Rightarrow> provider" where
  "method_provider c m = (if m \<in> set (hc_methods c) then Own else find_base m (hc_bases c))"

type_synonym route = "string \<times> handler_class"

section \<open>The tables of routes\<close>

definition mixed_in :: "string \<Rightarrow> string list \<Rightarrow> string list \<Rightarrow> handler_class" where
  "mixed_in cls methods bases =
     \<lparr>hc_name = cls, hc_methods = methods,
      hc_bases = [Token_Authorization, CORS, JSON_Errors] @ map Base_Class bases\<rparr>"

definition kernel_classes :: "(string, handler_class) dict" where
  "kernel_classes =
     [(''MainKernelHandler'', mixed_in ''MainKernelHandler''
        [''client_envs'', ''inherited_envs'', ''_build_kernel_env'', ''_build_kernel_headers'', ''post'', ''get'', ''options'']
        [''jupyter_server MainKernelHandler'']),
      (''KernelHandler'', mixed_in ''KernelHandler'' [''options'', ''get'', ''delete''] [''jupyter_server KernelHandler'']),
      (''ZMQChannelsHandler'', mixed_in ''ZMQChannelsHandler'' [''get''] [''jupyter_server ZMQChannelsHandler''])]"

definition session_classes :: "(string, handler_class) dict" where
  "session_classes =
     [(''SessionRootHandler'', mixed_in ''SessionRootHandler'' [''get''] [''jupyter_server SessionRootHandler''])]"

text \<open>
  The loop at the end of the modules for kernels and sessions: a class of the same name takes
  the place of jupyter_server's, every other class becomes a new one with the mixins in front.
\<close>

fun extend_handlers :: "base_class list \<Rightarrow> (string, handler_class) dict \<Rightarrow> (string \<times> string) list \<Rightarrow> route list" where
  "extend_handlers mixins own [] = []"
| "extend_handlers mixins own ((path, cls) # rest) =
     (path, case dget own cls of
              Some c \<Rightarrow> c
            | None \<Rightarrow> \<lparr>hc_name = cls, hc_methods = [], hc_bases = mixins @ [Base_Class cls]\<rparr>)
     # extend_handlers mixins own rest"

definition default_kernel_handlers :: "(string \<times> string) list \<Rightarrow> route list" where
  "default_kernel_handlers jupyter =
     extend_handlers [Token_Authorization, CORS, JSON_Errors] kernel_classes jupyter"

definition default_session_handlers :: "(string \<times> string) list \<Rightarrow> route list" where
  "default_session_handlers jupyter = extend_handlers [Token_Authorization, CORS] session_classes jupyter"

text \<open>The pattern \<open>(?P<kernel_name>[\w\.\-%]+)\<close>.\<close>

definition kernel_name_regex :: string where
  "kernel_name_regex = ''(?P<kernel_name>['' @ [CHR 0x5C] @ ''w'' @ [CHR 0x5C] @ ''.'' @ [CHR 0x5C] @ ''-%]+)''"

definition default_kernelspec_handlers :: "route list" where
  "default_kernelspec_handlers =
     [(''/api/kernelspecs'', mixed_in ''MainKernelSpecHandler'' [''kernel_spec_cache'', ''get''] [''APIHandler'']),
      (''/api/kernelspecs/'' @ kernel_name_regex, mixed_in ''KernelSpecHandler'' [''kernel_spec_cache'', ''get''] [''APIHandler'']),
      (''/kernelspecs/'' @ kernel_name_regex @ ''/(?P<path>.*)'',
       mixed_in ''KernelSpecResourceHandler'' [''kernel_spec_cache'', ''initialize'', ''get'', ''head'']
         [''StaticFileHandler'', ''JupyterHandler''])]"

definition spec_class :: "string \<Rightarrow> handler_class" where
  "spec_class cls = \<lparr>hc_name = cls, hc_methods = [''get_resource_metadata''],
     hc_bases = [Base_Spec, CORS, Base_Class ''StaticFileHandler'']\<rparr>"

definition default_api_handlers :: "route list" where
  "default_api_handlers =
     [(''/api/'' @ fst spec_json_metadata, spec_class ''SpecJsonHandler''),
      (''/api/'' @ fst api_yaml_metadata, spec_class ''APIYamlHandler'')]"

definition NotFoundHandler :: handler_class where
  "NotFoundHandler = \<lparr>hc_name = ''NotFoundHandler'', hc_methods = [''prepare''],
     hc_bases = [JSON_Errors, Base_Class ''RequestHandler'']\<rparr>"

definition default_base_handlers :: "route list" where
  "default_base_handlers =
     [(''/api'', mixed_in ''APIVersionHandler'' [''get''] [''APIHandler'']), (''/(.*)'', NotFoundHandler)]"

text \<open>The order in which the application registers them; the first pattern that matches serves a request.\<close>

definition all_handlers :: "(string \<times> string) list \<Rightarrow> (string \<times> string) list \<Rightarrow> route list" where
  "all_handlers jupyter_kernels jupyter_sessions =
     default_api_handlers @ default_kernel_handlers jupyter_kernels @ default_kernelspec_handlers
       @ default_session_handlers jupyter_sessions @ default_base_handlers"

fun route_request :: "(string \<Rightarrow> string \<Rightarrow> bool) \<Rightarrow> route list \<Rightarrow> string \<Rightarrow> route option" where
  "route_request matches [] path = None"
| "route_request matches ((pattern, c) # routes) path =
     (if matches pattern path then Some (pattern, c) else route_request matches routes path)"

text \<open>
  An \<open>OPTIONS\<close> request calls the method with the groups of the pattern as arguments: the mixin's
  takes none, those the classes define take any.
\<close>

definition options_answer :: "(string \<Rightarrow> nat) \<Rightarrow> (handler_class \<Rightarrow> unit res) \<Rightarrow> route \<Rightarrow> unit res" where
  "options_answer groups external r =
     (case method_provider (snd r) ''options'' of
        Own \<Rightarrow> Inr ()
      | Inherited CORS \<Rightarrow> if groups (fst r) = 0 then Inr () else Inl TypeError
      | Inherited _ \<Rightarrow> Inr ()
      | External \<Rightarrow> external (snd r))"

section \<open>Properties: routes\<close>

lemma route_request_Some:
  "route_request matches routes path = Some r \<Longrightarrow>
   \<exists>before after. routes = before @ r # after \<and> matches (fst r) path \<and> (\<forall>q\<in>set before. \<not> matches (fst q) path)"
proof (induction routes)
  case (Cons q routes)
  show ?case
  proof (cases "matches (fst q) path")
    case True
    with Cons.prems show ?thesis by (cases q) (auto intro: exI [of _ "[]"])
  next
    case False
    with Cons obtain before after where "routes = before @ r # after" "matches (fst r) path"
      "\<forall>q\<in>set before. \<not> matches (fst q) path" by (cases q) auto
    with False show ?thesis by (intro exI [of _ "q # before"] exI [of _ after]) auto
  qed
qed simp

lemma extended_prepare:
  assumes "r \<in> set (extend_handlers mixins own jupyter)" "Token_Authorization \<in> set mixins"
    and "\<And>n c. dget own n = Some c \<Longrightarrow> method_provider c ''prepare'' = Inherited Token_Authorization"
  shows "method_provider (snd r) ''prepare'' = Inherited Token_Authorization"
proof -
  have "find_base ''prepare'' (bs @ cs) = Inherited Token_Authorization" if "Token_Authorization \<in> set bs" for bs cs
    using that
  proof (induction bs)
    case (Cons b bs)
    then show ?case by (cases b) auto
  qed simp
  note mixed = this
  from assms(1) show ?thesis
  proof (induction jupyter)
    case (Cons j jupyter)
    obtain p n where j: "j = (p, n)" by (cases j)
    show ?case
    proof (cases "dget own n")
      case None
      then have "r \<in> set (extend_handlers mixins own jupyter) \<or>
          snd r = \<lparr>hc_name = n, hc_methods = [], hc_bases = mixins @ [Base_Class n]\<rparr>"
        using Cons.prems j by auto
      then show ?thesis using Cons.IH mixed [OF assms(2)] by (auto simp: method_provider_def)
    next
      case (Some c)
      then have "r \<in> set (extend_handlers mixins own jupyter) \<or> snd r = c" using Cons.prems j by auto
      then show ?thesis using Cons.IH assms(3) [OF Some] by blast
    qed
  qed simp
qed

lemma own_classes_prepare:
  "dget kernel_classes n = Some c \<Longrightarrow> method_provider c ''prepare'' = Inherited Token_Authorization"
  "dget session_classes n = Some c \<Longrightarrow> method_provider c ''prepare'' = Inherited Token_Authorization"
  by (auto simp: kernel_classes_def session_classes_def mixed_in_def method_provider_def split: if_splits)

lemma kernel_routes_prepare:
  "r \<in> set (default_kernel_handlers j) \<Longrightarrow> method_provider (snd r) ''prepare'' = Inherited Token_Authorization"
  unfolding default_kernel_handlers_def by (rule extended_prepare [OF _ _ own_classes_prepare(1)], assumption, simp_all)

lemma session_routes_prepare:
  "r \<in> set (default_session_handlers j) \<Longrightarrow> method_provider (snd r) ''prepare'' = Inherited Token_Authorization"
  unfolding default_session_handlers_def by (rule extended_prepare [OF _ _ own_classes_prepare(2)], assumption, simp_all)

lemma kernelspec_routes_prepare:
  "r \<in> set default_kernelspec_handlers \<Longrightarrow> method_provider (snd r) ''prepare'' = Inherited Token_Authorization"
  by (auto simp: default_kernelspec_handlers_def mixed_in_def method_provider_def)

text \<open>
  C16: Whatever jupyter_server's tables hold, a request whose handler does not check the token
  is one for the description of the API, or one that no other route matches and that is
  answered with 404.
\<close>

theorem untokened_routes:
  assumes "route_request matches (all_handlers jupyter_kernels jupyter_sessions) path = Some r"
    and "method_provider (snd r) ''prepare'' \<noteq> Inherited Token_Authorization"
  shows "fst r \<in> {''/api/swagger.json'', ''/api/swagger.yaml''} \<or>
    snd r = NotFoundHandler \<and>
    (\<forall>q\<in>set (all_handlers jupyter_kernels jupyter_sessions). matches (fst q) path \<longrightarrow> q = r)"
proof -
  let ?all = "all_handlers jupyter_kernels jupyter_sessions"
  obtain before after where split: "?all = before @ r # after" "matches (fst r) path"
    "\<forall>q\<in>set before. \<not> matches (fst q) path" using route_request_Some [OF assms(1)] by blast
  have "r \<in> set ?all" using split(1) by simp
  moreover have no: "r \<notin> set (default_kernel_handlers jupyter_kernels)"
    "r \<notin> set (default_session_handlers jupyter_sessions)" "r \<notin> set default_kernelspec_handlers"
    using assms(2) kernel_routes_prepare session_routes_prepare kernelspec_routes_prepare by blast+
  ultimately consider "r \<in> set default_api_handlers" | "r \<in> set default_base_handlers"
    by (auto simp: all_handlers_def)
  then show ?thesis
  proof cases
    case 1
    then show ?thesis by (auto simp: default_api_handlers_def spec_json_metadata_def api_yaml_metadata_def)
  next
    case 2
    then have r: "r = (''/(.*)'', NotFoundHandler)"
      using assms(2) by (auto simp: default_base_handlers_def mixed_in_def method_provider_def)
    let ?version = "(''/api'', mixed_in ''APIVersionHandler'' [''get''] [''APIHandler''])"
    let ?init = "default_api_handlers @ default_kernel_handlers jupyter_kernels @ default_kernelspec_handlers
      @ default_session_handlers jupyter_sessions @ [?version]"
    have "r \<notin> set ?init"
      using no by (auto simp: r default_api_handlers_def spec_class_def NotFoundHandler_def)
    moreover have "?init @ r # [] = before @ r # after"
      using split(1) by (simp add: all_handlers_def default_base_handlers_def r)
    ultimately have "?init = before" "[] = after" using append_Cons_eq_iff [of r ?init "[]" before after] by simp_all
    then have "q \<in> set before \<or> q = r" if "q \<in> set ?all" for q using split(1) that by auto
    then show ?thesis using split(3) r by auto
  qed
qed

text \<open>A table of jupyter_server's as the witnesses use it: patterns are compared literally.\<close>

definition demo_kernel_table :: "(string \<times> string) list" where
  "demo_kernel_table = [(''/api/kernels'', ''MainKernelHandler''), (''/api/kernels/id/action'', ''KernelActionHandler'')]"

lemma untokened_routes_witness:
  "set (map snd (filter (\<lambda>q. fst q = ''/api/other'' \<or> fst q = ''/(.*)'') (all_handlers demo_kernel_table [])))
     \<subseteq> {NotFoundHandler}"
proof -
  have "route_request (\<lambda>p x. p = x \<or> p = ''/(.*)'') (all_handlers demo_kernel_table []) ''/api/other'' =
      Some (''/(.*)'', NotFoundHandler)"
    by code_simp
  moreover have "method_provider (snd (''/(.*)'', NotFoundHandler)) ''prepare'' \<noteq> Inherited Token_Authorization"
    by code_simp
  ultimately have "fst (''/(.*)'', NotFoundHandler) \<in> {''/api/swagger.json'', ''/api/swagger.yaml''} \<or>
      snd (''/(.*)'', NotFoundHandler) = NotFoundHandler \<and>
      (\<forall>q\<in>set (all_handlers demo_kernel_table []). (fst q = ''/api/other'' \<or> fst q = ''/(.*)'') \<longrightarrow> q = (''/(.*)'', NotFoundHandler))"
    by (rule untokened_routes)
  moreover have "fst (''/(.*)'', NotFoundHandler) \<notin> {''/api/swagger.json'', ''/api/swagger.yaml''}" by simp
  ultimately have all: "\<forall>q\<in>set (all_handlers demo_kernel_table []).
      (fst q = ''/api/other'' \<or> fst q = ''/(.*)'') \<longrightarrow> q = (''/(.*)'', NotFoundHandler)" by blast
  show ?thesis
  proof (rule subsetI)
    fix h assume "h \<in> set (map snd (filter (\<lambda>q. fst q = ''/api/other'' \<or> fst q = ''/(.*)'') (all_handlers demo_kernel_table [])))"
    then obtain q where "q \<in> set (all_handlers demo_kernel_table [])" "fst q = ''/api/other'' \<or> fst q = ''/(.*)''" "h = snd q"
      unfolding set_map set_filter by blast
    with all show "h \<in> {NotFoundHandler}" by (metis insertI1 snd_conv)
  qed
qed

text \<open>
  A pre-flight request for a route with groups in its pattern fails with a \<open>TypeError\<close> wherever
  the class does not define \<open>options\<close> itself: so for the actions on a kernel, for the websocket,
  for a single kernel specification and for a single session.
\<close>

lemma preflight_with_groups_fails:
  assumes "method_provider c ''options'' = Inherited CORS" "0 < groups p"
  shows "options_answer groups ext (p, c) = Inl TypeError"
  using assms by (simp add: options_answer_def)

lemma generated_options:
  "find_base ''options'' ([Token_Authorization, CORS] @ bs) = Inherited CORS"
  by simp

lemma generated_kernel_options:
  assumes "dget kernel_classes n = None" "r \<in> set (default_kernel_handlers [(p, n)])"
  shows "method_provider (snd r) ''options'' = Inherited CORS"
  using assms generated_options [of "[JSON_Errors, Base_Class n]"]
  by (simp add: default_kernel_handlers_def method_provider_def)

lemma generated_session_options:
  assumes "dget session_classes n = None" "r \<in> set (default_session_handlers [(p, n)])"
  shows "method_provider (snd r) ''options'' = Inherited CORS"
  using assms generated_options [of "[Base_Class n]"]
  by (simp add: default_session_handlers_def method_provider_def)

lemma channels_options:
  "method_provider (the (dget kernel_classes ''ZMQChannelsHandler'')) ''options'' = Inherited CORS"
  by code_simp

lemma kernelspec_options:
  "\<forall>r\<in>set default_kernelspec_handlers. method_provider (snd r) ''options'' = Inherited CORS"
  by code_simp

section \<open>Properties: kernel specifications\<close>

lemma dget_dset_eq: "dget (dset k v d) j = (if j = k then Some v else dget d j)"
  by simp

lemma list_specs_spec:
  "dict_ok kspecs \<Longrightarrow>
   dget (list_specs ops a u user kspecs specs) k =
     (case dget kspecs k of
        None \<Rightarrow> dget specs k
      | Some info \<Rightarrow>
          (case rbind (model_of ops k info) (\<lambda>d. apply_user_filter d a u user) of
             Inr (Some d) \<Rightarrow> Some d
           | _ \<Rightarrow> dget specs k))"
proof (induction kspecs arbitrary: specs)
  case (Cons x kspecs)
  obtain n info where x: "x = (n, info)" by (cases x)
  have ok: "dict_ok kspecs" and n: "dget kspecs n = None"
    using Cons.prems x by (simp_all add: dict_ok_def map_of_eq_None_iff)
  show ?case
    using n by (simp add: x Cons.IH [OF ok] split: sum.splits option.splits)
qed simp

text \<open>The listing of the cache, when it is exact, or of the manager.\<close>

lemma filter_gives_model:
  "apply_user_filter m a u user = Inr (Some d) \<Longrightarrow> d = m"
  by (auto simp: apply_user_filter_def filter_authorized_def Let_def rbind_Inr_iff
      split: option.splits if_splits sum.splits exn.splits)

lemma put_item_dict_ok: "dict_ok (cache_items c) \<Longrightarrow> dict_ok (cache_items (put_item n i c))"
  by (simp add: put_item_def Let_def)

lemma put_all_items_dict_ok: "dict_ok (cache_items c) \<Longrightarrow> dict_ok (cache_items (put_all_items items c))"
  by (induction items c rule: put_all_items.induct) (simp_all add: put_item_dict_ok)

lemma remove_item_dict_ok: "dict_ok (cache_items c) \<Longrightarrow> dict_ok (cache_items (snd (remove_item n c)))"
  by (simp add: remove_item_def)

lemma get_item_items [simp]: "cache_items (snd (get_item readable n c)) = cache_items c"
  by (simp add: get_item_def Let_def)

lemma lookup_dict_ok:
  "dict_ok (cache_items c) \<Longrightarrow> dict_ok (cache_items (snd (get_kernel_spec mgr readable n c w)))"
  using get_item_items [of readable n c]
  by (auto simp: get_kernel_spec_def put_item_dict_ok simp del: get_item_items split: prod.splits option.splits sum.splits)

lemma listing_dict_ok:
  "dict_ok (cache_items c) \<Longrightarrow> dict_ok (cache_items (snd (get_all_specs mgr c w)))"
  by (simp add: get_all_specs_def get_all_items_def Let_def put_all_items_dict_ok)

lemma on_written_dict_ok: "dict_ok (cache_items c) \<Longrightarrow> dict_ok (cache_items (on_written mgr n c w))"
  by (simp add: on_written_def put_item_dict_ok split: sum.split)

lemma on_moved_dict_ok: "dict_ok (cache_items c) \<Longrightarrow> dict_ok (cache_items (snd (on_moved m n dir c)))"
  using remove_item_dict_ok [of c m] by (auto simp: on_moved_def put_item_dict_ok split: prod.split option.split)

lemma dispatch_dict_ok: "dict_ok (cache_items c) \<Longrightarrow> dict_ok (cache_items (snd (dispatch mgr event c w)))"
  by (cases event) (simp_all add: dispatch_def on_written_dict_ok on_moved_dict_ok remove_item_dict_ok)

lemma history_dict_ok: "cache_history mgr disk readable c w \<Longrightarrow> dict_ok (cache_items c)"
proof (induction rule: cache_history.induct)
  case (ch_start w)
  show ?case by (simp add: cache_initialize_def Let_def put_all_items_dict_ok)
next
  case (ch_write c w f w' item event r c')
  then show ?case using dispatch_dict_ok [of c mgr event w'] by simp
next
  case (ch_delete c w f w' r c')
  then show ?case using dispatch_dict_ok [of c mgr "Deleted f" w'] by simp
next
  case (ch_move c w f item w' g r c')
  then show ?case using dispatch_dict_ok [of c mgr "Moved f g" w'] by simp
next
  case (ch_lookup c w n r c')
  then show ?case using lookup_dict_ok [of c mgr readable n w] by simp
next
  case (ch_list c w d c')
  then show ?case using listing_dict_ok [of c mgr w] by simp
qed

lemma listing_reads_disk:
  assumes "manager_reads mgr disk e" "cache_history mgr disk readable c w" "get_all_specs mgr c w = (d, c')"
    and "lower k = k"
  shows "dict_ok d \<and> dget d k = disk w k"
proof -
  have exact: "dget (cache_items c) k = disk w k" and on: "cache_enabled c"
    using history_exact [OF assms(1,2)] assms(4) by (auto simp: cache_exact_def) metis
  have m: "dict_ok (sm_get_all mgr w)" "dget (sm_get_all mgr w) k = disk w k"
    using assms(1) by (simp_all add: manager_reads_def)
  show ?thesis
    using assms(3) exact on m history_dict_ok [OF assms(2)]
    by (auto simp: get_all_specs_def get_all_items_def Let_def split: if_splits)
qed

text \<open>
  What \<open>KernelSpecManager\<close> documents with an allow list (its former \<open>whitelist\<close>): the listing leaves out
  what is not on the list, the lookup of one name does not look at the list.  An empty list
  allows all.
\<close>

definition manager_lists ::
  "'w spec_manager \<Rightarrow> ('w \<Rightarrow> string \<Rightarrow> spec_item option) \<Rightarrow> string list \<Rightarrow> exn \<Rightarrow> bool" where
  "manager_lists mgr disk allowed no_such_kernel \<longleftrightarrow>
     (\<forall>n w. sm_get mgr n w = of_option no_such_kernel (disk w (lower n)))
     \<and> (\<forall>w. dict_ok (sm_get_all mgr w)
          \<and> (\<forall>k. dget (sm_get_all mgr w) k = (if allowed = [] \<or> k \<in> set allowed then disk w k else None))
          \<and> (\<forall>k\<in>set (dkeys (sm_get_all mgr w)). lower k = k))"

lemma manager_lists_all: "manager_lists mgr disk [] e \<longleftrightarrow> manager_reads mgr disk e"
  by (simp add: manager_lists_def manager_reads_def)

lemma uncached_lookup: "\<not> cache_enabled c \<Longrightarrow> fst (get_kernel_spec mgr readable n c w) = sm_get mgr n w"
  by (simp add: get_kernel_spec_def get_item_def split: sum.split)

lemma uncached_listing: "\<not> cache_enabled c \<Longrightarrow> fst (get_all_specs mgr c w) = sm_get_all mgr w"
  by (simp add: get_all_specs_def get_all_items_def Let_def)

text \<open>What the two requests read, with the cache disabled or exact.\<close>

lemma requests_read_disk:
  assumes "manager_lists mgr disk allowed KeyError"
    and "\<not> cache_enabled c \<or> allowed = [] \<and> cache_history mgr disk readable c w"
    and "get_all_specs mgr c w = (d, c1)" "get_kernel_spec mgr readable k c w = (s, c2)" "lower k = k"
  shows "dict_ok d" "dget d k = (if allowed = [] \<or> k \<in> set allowed then disk w k else None)"
    "s = of_option KeyError (disk w k)"
proof -
  have get: "sm_get mgr k w = of_option KeyError (disk w k)"
    using assms(1,5) by (simp add: manager_lists_def)
  have "dict_ok d \<and> dget d k = (if allowed = [] \<or> k \<in> set allowed then disk w k else None) \<and> s = of_option KeyError (disk w k)"
  proof (cases "cache_enabled c")
    case False
    have "d = sm_get_all mgr w" "s = sm_get mgr k w"
      using uncached_listing [OF False, of mgr w] uncached_lookup [OF False, of mgr readable k w] assms(3,4) by simp_all
    then show ?thesis using assms(1) get by (simp add: manager_lists_def)
  next
    case True
    then have h: "allowed = []" "cache_history mgr disk readable c w" using assms(2) by simp_all
    then have m: "manager_reads mgr disk KeyError" using assms(1) by (simp add: manager_lists_all)
    have "s = sm_get mgr k w" using lookup_exact [OF m history_exact [OF m h(2)] assms(4)] by simp
    with listing_reads_disk [OF m h(2) assms(3,5)] get h(1) show ?thesis by simp
  qed
  then show "dict_ok d" "dget d k = (if allowed = [] \<or> k \<in> set allowed then disk w k else None)"
    "s = of_option KeyError (disk w k)" by simp_all
qed

text \<open>
  C22: The list of kernel specifications agrees with the lookup of each, with the cache disabled
  (the default) and any allow list, and with the cache enabled, no allow list and every change of
  a kernel.json followed by its event before the requests: a user finds a specification in the
  list exactly when the request for it alone succeeds, with the same model, and the allow list,
  which the lookup does not look at, has it; an unknown name is answered with 404.
\<close>

theorem listing_agrees_with_lookup:
  assumes "manager_lists mgr disk allowed KeyError"
    and "\<not> cache_enabled c \<or> allowed = [] \<and> cache_history mgr disk readable c w"
    and "url_unescape raw = k" "lower k = k"
    and "main_kernel_spec_get ops mgr a u user c w = (Inr specs, c1)"
    and "kernel_spec_get ops mgr readable url_unescape a u user raw c w = (r, c2)"
  shows "(\<forall>m. dget specs k = Some m \<longleftrightarrow> r = Inr m \<and> (allowed = [] \<or> k \<in> set allowed)) \<and>
    (disk w k = None \<longrightarrow> r = Inl (HTTPError 404))"
proof -
  obtain ku where ku: "kernel_user_of user = Inr ku"
    using assms(5) by (cases "kernel_user_of user") (simp_all add: main_kernel_spec_get_def)
  obtain d c3 where l: "get_all_specs mgr c w = (d, c3)" by (metis surj_pair)
  have specs: "specs = list_specs ops a u ku d []" using assms(5) ku l by (simp add: main_kernel_spec_get_def)
  obtain s c4 where g: "get_kernel_spec mgr readable k c w = (s, c4)" by (metis surj_pair)
  note reads = requests_read_disk [OF assms(1,2) l g assms(4)]
  note disk = reads(1,2) and s = reads(3)
  note listed = list_specs_spec [of d ops a u ku "[]" k]
  show ?thesis
  proof (cases "disk w k")
    case None
    then have "r = Inl (HTTPError 404)" using assms(3,6) ku g s by (simp add: kernel_spec_get_def Let_def)
    then show ?thesis using None listed disk specs by simp
  next
    case (Some item)
    have r: "r = rbind (model_of ops k item) (\<lambda>model. rbind (apply_user_filter model a u ku)
        (\<lambda>d. case d of None \<Rightarrow> Inl (HTTPError 403) | Some _ \<Rightarrow> Inr model))"
      using Some assms(3,6) ku g s by (simp add: kernel_spec_get_def Let_def)
    have "dget specs k = (if allowed = [] \<or> k \<in> set allowed
      then (case rbind (model_of ops k item) (\<lambda>d. apply_user_filter d a u ku) of
        Inr (Some d) \<Rightarrow> Some d | _ \<Rightarrow> None) else None)"
      using listed disk specs Some by (simp split: sum.split option.split)
    then show ?thesis using Some
      by (cases "model_of ops k item"; cases "apply_user_filter (projr (model_of ops k item)) a u ku")
        (auto simp: r dest: filter_gives_model split: option.splits)
  qed
qed

text \<open>The disk of the demo manager with its kernel, whose model is its \<open>spec\<close>; bob may not see it.\<close>

definition demo_models :: model_ops where
  "demo_models = \<lparr>mo_is_model = \<lambda>i. False, mo_as_model = \<lambda>i. PNone,
     mo_kernelspec_model = \<lambda>n spec dir. Inr (PDict [(''name'', PStr n), (''spec'', PDict spec)])\<rparr>"

definition allowing_manager :: "spec_item option spec_manager" where
  "allowing_manager = SpecCache.demo_manager\<lparr>sm_get_all := \<lambda>w. []\<rparr>"

lemma allowing_manager_lists: "manager_lists allowing_manager demo_disk [''r''] KeyError"
  by (auto simp: manager_lists_def allowing_manager_def SpecCache.demo_manager_def demo_disk_def dict_ok_def dkeys_def)

text \<open>
  With the cache enabled a lookup puts a specification that the allow list has not into the list
  of all later requests.
\<close>

lemma lookup_defeats_allow_list:
  "let c = cache_initialize allowing_manager True (Some demo_item) in
   fst (get_all_specs allowing_manager c (Some demo_item)) = []
   \<and> fst (get_all_specs allowing_manager (snd (get_kernel_spec allowing_manager (\<lambda>_. True) ''py'' c (Some demo_item)))
       (Some demo_item)) = [(''py'', demo_item)]"
  by code_simp

text \<open>The list of a cached manager, and that of an uncached one whose allow list has another kernel.\<close>

lemma listing_agrees_with_lookup_witness:
  "(\<forall>m. dget [(''py'', PDict [(''name'', PStr ''py''), (''spec'', PDict (si_spec demo_item))])] ''py'' = Some m \<longleftrightarrow>
      fst (kernel_spec_get demo_models SpecCache.demo_manager (\<lambda>_. True) (\<lambda>n. n) [] [''bob''] (Some [''alice'']) ''py''
        (cache_initialize SpecCache.demo_manager True (Some demo_item)) (Some demo_item)) = Inr m)
   \<and> dget (projr (fst (main_kernel_spec_get demo_models allowing_manager [] [] None
        (cache_initialize allowing_manager False (Some demo_item)) (Some demo_item)))) ''py'' = None"
proof -
  have h: "cache_history SpecCache.demo_manager demo_disk (\<lambda>_. True) (cache_initialize SpecCache.demo_manager True (Some demo_item)) (Some demo_item)"
    by (rule ch_start)
  obtain r c2 where g: "kernel_spec_get demo_models SpecCache.demo_manager (\<lambda>_. True) (\<lambda>n. n) [] [''bob''] (Some [''alice'']) ''py''
      (cache_initialize SpecCache.demo_manager True (Some demo_item)) (Some demo_item) = (r, c2)" by (metis surj_pair)
  have l: "main_kernel_spec_get demo_models SpecCache.demo_manager [] [''bob''] (Some [''alice''])
      (cache_initialize SpecCache.demo_manager True (Some demo_item)) (Some demo_item) =
      (Inr [(''py'', PDict [(''name'', PStr ''py''), (''spec'', PDict (si_spec demo_item))])],
       cache_initialize SpecCache.demo_manager True (Some demo_item))"
    by code_simp
  have py: "lower ''py'' = ''py''" by code_simp
  have m: "manager_lists SpecCache.demo_manager demo_disk [] KeyError"
    using demo_manager_reads by (simp add: manager_lists_all)
  have 1: "\<forall>m. dget [(''py'', PDict [(''name'', PStr ''py''), (''spec'', PDict (si_spec demo_item))])] ''py'' = Some m \<longleftrightarrow> r = Inr m"
    using listing_agrees_with_lookup [OF m _ refl py l g] h by simp
  let ?c = "cache_initialize allowing_manager False (Some demo_item)"
  have off: "\<not> cache_enabled ?c" by code_simp
  obtain r' c3 where g': "kernel_spec_get demo_models allowing_manager (\<lambda>_. True) (\<lambda>n. n) [] [] None ''py'' ?c (Some demo_item)
      = (r', c3)" by (metis surj_pair)
  obtain specs c4 where l': "main_kernel_spec_get demo_models allowing_manager [] [] None ?c (Some demo_item) = (Inr specs, c4)"
    by (cases "get_all_specs allowing_manager ?c (Some demo_item)") (simp add: main_kernel_spec_get_def kernel_user_of_def)
  have "dget specs ''py'' = None"
    using listing_agrees_with_lookup [OF allowing_manager_lists _ refl py l' g'] off by (cases "dget specs ''py''") simp_all
  with 1 g l' show ?thesis by simp
qed

end
