(* ===== verification/GatewayClient.thy ===== *)
theory GatewayClient
  imports Complex_Main Codecs Authorization
begin

text \<open>
  The client (client/gateway_client.py): starting a kernel over REST, the websocket of a kernel
  whose reader thread sorts responses into queues by the request they answer, and the execution
  of code.  HTTP and websockets are operations of the system.
\<close>

section \<open>Messages\<close>

definition DEAD_MSG_ID :: string where
  "DEAD_MSG_ID = ''deadbeefdeadbeefdeadbeefdeadbeef''"

definition POST_IDLE_TIMEOUT :: rat where
  "POST_IDLE_TIMEOUT = 1 / 2"

definition KERNEL_LAUNCH_TIMEOUT :: "(string, string) dict \<Rightarrow> string" where
  "KERNEL_LAUNCH_TIMEOUT environ = dget_or environ ''KERNEL_LAUNCH_TIMEOUT'' ''40''"

definition DEFAULT_USERNAME :: "(string, string) dict \<Rightarrow> string" where
  "DEFAULT_USERNAME environ = dget_or environ ''KERNEL_USERNAME'' ''bob''"

definition get_msg_id :: "pyval \<Rightarrow> pyval res" where
  "get_msg_id message =
     (if \<not> truthy message then Inr (PStr DEAD_MSG_ID)
      else
        rbind (py_item message ''parent_header'') (\<lambda>parent.
        rbind (py_in ''msg_id'' parent) (\<lambda>b.
        rbind (if b then rbind (py_item parent ''msg_id'') (\<lambda>i. Inr (truthy i)) else Inr False) (\<lambda>in_parent.
          if in_parent then py_item parent ''msg_id''
          else rbind (py_in ''msg_id'' message) (\<lambda>in_message.
            if in_message then py_item message ''msg_id'' else Inr (PStr DEAD_MSG_ID))))))"

text \<open>Output of Python 2 kernels; the last character goes too.\<close>

definition convert_raw_response :: "pyval \<Rightarrow> pyval" where
  "convert_raw_response raw =
     (case raw of
        PStr s \<Rightarrow> if contains (''u'' @ [CHR 0x27]) s then PStr (butlast (replace (''u'' @ [CHR 0x27]) [] s)) else raw
      | _ \<Rightarrow> raw)"

text \<open>\<open>tornado.escape.json_encode\<close>\<close>

definition json_encode :: "pyval \<Rightarrow> string res" where
  "json_encode v = rbind (dumps v) (\<lambda>s. Inr (replace ''</'' (''<'' @ [CHR 0x5C] @ ''/'') s))"

definition execute_request :: "string \<Rightarrow> string \<Rightarrow> pyval" where
  "execute_request msg_id source =
     PDict [(''header'', PDict [(''username'', PStr []), (''version'', PStr ''5.0''), (''session'', PStr []),
              (''msg_id'', PStr msg_id), (''msg_type'', PStr ''execute_request'')]),
            (''parent_header'', PDict []), (''channel'', PStr ''shell''),
            (''content'', PDict [(''code'', PStr source), (''silent'', PBool False), (''store_history'', PBool False),
              (''user_expressions'', PDict []), (''allow_stdin'', PBool False)]),
            (''metadata'', PDict []), (''buffers'', PDict [])]"

section \<open>The client's state\<close>

text \<open>
  The reader thread: not started, reading, waiting for a restart to end, or ended.  A dict of
  queues is replaced by nothing when it is cleared at shutdown.
\<close>

datatype reader_thread = Not_Started | Reading | Waiting_Restart | Ended

type_synonym queues = "(pyval, pyval list) dict"

record kernel_client =
  kc_shutting_down :: bool
  kc_restarting :: bool
  kc_http_api_endpoint :: string
  kc_ws_api_endpoint :: string
  kc_kernel_id :: string
  kc_socket :: "nat option"
  kc_queues :: "queues option"
  kc_has_reader :: bool
  kc_thread :: reader_thread

definition kernel_http_api_endpoint :: "kernel_client \<Rightarrow> string" where
  "kernel_http_api_endpoint k = kc_http_api_endpoint k @ ''/'' @ kc_kernel_id k"

definition kernel_ws_api_endpoint :: "kernel_client \<Rightarrow> string" where
  "kernel_ws_api_endpoint k = kc_ws_api_endpoint k @ ''/'' @ kc_kernel_id k @ ''/channels''"

text \<open>
  Requests answer a status and a body whose JSON may be broken; \<open>join\<close> waits for the reader for
  two seconds and may change the thread (it ends once its socket is closed).
\<close>

record 'w client_ops =
  co_post :: "string \<Rightarrow> string option \<Rightarrow> 'w \<Rightarrow> (nat \<times> pyval res) res \<times> 'w"
  co_get :: "string \<Rightarrow> 'w \<Rightarrow> (nat \<times> pyval res) res \<times> 'w"
  co_delete :: "string \<Rightarrow> 'w \<Rightarrow> (nat \<times> pyval res) res \<times> 'w"
  co_connect :: "string \<Rightarrow> 'w \<Rightarrow> nat res \<times> 'w"
  co_close :: "nat \<Rightarrow> 'w \<Rightarrow> unit res \<times> 'w"
  co_join :: "reader_thread \<Rightarrow> 'w \<Rightarrow> reader_thread \<times> 'w"
  co_send :: "nat \<Rightarrow> string \<Rightarrow> 'w \<Rightarrow> unit res \<times> 'w"

section \<open>Starting and ending\<close>

definition close_socket :: "'w client_ops \<Rightarrow> kernel_client \<Rightarrow> 'w \<Rightarrow> unit res \<times> kernel_client \<times> 'w" where
  "close_socket ops k w =
     (case kc_socket k of
        None \<Rightarrow> (Inr (), k, w)
      | Some s \<Rightarrow> (case co_close ops s w of
                    (Inl e, w1) \<Rightarrow> (Inl e, k, w1)
                  | (Inr _, w1) \<Rightarrow> (Inr (), k\<lparr>kc_socket := None\<rparr>, w1)))"

text \<open>Joining a thread that was never started raises.\<close>

definition join_reader :: "'w client_ops \<Rightarrow> kernel_client \<Rightarrow> 'w \<Rightarrow> unit res \<times> kernel_client \<times> 'w" where
  "join_reader ops k w =
     (if \<not> kc_has_reader k then (Inr (), k, w)
      else if kc_thread k = Not_Started then (Inl RuntimeError, k, w)
      else (case co_join ops (kc_thread k) w of
              (t, w1) \<Rightarrow> (Inr (), k\<lparr>kc_thread := t, kc_has_reader := False\<rparr>, w1)))"

definition delete_request :: "'w client_ops \<Rightarrow> kernel_client \<Rightarrow> 'w \<Rightarrow> bool res \<times> kernel_client \<times> 'w" where
  "delete_request ops k w =
     (case co_delete ops (kernel_http_api_endpoint k) w of
        (Inl e, w1) \<Rightarrow> (Inl e, k, w1)
      | (Inr (status, _), w1) \<Rightarrow> (if status = 204 then Inr True else Inl RuntimeError, k, w1))"

definition client_shutdown :: "'w client_ops \<Rightarrow> kernel_client \<Rightarrow> 'w \<Rightarrow> bool res \<times> kernel_client \<times> 'w" where
  "client_shutdown ops k w =
     (case close_socket ops (k\<lparr>kc_shutting_down := True\<rparr>) w of
        (Inl e, k1, w1) \<Rightarrow> (Inl e, k1, w1)
      | (Inr _, k1, w1) \<Rightarrow>
          (let k2 = (case kc_queues k1 of
                       None \<Rightarrow> k1 | Some q \<Rightarrow> if q \<noteq> [] then k1\<lparr>kc_queues := None\<rparr> else k1) in
           case join_reader ops k2 w1 of
             (Inl e, k3, w2) \<Rightarrow> (Inl e, k3, w2)
           | (Inr _, k3, w2) \<Rightarrow> delete_request ops k3 w2))"

text \<open>
  \<open>KernelClient.__init__\<close>: when the websocket cannot be opened the client shuts down and raises
  the reason, unless the shutdown raises itself.
\<close>

definition new_kernel_client ::
  "'w client_ops \<Rightarrow> string \<Rightarrow> string \<Rightarrow> string \<Rightarrow> 'w \<Rightarrow> kernel_client res \<times> 'w" where
  "new_kernel_client ops http_api_endpoint ws_api_endpoint kernel_id w =
     (let k = \<lparr>kc_shutting_down = False, kc_restarting = False, kc_http_api_endpoint = http_api_endpoint,
               kc_ws_api_endpoint = ws_api_endpoint, kc_kernel_id = kernel_id, kc_socket = None,
               kc_queues = Some [], kc_has_reader = True, kc_thread = Not_Started\<rparr> in
      case co_connect ops (kernel_ws_api_endpoint k) w of
        (Inr s, w1) \<Rightarrow> (Inr (k\<lparr>kc_socket := Some s, kc_thread := Reading\<rparr>), w1)
      | (Inl e, w1) \<Rightarrow>
          (case client_shutdown ops k w1 of
             (Inl e', _, w2) \<Rightarrow> (Inl e', w2)
           | (Inr _, _, w2) \<Rightarrow> (Inl e, w2)))"

record gateway_client =
  gc_http_api_endpoint :: string
  gc_ws_api_endpoint :: string

definition new_gateway_client :: "string \<Rightarrow> bool \<Rightarrow> gateway_client" where
  "new_gateway_client host use_secure_connection =
     \<lparr>gc_http_api_endpoint = (if use_secure_connection then ''https://'' else ''http://'') @ host @ ''/api/kernels'',
      gc_ws_api_endpoint = (if use_secure_connection then ''wss://'' else ''ws://'') @ host @ ''/api/kernels''\<rparr>"

definition start_body :: "string \<Rightarrow> string \<Rightarrow> string \<Rightarrow> (string, pyval) dict option \<Rightarrow> pyval" where
  "start_body launch_timeout kernelspec_name username extra_env =
     PDict [(''name'', PStr kernelspec_name),
            (''env'', PDict (dupdate [(''KERNEL_USERNAME'', PStr username), (''KERNEL_LAUNCH_TIMEOUT'', PStr launch_timeout)]
                (case extra_env of None \<Rightarrow> [] | Some e \<Rightarrow> e)))]"

text \<open>\<open>fmt\<close> is \<open>str()\<close>, as an f-string applies it to the id in the answer.\<close>

definition start_kernel ::
  "'w client_ops \<Rightarrow> (pyval \<Rightarrow> string) \<Rightarrow> gateway_client \<Rightarrow> pyval \<Rightarrow> 'w \<Rightarrow> kernel_client res \<times> 'w" where
  "start_kernel ops fmt g body w =
     (case json_encode body of
        Inl e \<Rightarrow> (Inl e, w)
      | Inr data \<Rightarrow>
          bindE (co_post ops (gc_http_api_endpoint g) (Some data) w) (\<lambda>(status, json) w1.
            if status = 201
            then (case rbind json (\<lambda>j. py_get j ''id'') of
                    Inl e \<Rightarrow> (Inl e, w1)
                  | Inr kernel_id \<Rightarrow>
                      new_kernel_client ops (gc_http_api_endpoint g) (gc_ws_api_endpoint g) (fmt kernel_id) w1)
            else (Inl RuntimeError, w1)))"

text \<open>\<open>GatewayClient.shutdown_kernel\<close> reads the id of its argument before it tests it.\<close>

definition shutdown_kernel ::
  "'w client_ops \<Rightarrow> kernel_client option \<Rightarrow> 'w \<Rightarrow> bool option res \<times> kernel_client option \<times> 'w" where
  "shutdown_kernel ops kernel_arg w =
     (case kernel_arg of
        None \<Rightarrow> (Inl AttributeError, None, w)
      | Some k \<Rightarrow>
          (case client_shutdown ops k w of
             (Inl e, k1, w1) \<Rightarrow> (Inl e, Some k1, w1)
           | (Inr _, k1, w1) \<Rightarrow> (Inr None, Some k1, w1)))"

section \<open>Interrupt, restart, state\<close>

definition client_interrupt :: "'w client_ops \<Rightarrow> kernel_client \<Rightarrow> 'w \<Rightarrow> bool res \<times> 'w" where
  "client_interrupt ops k w =
     bindE (co_post ops (kernel_http_api_endpoint k @ ''/interrupt'') None w)
       (\<lambda>(status, _) w1. (if status = 204 then Inr True else Inl RuntimeError, w1))"

text \<open>A restart closes the socket first; without one this raises.\<close>

definition client_restart :: "'w client_ops \<Rightarrow> kernel_client \<Rightarrow> 'w \<Rightarrow> bool res \<times> kernel_client \<times> 'w" where
  "client_restart ops k w =
     (let k0 = k\<lparr>kc_restarting := True\<rparr> in
      case kc_socket k0 of
        None \<Rightarrow> (Inl AttributeError, k0, w)
      | Some s \<Rightarrow>
          (case close_socket ops k0 w of
             (Inl e, k1, w1) \<Rightarrow> (Inl e, k1, w1)
           | (Inr _, k1, w1) \<Rightarrow>
               (case co_post ops (kernel_http_api_endpoint k1 @ ''/restart'') None w1 of
                  (Inl e, w2) \<Rightarrow> (Inl e, k1, w2)
                | (Inr (status, _), w2) \<Rightarrow>
                    if status = 200
                    then (case co_connect ops (kernel_ws_api_endpoint k1) w2 of
                            (Inl e, w3) \<Rightarrow> (Inl e, k1, w3)
                          | (Inr s', w3) \<Rightarrow> (Inr True, k1\<lparr>kc_socket := Some s', kc_restarting := False\<rparr>, w3))
                    else (Inl RuntimeError, k1\<lparr>kc_restarting := False\<rparr>, w2))))"

definition get_state :: "'w client_ops \<Rightarrow> kernel_client \<Rightarrow> 'w \<Rightarrow> pyval res \<times> 'w" where
  "get_state ops k w =
     bindE (co_get ops (kernel_http_api_endpoint k) w) (\<lambda>(status, json) w1.
       (if status = 200 then rbind json (\<lambda>j. py_item j ''execution_state'') else Inl RuntimeError, w1))"

section \<open>Requests and responses\<close>

definition open_queue :: "string \<Rightarrow> kernel_client \<Rightarrow> unit res \<times> kernel_client" where
  "open_queue msg_id k =
     (case kc_queues k of
        None \<Rightarrow> (Inl TypeError, k)
      | Some q \<Rightarrow> (Inr (), k\<lparr>kc_queues := Some (dset (PStr msg_id) [] q)\<rparr>))"

definition send_request ::
  "'w client_ops \<Rightarrow> string \<Rightarrow> string \<Rightarrow> kernel_client \<Rightarrow> 'w \<Rightarrow> unit res \<times> kernel_client \<times> 'w" where
  "send_request ops msg_id source k w =
     (case json_encode (execute_request msg_id source) of
        Inl e \<Rightarrow> (Inl e, k, w)
      | Inr message \<Rightarrow>
          (case open_queue msg_id k of
             (Inl e, k1) \<Rightarrow> (Inl e, k1, w)
           | (Inr _, k1) \<Rightarrow>
               (case kc_socket k1 of
                  None \<Rightarrow> (Inl AttributeError, k1, w)
                | Some s \<Rightarrow> (case co_send ops s message w of (r, w1) \<Rightarrow> (r, k1, w1)))))"

definition response_timeout :: "rat \<Rightarrow> bool \<Rightarrow> rat" where
  "response_timeout timeout post_idle =
     (if post_idle \<and> timeout > POST_IDLE_TIMEOUT then POST_IDLE_TIMEOUT else timeout)"

text \<open>The next response to a request, when one is in its queue.\<close>

definition take_response :: "string \<Rightarrow> kernel_client \<Rightarrow> pyval option res \<times> kernel_client" where
  "take_response msg_id k =
     (case kc_queues k of
        None \<Rightarrow> (Inl AttributeError, k)
      | Some q \<Rightarrow>
          (case dget q (PStr msg_id) of
             None \<Rightarrow> (Inl AttributeError, k)
           | Some [] \<Rightarrow> (Inr None, k)
           | Some (m # ms) \<Rightarrow> (Inr (Some m), k\<lparr>kc_queues := Some (dset (PStr msg_id) ms q)\<rparr>)))"

section \<open>The reader\<close>

fun hashable :: "pyval \<Rightarrow> bool" where
  "hashable (PList xs) = False"
| "hashable (PDict d) = False"
| "hashable _ = True"

text \<open>The type of a message is read for the log, after its queue is made.\<close>

definition insert_response :: "pyval \<Rightarrow> queues option \<Rightarrow> unit res \<times> queues option" where
  "insert_response m q =
     (case get_msg_id m of
        Inl e \<Rightarrow> (Inl e, q)
      | Inr i \<Rightarrow>
          (case q of
             None \<Rightarrow> (Inl TypeError, q)
           | Some qs \<Rightarrow>
               if \<not> hashable i then (Inl TypeError, q)
               else (let qs1 = (if dhas qs i then qs else dset i [] qs) in
                     case py_item m ''msg_type'' of
                       Inl e \<Rightarrow> (Inl e, Some qs1)
                     | Inr _ \<Rightarrow> (Inr (), Some (dset i (dget_or qs1 i [] @ [m]) qs1)))))"

text \<open>What \<open>recv\<close> gives: a text, or an exception, as it does once the socket is closed.\<close>

datatype received = Received string | Recv_Raises exn

definition reader_step :: "received \<Rightarrow> kernel_client \<Rightarrow> kernel_client" where
  "reader_step r k =
     (if kc_thread k \<noteq> Reading then k
      else if kc_shutting_down k then k\<lparr>kc_thread := Ended\<rparr>
      else (case (case r of
                    Recv_Raises e \<Rightarrow> (Inl e, kc_queues k)
                  | Received raw \<Rightarrow>
                      (case json_loads raw of
                         Inl e \<Rightarrow> (Inl e, kc_queues k)
                       | Inr m \<Rightarrow> insert_response m (kc_queues k))) of
              (Inr _, q) \<Rightarrow> k\<lparr>kc_queues := q\<rparr>
            | (Inl _, q) \<Rightarrow>
                k\<lparr>kc_queues := q, kc_thread := (if kc_restarting k then Waiting_Restart else Ended)\<rparr>))"

definition reader_wake :: "kernel_client \<Rightarrow> kernel_client" where
  "reader_wake k =
     (if kc_thread k = Waiting_Restart \<and> \<not> kc_restarting k then k\<lparr>kc_thread := Reading\<rparr> else k)"

text \<open>
  The reader and the threads that execute code run side by side: a request opens its queue, the
  reader takes one message from the socket or goes on after a restart, and a thread takes one
  response to its request.  The result lists what was taken.
\<close>

datatype client_event = Send string | Receive received | Take string | Wake

fun client_run :: "client_event list \<Rightarrow> kernel_client \<Rightarrow> (string \<times> pyval) list \<times> kernel_client" where
  "client_run [] k = ([], k)"
| "client_run (Send i # evs) k = client_run evs (snd (open_queue i k))"
| "client_run (Receive r # evs) k = client_run evs (reader_step r k)"
| "client_run (Wake # evs) k = client_run evs (reader_wake k)"
| "client_run (Take i # evs) k =
     (case take_response i k of
        (Inr (Some m), k1) \<Rightarrow> (case client_run evs k1 of (taken, k2) \<Rightarrow> ((i, m) # taken, k2))
      | (_, k1) \<Rightarrow> client_run evs k1)"

section \<open>Executing code\<close>

text \<open>
  One response: what it adds to the output and whether it ends the execution's logical part, or
  the exception that reading it raises; the flag tells that it reports an error, which is noted
  before its texts are read.
\<close>

definition first_mime :: "pyval \<Rightarrow> pyval option res" where
  "first_mime data =
     rbind (py_in ''text/plain'' data) (\<lambda>plain.
       if plain then rbind (py_item data ''text/plain'') (\<lambda>t. Inr (Some (convert_raw_response t)))
       else rbind (py_in ''text/html'' data) (\<lambda>html.
         if html then rbind (py_item data ''text/html'') (\<lambda>t. Inr (Some (convert_raw_response t)))
         else Inr None))"

definition handle_response :: "(pyval \<Rightarrow> string) \<Rightarrow> pyval \<Rightarrow> (pyval option \<times> bool) res \<times> bool" where
  "handle_response fmt m =
     (case py_item m ''msg_type'' of
        Inl e \<Rightarrow> (Inl e, False)
      | Inr t \<Rightarrow>
          (case (if t = PStr ''error'' then Inr True
                 else if t = PStr ''execute_reply''
                 then rbind (py_item m ''content'') (\<lambda>c. rbind (py_item c ''status'') (\<lambda>s. Inr (s = PStr ''error'')))
                 else Inr False) of
             Inl e \<Rightarrow> (Inl e, False)
           | Inr is_error \<Rightarrow>
               if is_error
               then (rbind (py_item m ''content'') (\<lambda>c.
                     rbind (py_item c ''ename'') (\<lambda>ename.
                     rbind (py_item c ''evalue'') (\<lambda>evalue.
                     rbind (py_item c ''traceback'') (\<lambda>tb.
                       Inr (Some (PStr (fmt ename @ '':'' @ fmt evalue @ '':'' @ fmt tb)), False))))), True)
               else (if t = PStr ''stream''
                     then rbind (py_item m ''content'') (\<lambda>c. rbind (py_item c ''text'') (\<lambda>s.
                            Inr (Some (convert_raw_response s), False)))
                     else if t = PStr ''execute_result'' \<or> t = PStr ''display_data''
                     then rbind (py_item m ''content'') (\<lambda>c. rbind (py_item c ''data'') (\<lambda>d.
                            rbind (first_mime d) (\<lambda>x. Inr (x, False))))
                     else if t = PStr ''status''
                     then rbind (py_item m ''content'') (\<lambda>c. rbind (py_item c ''execution_state'') (\<lambda>s.
                            Inr (None, s = PStr ''idle'')))
                     else Inr (None, False), False)))"

text \<open>
  \<open>execute\<close> on the responses to its request, each with the time until it arrives once it is
  asked for.  A response that cannot be read ends the execution with what there is.
\<close>

fun execute_loop ::
  "(pyval \<Rightarrow> string) \<Rightarrow> rat \<Rightarrow> bool \<Rightarrow> (rat \<times> pyval) list \<Rightarrow> pyval list \<Rightarrow> bool \<Rightarrow> pyval list \<times> bool" where
  "execute_loop fmt timeout post_idle [] response has_error = (response, has_error)"
| "execute_loop fmt timeout post_idle ((delay, m) # rest) response has_error =
     (if delay > response_timeout timeout post_idle \<or> m = PNone then (response, has_error)
      else if \<not> truthy m then execute_loop fmt timeout post_idle rest response has_error
      else (case handle_response fmt m of
              (Inl e, err) \<Rightarrow> (response, has_error \<or> err)
            | (Inr (x, idle), err) \<Rightarrow>
                execute_loop fmt timeout (post_idle \<or> idle) rest
                  (case x of None \<Rightarrow> response | Some t \<Rightarrow> response @ [t]) (has_error \<or> err)))"

fun join_texts :: "pyval list \<Rightarrow> string res" where
  "join_texts [] = Inr []"
| "join_texts (PStr s # ts) = rbind (join_texts ts) (\<lambda>r. Inr (s @ r))"
| "join_texts (_ # ts) = Inl TypeError"

text \<open>A request that cannot be sent leaves nothing to read.\<close>

definition execute ::
  "'w client_ops \<Rightarrow> (pyval \<Rightarrow> string) \<Rightarrow> (string \<Rightarrow> kernel_client \<Rightarrow> 'w \<Rightarrow> (rat \<times> pyval) list) \<Rightarrow> string \<Rightarrow> string \<Rightarrow> rat \<Rightarrow>
   kernel_client \<Rightarrow> 'w \<Rightarrow> (string \<times> bool) res \<times> kernel_client \<times> 'w" where
  "execute ops fmt responses msg_id source timeout k w =
     (case send_request ops msg_id source k w of
        (Inl e, k1, w1) \<Rightarrow> (Inr ([], False), k1, w1)
      | (Inr _, k1, w1) \<Rightarrow>
          (case execute_loop fmt timeout False (responses msg_id k1 w1) [] False of
             (response, has_error) \<Rightarrow> (rbind (join_texts response) (\<lambda>s. Inr (s, has_error)), k1, w1)))"

section \<open>Properties: failures\<close>

text \<open>
  A client that cannot open its websocket joins a thread it never started: it raises that
  error instead of the reason, and the kernel it has just started is not deleted.
\<close>

lemma failed_connect_leaves_kernel:
  assumes "co_connect ops (ws @ ''/'' @ i @ ''/channels'') w = (Inl e, w1)"
  shows "new_kernel_client ops http ws i w = (Inl RuntimeError, w1)"
  using assms by (simp add: new_kernel_client_def kernel_ws_api_endpoint_def Let_def client_shutdown_def
      close_socket_def join_reader_def)

text \<open>A restart the gateway refuses leaves no socket; code that is executed then seems to succeed.\<close>

lemma execute_after_refused_restart:
  assumes "client_restart ops k w = (Inl e, k1, w1)" "kc_queues k = Some q" "\<not> kc_restarting k1"
    and "json_encode (execute_request i src) = Inr message"
  shows "fst (execute ops fmt responses i src timeout k1 w2) = Inr ([], False)"
proof -
  obtain s where s: "kc_socket k = Some s"
    using assms(1,3) by (cases "kc_socket k") (auto simp: client_restart_def Let_def)
  obtain c w' where c: "co_close ops s w = (c, w')" by fastforce
  obtain x where x: "c = Inr x" using assms(1,3) s c by (cases c) (auto simp: client_restart_def close_socket_def Let_def)
  obtain p w'' where p: "co_post ops (kernel_http_api_endpoint (k\<lparr>kc_restarting := True, kc_socket := None\<rparr>) @ ''/restart'')
      None w' = (p, w'')" by fastforce
  obtain st b where st: "p = Inr (st, b)"
    using assms(1,3) s c x p by (cases p) (auto simp: client_restart_def close_socket_def Let_def)
  have "kc_socket k1 = None \<and> kc_queues k1 = Some q"
  proof (cases "st = 200")
    case True
    obtain r w3 where r: "co_connect ops (kernel_ws_api_endpoint (k\<lparr>kc_restarting := True, kc_socket := None\<rparr>)) w'' = (r, w3)"
      by fastforce
    then show ?thesis
      using assms(1,3) s c x p st True by (cases r) (auto simp: client_restart_def close_socket_def Let_def)
  next
    case False
    then show ?thesis
      using assms(1,2) s c x p st by (auto simp: client_restart_def close_socket_def Let_def)
  qed
  then show ?thesis using assms(4) by (simp add: execute_def send_request_def open_queue_def)
qed

text \<open>
  A restart that raises, because the gateway does not answer or the new websocket cannot be
  opened, never ends: the reader waits for ever.
\<close>

lemma raising_restart_never_ends:
  assumes "co_close ops s w = (Inr u, w1)" "kc_socket k = Some s"
    and "co_post ops (kernel_http_api_endpoint k @ ''/restart'') None w1 = (Inl e, w2) \<or>
         co_post ops (kernel_http_api_endpoint k @ ''/restart'') None w1 = (Inr (200, b), w2) \<and>
         co_connect ops (kernel_ws_api_endpoint k) w2 = (Inl e, w3)"
    and "client_restart ops k w = (r, k1, w4)"
  shows "r = Inl e \<and> kc_restarting k1 \<and> (kc_thread k1 = Waiting_Restart \<longrightarrow> reader_wake k1 = k1)"
  using assms by (auto simp: client_restart_def close_socket_def Let_def kernel_http_api_endpoint_def
      kernel_ws_api_endpoint_def reader_wake_def)

text \<open>The message that is dumped as dead ends the reader: its type is read for the log.\<close>

lemma empty_message_ends_reader:
  assumes "json_loads raw = Inr (PDict [])" "kc_thread k = Reading" "\<not> kc_shutting_down k" "\<not> kc_restarting k"
  shows "kc_thread (reader_step (Received raw) k) = Ended"
  using assms by (simp add: reader_step_def insert_response_def get_msg_id_def split: option.split)

section \<open>Properties: the routing of responses\<close>

text \<open>
  The request a message answers, by the messaging protocol: the id in its parent header.  It is
  read off the object directly, not with the client's own \<open>_get_msg_id\<close>.
\<close>

definition parent_request :: "pyval \<Rightarrow> string option" where
  "parent_request m =
     (case m of
        PDict d \<Rightarrow>
          (case dget d ''parent_header'' of
             Some (PDict h) \<Rightarrow> (case dget h ''msg_id'' of Some (PStr i) \<Rightarrow> if i = [] then None else Some i | _ \<Rightarrow> None)
           | _ \<Rightarrow> None)
      | _ \<Rightarrow> None)"

text \<open>The messages among the events that answer a request, in the order they arrive.\<close>

definition answers_to :: "string \<Rightarrow> received \<Rightarrow> pyval list" where
  "answers_to i r =
     (case r of
        Recv_Raises e \<Rightarrow> []
      | Received raw \<Rightarrow>
          (case json_loads raw of
             Inl e \<Rightarrow> []
           | Inr m \<Rightarrow> if parent_request m = Some i then [m] else []))"

fun answers :: "string \<Rightarrow> client_event list \<Rightarrow> pyval list" where
  "answers i [] = []"
| "answers i (Receive r # evs) = answers_to i r @ answers i evs"
| "answers i (_ # evs) = answers i evs"

definition taken_for :: "string \<Rightarrow> (string \<times> pyval) list \<Rightarrow> pyval list" where
  "taken_for i taken = map snd (filter (\<lambda>(j, m). j = i) taken)"

text \<open>
  Messages of a kernel, seen by the request \<open>i\<close>: objects with a type and a parent header, in which
  an id is a string; where no parent is named, the message's own id is not that of the request.
\<close>

fun string_or_none :: "pyval option \<Rightarrow> bool" where
  "string_or_none None = True"
| "string_or_none (Some (PStr s)) = True"
| "string_or_none (Some _) = False"

definition well_formed_message :: "string \<Rightarrow> pyval \<Rightarrow> bool" where
  "well_formed_message i m \<longleftrightarrow>
     (case m of
        PDict d \<Rightarrow>
          dhas d ''msg_type'' \<and>
          (case dget d ''parent_header'' of Some (PDict h) \<Rightarrow> string_or_none (dget h ''msg_id'') | _ \<Rightarrow> False) \<and>
          (parent_request m = None \<longrightarrow> string_or_none (dget d ''msg_id'') \<and> dget d ''msg_id'' \<noteq> Some (PStr i))
      | _ \<Rightarrow> False)"

lemma string_or_none_iff: "string_or_none v \<longleftrightarrow> v = None \<or> (\<exists>s. v = Some (PStr s))"
  by (cases v rule: string_or_none.cases) auto

lemma well_formed_messageE:
  assumes "well_formed_message i m"
  obtains d h where "m = PDict d" "dget d ''parent_header'' = Some (PDict h)" "dhas d ''msg_type''"
    "dget h ''msg_id'' = None \<or> (\<exists>s. dget h ''msg_id'' = Some (PStr s))"
    "parent_request m = None \<longrightarrow>
      dget d ''msg_id'' = None \<or> (\<exists>s. dget d ''msg_id'' = Some (PStr s) \<and> s \<noteq> i)"
proof -
  obtain d where d: "m = PDict d" using assms by (cases m) (simp_all add: well_formed_message_def)
  then obtain v where v: "dget d ''parent_header'' = Some v"
    using assms by (cases "dget d ''parent_header''") (simp_all add: well_formed_message_def)
  then obtain h where "v = PDict h" using assms d by (cases v) (simp_all add: well_formed_message_def)
  with d v assms that show ?thesis by (auto simp: well_formed_message_def string_or_none_iff)
qed

definition proper :: "string \<Rightarrow> received \<Rightarrow> bool" where
  "proper i r \<longleftrightarrow>
     (case r of
        Recv_Raises e \<Rightarrow> False
      | Received raw \<Rightarrow> (case json_loads raw of Inl e \<Rightarrow> False | Inr m \<Rightarrow> well_formed_message i m))"

lemma get_msg_id_routes:
  assumes "well_formed_message i m" "i \<noteq> DEAD_MSG_ID"
  shows "\<exists>j. get_msg_id m = Inr (PStr j) \<and> (j = i \<longleftrightarrow> parent_request m = Some i)"
    and "\<exists>t. py_item m ''msg_type'' = Inr t"
proof -
  obtain d h where m: "m = PDict d" "dget d ''parent_header'' = Some (PDict h)" "dhas d ''msg_type''"
    and id: "dget h ''msg_id'' = None \<or> (\<exists>s. dget h ''msg_id'' = Some (PStr s))"
    and own: "parent_request m = None \<longrightarrow>
      dget d ''msg_id'' = None \<or> (\<exists>s. dget d ''msg_id'' = Some (PStr s) \<and> s \<noteq> i)"
    using well_formed_messageE [OF assms(1)] by metis
  have d: "d \<noteq> []" using m(2) by auto
  show "\<exists>t. py_item m ''msg_type'' = Inr t" using m by (auto simp: dhas_iff)
  show "\<exists>j. get_msg_id m = Inr (PStr j) \<and> (j = i \<longleftrightarrow> parent_request m = Some i)"
  proof (cases "parent_request m")
    case (Some j)
    then have "dget h ''msg_id'' = Some (PStr j)" "j \<noteq> []"
      using m(2) id by (auto simp: parent_request_def m(1) split: option.splits if_splits)
    then have "get_msg_id m = Inr (PStr j)" by (simp add: get_msg_id_def m(1,2) d dhas_iff)
    then show ?thesis using Some by auto
  next
    case None
    then have h: "dget h ''msg_id'' = None \<or> dget h ''msg_id'' = Some (PStr [])"
      using m(2) id by (auto simp: parent_request_def m(1) split: if_splits)
    have "get_msg_id m = (case dget d ''msg_id'' of None \<Rightarrow> Inr (PStr DEAD_MSG_ID) | Some v \<Rightarrow> Inr v)"
      using h by (auto simp: get_msg_id_def m(1,2) d dhas_iff split: option.split)
    with own None assms(2) show ?thesis by auto
  qed
qed

definition live :: "kernel_client \<Rightarrow> bool" where
  "live k \<longleftrightarrow> kc_thread k = Reading \<and> \<not> kc_shutting_down k \<and> kc_queues k \<noteq> None"

definition queue_of :: "string \<Rightarrow> kernel_client \<Rightarrow> pyval list option" where
  "queue_of i k = (case kc_queues k of None \<Rightarrow> None | Some q \<Rightarrow> dget q (PStr i))"

lemma reader_step_proper:
  assumes "live k" "proper i r" "i \<noteq> DEAD_MSG_ID"
  shows "live (reader_step r k)"
    and "queue_of i (reader_step r k) =
      (if queue_of i k = None \<and> answers_to i r = [] then None
       else Some ((case queue_of i k of None \<Rightarrow> [] | Some ms \<Rightarrow> ms) @ answers_to i r))"
proof -
  obtain raw m where rm: "r = Received raw" "json_loads raw = Inr m" "well_formed_message i m"
    using assms(2) by (auto simp: proper_def split: received.splits sum.splits)
  obtain j t where r: "r = Received raw" "json_loads raw = Inr m" "get_msg_id m = Inr (PStr j)"
    "py_item m ''msg_type'' = Inr t" and j: "parent_request m = Some i \<longleftrightarrow> j = i"
    using get_msg_id_routes [OF rm(3) assms(3)] rm(1,2) by blast
  obtain q where q: "kc_queues k = Some q" using assms(1) by (auto simp: live_def)
  have k: "reader_step r k = k\<lparr>kc_queues := Some (dset (PStr j) (dget_or q (PStr j) [] @ [m])
      (if dhas q (PStr j) then q else dset (PStr j) [] q))\<rparr>"
    using assms(1) r q by (auto simp: live_def reader_step_def insert_response_def dget_or_def dhas_iff split: option.split)
  show "live (reader_step r k)" using assms(1) by (simp add: k live_def)
  show "queue_of i (reader_step r k) =
      (if queue_of i k = None \<and> answers_to i r = [] then None
       else Some ((case queue_of i k of None \<Rightarrow> [] | Some ms \<Rightarrow> ms) @ answers_to i r))"
    by (auto simp: k [unfolded r(1)] r j queue_of_def q answers_to_def dget_or_def dhas_iff split: option.splits)
qed

lemma open_queue_live:
  "live k \<Longrightarrow> live (snd (open_queue j k))"
  "live k \<Longrightarrow> queue_of i (snd (open_queue j k)) = (if i = j then Some [] else queue_of i k)"
  by (auto simp: live_def open_queue_def queue_of_def)

lemma reader_wake_live: "live k \<Longrightarrow> reader_wake k = k"
  by (simp add: live_def reader_wake_def)

lemma take_response_live:
  assumes "live k" "take_response j k = (r, k1)"
  shows "live k1" "i \<noteq> j \<Longrightarrow> queue_of i k1 = queue_of i k"
    "r = Inr (Some m) \<Longrightarrow> \<exists>ms. queue_of j k = Some (m # ms) \<and> queue_of j k1 = Some ms"
    "\<not> (\<exists>m. r = Inr (Some m)) \<Longrightarrow> k1 = k"
  using assms by (auto simp: take_response_def live_def queue_of_def split: option.splits list.splits)

lemma routed_from:
  assumes "live k" "\<forall>r. Receive r \<in> set evs \<longrightarrow> proper i r" "Send i \<notin> set evs" "client_run evs k = (taken, k')"
    and id: "i \<noteq> DEAD_MSG_ID"
  shows "live k' \<and>
    (queue_of i k = Some ms \<longrightarrow> (\<exists>rest. queue_of i k' = Some rest \<and> taken_for i taken @ rest = ms @ answers i evs)) \<and>
    (queue_of i k = None \<and> answers i evs = [] \<longrightarrow> queue_of i k' = None \<and> taken_for i taken = [])"
  using assms(1-4)
proof (induction evs arbitrary: k ms taken)
  case Nil
  then show ?case by (simp add: taken_for_def)
next
  case (Cons e evs)
  show ?case
  proof (cases e)
    case (Send j)
    then show ?thesis
      using Cons.IH [where k = "snd (open_queue j k)" and taken = taken and ms = ms] Cons.prems open_queue_live(1) [of k j] open_queue_live(2) [of k i j] by auto
  next
    case (Receive r)
    have "proper i r" using Cons.prems(2) Receive by simp
    note step = reader_step_proper [OF Cons.prems(1) this id]
    have run: "client_run evs (reader_step r k) = (taken, k')" using Cons.prems(4) Receive by simp
    show ?thesis
      using Cons.IH [OF step(1) _ _ run, where ms = "ms @ answers_to i r"] Cons.prems(2,3) step(2) Receive by auto
  next
    case Wake
    then show ?thesis using Cons.IH [where k = k and taken = taken and ms = ms] Cons.prems reader_wake_live by auto
  next
    case (Take j)
    obtain r k1 where t: "take_response j k = (r, k1)" by fastforce
    note tk = take_response_live [OF Cons.prems(1) t]
    show ?thesis
    proof (cases "\<exists>m. r = Inr (Some m)")
      case True
      then obtain m where m: "r = Inr (Some m)" by blast
      obtain taken1 where run: "client_run evs k1 = (taken1, k')" "taken = (j, m) # taken1"
        using Cons.prems(4) Take t m by (auto split: prod.splits)
      obtain ns where ns: "queue_of j k = Some (m # ns)" "queue_of j k1 = Some ns" using tk(3) [OF m] by blast
      show ?thesis
      proof (cases "i = j")
        case True
        then show ?thesis
          using Cons.IH [OF tk(1) _ _ run(1), where ms = ns] Cons.prems(2,3) ns Take run(2) by (auto simp: taken_for_def)
      next
        case False
        then show ?thesis
          using Cons.IH [OF tk(1) _ _ run(1), where ms = ms] Cons.prems(2,3) tk(2) [OF False] Take run(2) by (auto simp: taken_for_def)
      qed
    next
      case False
      then have "k1 = k" using tk(4) by simp
      moreover have "client_run evs k = (taken, k')"
        using Cons.prems(4) Take t False \<open>k1 = k\<close> by (auto split: sum.splits option.splits)
      ultimately show ?thesis using Cons.IH [OF Cons.prems(1), where taken = taken and ms = ms] Cons.prems(2,3) Take by auto
    qed
  qed
qed

lemma client_run_append:
  "client_run (evs @ evs') k =
    (case client_run evs k of (taken, k1) \<Rightarrow>
      (case client_run evs' k1 of (taken', k2) \<Rightarrow> (taken @ taken', k2)))"
proof (induction evs arbitrary: k)
  case (Cons e evs)
  then show ?case by (cases e) (auto split: prod.splits sum.splits option.splits)
qed simp

text \<open>
  C38: Responses reach the request they answer: as long as what the socket gives are well-formed
  messages (objects with a type, whose parent header names a request by a string or names none,
  and then their own id is not that of this request), then however the messages of other
  requests, other threads and wake-ups are interleaved, what was taken for a request followed by
  what still waits in its queue are exactly the messages that came after it was sent and whose
  parent header holds its id, each once and in the order they came, and the reader goes on.  The
  request's id is fresh and not the one set aside for dead messages.
\<close>

theorem responses_reach_their_request:
  assumes "live k" "queue_of i k = None" "\<forall>r. Receive r \<in> set (before @ after) \<longrightarrow> proper i r"
    and "Send i \<notin> set (before @ after)" "answers i before = []" "i \<noteq> DEAD_MSG_ID"
    and "client_run (before @ Send i # after) k = (taken, k')"
  shows "\<exists>rest. queue_of i k' = Some rest \<and> taken_for i taken @ rest = answers i after \<and> kc_thread k' = Reading"
proof -
  obtain taken1 k1 where b: "client_run before k = (taken1, k1)" by fastforce
  obtain taken2 where a: "client_run after (snd (open_queue i k1)) = (taken2, k')" "taken = taken1 @ taken2"
    using assms(7) b by (auto simp: client_run_append split: prod.splits)
  have k1: "live k1" "taken_for i taken1 = []"
    using routed_from [OF assms(1) _ _ b assms(6)] assms(2-5) by auto
  show ?thesis
    using routed_from [OF open_queue_live(1) [OF k1(1)] _ _ a(1) assms(6), of "[]"] open_queue_live(2) [OF k1(1), of i i]
      assms(3,4) a(2) k1(2)
    by (auto simp: taken_for_def live_def)
qed

text \<open>Two requests whose answers arrive in alternation.\<close>

definition demo_client :: kernel_client where
  "demo_client = \<lparr>kc_shutting_down = False, kc_restarting = False, kc_http_api_endpoint = ''http'',
     kc_ws_api_endpoint = ''ws'', kc_kernel_id = ''k'', kc_socket = Some 1, kc_queues = Some [], kc_has_reader = True,
     kc_thread = Reading\<rparr>"

definition demo_message :: "string \<Rightarrow> string \<Rightarrow> pyval" where
  "demo_message i t = PDict [(''parent_header'', PDict [(''msg_id'', PStr i)]), (''msg_type'', PStr t)]"

definition demo_events :: "client_event list" where
  "demo_events = [Receive (Received (json_dumps (demo_message ''b'' ''stream''))),
     Receive (Received (json_dumps (demo_message ''a'' ''status''))), Take ''b'', Take ''a'',
     Receive (Received (json_dumps (demo_message ''a'' ''stream'')))]"

lemma demo_message_loads: "json_loads (json_dumps (demo_message i t)) = Inr (demo_message i t)"
  by (rule json_loads_dumps) (simp add: demo_message_def)

lemma demo_message_facts:
  "json_loads (json_dumps (demo_message i t)) = Inr (demo_message i t)"
  "i \<noteq> [] \<Longrightarrow> parent_request (demo_message i t) = Some i"
  "i \<noteq> [] \<Longrightarrow> well_formed_message j (demo_message i t)"
  by (simp_all add: demo_message_loads) (simp_all add: demo_message_def parent_request_def well_formed_message_def dhas_def)

lemma responses_reach_their_request_witness:
  "\<exists>rest k' taken. client_run (Send ''b'' # Send ''a'' # demo_events) demo_client = (taken, k') \<and>
     queue_of ''a'' k' = Some rest \<and>
     taken_for ''a'' taken @ rest = [demo_message ''a'' ''status'', demo_message ''a'' ''stream'']"
proof -
  obtain taken k' where run: "client_run ([Send ''b''] @ Send ''a'' # demo_events) demo_client = (taken, k')"
    by fastforce
  have 1: "live demo_client" "queue_of ''a'' demo_client = None" "answers ''a'' [Send ''b''] = []"
    by (simp_all add: live_def queue_of_def demo_client_def)
  have 2: "\<forall>r. Receive r \<in> set ([Send ''b''] @ demo_events) \<longrightarrow> proper ''a'' r"
    by (auto simp: demo_events_def proper_def demo_message_facts)
  have 3: "Send ''a'' \<notin> set ([Send ''b''] @ demo_events)" by (simp add: demo_events_def)
  have 4: "answers ''a'' demo_events = [demo_message ''a'' ''status'', demo_message ''a'' ''stream'']"
    by (simp add: demo_events_def answers_to_def demo_message_facts)
  have 5: "''a'' \<noteq> DEAD_MSG_ID" by (simp add: DEAD_MSG_ID_def)
  from responses_reach_their_request [OF 1(1,2) 2 3 1(3) 5 run] 4 run show ?thesis by auto
qed

section \<open>Properties: execution\<close>

text \<open>What a kernel sends in reply to a request, as the messaging protocol has it.\<close>

datatype kernel_message =
    Stream string
  | Rich bool "string option" "string option"
  | Status string
  | Failure bool string string pyval
  | Reply_Ok
  | Other_Message string

fun message_json :: "(string, pyval) dict \<Rightarrow> kernel_message \<Rightarrow> pyval" where
  "message_json other (Stream s) = PDict ([(''msg_type'', PStr ''stream''), (''content'', PDict [(''text'', PStr s)])] @ other)"
| "message_json other (Rich display plain html) =
     PDict ([(''msg_type'', PStr (if display then ''display_data'' else ''execute_result'')),
       (''content'', PDict [(''data'', PDict ((case plain of None \<Rightarrow> [] | Some s \<Rightarrow> [(''text/plain'', PStr s)])
          @ (case html of None \<Rightarrow> [] | Some s \<Rightarrow> [(''text/html'', PStr s)])))])] @ other)"
| "message_json other (Status s) =
     PDict ([(''msg_type'', PStr ''status''), (''content'', PDict [(''execution_state'', PStr s)])] @ other)"
| "message_json other (Failure reply ename evalue tb) =
     PDict ([(''msg_type'', PStr (if reply then ''execute_reply'' else ''error'')),
       (''content'', PDict [(''status'', PStr ''error''), (''ename'', PStr ename), (''evalue'', PStr evalue), (''traceback'', tb)])]
       @ other)"
| "message_json other Reply_Ok =
     PDict ([(''msg_type'', PStr ''execute_reply''), (''content'', PDict [(''status'', PStr ''ok'')])] @ other)"
| "message_json other (Other_Message t) = PDict ([(''msg_type'', PStr t)] @ other)"

text \<open>
  What is shown of a text: all of it, unless it holds a \<open>u\<close> before a single quote anywhere; then
  every such pair is taken out, and the last character.
\<close>

definition shown :: "string \<Rightarrow> string" where
  "shown s = (if contains (''u'' @ [CHR 0x27]) s then butlast (replace (''u'' @ [CHR 0x27]) [] s) else s)"

fun message_text :: "(pyval \<Rightarrow> string) \<Rightarrow> kernel_message \<Rightarrow> string" where
  "message_text fmt (Stream s) = shown s"
| "message_text fmt (Rich display plain html) =
     (case plain of Some s \<Rightarrow> shown s | None \<Rightarrow> (case html of Some s \<Rightarrow> shown s | None \<Rightarrow> []))"
| "message_text fmt (Failure reply ename evalue tb) = ename @ '':'' @ evalue @ '':'' @ fmt tb"
| "message_text fmt _ = []"

fun is_failure :: "kernel_message \<Rightarrow> bool" where
  "is_failure (Failure reply ename evalue tb) = True"
| "is_failure _ = False"

definition known_types :: "string list" where
  "known_types = [''error'', ''execute_reply'', ''stream'', ''execute_result'', ''display_data'', ''status'']"

text \<open>A message of another type has none of the types that \<open>execute\<close> knows.\<close>

fun message_ok :: "kernel_message \<Rightarrow> bool" where
  "message_ok (Other_Message t) = (t \<notin> set known_types)"
| "message_ok _ = True"

text \<open>Every message comes within the time \<open>execute\<close> waits, which is short once the kernel was idle.\<close>

fun timely :: "rat \<Rightarrow> bool \<Rightarrow> (rat \<times> kernel_message) list \<Rightarrow> bool" where
  "timely timeout idle [] = True"
| "timely timeout idle ((d, m) # ms) =
     (d \<le> response_timeout timeout idle \<and> timely timeout (idle \<or> m = Status ''idle'') ms)"

lemma handle_message:
  assumes "message_ok m" "\<And>s. fmt (PStr s) = s"
  shows "\<exists>x. handle_response fmt (message_json other m) = (Inr (x, m = Status ''idle''), is_failure m) \<and>
    (case x of None \<Rightarrow> message_text fmt m = [] | Some t \<Rightarrow> t = PStr (message_text fmt m))"
  using assms
  by (cases m) (auto simp: handle_response_def convert_raw_response_def shown_def first_mime_def dhas_def known_types_def
      split: option.splits)

lemma execute_loop_messages:
  assumes "\<And>s. fmt (PStr s) = s"
  shows "timely timeout idle ms \<Longrightarrow> \<forall>(d, m)\<in>set ms. message_ok m \<Longrightarrow>
    \<exists>texts. execute_loop fmt timeout idle (map (\<lambda>(d, m). (d, message_json other m)) ms) response has_error =
      (response @ map PStr texts, has_error \<or> (\<exists>(d, m)\<in>set ms. is_failure m)) \<and>
      concat texts = concat (map (\<lambda>(d, m). message_text fmt m) ms)"
proof (induction ms arbitrary: idle response has_error)
  case (Cons x ms)
  obtain d m where x: "x = (d, m)" by (cases x)
  obtain y where y: "handle_response fmt (message_json other m) = (Inr (y, m = Status ''idle''), is_failure m)"
    "case y of None \<Rightarrow> message_text fmt m = [] | Some t \<Rightarrow> t = PStr (message_text fmt m)"
    using handle_message [OF _ assms] Cons.prems(2) x by force
  have j: "truthy (message_json other m)" "message_json other m \<noteq> PNone" by (cases m; simp)+
  have rest: "timely timeout (idle \<or> m = Status ''idle'') ms" "\<forall>(d, m)\<in>set ms. message_ok m"
    using Cons.prems x by auto
  let ?r = "response @ (case y of None \<Rightarrow> [] | Some t \<Rightarrow> [t])"
  obtain texts where t: "execute_loop fmt timeout (idle \<or> m = Status ''idle'')
      (map (\<lambda>(d, m). (d, message_json other m)) ms) ?r (has_error \<or> is_failure m) =
      (?r @ map PStr texts, (has_error \<or> is_failure m) \<or> (\<exists>(d, m)\<in>set ms. is_failure m))"
    "concat texts = concat (map (\<lambda>(d, m). message_text fmt m) ms)"
    using Cons.IH [OF rest, of ?r "has_error \<or> is_failure m"] by blast
  show ?case
  proof (cases y)
    case None
    then show ?thesis using t y j Cons.prems(1) by (intro exI [of _ texts]) (auto simp: x)
  next
    case (Some u)
    then show ?thesis
      using t y j Cons.prems(1) by (intro exI [of _ "message_text fmt m # texts"]) (auto simp: x)
  qed
qed simp

lemma join_texts_PStr: "join_texts (map PStr texts) = Inr (concat texts)"
  by (induction texts) simp_all

text \<open>
  C39: Executing code gives the output of the kernel: when the request was sent and the messages
  come in time, the result is what is shown of the texts of all of them in order, the plain text of
  a result before its HTML, also of those that come shortly after the kernel said it was idle, and
  an error is reported exactly when one of them tells of a failure.  What is shown is the text
  itself, except that a text with a \<open>u\<close> before a single quote, taken for the output of a
  Python 2 kernel, loses all such pairs and its last character.
\<close>

theorem execute_collects:
  assumes "\<And>s. fmt (PStr s) = s"
    and "send_request ops i source k w = (Inr (), k1, w1)"
    and "responses i k1 w1 = map (\<lambda>(d, m). (d, message_json other m)) ms"
    and "timely timeout False ms" "\<forall>(d, m)\<in>set ms. message_ok m"
  shows "execute ops fmt responses i source timeout k w =
    (Inr (concat (map (\<lambda>(d, m). message_text fmt m) ms), \<exists>(d, m)\<in>set ms. is_failure m), k1, w1)"
proof -
  obtain texts where "execute_loop fmt timeout False (map (\<lambda>(d, m). (d, message_json other m)) ms) [] False =
      (map PStr texts, \<exists>(d, m)\<in>set ms. is_failure m)"
    "concat texts = concat (map (\<lambda>(d, m). message_text fmt m) ms)"
    using execute_loop_messages [OF assms(1,4,5), where response = "[]" and has_error = False] by auto
  then show ?thesis using assms(2,3) by (simp add: execute_def join_texts_PStr)
qed

definition demo_client_ops :: "unit client_ops" where
  "demo_client_ops = \<lparr>co_post = \<lambda>u b w. (Inl OtherError, w), co_get = \<lambda>u w. (Inl OtherError, w),
     co_delete = \<lambda>u w. (Inl OtherError, w), co_connect = \<lambda>u w. (Inr 1, w), co_close = \<lambda>s w. (Inr (), w),
     co_join = \<lambda>t w. (Ended, w), co_send = \<lambda>s m w. (Inr (), w)\<rparr>"

text \<open>Text of any kernel is taken for that of a Python 2 kernel when it has a \<open>u\<close> before a quote.\<close>

lemma apostrophe_mangles_text:
  "convert_raw_response (PStr (''Peru'' @ [CHR 0x27] @ ''s capital'')) = PStr ''Pers capita''"
  by code_simp

definition demo_output :: "(rat \<times> kernel_message) list" where
  "demo_output = [(1, Status ''busy''), (2, Stream ''one ''), (1 / 10, Status ''idle''),
     (1 / 5, Rich False (Some ''two'') (Some ''<b>two</b>''))]"

lemma execute_collects_witness:
  "\<exists>k1. execute demo_client_ops (\<lambda>v. case v of PStr s \<Rightarrow> s | _ \<Rightarrow> []) (\<lambda>_ _ _. map (\<lambda>(d, m). (d, message_json [] m)) demo_output)
     ''a'' ''print(1)'' 60 demo_client () = (Inr (''one two'', False), k1, ())"
proof -
  have ok: "timely 60 False demo_output" "\<forall>(d, m)\<in>set demo_output. message_ok m"
    by (simp_all add: demo_output_def response_timeout_def POST_IDLE_TIMEOUT_def)
  have "\<exists>t. json_encode (execute_request ''a'' ''print(1)'') = Inr t"
    by (simp add: json_encode_def dumps_def execute_request_def)
  then obtain k1 where s: "send_request demo_client_ops ''a'' ''print(1)'' demo_client () = (Inr (), k1, ())"
    by (auto simp: send_request_def open_queue_def demo_client_def demo_client_ops_def)
  have "concat (map (\<lambda>(d, m). message_text (\<lambda>v. case v of PStr s \<Rightarrow> s | _ \<Rightarrow> []) m) demo_output) = ''one two''"
    "\<not> (\<exists>(d, m)\<in>set demo_output. is_failure m)"
    by (simp_all add: demo_output_def) code_simp+
  with execute_collects [OF _ s, of "\<lambda>v. case v of PStr s \<Rightarrow> s | _ \<Rightarrow> []" "\<lambda>_ _ _. map (\<lambda>(d, m). (d, message_json [] m)) demo_output"
      "[]" demo_output 60] ok
  show ?thesis by auto
qed

end
