(* ===== verification/LauncherOptions.thy ===== *)
theory LauncherOptions
  imports PyLauncher ClusterLaunchers KernelRequest
begin

text \<open>
  The command lines of the launchers (the main parts of
  etc/kernel-launchers/python/scripts/launch_ipykernel.py and of the launchers for Kubernetes,
  Docker and the operators): the options each declares and \<open>argparse\<close>'s reading of the arguments
  for options of this kind, which all take one optional value.
\<close>

section \<open>Parsing\<close>

record option_spec =
  op_flags :: "string list"
  op_dest :: string
  op_default :: "string option"

record arg_parser =
  ap_options :: "option_spec list"
  ap_positional :: "string option"

type_synonym arguments = "(string, string option) dict"

datatype action = Store option_spec | Help

definition flag_table :: "arg_parser \<Rightarrow> (string \<times> action) list" where
  "flag_table p = (''-h'', Help) # (''--help'', Help) #
     concat (map (\<lambda>s. map (\<lambda>f. (f, Store s)) (op_flags s)) (ap_options p))"

text \<open>What an argument is taken for; an ambiguous abbreviation or an unknown option is refused.\<close>

datatype arg_class = Value | Separator | Optional action "string option" | Refused

definition split_equals :: "string \<Rightarrow> string \<times> string option" where
  "split_equals s =
     (case dropWhile (\<lambda>c. c \<noteq> CHR ''='') s of
        [] \<Rightarrow> (s, None)
      | _ # v \<Rightarrow> (takeWhile (\<lambda>c. c \<noteq> CHR ''='') s, Some v))"

definition negative_number :: "string \<Rightarrow> bool" where
  "negative_number s \<longleftrightarrow>
     (case s of
        c # r \<Rightarrow> c = CHR ''-'' \<and>
          (let whole = takeWhile is_digit r; rest = dropWhile is_digit r in
           whole \<noteq> [] \<and> rest = [] \<or>
           (case rest of d # f \<Rightarrow> d = CHR ''.'' \<and> f \<noteq> [] \<and> list_all is_digit f | [] \<Rightarrow> False))
      | [] \<Rightarrow> False)"

definition classify_abbreviation :: "arg_parser \<Rightarrow> string \<Rightarrow> arg_class" where
  "classify_abbreviation p s =
     (let candidates =
        (if startswith s ''--''
         then (case split_equals s of (f, v) \<Rightarrow>
                 map (\<lambda>(_, a). (a, v)) (filter (\<lambda>(g, _). startswith g f) (flag_table p)))
         else if take 2 s = ''-h'' then [(Help, Some (drop 2 s))] else []) in
      case candidates of
        [(a, v)] \<Rightarrow> Optional a v
      | _ # _ # _ \<Rightarrow> Refused
      | [] \<Rightarrow> if negative_number s \<or> CHR '' '' \<in> set s then Value else Refused)"

definition classify :: "arg_parser \<Rightarrow> string \<Rightarrow> arg_class" where
  "classify p s =
     (if s = [] \<or> hd s \<noteq> CHR ''-'' then Value
      else (case dget (flag_table p) s of
        Some a \<Rightarrow> Optional a None
      | None \<Rightarrow>
          if length s = 1 then Value
          else (case split_equals s of
            (f, Some v) \<Rightarrow>
              (case dget (flag_table p) f of
                 Some a \<Rightarrow> Optional a (Some v)
               | None \<Rightarrow> classify_abbreviation p s)
          | (f, None) \<Rightarrow> classify_abbreviation p s)))"

text \<open>Everything behind the first \<open>--\<close> is a value.\<close>

fun classify_all :: "arg_parser \<Rightarrow> string list \<Rightarrow> (arg_class \<times> string) list" where
  "classify_all p [] = []"
| "classify_all p (s # rest) =
     (if s = ''--'' then (Separator, s) # map (\<lambda>t. (Value, t)) rest
      else (classify p s, s) # classify_all p rest)"

text \<open>The value of an option: the next argument if it is one, with a separator before or behind it.\<close>

fun skip_separator :: "(arg_class \<times> string) list \<Rightarrow> (arg_class \<times> string) list" where
  "skip_separator ((Separator, _) # rest) = rest"
| "skip_separator rest = rest"

definition take_value :: "(arg_class \<times> string) list \<Rightarrow> string option \<times> (arg_class \<times> string) list" where
  "take_value items =
     (case skip_separator items of
        (Value, s) # rest \<Rightarrow> (Some s, skip_separator rest)
      | rest \<Rightarrow> (None, rest))"

lemma skip_separator_length: "length (skip_separator xs) \<le> length xs"
  by (induction xs rule: skip_separator.induct) auto

lemma take_value_cases:
  "take_value xs = (v, rest) \<Longrightarrow>
   (\<exists>s ys. skip_separator xs = (Value, s) # ys \<and> rest = skip_separator ys) \<or> rest = skip_separator xs"
  by (auto simp: take_value_def split: list.splits prod.splits arg_class.splits)

lemma take_value_length: "take_value xs = (v, rest) \<Longrightarrow> length rest \<le> length xs"
  using skip_separator_length [of xs] skip_separator_length
  by (fastforce dest!: take_value_cases intro: le_trans simp: le_Suc_eq)

lemma take_value_shorter:
  assumes "c = Value \<or> c = Separator" "take_value ((c, s) # xs) = (v, rest)"
  shows "length rest < Suc (length xs)"
proof (cases "c = Value")
  case True
  then show ?thesis using assms(2) skip_separator_length [of xs] by (auto simp: take_value_def le_imp_less_Suc)
next
  case False
  then have c: "c = Separator" using assms(1) by simp
  from take_value_cases [OF assms(2)] show ?thesis
  proof (elim disjE exE conjE)
    fix t ys assume "skip_separator ((c, s) # xs) = (Value, t) # ys" "rest = skip_separator ys"
    then show ?thesis using c skip_separator_length [of ys] by auto
  qed (use c in simp)
qed

text \<open>
  The loop over the arguments; \<open>positional\<close> is the destination that still waits for a value.
  Whatever is left over ends the launcher, as do the help option and every refused argument.
\<close>

function parse_loop :: "string option \<Rightarrow> (arg_class \<times> string) list \<Rightarrow> arguments \<Rightarrow> arguments res" where
  "parse_loop positional [] ns = Inr ns"
| "parse_loop positional ((c, s) # rest) ns =
     (case c of
        Refused \<Rightarrow> Inl SystemExit
      | Optional Help _ \<Rightarrow> Inl SystemExit
      | Optional (Store spec) (Some v) \<Rightarrow> parse_loop positional rest (dset (op_dest spec) (Some v) ns)
      | Optional (Store spec) None \<Rightarrow>
          (case take_value rest of (v, rest') \<Rightarrow> parse_loop positional rest' (dset (op_dest spec) v ns))
      | Value \<Rightarrow>
          (case positional of
             None \<Rightarrow> Inl SystemExit
           | Some d \<Rightarrow> (case take_value ((Value, s) # rest) of (v, rest') \<Rightarrow> parse_loop None rest' (dset d v ns)))
      | Separator \<Rightarrow>
          (case positional of
             None \<Rightarrow> Inl SystemExit
           | Some d \<Rightarrow> (case take_value ((Separator, s) # rest) of (v, rest') \<Rightarrow> parse_loop None rest' (dset d v ns))))"
  by pat_completeness auto
termination
  by (relation "measure (\<lambda>(p, items, ns). length items)")
    (auto simp: le_imp_less_Suc take_value_length [OF sym]
      intro: take_value_shorter [OF disjI1 [OF refl] sym] take_value_shorter [OF disjI2 [OF refl] sym])

declare parse_loop.simps [simp del]

definition parse_args :: "arg_parser \<Rightarrow> string list \<Rightarrow> arguments res" where
  "parse_args p argv =
     parse_loop (ap_positional p) (classify_all p argv)
       (foldl (\<lambda>ns s. dset (op_dest s) (op_default s) ns)
          (case ap_positional p of None \<Rightarrow> [] | Some d \<Rightarrow> [(d, None)]) (ap_options p))"

section \<open>The launchers' options\<close>

definition opt :: "string \<Rightarrow> string \<Rightarrow> string option \<Rightarrow> option_spec" where
  "opt flag dest default_value = \<lparr>op_flags = [flag], op_dest = dest, op_default = default_value\<rparr>"

definition ipykernel_parser :: arg_parser where
  "ipykernel_parser =
     \<lparr>ap_options =
        [opt ''--response-address'' ''response_address'' None,
         opt ''--kernel-id'' ''kernel_id'' None,
         opt ''--public-key'' ''public_key'' None,
         opt ''--port-range'' ''port_range'' None,
         opt ''--spark-context-initialization-mode'' ''init_mode'' None,
         opt ''--cluster-type'' ''cluster_type'' None,
         opt ''--kernel-class-name'' ''kernel_class_name'' (Some ''ipykernel.ipkernel.IPythonKernel''),
         opt ''--RemoteProcessProxy.response-address'' ''rpp_response_address'' None,
         opt ''--RemoteProcessProxy.kernel-id'' ''rpp_kernel_id'' None,
         opt ''--RemoteProcessProxy.public-key'' ''rpp_public_key'' None,
         opt ''--RemoteProcessProxy.port-range'' ''rpp_port_range'' None,
         opt ''--RemoteProcessProxy.spark-context-initialization-mode'' ''rpp_init_mode'' (Some ''none''),
         opt ''--RemoteProcessProxy.cluster-type'' ''rpp_cluster_type'' (Some ''spark'')],
      ap_positional = Some ''connection_file''\<rparr>"

definition argument :: "arguments \<Rightarrow> string \<Rightarrow> string option" where
  "argument ns k = dget_or ns k None"

text \<open>The deprecated options are the second record of arguments.\<close>

definition ipykernel_args :: "arguments \<Rightarrow> launcher_args \<times> launcher_args" where
  "ipykernel_args ns =
     (\<lparr>arg_connection_file = argument ns ''connection_file'',
       arg_response_address = argument ns ''response_address'', arg_kernel_id = argument ns ''kernel_id'',
       arg_public_key = argument ns ''public_key'', arg_port_range = argument ns ''port_range'',
       arg_init_mode = argument ns ''init_mode'', arg_cluster_type = argument ns ''cluster_type'',
       arg_kernel_class_name = argument ns ''kernel_class_name''\<rparr>,
      \<lparr>arg_connection_file = None,
       arg_response_address = argument ns ''rpp_response_address'', arg_kernel_id = argument ns ''rpp_kernel_id'',
       arg_public_key = argument ns ''rpp_public_key'', arg_port_range = argument ns ''rpp_port_range'',
       arg_init_mode = argument ns ''rpp_init_mode'', arg_cluster_type = argument ns ''rpp_cluster_type'',
       arg_kernel_class_name = None\<rparr>)"

definition ipykernel_settings :: "int \<Rightarrow> string list \<Rightarrow> launcher_settings res" where
  "ipykernel_settings min_port_range_size argv =
     rbind (parse_args ipykernel_parser argv) (\<lambda>ns.
       case ipykernel_args ns of (a, rpp) \<Rightarrow> launcher_settings min_port_range_size a rpp)"

text \<open>The launchers for Kubernetes and Docker share most of their options.\<close>

definition cluster_options :: "option_spec list" where
  "cluster_options =
     [opt ''--kernel-id'' ''kernel_id'' None,
      opt ''--port-range'' ''port_range'' None,
      opt ''--response-address'' ''response_address'' None,
      opt ''--public-key'' ''public_key'' None,
      opt ''--spark-context-initialization-mode'' ''spark_context_init_mode'' None]"

definition deprecated_cluster_options :: "option_spec list" where
  "deprecated_cluster_options =
     [opt ''--RemoteProcessProxy.kernel-id'' ''rpp_kernel_id'' None,
      opt ''--RemoteProcessProxy.port-range'' ''rpp_port_range'' None,
      opt ''--RemoteProcessProxy.response-address'' ''rpp_response_address'' None,
      opt ''--RemoteProcessProxy.public-key'' ''rpp_public_key'' None,
      opt ''--RemoteProcessProxy.spark-context-initialization-mode'' ''rpp_spark_context_init_mode'' (Some ''none'')]"

definition kubernetes_parser :: arg_parser where
  "kubernetes_parser =
     \<lparr>ap_options = cluster_options @
        [opt ''--pod-template'' ''pod_template_file'' None,
         opt ''--spark-opts-out'' ''spark_opts_out'' None,
         opt ''--kernel-class-name'' ''kernel_class_name'' None] @ deprecated_cluster_options,
      ap_positional = None\<rparr>"

definition docker_parser :: arg_parser where
  "docker_parser =
     \<lparr>ap_options = cluster_options @ [opt ''--kernel-class-name'' ''kernel_class_name'' None] @ deprecated_cluster_options,
      ap_positional = None\<rparr>"

definition both_spellings :: "string \<Rightarrow> string \<Rightarrow> string option \<Rightarrow> option_spec" where
  "both_spellings name dest default_value =
     \<lparr>op_flags = [''--'' @ name, ''--RemoteProcessProxy.'' @ name], op_dest = dest, op_default = default_value\<rparr>"

definition custom_resource_parser :: arg_parser where
  "custom_resource_parser =
     \<lparr>ap_options =
        [both_spellings ''kernel-id'' ''kernel_id'' None,
         both_spellings ''port-range'' ''port_range'' None,
         both_spellings ''response-address'' ''response_address'' None,
         both_spellings ''public-key'' ''public_key'' None,
         both_spellings ''spark-context-initialization-mode'' ''spark_context_init_mode'' (Some ''none'')],
      ap_positional = None\<rparr>"

text \<open>The arguments of \<open>launch_kubernetes_kernel\<close> and its siblings; \<open>p\<close> is the prefix of the names.\<close>

definition kl_args_of :: "string \<Rightarrow> arguments \<Rightarrow> kl_args" where
  "kl_args_of p ns =
     \<lparr>kl_kernel_id = argument ns (p @ ''kernel_id''), kl_port_range = argument ns (p @ ''port_range''),
      kl_response_addr = argument ns (p @ ''response_address''), kl_public_key = argument ns (p @ ''public_key''),
      kl_spark_context_init_mode = argument ns (p @ ''spark_context_init_mode''),
      kl_pod_template_file = argument ns ''pod_template_file'', kl_kernel_class_name = argument ns ''kernel_class_name''\<rparr>"

definition cluster_main_args :: "arg_parser \<Rightarrow> string list \<Rightarrow> kl_args res" where
  "cluster_main_args p argv =
     rbind (parse_args p argv) (\<lambda>ns. Inr (merge_kl_args (kl_args_of [] ns) (kl_args_of ''rpp_'' ns)))"

definition custom_resource_main_args :: "string list \<Rightarrow> kl_args res" where
  "custom_resource_main_args argv =
     rbind (parse_args custom_resource_parser argv) (\<lambda>ns. Inr (kl_args_of [] ns))"

section \<open>Properties\<close>

text \<open>Values that cannot be read as options: they do not start with a dash.\<close>

definition plain :: "string \<Rightarrow> bool" where
  "plain v \<longleftrightarrow> v = [] \<or> hd v \<noteq> CHR ''-''"

lemma classify_plain [simp]: "plain v \<Longrightarrow> classify p v = Value" "plain v \<Longrightarrow> v \<noteq> ''--''"
  by (auto simp: classify_def plain_def)

lemma classify_flag:
  assumes "dget (flag_table p) f = Some a" "startswith f ''--''"
  shows "classify p f = Optional a None"
  using assms by (auto simp: classify_def startswith_iff)

lemma take_value_after: "take_value ((Value, v) # (c, s) # rest) = (Some v, skip_separator ((c, s) # rest))"
  "take_value [(Value, v)] = (Some v, [])"
  by (simp_all add: take_value_def)

text \<open>An option followed by its value, for any number of them.\<close>

lemma parse_pairs:
  assumes "\<forall>(f, v)\<in>set pairs. plain v \<and> startswith f ''--'' \<and> f \<noteq> ''--'' \<and>
      (\<exists>s. dget (flag_table p) f = Some (Store s) \<and> op_dest s = dest f)"
  shows "parse_loop pos (classify_all p (concat (map (\<lambda>(f, v). [f, v]) pairs))) ns =
    Inr (foldl (\<lambda>ns (f, v). dset (dest f) (Some v) ns) ns pairs)"
  using assms
proof (induction pairs arbitrary: ns)
  case Nil
  then show ?case by (simp add: parse_loop.simps)
next
  case (Cons x pairs)
  obtain f v where x: "x = (f, v)" by (cases x)
  obtain s where s: "dget (flag_table p) f = Some (Store s)" "op_dest s = dest f" "plain v" "startswith f ''--''" "f \<noteq> ''--''"
    using Cons.prems x by auto
  let ?rest = "classify_all p (concat (map (\<lambda>(f, v). [f, v]) pairs))"
  have sep: "skip_separator ?rest = ?rest"
  proof (cases pairs)
    case (Cons y ys)
    obtain g u where y: "y = (g, u)" by (cases y)
    obtain s' where "dget (flag_table p) g = Some (Store s')" "startswith g ''--''" "g \<noteq> ''--''"
      using Cons.prems Cons y by auto
    then show ?thesis using Cons y by (simp add: classify_flag)
  qed simp
  have take: "take_value ((Value, v) # ?rest) = (Some v, ?rest)"
    using sep by (simp add: take_value_def)
  have "parse_loop pos (classify_all p (concat (map (\<lambda>(f, v). [f, v]) (x # pairs)))) ns =
      parse_loop pos ?rest (dset (dest f) (Some v) ns)"
    using s take by (simp add: x parse_loop.simps classify_flag [OF s(1,4)])
  then show ?case using Cons.IH Cons.prems x by simp
qed

lemma pat_sub_word: "CHR ''{'' \<notin> set s \<Longrightarrow> pat_sub ns s = Inr s"
  using pat_sub_plain [of s ns "[]"] by simp

lemma pat_sub_variable:
  assumes "name \<noteq> []" "list_all is_name_char name" "dget ns name = Some (PStr v)"
  shows "pat_sub ns (CHR ''{'' # name @ ''}'') = Inr v"
  using pat_sub_template [of "[]" name ns "Some v" "[]"] assms by simp

definition gateway_options :: "string \<Rightarrow> string list \<Rightarrow> string list" where
  "gateway_options spelling values =
     concat (map (\<lambda>(name, v). [spelling @ name, v])
       (zip [''kernel-id'', ''response-address'', ''public-key'', ''port-range'', ''spark-context-initialization-mode''] values))"

lemma template_ns_values:
  assumes "k \<noteq> []" "addr \<noteq> []" "key \<noteq> []" "pr \<noteq> []"
    and "ns = template_ns (PStr addr) (PStr key) (PStr pr) (PStr k) launch_args"
  shows "dget ns ''kernel_id'' = Some (PStr k)" "dget ns ''response_address'' = Some (PStr addr)"
    "dget ns ''public_key'' = Some (PStr key)" "dget ns ''port_range'' = Some (PStr pr)"
  using assms by (simp_all add: template_ns_def Let_def)

lemma substituted_options:
  assumes "k \<noteq> []" "addr \<noteq> []" "key \<noteq> []" "pr \<noteq> []"
    and "CHR ''{'' \<notin> set spelling" "CHR ''{'' \<notin> set mode"
    and "ns = template_ns (PStr addr) (PStr key) (PStr pr) (PStr k) launch_args"
  shows "sub_each ns (gateway_options spelling [''{kernel_id}'', ''{response_address}'', ''{public_key}'', ''{port_range}'', mode])
    = Inr (gateway_options spelling [k, addr, key, pr, mode])"
proof -
  note d = template_ns_values [OF assms(1-4,7)]
  have v: "pat_sub ns ''{kernel_id}'' = Inr k" "pat_sub ns ''{response_address}'' = Inr addr"
    "pat_sub ns ''{public_key}'' = Inr key" "pat_sub ns ''{port_range}'' = Inr pr"
    using pat_sub_variable [of "''kernel_id''", OF _ _ d(1)] pat_sub_variable [of "''response_address''", OF _ _ d(2)]
      pat_sub_variable [of "''public_key''", OF _ _ d(3)] pat_sub_variable [of "''port_range''", OF _ _ d(4)]
    by (simp_all add: is_name_char_def code_def del: pat_sub.simps)
  have w: "pat_sub ns (spelling @ ''kernel-id'') = Inr (spelling @ ''kernel-id'')"
    "pat_sub ns (spelling @ ''response-address'') = Inr (spelling @ ''response-address'')"
    "pat_sub ns (spelling @ ''public-key'') = Inr (spelling @ ''public-key'')"
    "pat_sub ns (spelling @ ''port-range'') = Inr (spelling @ ''port-range'')"
    "pat_sub ns (spelling @ ''spark-context-initialization-mode'') = Inr (spelling @ ''spark-context-initialization-mode'')"
    "pat_sub ns mode = Inr mode"
    using assms(5,6) by (simp_all add: pat_sub_word del: pat_sub.simps)
  show ?thesis by (simp add: gateway_options_def v w del: pat_sub.simps)
qed

definition ipykernel_dest :: "string \<Rightarrow> string" where
  "ipykernel_dest f = (case dget (flag_table ipykernel_parser) f of Some (Store s) \<Rightarrow> op_dest s | _ \<Rightarrow> [])"

lemma ipykernel_flags:
  "list_all (\<lambda>f. startswith f ''--'' \<and> f \<noteq> ''--'' \<and>
      (case dget (flag_table ipykernel_parser) f of Some (Store s) \<Rightarrow> True | _ \<Rightarrow> False))
    (map ((@) ''--'') [''kernel-id'', ''response-address'', ''public-key'', ''port-range'', ''spark-context-initialization-mode'']
     @ map ((@) ''--RemoteProcessProxy.'') [''kernel-id'', ''response-address'', ''public-key'', ''port-range'', ''spark-context-initialization-mode''])"
  by code_simp

lemma ipykernel_dests:
  "map ipykernel_dest (map ((@) ''--'') [''kernel-id'', ''response-address'', ''public-key'', ''port-range'', ''spark-context-initialization-mode''])
    = [''kernel_id'', ''response_address'', ''public_key'', ''port_range'', ''init_mode'']"
  "map ipykernel_dest (map ((@) ''--RemoteProcessProxy.'') [''kernel-id'', ''response-address'', ''public-key'', ''port-range'', ''spark-context-initialization-mode''])
    = [''rpp_kernel_id'', ''rpp_response_address'', ''rpp_public_key'', ''rpp_port_range'', ''rpp_init_mode'']"
  by code_simp+

lemma ipykernel_defaults:
  "foldl (\<lambda>ns s. dset (op_dest s) (op_default s) ns) [(''connection_file'', None)] (ap_options ipykernel_parser) =
    [(''connection_file'', None), (''response_address'', None), (''kernel_id'', None), (''public_key'', None),
     (''port_range'', None), (''init_mode'', None), (''cluster_type'', None),
     (''kernel_class_name'', Some ''ipykernel.ipkernel.IPythonKernel''), (''rpp_response_address'', None),
     (''rpp_kernel_id'', None), (''rpp_public_key'', None), (''rpp_port_range'', None),
     (''rpp_init_mode'', Some ''none''), (''rpp_cluster_type'', Some ''spark'')]"
  by code_simp

lemma parse_gateway_options:
  assumes "spelling = ''--'' \<or> spelling = ''--RemoteProcessProxy.''" "list_all plain values" "length values = 5"
  shows "parse_args ipykernel_parser (gateway_options spelling values) =
    Inr (foldl (\<lambda>ns (f, v). dset (ipykernel_dest f) (Some v) ns)
      [(''connection_file'', None), (''response_address'', None), (''kernel_id'', None), (''public_key'', None),
       (''port_range'', None), (''init_mode'', None), (''cluster_type'', None),
       (''kernel_class_name'', Some ''ipykernel.ipkernel.IPythonKernel''), (''rpp_response_address'', None),
       (''rpp_kernel_id'', None), (''rpp_public_key'', None), (''rpp_port_range'', None),
       (''rpp_init_mode'', Some ''none''), (''rpp_cluster_type'', Some ''spark'')]
      (zip (map ((@) spelling) [''kernel-id'', ''response-address'', ''public-key'', ''port-range'', ''spark-context-initialization-mode'']) values))"
proof -
  let ?names = "map ((@) spelling) [''kernel-id'', ''response-address'', ''public-key'', ''port-range'', ''spark-context-initialization-mode'']"
  have flags: "startswith f ''--'' \<and> f \<noteq> ''--'' \<and> (\<exists>s. dget (flag_table ipykernel_parser) f = Some (Store s) \<and> op_dest s = ipykernel_dest f)"
    if "f \<in> set ?names" for f
  proof -
    have "f \<in> set (map ((@) ''--'') [''kernel-id'', ''response-address'', ''public-key'', ''port-range'', ''spark-context-initialization-mode'']
     @ map ((@) ''--RemoteProcessProxy.'') [''kernel-id'', ''response-address'', ''public-key'', ''port-range'', ''spark-context-initialization-mode''])"
      using that assms(1) unfolding set_append by blast
    with ipykernel_flags have "startswith f ''--'' \<and> f \<noteq> ''--'' \<and>
        (case dget (flag_table ipykernel_parser) f of Some (Store s) \<Rightarrow> True | _ \<Rightarrow> False)"
      unfolding list_all_iff by (rule bspec)
    then show ?thesis by (auto simp: ipykernel_dest_def split: option.splits action.splits)
  qed
  have pairs: "gateway_options spelling values = concat (map (\<lambda>(f, v). [f, v]) (zip ?names values))"
    by (simp only: gateway_options_def zip_map1 map_map) (simp add: comp_def case_prod_unfold)
  have ok: "\<forall>(f, v)\<in>set (zip ?names values). plain v \<and> startswith f ''--'' \<and> f \<noteq> ''--'' \<and>
      (\<exists>s. dget (flag_table ipykernel_parser) f = Some (Store s) \<and> op_dest s = ipykernel_dest f)"
  proof
    fix x assume x: "x \<in> set (zip ?names values)"
    obtain f v where fv: "x = (f, v)" by (cases x)
    have "f \<in> set ?names" "v \<in> set values" using x fv set_zip_leftD set_zip_rightD by fast+
    then have "plain v \<and> startswith f ''--'' \<and> f \<noteq> ''--'' \<and>
        (\<exists>s. dget (flag_table ipykernel_parser) f = Some (Store s) \<and> op_dest s = ipykernel_dest f)"
      using flags assms(2) unfolding list_all_iff by blast
    then show "case x of (f, v) \<Rightarrow> plain v \<and> startswith f ''--'' \<and> f \<noteq> ''--'' \<and>
        (\<exists>s. dget (flag_table ipykernel_parser) f = Some (Store s) \<and> op_dest s = ipykernel_dest f)"
      unfolding fv prod.case .
  qed
  show ?thesis
    unfolding parse_args_def pairs parse_pairs [OF ok] ipykernel_defaults [symmetric]
    by (simp add: ipykernel_parser_def)
qed

lemma foldl_destinations:
  "foldl (\<lambda>ns (f, v). dset (dest f) (Some v) ns) ns (zip fs vs) =
   foldl (\<lambda>ns (d, v). dset d (Some v) ns) ns (zip (map dest fs) vs)"
proof (induction fs arbitrary: ns vs)
  case (Cons f fs)
  then show ?case by (cases vs) simp_all
qed simp

text \<open>
  C3: What the gateway puts into a kernelspec's command arrives at the launcher: for both
  spellings of the options, the launcher runs with exactly the kernel id, the response address,
  the public key and the port range that the gateway substituted for the template's variables,
  whatever stands in the client's launch arguments.
\<close>

theorem gateway_values_reach_launcher:
  assumes "spelling = ''--'' \<or> spelling = ''--RemoteProcessProxy.''"
    and "list_all plain [k, addr, key, pr, mode]" "[] \<notin> set [k, addr, key, pr, mode]" "CHR ''{'' \<notin> set mode"
    and "format_kernel_cmd (PStr addr) (PStr key) (PStr pr) (PStr k) launch_args
      (python # script # gateway_options spelling
        [''{kernel_id}'', ''{response_address}'', ''{public_key}'', ''{port_range}'', mode]) = Inr cmd"
  shows "ipykernel_settings m (drop 2 cmd) =
    rbind (launcher_validate_port_range m (Some pr)) (\<lambda>ports.
      Inr \<lparr>ls_connection_file = None, ls_response_addr = Some addr, ls_kernel_id = k, ls_public_key = key,
           ls_ports = ports, ls_cluster_type = Some (if mode = ''none'' then ''none'' else ''spark''),
           ls_kernel_class_name = Some ''ipykernel.ipkernel.IPythonKernel''\<rparr>)"
proof -
  have ne: "k \<noteq> []" "addr \<noteq> []" "key \<noteq> []" "pr \<noteq> []" "mode \<noteq> []" using assms(3) by auto
  have sp: "CHR ''{'' \<notin> set spelling" using assms(1) by auto
  let ?ns = "template_ns (PStr addr) (PStr key) (PStr pr) (PStr k) launch_args"
  have "rbind (sub_each ?ns (python # script # gateway_options spelling
        [''{kernel_id}'', ''{response_address}'', ''{public_key}'', ''{port_range}'', mode])) Inr = Inr cmd"
    using assms(5) ne by (simp add: format_kernel_cmd_def del: sub_each.simps)
  then have cmd: "drop 2 cmd = gateway_options spelling [k, addr, key, pr, mode]"
    using substituted_options [OF ne(1-4) sp assms(4) refl] by (auto simp: rbind_Inr_iff del: pat_sub.simps)
  have "length [k, addr, key, pr, mode] = 5" by simp
  note parsed = trans [OF parse_gateway_options [OF assms(1,2) this] arg_cong [where f = Inr, OF foldl_destinations]]
  have cluster: "ipykernel_settings m (drop 2 cmd) =
      (case ipykernel_args ns of (a, rpp) \<Rightarrow> launcher_settings m a rpp)"
    if "parse_args ipykernel_parser (gateway_options spelling [k, addr, key, pr, mode]) = Inr ns" for ns
    using that by (simp add: ipykernel_settings_def cmd)
  note settings = ipykernel_args_def argument_def dget_or_def launcher_settings_def or_arg_def Let_def
  from assms(1) show ?thesis
  proof
    assume s: "spelling = ''--''"
    show ?thesis
      unfolding cluster [OF parsed] unfolding s ipykernel_dests using ne by (simp add: settings)
  next
    assume s: "spelling = ''--RemoteProcessProxy.''"
    show ?thesis
      unfolding cluster [OF parsed] unfolding s ipykernel_dests using ne by (simp add: settings)
  qed
qed

lemma gateway_values_reach_launcher_witness:
  "ipykernel_settings 1000 (gateway_options ''--RemoteProcessProxy.'' [''k1'', ''10.0.0.1:8877'', ''MIG'', ''40000..41000'', ''none'']) =
     Inr \<lparr>ls_connection_file = None, ls_response_addr = Some ''10.0.0.1:8877'', ls_kernel_id = ''k1'', ls_public_key = ''MIG'',
          ls_ports = (40000, 41000), ls_cluster_type = Some ''none'',
          ls_kernel_class_name = Some ''ipykernel.ipkernel.IPythonKernel''\<rparr>"
proof -
  let ?ns = "template_ns (PStr ''10.0.0.1:8877'') (PStr ''MIG'') (PStr ''40000..41000'') (PStr ''k1'') []"
  let ?options = "gateway_options ''--RemoteProcessProxy.'' [''k1'', ''10.0.0.1:8877'', ''MIG'', ''40000..41000'', ''none'']"
  have "sub_each ?ns (gateway_options ''--RemoteProcessProxy.''
      [''{kernel_id}'', ''{response_address}'', ''{public_key}'', ''{port_range}'', ''none'']) = Inr ?options"
    by (rule substituted_options) simp_all
  then have cmd: "format_kernel_cmd (PStr ''10.0.0.1:8877'') (PStr ''MIG'') (PStr ''40000..41000'') (PStr ''k1'') []
      (''python'' # ''launch_ipykernel.py'' # gateway_options ''--RemoteProcessProxy.''
        [''{kernel_id}'', ''{response_address}'', ''{public_key}'', ''{port_range}'', ''none'']) =
      Inr (''python'' # ''launch_ipykernel.py'' # ?options)"
    by (simp add: format_kernel_cmd_def pat_sub_word del: pat_sub.simps)
  have plain: "list_all plain [''k1'', ''10.0.0.1:8877'', ''MIG'', ''40000..41000'', ''none'']" by (simp add: plain_def)
  have ports: "launcher_validate_port_range 1000 (Some ''40000..41000'') = Inr (40000, 41000)" by code_simp
  from gateway_values_reach_launcher [OF disjI2 [OF refl] plain _ _ cmd, of 1000] show ?thesis
    by (simp add: ports)
qed

text \<open>An option that ends the command line loses its default: it counts as given without a value.\<close>

lemma option_without_value:
  "rbind (parse_args ipykernel_parser [''--RemoteProcessProxy.cluster-type'']) (\<lambda>ns. Inr (argument ns ''rpp_cluster_type'')) =
     Inr None"
  by code_simp

text \<open>Options may be abbreviated as long as that is unambiguous, and any other is refused.\<close>

lemma abbreviations:
  "rbind (parse_args kubernetes_parser [''--po=5'']) (\<lambda>ns. Inr (argument ns ''port_range'')) = Inl SystemExit"
  "rbind (parse_args kubernetes_parser [''--por=5'']) (\<lambda>ns. Inr (argument ns ''port_range'')) = Inr (Some ''5'')"
  "parse_args docker_parser [''--pod-template'', ''f''] = Inl SystemExit"
  by code_simp+

end
