(* ===== verification/Spec2Isabelle.thy ===== *)
theory Spec2Isabelle
  imports KernelLimits KernelRequest PortRange ProcessProxy Distributed Codecs ResponseManager
    Docker CustomResource Yarn Conductor KernelManager ApiSessions SpecCache Application ImagePuller
    PyLauncher ClusterLaunchers RListener Launching ManagerSetup LauncherRuntime EndToEnd Handlers
    GatewayClient LauncherOptions
begin

text \<open>
  A model of Jupyter Enterprise Gateway, a server that starts Jupyter kernels on remote
  machines and clusters on behalf of its clients, and the theorems that make its core correct.
  Paths are relative to \<open>src/enterprise_gateway\<close> unless they start with \<open>etc\<close>.

  \<^bold>\<open>The program.\<close>  A client posts a kernel request (\<open>services/kernels/handlers.py\<close>).  The kernel map
  (\<open>RemoteMappingKernelManager\<close>) checks the limits, lets the kernel's manager
  (\<open>RemoteKernelManager\<close>) prepare the environment and the command, and the manager hands them to
  the process proxy that the kernelspec names.  The proxy authorizes the user, launches a kernel
  launcher on another host or in a container and waits for the launcher to send the connection
  information, encrypted, to the gateway's response socket.  The session manager persists what is
  needed to take the kernel over after a crash or in another gateway.

  \<^bold>\<open>The theories.\<close>
  \<^item> \<open>PyBase\<close>: the Python the code is written in.  Dictionaries are association lists in insertion
    order, exceptions are values of \<open>exn\<close>, a method that may raise returns \<open>exn + 'a\<close> with the state
    it leaves (also on a raise), strings are lists of code points below 256, and \<open>split\<close>,
    \<open>strip\<close>, \<open>lower\<close>, \<open>replace\<close>, \<open>int\<close> and \<open>str\<close> are functions with their laws.
  \<^item> \<open>KernelSessions\<close>, \<open>SessionStores\<close>: \<open>services/sessions/kernelsessionmanager.py\<close>.  The record \<open>ksm\<close>
    is the session table with its index by user; \<open>file_ksm\<close> and \<open>wh_ksm\<close> extend it with the
    directory and the webhook service.  The locale \<open>session_store\<close> states what the base class needs
    of a store, \<open>session_mirror\<close> adds that the store keeps a copy; both managers interpret the
    first, the file manager the second.  The lemmas show that the user counts stay exact over
    the histories from an empty table, that the directory mirrors the table, and what a restarted
    gateway reads back.
  \<^item> \<open>KernelLimits\<close>: admission in \<open>services/kernels/remotemanager.py\<close>, with start requests as
    interleaved steps of an inductive relation and the limits as an invariant of it.
  \<^item> \<open>KernelRequest\<close>: the environment and headers of a request, the temporary replacement of
    \<open>start_kernel\<close>, the launch environment and the argv template.
  \<^item> \<open>KernelIds\<close>: client-given kernel ids and the UUID validation behind them.
  \<^item> \<open>Authorization\<close>: the launch check of the base proxy and the filter of the kernelspec handlers.
  \<^item> \<open>PortRange\<close>: port ranges and port selection, in the gateway and in the Python launcher
    (\<open>etc/kernel-launchers/python/scripts/launch_ipykernel.py\<close>).
  \<^item> \<open>ProcessProxy\<close>, \<open>RemoteProxy\<close>: \<open>services/processproxies/processproxy.py\<close>: poll, wait, signals,
    kill, tunnels, connection set-up, the startup wait and the persisted process information.
    The classes' inheritance is record extension.
  \<^item> \<open>Distributed\<close>: host selection and the remote command line of the ssh proxy; a POSIX shell's
    reading of quoted words is the specification of the command.
  \<^item> \<open>Codecs\<close>, \<open>ResponseManager\<close>: JSON and Base64 with their round trips, and the path of the
    connection information from the launcher's encryption to the waiting proxy.
  \<^item> \<open>PyLauncher\<close>: the rest of the Python launcher: its arguments, the listener that carries out
    the gateway's requests, the namespace of the kernel and the start-up.
  \<^item> \<open>RListener\<close>: the listener beside an R kernel (\<open>etc/kernel-launchers/R\<close>), equal to the Python
    launcher's.
  \<^item> \<open>ProxySetup\<close>: the gateway's address, the constructors of the proxies, and \<open>rsh\<close> with its ssh
    client.
  \<^item> \<open>Launching\<close>: a launch as a whole: \<open>start_kernel\<close> of the kernel's manager over the
    \<open>launch_process\<close> of every proxy with its calls of \<open>super()\<close>.  The locale \<open>guarded_launch\<close> is
    what the manager relies on (a refused user's launch does not depend on how processes are
    started); all eight proxies interpret it.
  \<^item> \<open>ManagerSetup\<close>: the options of a kernel's manager that follow the application's, the settings
    read on import, the options of the session stores and the construction of the application.
  \<^item> \<open>EndToEnd\<close>: a client's variables followed from the request through the handler and the manager
    to the environment that \<open>RemoteProcessProxy.launch_process\<close> leaves for the process.
  \<^item> \<open>LauncherRuntime\<close>: what the launchers read of the gateway's environment, the start of the
    kernel, and the construction of the image fetchers.
  \<^item> \<open>ClusterLaunchers\<close>: the launchers that create a kernel's objects in Kubernetes, for an
    operator and in Docker (\<open>etc/kernel-launchers/kubernetes\<close>, \<open>operators\<close>, \<open>docker\<close>).
  \<^item> \<open>LauncherOptions\<close>: the launchers' command lines with \<open>argparse\<close>'s reading of them; what the gateway
    puts into a kernelspec's command is what the launcher runs with.
  \<^item> \<open>Container\<close>, \<open>K8s\<close>: user and group ids, images and the lifecycle of containers; pod names,
    namespaces, status and teardown in Kubernetes.
  \<^item> \<open>Docker\<close>, \<open>CustomResource\<close>: the proxies of a Docker swarm, of plain Docker and of the
    operators' custom resources, as instances of the two before.
  \<^item> \<open>Yarn\<close>: the YARN proxy: finding the kernel's application, its states, the wait for the queue,
    start-up with its liveness, the revival by another gateway, and the kill that asks the resource
    manager before it signals.
  \<^item> \<open>Conductor\<close>: the proxy of IBM Spectrum Conductor: its REST calls through \<open>curl\<close>, the log-on with a
    token, the launch environment, the submission's driver id, states, start-up and kill.
  \<^item> \<open>KernelManager\<close>: proxy selection, restart, signals, cleanup, and the revival of persisted
    kernels with failover between gateways that share a store.
  \<^item> \<open>ApiSessions\<close>: the session list of the REST API, refined to a map.
  \<^item> \<open>SpecCache\<close>: the cache of kernel specifications with its file system events, transparent to
    its users (\<open>services/kernelspecs/kernelspec_cache.py\<close>).
  \<^item> \<open>GatewayConfig\<close>: CORS headers, token authorization and error bodies of the handlers, and the
    defaults of the options (\<open>mixins.py\<close>).
  \<^item> \<open>Handlers\<close>: the handlers for kernel specifications, kernels and versions
    (\<open>services/*/handlers.py\<close>, \<open>base/handlers.py\<close>), the classes with their mixins and the tables of
    routes.
  \<^item> \<open>Application\<close>: the start of a gateway (\<open>enterprisegatewayapp.py\<close>): availability and persistence,
    routes and client certificates, settings, port; shutdown; dynamic configuration updates.
  \<^item> \<open>ImagePuller\<close>: the image puller that runs beside the gateway (\<open>etc/docker/kernel-image-puller\<close>):
    the sources of image names, the pull policy and the pool of workers.
  \<^item> \<open>GatewayClient\<close>: the client (\<open>client/gateway_client.py\<close>): its reader thread, the routing of
    responses to the requests they answer, execution, restart and shutdown.

  \<^bold>\<open>What stands outside.\<close>  Operating system, network, cluster APIs, ciphers, \<open>jupyter_client\<close> and
  \<open>jupyter_server\<close> base classes are arguments of the definitions that use them, in most places a
  record of functions over a state \<open>'w\<close>; where a theorem relies on one, its documented behaviour is
  a hypothesis and the witness instantiates it.  Log messages are left out; an exception keeps
  what handlers can observe of it.

  \<^bold>\<open>Interleaving.\<close>  Coroutines run undisturbed between suspensions.  Admission and the kernel
  handler are modelled as steps that interleave; elsewhere an awaited call is one argument that
  may change the shared state.

  \<^bold>\<open>Loops and fuel.\<close>  Loops whose end depends on a clock take fuel: \<open>confirm_loop\<close> ends for all
  fuels from a number on that the clock determines (\<open>startup_wait_terminates\<close>), and
  \<open>wait_for_restart_finish\<close> within \<open>timeout / poll + 2\<close> passes (\<open>restart_wait_ends\<close>).  The other
  loops are structural, or have a measure on the rest of their input.

  \<^bold>\<open>Not modelled.\<close>  Log messages and their formats, help texts of the options, and the
  Scala launcher, which is in another language.
\<close>

section \<open>Ids across a failover\<close>

lemma basename_join:
  assumes "CHR ''/'' \<notin> set f"
  shows "basename (path_join d f) = f"
proof -
  have all: "\<forall>c\<in>set (rev f). c \<noteq> CHR ''/''" using assms by auto
  then have take: "takeWhile (\<lambda>c. c \<noteq> CHR ''/'') (rev f @ CHR ''/'' # x) = rev f"
    "takeWhile (\<lambda>c. c \<noteq> CHR ''/'') (rev f) = rev f" for x
    using takeWhile_append2 [of "rev f" "\<lambda>c. c \<noteq> CHR ''/''" "CHR ''/'' # x"]
    by (simp_all only: takeWhile_eq_all_conv) (simp add: takeWhile.simps)
  show ?thesis
  proof (cases "d = [] \<or> \<not> endswith d ''/''")
    case True
    then show ?thesis by (auto simp: path_join_def basename_def take)
  next
    case False
    then obtain d' where "d = d' @ ''/''"
      by (auto simp: endswith_def) (metis append_take_drop_id)
    then show ?thesis using False by (simp add: path_join_def basename_def take)
  qed
qed

lemma split_acc_skip:
  assumes "\<forall>c\<in>set s. c \<noteq> hd old" "old \<noteq> []"
  shows "split_acc old acc (s @ t) = split_acc old (rev s @ acc) t"
  using assms(1)
proof (induction s arbitrary: acc)
  case (Cons c s)
  have "\<not> startswith (c # s @ t) old" using Cons.prems assms(2) by (cases old) auto
  with Cons show ?case by simp
qed simp

lemma replace_around:
  assumes "\<forall>c\<in>set (a @ b). c \<noteq> hd old" "old \<noteq> []"
  shows "replace old [] (a @ old @ b) = a @ b"
proof -
  obtain c cs where old: "old = c # cs" using assms(2) by (cases old) auto
  have "split_acc old acc b = [rev acc @ b]" for acc
    using split_acc_skip [of b old acc "[]"] assms by simp
  moreover have "split_on old (a @ old @ b) = a # split_acc old [] b"
    using split_acc_skip [of a old "[]" "old @ b"] assms by (simp add: split_on_def old startswith_def)
  ultimately show ?thesis by (simp add: replace_def)
qed

text \<open>
  C40: The id a client chose survives a failover: a kernel that is revived from its session in
  any directory finds exactly the id that was accepted when the kernel was created in the name
  of its connection file.
\<close>

theorem accepted_id_survives_failover:
  assumes "dget env ''KERNEL_ID'' = Some k" "k \<noteq> []"
    and "new_kernel_id fn \<lparr>la_env = Some env, la_rest = rest\<rparr> = Inr (ses_kernel_id s)"
  shows "kernel_id_of (revived_manager dir s proxy) = k"
proof -
  have k: "canonical_v4 k" "ses_kernel_id s = k" using assms accepted_id_canonical by blast+
  have chars: "c \<in> set hexes \<or> c = CHR ''-''" if "c \<in> set k" for c
    using canonical_chars [OF k(1) that] .
  have no: "\<forall>c\<in>set k. c \<notin> set ''/k.''" using chars by (fastforce simp: hexes_def)
  have "basename (path_join dir (''kernel-'' @ k @ ''.json'')) = ''kernel-'' @ k @ ''.json''"
    using no by (intro basename_join) auto
  moreover have "replace ''kernel-'' [] (''kernel-'' @ k @ ''.json'') = k @ ''.json''"
    using replace_around [of "[]" "k @ ''.json''" "''kernel-''"] no by auto
  moreover have "replace ''.json'' [] (k @ ''.json'') = k"
    using replace_around [of k "[]" "''.json''"] no by auto
  ultimately show ?thesis by (simp add: kernel_id_of_def id_of_connection_file_def revived_manager_def k(2))
qed

lemma accepted_id_survives_failover_witness:
  "kernel_id_of (revived_manager ''/run'' (demo_session\<lparr>ses_kernel_id := ''7f4c2b6e-9d3a-4e1f-8b5c-0a1b2c3d4e5f''\<rparr>)
     (Remote_Proxy, ())) = ''7f4c2b6e-9d3a-4e1f-8b5c-0a1b2c3d4e5f''"
proof -
  have "new_kernel_id (\<lambda>_. []) \<lparr>la_env = Some [(''KERNEL_ID'', ''7f4c2b6e-9d3a-4e1f-8b5c-0a1b2c3d4e5f'')], la_rest = []\<rparr>
      = Inr ''7f4c2b6e-9d3a-4e1f-8b5c-0a1b2c3d4e5f''" by code_simp
  then show ?thesis
    by (intro accepted_id_survives_failover [where fn = "\<lambda>_. []" and rest = "[]"
          and env = "[(''KERNEL_ID'', ''7f4c2b6e-9d3a-4e1f-8b5c-0a1b2c3d4e5f'')]"]) simp_all
qed

section \<open>The policy of an unconfigured gateway\<close>

text \<open>
  Started with an empty environment, a gateway asks for no token, lists no kernels, sets no
  limit on kernels, lets every user but root launch, and takes from a client's environment the
  variables that start with \<open>KERNEL_\<close> and one whose name is empty.
\<close>

lemma default_policy:
  assumes "max_kernels_default [] = Inr mk" "max_kernels_per_user_default [] = Inr mu"
  shows "token_prepare (Some (auth_token_default [])) m arg hdr super = super
    \<and> \<not> list_kernels_default []
    \<and> enforce_kernel_limits \<lparr>max_kernels = mk, max_kernels_per_user = mu\<rparr> user g = Inr ()
    \<and> (fst (enforce_authorization imp getuser
          \<lparr>unauthorized_users = unauthorized_users_default [], authorized_users = authorized_users_default []\<rparr> env) = Inr ()
        \<longleftrightarrow> dget_or env ''KERNEL_USERNAME'' getuser \<noteq> ''root'')
    \<and> (client_env_allowed (client_envs_default []) ks k \<longleftrightarrow> startswith k ''KERNEL_'' \<or> k = [])"
proof -
  have split: "split_on '','' ''root'' = [''root'']" "split_on '','' [] = [[]]" by code_simp+
  have cfg: "mk = None" "mu = - 1" using assms
    by (simp_all add: max_kernels_default_def getenv_int_opt_def max_kernels_per_user_default_def getenv_int_def)
  have "\<not> list_kernels_default []" by code_simp
  moreover have "fst (enforce_authorization imp getuser
      \<lparr>unauthorized_users = [''root''], authorized_users = []\<rparr> env) = Inr ()
      \<longleftrightarrow> dget_or env ''KERNEL_USERNAME'' getuser \<noteq> ''root''"
    by (auto simp: enforce_authorization_def get_kernel_username_def raise_authorization_error_def
        dget_or_def Let_def split: option.splits)
  ultimately show ?thesis
    by (simp add: cfg token_prepare_def auth_token_default_def getenv_def enforce_kernel_limits_def
        unauthorized_users_default_def authorized_users_default_def client_envs_default_def split
        client_env_allowed_def)
qed

lemma default_policy_witness:
  "fst (enforce_authorization False ''root'' \<lparr>unauthorized_users = unauthorized_users_default [],
      authorized_users = authorized_users_default []\<rparr> []) \<noteq> Inr ()"
proof -
  have "max_kernels_default [] = Inr None" "max_kernels_per_user_default [] = Inr (- 1)"
    by (simp_all add: max_kernels_default_def getenv_int_opt_def max_kernels_per_user_default_def getenv_int_def)
  then have "fst (enforce_authorization False ''root'' \<lparr>unauthorized_users = unauthorized_users_default [],
      authorized_users = authorized_users_default []\<rparr> []) = Inr () \<longleftrightarrow> dget_or [] ''KERNEL_USERNAME'' ''root'' \<noteq> ''root''"
    by (rule default_policy [THEN conjunct2, THEN conjunct2, THEN conjunct2, THEN conjunct1])
  then show ?thesis by (simp add: dget_or_def)
qed

end
